(* ===== verification/Prelude.thy ===== *)
theory Prelude
  imports Main "HOL-Library.Word" "HOL-Library.Char_ord" "HOL-Library.List_Lexorder"
    "HOL-Library.Code_Target_Nat"
begin

text \<open>
  Shared vocabulary of the gascan development: Rust's \<open>Result\<close> with the combinators
  the sources use (\<open>?\<close>, \<open>map_err\<close>, \<open>ok_or\<close>), the loops that stop at
  the first error, checked machine arithmetic, and the generic list and option facts
  that the component theories rely on.  The collections \<open>result_simps\<close>,
  \<open>loop_simps\<close> and \<open>ascii_simps\<close> are the simp sets that carry the
  component proofs.
\<close>

named_theorems result_simps "equations that take a computation on Result apart"
named_theorems loop_simps "characterisations of loops that stop at the first error"
named_theorems ascii_simps "definitions of the byte classes"

section \<open>Results\<close>

datatype ('a, 'e) result = is_ok: Ok (ok_value: 'a) | is_err: Err (err_value: 'e)

text \<open>A call that may also panic.\<close>

datatype 'a outcome = Panicked | Returned 'a

type_synonym u8 = "8 word"
type_synonym u16 = "16 word"
type_synonym u32 = "32 word"
type_synonym u64 = "64 word"

fun and_then :: "('a, 'e) result \<Rightarrow> ('a \<Rightarrow> ('b, 'e) result) \<Rightarrow> ('b, 'e) result" where
  "and_then (Ok x) f = f x"
| "and_then (Err e) f = Err e"

fun map_err :: "('e \<Rightarrow> 'f) \<Rightarrow> ('a, 'e) result \<Rightarrow> ('a, 'f) result" where
  "map_err f (Ok x) = Ok x"
| "map_err f (Err e) = Err (f e)"

fun map_ok :: "('a \<Rightarrow> 'b) \<Rightarrow> ('a, 'e) result \<Rightarrow> ('b, 'e) result" where
  "map_ok f (Ok x) = Ok (f x)"
| "map_ok f (Err e) = Err e"

fun ok_or :: "'e \<Rightarrow> 'a option \<Rightarrow> ('a, 'e) result" where
  "ok_or e None = Err e"
| "ok_or e (Some x) = Ok x"

fun ok :: "('a, 'e) result \<Rightarrow> 'a option" where
  "ok (Ok x) = Some x"
| "ok (Err e) = None"

fun unwrap_or :: "'a \<Rightarrow> 'a option \<Rightarrow> 'a" where
  "unwrap_or d None = d"
| "unwrap_or d (Some x) = x"

lemma and_then_eq_Ok [result_simps]:
  "and_then r f = Ok y \<longleftrightarrow> (\<exists>x. r = Ok x \<and> f x = Ok y)"
  by (cases r) auto

lemma and_then_eq_Err [result_simps]:
  "and_then r f = Err e \<longleftrightarrow> r = Err e \<or> (\<exists>x. r = Ok x \<and> f x = Err e)"
  by (cases r) auto

lemma map_err_eq_Ok [result_simps]: "map_err f r = Ok x \<longleftrightarrow> r = Ok x"
  by (cases r) auto

lemma map_err_eq_Err [result_simps]: "map_err f r = Err e \<longleftrightarrow> (\<exists>d. r = Err d \<and> e = f d)"
  by (cases r) auto

lemma map_ok_eq_Ok [result_simps]: "map_ok f r = Ok y \<longleftrightarrow> (\<exists>x. r = Ok x \<and> y = f x)"
  by (cases r) auto

lemma map_ok_eq_Err [result_simps]: "map_ok f r = Err e \<longleftrightarrow> r = Err e"
  by (cases r) auto

lemma ok_or_eq_Ok [result_simps]: "ok_or e x = Ok y \<longleftrightarrow> x = Some y"
  by (cases x) auto

lemma ok_or_eq_Err [result_simps]: "ok_or e x = Err d \<longleftrightarrow> x = None \<and> d = e"
  by (cases x) auto

lemma if_Err_eq_Ok [result_simps]:
  "(if c then Err e else r) = Ok y \<longleftrightarrow> \<not> c \<and> r = Ok y"
  by simp

lemma if_Err_eq_Ok' [result_simps]:
  "(if c then r else Err e) = Ok y \<longleftrightarrow> c \<and> r = Ok y"
  by simp

lemma if_Err_eq_Err [result_simps]:
  "(if c then Err e else r) = Err d \<longleftrightarrow> c \<and> d = e \<or> \<not> c \<and> r = Err d"
  by auto

lemma ok_eq_Some [result_simps]: "ok r = Some x \<longleftrightarrow> r = Ok x"
  by (cases r) auto

lemma is_ok_iff [result_simps]: "is_ok r \<longleftrightarrow> (\<exists>x. r = Ok x)"
  by (cases r) auto

lemma is_err_iff [result_simps]: "is_err r \<longleftrightarrow> (\<exists>e. r = Err e)"
  by (cases r) auto

lemma result_case_Ok:
  "(case r of Ok x \<Rightarrow> f x | Err e \<Rightarrow> g e) = Ok y \<Longrightarrow>
     (\<exists>x. r = Ok x \<and> f x = Ok y) \<or> (\<exists>e. r = Err e \<and> g e = Ok y)"
  by (cases r) auto

lemma and_then_assoc: "and_then (and_then r f) g = and_then r (\<lambda>x. and_then (f x) g)"
  by (cases r) auto

section \<open>Results with state\<close>

text \<open>A method that updates a state and returns a \<open>Result\<close>; \<open>st_then\<close> is
  \<open>?\<close> after such a call: an error is returned with the state reached so far.\<close>

type_synonym ('a, 'e, 's) stateful = "('a, 'e) result \<times> 's"

fun st_then :: "('a, 'e, 's) stateful \<Rightarrow> ('a \<Rightarrow> 's \<Rightarrow> ('b, 'e, 's) stateful) \<Rightarrow> ('b, 'e, 's) stateful" where
  "st_then (Ok x, s) f = f x s"
| "st_then (Err e, s) f = (Err e, s)"

definition st_map_err :: "('e \<Rightarrow> 'f) \<Rightarrow> ('a, 'e, 's) stateful \<Rightarrow> ('a, 'f, 's) stateful" where
  "st_map_err f r = (map_err f (fst r), snd r)"

lemma st_then_eq_Ok [result_simps]:
  "st_then r f = (Ok y, s') \<longleftrightarrow> (\<exists>x s. r = (Ok x, s) \<and> f x s = (Ok y, s'))"
  by (cases "(r, f)" rule: st_then.cases) auto

lemma st_then_eq_Err [result_simps]:
  "st_then r f = (Err e, s') \<longleftrightarrow>
     r = (Err e, s') \<or> (\<exists>x s. r = (Ok x, s) \<and> f x s = (Err e, s'))"
  by (cases "(r, f)" rule: st_then.cases) auto

lemma st_map_err_eq_Ok [result_simps]: "st_map_err f r = (Ok x, s) \<longleftrightarrow> r = (Ok x, s)"
  by (cases r) (auto simp: st_map_err_def result_simps)

lemma st_map_err_eq_Err [result_simps]:
  "st_map_err f r = (Err e, s) \<longleftrightarrow> (\<exists>d. r = (Err d, s) \<and> e = f d)"
  by (cases r) (auto simp: st_map_err_def result_simps)

text \<open>A property of the state that both steps preserve is preserved by their sequence.\<close>

lemma st_then_preserves:
  assumes "I (snd r)" and "\<And>x s. r = (Ok x, s) \<Longrightarrow> I s \<Longrightarrow> I (snd (f x s))"
  shows "I (snd (st_then r f))"
  using assms by (cases "(r, f)" rule: st_then.cases) auto

lemma st_map_err_snd [simp]: "snd (st_map_err f r) = snd r"
  by (simp add: st_map_err_def)

text \<open>A reflexive and transitive relation between the state before and the state after holds
  of a sequence of calls when it holds of every call.\<close>

locale stepwise =
  fixes R :: "'s \<Rightarrow> 's \<Rightarrow> bool"
  assumes step_refl: "R s s"
    and step_trans: "R s t \<Longrightarrow> R t u \<Longrightarrow> R s u"
begin

lemma step_st_then:
  assumes "R s (snd r)" and "\<And>x t. r = (Ok x, t) \<Longrightarrow> R s t \<Longrightarrow> R t (snd (f x t))"
  shows "R s (snd (st_then r f))"
  using assms by (cases "(r, f)" rule: st_then.cases) (auto intro: step_trans)

lemma step_foldl:
  assumes "\<And>t x. x \<in> set xs \<Longrightarrow> R t (f t x)"
  shows "R s (foldl f s xs)"
  using assms by (induction xs arbitrary: s) (auto intro: step_refl step_trans)

lemma step_rtranclp:
  assumes "rtranclp step s t" and "\<And>a b. step a b \<Longrightarrow> R a b"
  shows "R s t"
  using assms(1) by induction (auto intro: step_refl step_trans assms(2))

end

section \<open>Loops that stop at the first error\<close>

text \<open>\<open>for x in xs { check(x)?; }\<close>\<close>

fun for_each_ok :: "('a \<Rightarrow> (unit, 'e) result) \<Rightarrow> 'a list \<Rightarrow> (unit, 'e) result" where
  "for_each_ok f [] = Ok ()"
| "for_each_ok f (x # xs) = and_then (f x) (\<lambda>_. for_each_ok f xs)"

text \<open>\<open>xs.iter().map(f).collect::<Result<Vec<_>, _>>()\<close>\<close>

fun collect_ok :: "('a \<Rightarrow> ('b, 'e) result) \<Rightarrow> 'a list \<Rightarrow> ('b list, 'e) result" where
  "collect_ok f [] = Ok []"
| "collect_ok f (x # xs) = and_then (f x) (\<lambda>y. map_ok (Cons y) (collect_ok f xs))"

text \<open>A loop with an accumulator whose body may return early.\<close>

fun fold_ok :: "('a \<Rightarrow> 's \<Rightarrow> ('s, 'e) result) \<Rightarrow> 'a list \<Rightarrow> 's \<Rightarrow> ('s, 'e) result" where
  "fold_ok f [] s = Ok s"
| "fold_ok f (x # xs) s = and_then (f x s) (fold_ok f xs)"

lemma for_each_ok_eq_Ok [loop_simps]:
  "for_each_ok f xs = Ok u \<longleftrightarrow> (\<forall>x\<in>set xs. f x = Ok ())"
  by (induction xs) (auto simp: result_simps)

lemma for_each_ok_append:
  "for_each_ok f (xs @ ys) = and_then (for_each_ok f xs) (\<lambda>_. for_each_ok f ys)"
  by (induction xs) (simp_all add: and_then_assoc)

lemma for_each_ok_eq_ErrD:
  "for_each_ok f xs = Err e \<Longrightarrow>
     \<exists>ys x zs. xs = ys @ x # zs \<and> (\<forall>y\<in>set ys. f y = Ok ()) \<and> f x = Err e"
proof (induction xs)
  case Nil
  then show ?case by simp
next
  case (Cons a xs)
  show ?case
  proof (cases "f a")
    case (Ok u)
    with Cons obtain ys x zs where "xs = ys @ x # zs" "\<forall>y\<in>set ys. f y = Ok ()" "f x = Err e"
      by auto
    with Ok have "a # xs = (a # ys) @ x # zs \<and> (\<forall>y\<in>set (a # ys). f y = Ok ()) \<and> f x = Err e"
      by simp
    then show ?thesis by blast
  next
    case (Err d)
    with Cons.prems have "a # xs = [] @ a # xs \<and> f a = Err e" by simp
    then show ?thesis by (metis empty_iff list.set(1))
  qed
qed

lemma for_each_ok_eq_Err [loop_simps]:
  "for_each_ok f xs = Err e \<longleftrightarrow>
     (\<exists>ys x zs. xs = ys @ x # zs \<and> (\<forall>y\<in>set ys. f y = Ok ()) \<and> f x = Err e)"
proof
  assume "for_each_ok f xs = Err e"
  then show "\<exists>ys x zs. xs = ys @ x # zs \<and> (\<forall>y\<in>set ys. f y = Ok ()) \<and> f x = Err e"
    by (rule for_each_ok_eq_ErrD)
qed (auto simp: for_each_ok_append result_simps loop_simps)

lemma collect_ok_eq_Ok [loop_simps]:
  "collect_ok f xs = Ok ys \<longleftrightarrow> list_all2 (\<lambda>x y. f x = Ok y) xs ys"
proof (induction xs arbitrary: ys)
  case Nil
  then show ?case by auto
next
  case (Cons a xs)
  then show ?case by (cases ys) (auto simp: result_simps)
qed

lemma collect_ok_length: "collect_ok f xs = Ok ys \<Longrightarrow> length ys = length xs"
  by (auto simp: loop_simps dest: list_all2_lengthD)

lemma fold_ok_append:
  "fold_ok f (xs @ ys) s = and_then (fold_ok f xs s) (fold_ok f ys)"
proof (induction xs arbitrary: s)
  case Nil
  then show ?case by simp
next
  case (Cons x xs)
  then have "fold_ok f (xs @ ys) = (\<lambda>t. and_then (fold_ok f xs t) (fold_ok f ys))"
    by auto
  then show ?case by (simp add: and_then_assoc)
qed

lemma fold_ok_invariant:
  assumes "fold_ok f xs s = Ok s'" "I s"
    and "\<And>x s s'. x \<in> set xs \<Longrightarrow> I s \<Longrightarrow> f x s = Ok s' \<Longrightarrow> I s'"
  shows "I s'"
  using assms
proof (induction xs arbitrary: s)
  case Nil
  then show ?case by simp
next
  case (Cons x xs)
  then obtain t where t: "f x s = Ok t" "fold_ok f xs t = Ok s'"
    by (auto simp: result_simps)
  with Cons.prems have "I t" by auto
  with Cons.IH [OF t(2)] Cons.prems show ?case by auto
qed

text \<open>A search that walks over the elements to be skipped and stops at the first one that
  satisfies \<open>P\<close>.\<close>

fun reached :: "('a \<Rightarrow> bool) \<Rightarrow> ('a \<Rightarrow> bool) \<Rightarrow> 'a list \<Rightarrow> bool" where
  "reached skip P [] = False"
| "reached skip P (x # xs) = (P x \<or> skip x \<and> reached skip P xs)"

lemma reached_iff:
  "reached skip P xs \<longleftrightarrow> (\<exists>ys x zs. xs = ys @ x # zs \<and> list_all skip ys \<and> P x)"
  (is "_ \<longleftrightarrow> ?R xs")
proof
  show "reached skip P xs \<Longrightarrow> ?R xs"
  proof (induction xs)
    case (Cons x xs)
    show ?case
    proof (cases "P x")
      case True
      then have "x # xs = [] @ x # xs \<and> list_all skip [] \<and> P x" by simp
      then show ?thesis by blast
    next
      case False
      with Cons obtain ys y zs where "x # xs = (x # ys) @ y # zs \<and> list_all skip (x # ys) \<and> P y"
        by auto
      then show ?thesis by blast
    qed
  qed simp
next
  assume "?R xs"
  then obtain ys x zs where "xs = ys @ x # zs" "list_all skip ys" "P x" by blast
  then show "reached skip P xs"
    by (induction ys arbitrary: xs) auto
qed

section \<open>Checked machine arithmetic\<close>

text \<open>\<open>checked_mul\<close> and \<open>checked_add\<close> return \<open>None\<close> when the exact
  result does not fit the width.\<close>

definition checked_mul :: "'w::len word \<Rightarrow> 'w word \<Rightarrow> 'w word option" where
  "checked_mul a b = (if unat a * unat b < 2 ^ LENGTH('w) then Some (a * b) else None)"

definition checked_add :: "'w::len word \<Rightarrow> 'w word \<Rightarrow> 'w word option" where
  "checked_add a b = (if unat a + unat b < 2 ^ LENGTH('w) then Some (a + b) else None)"

lemma checked_mul_eq_Some:
  "checked_mul a b = Some c \<longleftrightarrow> unat a * unat b < 2 ^ LENGTH('w) \<and> unat c = unat a * unat b"
  for a b c :: "'w::len word"
proof -
  have "unat (a * b) = unat a * unat b" if "unat a * unat b < 2 ^ LENGTH('w)"
    using that by (simp add: unat_word_ariths)
  then show ?thesis
    unfolding checked_mul_def by (auto simp: word_unat_eq_iff)
qed

lemma checked_add_eq_Some:
  "checked_add a b = Some c \<longleftrightarrow> unat a + unat b < 2 ^ LENGTH('w) \<and> unat c = unat a + unat b"
  for a b c :: "'w::len word"
proof -
  have "unat (a + b) = unat a + unat b" if "unat a + unat b < 2 ^ LENGTH('w)"
    using that by (simp add: unat_word_ariths)
  then show ?thesis
    unfolding checked_add_def by (auto simp: word_unat_eq_iff)
qed

section \<open>Lists\<close>

lemma foldl_invariant:
  assumes "I s" and "\<And>s x. x \<in> set xs \<Longrightarrow> I s \<Longrightarrow> I (f s x)"
  shows "I (foldl f s xs)"
  using assms by (induction xs arbitrary: s) auto

lemma find_member: "find P xs = Some x \<Longrightarrow> x \<in> set xs \<and> P x"
  by (induction xs) (auto split: if_splits)

lemma map_of_filter_key:
  "map_of (filter (\<lambda>(k, _). P k) xs) k = (if P k then map_of xs k else None)"
  by (induction xs) auto

lemma distinct_map_filter: "distinct (map f xs) \<Longrightarrow> distinct (map f (filter P xs))"
  by (induction xs) auto

lemma length_filter_le_1_unique:
  assumes "length (filter P xs) \<le> 1" "x \<in> set xs" "P x" "y \<in> set xs" "P y"
  shows "x = y"
proof -
  have "x \<in> set (filter P xs)" "y \<in> set (filter P xs)"
    using assms by auto
  then show ?thesis
    using assms(1) by (cases "filter P xs") auto
qed

end
