(* ===== verification/Rust_Str.thy ===== *)
theory Rust_Str
  imports Prelude "HOL-Library.Sublist"
begin

text \<open>
  The part of Rust's \<open>str\<close>, \<open>u8\<close> and \<open>char\<close> interface that the
  sources use.  A \<open>String\<close> is the list of its UTF-8 bytes, so \<open>len\<close> is
  \<open>length\<close> and byte indices are list indices; the functions on characters go through
  the decoder \<open>chars\<close>.
\<close>

section \<open>Byte classes\<close>

abbreviation byte :: "char \<Rightarrow> nat" where
  "byte c \<equiv> of_char c"

lemma byte_less: "byte c < 256"
  by (metis of_char_mod_256 mod_less_divisor zero_less_numeral)

lemma byte_le: "byte c \<le> 255"
  using byte_less [of c] by linarith

definition is_ascii_digit :: "char \<Rightarrow> bool" where
  [ascii_simps]: "is_ascii_digit c \<longleftrightarrow> 48 \<le> byte c \<and> byte c \<le> 57"

definition is_ascii_lowercase :: "char \<Rightarrow> bool" where
  [ascii_simps]: "is_ascii_lowercase c \<longleftrightarrow> 97 \<le> byte c \<and> byte c \<le> 122"

definition is_ascii_uppercase :: "char \<Rightarrow> bool" where
  [ascii_simps]: "is_ascii_uppercase c \<longleftrightarrow> 65 \<le> byte c \<and> byte c \<le> 90"

definition is_ascii_alphanumeric :: "char \<Rightarrow> bool" where
  [ascii_simps]: "is_ascii_alphanumeric c \<longleftrightarrow>
     is_ascii_lowercase c \<or> is_ascii_uppercase c \<or> is_ascii_digit c"

definition is_ascii_byte :: "char \<Rightarrow> bool" where
  [ascii_simps]: "is_ascii_byte c \<longleftrightarrow> byte c < 128"

definition is_ascii_whitespace :: "char \<Rightarrow> bool" where
  "is_ascii_whitespace c \<longleftrightarrow> byte c \<in> {32, 9, 10, 12, 13}"

definition is_lower_hex :: "char \<Rightarrow> bool" where
  [ascii_simps]: "is_lower_hex c \<longleftrightarrow> is_ascii_digit c \<or> 97 \<le> byte c \<and> byte c \<le> 102"

definition to_ascii_lowercase :: "char \<Rightarrow> char" where
  "to_ascii_lowercase c = (if is_ascii_uppercase c then char_of (byte c + 32) else c)"

lemma byte_to_ascii_lowercase:
  "byte (to_ascii_lowercase c) = (if is_ascii_uppercase c then byte c + 32 else byte c)"
  by (auto simp: to_ascii_lowercase_def is_ascii_uppercase_def)

lemma to_ascii_lowercase_idem: "to_ascii_lowercase (to_ascii_lowercase c) = to_ascii_lowercase c"
proof -
  have "\<not> is_ascii_uppercase (to_ascii_lowercase c)"
    unfolding is_ascii_uppercase_def byte_to_ascii_lowercase
    by (auto simp: is_ascii_uppercase_def)
  then show ?thesis
    by (subst to_ascii_lowercase_def) simp
qed

lemma to_ascii_lowercase_class:
  "is_ascii_alphanumeric c \<Longrightarrow>
     is_ascii_lowercase (to_ascii_lowercase c) \<or> is_ascii_digit (to_ascii_lowercase c)"
  unfolding is_ascii_alphanumeric_def is_ascii_lowercase_def is_ascii_digit_def
    byte_to_ascii_lowercase
  by (auto simp: is_ascii_uppercase_def)

section \<open>Affixes and boundaries\<close>

definition strip_suffix :: "string \<Rightarrow> string \<Rightarrow> string option" where
  "strip_suffix suf s = (if suffix suf s then Some (take (length s - length suf) s) else None)"

definition strip_prefix :: "string \<Rightarrow> string \<Rightarrow> string option" where
  "strip_prefix pre s = (if prefix pre s then Some (drop (length pre) s) else None)"

lemma strip_suffix_eq_Some [simp]: "strip_suffix suf s = Some t \<longleftrightarrow> s = t @ suf"
  by (auto simp: strip_suffix_def suffix_def)

lemma strip_suffix_eq_None [simp]: "strip_suffix suf s = None \<longleftrightarrow> \<not> suffix suf s"
  by (auto simp: strip_suffix_def)

lemma strip_prefix_eq_Some [simp]: "strip_prefix pre s = Some t \<longleftrightarrow> s = pre @ t"
  by (auto simp: strip_prefix_def prefix_def)

lemma strip_prefix_eq_None [simp]: "strip_prefix pre s = None \<longleftrightarrow> \<not> prefix pre s"
  by (auto simp: strip_prefix_def)

definition starts_with_char :: "char \<Rightarrow> string \<Rightarrow> bool" where
  "starts_with_char c s = (case s of [] \<Rightarrow> False | d # _ \<Rightarrow> d = c)"

definition ends_with_char :: "char \<Rightarrow> string \<Rightarrow> bool" where
  "ends_with_char c s = starts_with_char c (rev s)"

lemma starts_with_char_iff: "starts_with_char c s \<longleftrightarrow> s \<noteq> [] \<and> hd s = c"
  by (auto simp: starts_with_char_def split: list.splits)

lemma ends_with_char_iff: "ends_with_char c s \<longleftrightarrow> s \<noteq> [] \<and> last s = c"
  by (auto simp: ends_with_char_def starts_with_char_iff hd_rev)

text \<open>A byte of the form \<open>10xxxxxx\<close> continues a multi-byte character;
  \<open>split_at\<close> panics at an index inside a character.\<close>

definition is_continuation :: "char \<Rightarrow> bool" where
  "is_continuation c \<longleftrightarrow> 128 \<le> byte c \<and> byte c < 192"

definition is_char_boundary :: "string \<Rightarrow> nat \<Rightarrow> bool" where
  "is_char_boundary s i \<longleftrightarrow>
     i = 0 \<or> i = length s \<or> i < length s \<and> \<not> is_continuation (s ! i)"

lemma ascii_char_boundary:
  assumes "list_all is_ascii_byte s" "i \<le> length s"
  shows "is_char_boundary s i"
proof (cases "i = length s")
  case False
  then have "is_ascii_byte (s ! i)"
    using assms by (simp add: list_all_length)
  then show ?thesis
    using False assms(2) by (auto simp: is_char_boundary_def is_continuation_def ascii_simps)
qed (simp add: is_char_boundary_def)

section \<open>Characters\<close>

text \<open>The number of continuation bytes after a leading byte, and the decoder of a
  (valid) UTF-8 string to its code points.\<close>

definition utf8_tail :: "nat \<Rightarrow> nat" where
  "utf8_tail b = (if b < 192 then 0 else if b < 224 then 1 else if b < 240 then 2 else 3)"

definition utf8_lead_bits :: "nat \<Rightarrow> nat" where
  "utf8_lead_bits b =
     (if b < 192 then b else if b < 224 then b - 192 else if b < 240 then b - 224 else b - 240)"

definition utf8_code_point :: "nat \<Rightarrow> string \<Rightarrow> nat" where
  "utf8_code_point b rest = foldl (\<lambda>acc c. acc * 64 + byte c mod 64) (utf8_lead_bits b) rest"

fun chars :: "string \<Rightarrow> nat list" where
  "chars [] = []"
| "chars (c # cs) =
     utf8_code_point (byte c) (take (utf8_tail (byte c)) cs)
       # chars (drop (utf8_tail (byte c)) cs)"

text \<open>\<open>char::is_whitespace\<close> (the Unicode property White_Space) and
  \<open>char::is_control\<close> (the general category Cc).\<close>

definition is_whitespace :: "nat \<Rightarrow> bool" where
  "is_whitespace c \<longleftrightarrow>
     9 \<le> c \<and> c \<le> 13 \<or> c = 32 \<or> c = 133 \<or> c = 160 \<or> c = 5760 \<or>
     8192 \<le> c \<and> c \<le> 8202 \<or> c = 8232 \<or> c = 8233 \<or> c = 8239 \<or> c = 8287 \<or> c = 12288"

definition is_control :: "nat \<Rightarrow> bool" where
  "is_control c \<longleftrightarrow> c < 32 \<or> 127 \<le> c \<and> c < 160"

definition trim_is_empty :: "string \<Rightarrow> bool" where
  "trim_is_empty s \<longleftrightarrow> list_all is_whitespace (chars s)"

lemma chars_ascii: "list_all is_ascii_byte s \<Longrightarrow> chars s = map byte s"
  by (induction s rule: chars.induct)
    (auto simp: ascii_simps utf8_tail_def utf8_code_point_def utf8_lead_bits_def)

section \<open>Decimal numbers\<close>

text \<open>\<open>Display\<close> of an unsigned integer.\<close>

definition digit_char :: "nat \<Rightarrow> char" where
  "digit_char d = char_of (48 + d)"

fun show_nat :: "nat \<Rightarrow> string" where
  "show_nat n = (if n < 10 then [digit_char n] else show_nat (n div 10) @ [digit_char (n mod 10)])"

declare show_nat.simps [simp del]

definition digit_value :: "char \<Rightarrow> nat" where
  "digit_value c = byte c - 48"

definition nat_of_digits :: "string \<Rightarrow> nat" where
  "nat_of_digits s = foldl (\<lambda>acc c. acc * 10 + digit_value c) 0 s"

lemma byte_digit_char: "d < 10 \<Longrightarrow> byte (digit_char d) = 48 + d"
  by (simp add: digit_char_def)

lemma digit_char_digit: "d < 10 \<Longrightarrow> is_ascii_digit (digit_char d)"
  by (simp add: is_ascii_digit_def byte_digit_char)

lemma digit_value_char [simp]: "d < 10 \<Longrightarrow> digit_value (digit_char d) = d"
  by (simp add: digit_value_def byte_digit_char)

lemma show_nat_digits: "list_all is_ascii_digit (show_nat n)"
proof (induction n rule: show_nat.induct)
  case (1 n)
  then show ?case
    by (subst show_nat.simps) (auto simp: digit_char_digit)
qed

lemma show_nat_nonempty [simp]: "show_nat n \<noteq> []"
  by (subst show_nat.simps) simp

lemma nat_of_digits_snoc:
  "nat_of_digits (s @ [c]) = nat_of_digits s * 10 + digit_value c"
  by (simp add: nat_of_digits_def)

lemma nat_of_digits_show_nat [simp]: "nat_of_digits (show_nat n) = n"
proof (induction n rule: show_nat.induct)
  case (1 n)
  show ?case
  proof (cases "n < 10")
    case True
    then have "show_nat n = [digit_char n]"
      by (subst show_nat.simps) simp
    then show ?thesis
      using True by (simp add: nat_of_digits_def)
  next
    case False
    then have "show_nat n = show_nat (n div 10) @ [digit_char (n mod 10)]"
      by (subst show_nat.simps) simp
    then show ?thesis
      using False 1 by (simp add: nat_of_digits_snoc)
  qed
qed

lemma show_nat_inject [simp]: "show_nat m = show_nat n \<longleftrightarrow> m = n"
  by (metis nat_of_digits_show_nat)

text \<open>\<open>str::parse\<close> at an unsigned type: an optional sign, then digits folded with
  checked arithmetic; an invalid digit is reported before the overflow of the digits
  read so far.\<close>

datatype parse_int_error = Empty | InvalidDigit | PosOverflow

primrec parse_int_message :: "parse_int_error \<Rightarrow> string" where
  "parse_int_message Empty = ''cannot parse integer from empty string''"
| "parse_int_message InvalidDigit = ''invalid digit found in string''"
| "parse_int_message PosOverflow = ''number too large to fit in target type''"

definition push_digit :: "char \<Rightarrow> 'w::len word \<Rightarrow> ('w word, parse_int_error) result" where
  "push_digit c acc =
     (if \<not> is_ascii_digit c then Err InvalidDigit
      else and_then (ok_or PosOverflow (checked_mul acc 10))
             (\<lambda>m. ok_or PosOverflow (checked_add m (of_nat (digit_value c)))))"

definition parse_unsigned :: "string \<Rightarrow> ('w::len word, parse_int_error) result" where
  "parse_unsigned s =
     (if s = [] then Err Empty
      else if s = ''+'' then Err InvalidDigit
      else fold_ok push_digit (if hd s = CHR ''+'' then tl s else s) 0)"

lemma push_digit_eq_Ok:
  assumes "is_ascii_digit c" "4 \<le> LENGTH('w)"
  shows "push_digit c (acc :: 'w::len word) = Ok acc' \<longleftrightarrow>
     unat acc * 10 + digit_value c < 2 ^ LENGTH('w) \<and> unat acc' = unat acc * 10 + digit_value c"
proof -
  have "(2::nat) ^ 4 \<le> 2 ^ LENGTH('w)"
    using assms(2) by (rule power_increasing) simp
  then have sixteen: "(16::nat) \<le> 2 ^ LENGTH('w)" by simp
  then have ten: "take_bit LENGTH('w) (10::nat) = 10"
    by (simp add: take_bit_nat_eq_self)
  have "digit_value c < 10"
    using assms(1) by (auto simp: is_ascii_digit_def digit_value_def)
  with sixteen have dig: "unat (of_nat (digit_value c) :: 'w word) = digit_value c"
    by (simp add: unat_of_nat)
  have "unat (acc * 10) = unat acc * 10" if "unat acc * 10 < 2 ^ LENGTH('w)"
    using that by (simp add: unat_word_ariths ten)
  then show ?thesis
    using assms(1)
    by (auto simp: push_digit_def result_simps checked_mul_def checked_add_eq_Some ten dig)
qed

lemma fold_push_digit_eq_Ok:
  assumes "list_all is_ascii_digit s" "4 \<le> LENGTH('w)"
  shows "fold_ok push_digit s (acc :: 'w::len word) = Ok v \<longleftrightarrow>
     unat v = foldl (\<lambda>a c. a * 10 + digit_value c) (unat acc) s"
  using assms(1)
proof (induction s arbitrary: acc)
  case Nil
  then show ?case by (auto simp: word_unat_eq_iff)
next
  case (Cons c s)
  let ?n = "unat acc * 10 + digit_value c"
  have mono: "n \<le> foldl (\<lambda>a c. a * 10 + digit_value c) n s" for n s
  proof (induction s arbitrary: n)
    case (Cons d s)
    have "n \<le> n * 10 + digit_value d" by simp
    also have "\<dots> \<le> foldl (\<lambda>a c. a * 10 + digit_value c) (n * 10 + digit_value d) s"
      by (rule Cons.IH)
    finally show ?case by simp
  qed simp
  have c: "is_ascii_digit c" "list_all is_ascii_digit s" using Cons.prems by auto
  show ?case
  proof (cases "?n < 2 ^ LENGTH('w)")
    case True
    then have "unat (of_nat ?n :: 'w word) = ?n"
      by (subst unat_of_nat) (rule mod_less)
    then obtain w :: "'w word" where w: "unat w = ?n" ..
    with True have "push_digit c acc = Ok w"
      by (simp add: push_digit_eq_Ok [OF c(1) assms(2)])
    then show ?thesis
      by (simp add: Cons.IH [OF c(2)] w)
  next
    case False
    then have "\<nexists>w. push_digit c acc = Ok w"
      by (simp add: push_digit_eq_Ok [OF c(1) assms(2)])
    moreover have "unat v < 2 ^ LENGTH('w)" by (rule unsigned_less)
    with False mono [of ?n s]
    have "unat v \<noteq> foldl (\<lambda>a c. a * 10 + digit_value c) ?n s" by linarith
    ultimately show ?thesis
      by (simp add: result_simps)
  qed
qed

lemma parse_unsigned_digits:
  assumes "list_all is_ascii_digit s" "s \<noteq> []" "4 \<le> LENGTH('w)"
  shows "parse_unsigned s = Ok (v :: 'w::len word) \<longleftrightarrow> unat v = nat_of_digits s"
proof -
  have "hd s \<noteq> CHR ''+''" "s \<noteq> ''+''"
    using assms(1,2) by (auto simp: neq_Nil_conv is_ascii_digit_def)
  then show ?thesis
    using assms
    by (simp add: parse_unsigned_def fold_push_digit_eq_Ok nat_of_digits_def)
qed

lemma parse_unsigned_show_nat:
  assumes "n < 2 ^ LENGTH('w)" "4 \<le> LENGTH('w)"
  shows "parse_unsigned (show_nat n) = Ok (of_nat n :: 'w::len word)"
  using assms by (subst parse_unsigned_digits) (auto simp: show_nat_digits unat_of_nat)

end
