(* ===== verification/Utf8_Path.thy ===== *)
theory Utf8_Path
  imports Rust_Str
begin

text \<open>
  Unix paths as \<open>camino::Utf8Path\<close> sees them: a string, its components, and the
  operations that are defined on components (\<open>==\<close>, \<open>starts_with\<close>) or on the
  string (\<open>join\<close>, \<open>parent\<close>).  The main facts say that \<open>parent\<close> drops
  exactly the last component, which is what makes the ancestor loops of the sources end.
\<close>

section \<open>Pieces between separators\<close>

fun split_on :: "char \<Rightarrow> string \<Rightarrow> string list" where
  "split_on c [] = [[]]"
| "split_on c (d # s) =
     (if d = c then [] # split_on c s
      else (case split_on c s of [] \<Rightarrow> [[d]] | p # ps \<Rightarrow> (d # p) # ps))"

fun join_with :: "char \<Rightarrow> string list \<Rightarrow> string" where
  "join_with c [] = []"
| "join_with c [p] = p"
| "join_with c (p # ps) = p @ c # join_with c ps"

lemma split_on_nonempty [simp]: "split_on c s \<noteq> []"
  by (induction s) (auto split: list.splits)

lemma split_on_pieces: "p \<in> set (split_on c s) \<Longrightarrow> c \<notin> set p"
proof (induction s arbitrary: p)
  case (Cons d s)
  then show ?case
    by (cases "split_on c s") (auto split: if_splits)
qed simp

lemma split_on_no_sep: "c \<notin> set s \<Longrightarrow> split_on c s = [s]"
  by (induction s) auto

lemma split_on_append: "c \<notin> set p \<Longrightarrow> split_on c (p @ c # s) = p # split_on c s"
  by (induction p) auto

lemma join_with_Cons: "join_with c (p # ps) = (if ps = [] then p else p @ c # join_with c ps)"
  by (cases ps) auto

lemma split_on_join:
  "ps \<noteq> [] \<Longrightarrow> (\<forall>p\<in>set ps. c \<notin> set p) \<Longrightarrow> split_on c (join_with c ps) = ps"
proof (induction ps)
  case (Cons p ps)
  then show ?case
    by (cases "ps = []") (simp_all add: join_with_Cons split_on_append split_on_no_sep)
qed simp

lemma join_with_split: "join_with c (split_on c s) = s"
proof (induction s)
  case (Cons d s)
  then show ?case
    by (cases "split_on c s") (auto simp: join_with_Cons)
qed simp

section \<open>Components\<close>

datatype component = RootDir | CurDir | ParentDir | Normal string

fun piece_component :: "string \<Rightarrow> component option" where
  "piece_component p =
     (if p = [] \<or> p = ''.'' then None else if p = ''..'' then Some ParentDir else Some (Normal p))"

definition body_components :: "string list \<Rightarrow> component list" where
  "body_components ps = List.map_filter piece_component ps"

definition is_absolute :: "string \<Rightarrow> bool" where
  "is_absolute p = starts_with_char CHR ''/'' p"

definition components :: "string \<Rightarrow> component list" where
  "components p =
     (if is_absolute p then RootDir # body_components (split_on CHR ''/'' (tl p))
      else (let ps = split_on CHR ''/'' p in
            if hd ps = ''.'' then CurDir # body_components (tl ps) else body_components ps))"

definition path_eq :: "string \<Rightarrow> string \<Rightarrow> bool" where
  "path_eq p q \<longleftrightarrow> components p = components q"

definition path_starts_with :: "string \<Rightarrow> string \<Rightarrow> bool" where
  "path_starts_with p base \<longleftrightarrow> prefix (components base) (components p)"

definition path_join :: "string \<Rightarrow> string \<Rightarrow> string" where
  "path_join base p =
     (if is_absolute p then p
      else if base = [] \<or> last base = CHR ''/'' then base @ p
      else base @ CHR ''/'' # p)"

definition trim_pieces :: "string list \<Rightarrow> string list" where
  "trim_pieces ps = rev (dropWhile (\<lambda>p. piece_component p = None) (rev ps))"

definition parent :: "string \<Rightarrow> string option" where
  "parent p =
     (if is_absolute p then
        (let body = trim_pieces (split_on CHR ''/'' (tl p)) in
         if body = [] then None
         else Some (CHR ''/'' # join_with CHR ''/'' (trim_pieces (butlast body))))
      else
        (let ps = split_on CHR ''/'' p in
         if hd ps = ''.'' then
           (let body = trim_pieces (tl ps) in
            if body = [] then Some []
            else Some (join_with CHR ''/'' (''.'' # trim_pieces (butlast body))))
         else
           (let body = trim_pieces ps in
            if body = [] then None
            else Some (join_with CHR ''/'' (trim_pieces (butlast body))))))"

text \<open>\<open>Path::with_extension\<close>: the last dot of the file name that is not its first
  character, with what follows, makes way for the new extension; a path that does not end in a file
  name is left alone.\<close>

definition file_stem :: "string \<Rightarrow> string" where
  "file_stem name =
     (let before = dropWhile (\<lambda>c. c \<noteq> CHR ''.'') (rev name) in
      if length before \<le> 1 then name else rev (tl before))"

definition with_extension :: "string \<Rightarrow> string \<Rightarrow> string" where
  "with_extension p extension =
     (case rev (components p) of
        Normal name # _ \<Rightarrow>
          join_with CHR ''/'' (butlast (trim_pieces (split_on CHR ''/'' p)) @
            [file_stem name @ CHR ''.'' # extension])
      | _ \<Rightarrow> p)"

section \<open>What parent does to the components\<close>

lemma body_components_simps [simp]:
  "body_components [] = []"
  "body_components (p # ps) =
     (case piece_component p of None \<Rightarrow> body_components ps | Some c \<Rightarrow> c # body_components ps)"
  "body_components (ps @ qs) = body_components ps @ body_components qs"
  by (simp_all add: body_components_def map_filter_def split: option.splits)

lemma body_components_None:
  "(\<forall>p\<in>set ps. piece_component p = None) \<Longrightarrow> body_components ps = []"
  by (induction ps) auto

lemma trim_pieces_split:
  "\<exists>qs. ps = trim_pieces ps @ qs \<and> (\<forall>q\<in>set qs. piece_component q = None)"
proof -
  let ?d = "\<lambda>p. piece_component p = None"
  have "ps = rev (takeWhile ?d (rev ps) @ dropWhile ?d (rev ps))"
    by (simp del: rev_append)
  then have "ps = trim_pieces ps @ rev (takeWhile ?d (rev ps))"
    unfolding trim_pieces_def by (simp only: rev_append)
  moreover have "\<forall>q\<in>set (rev (takeWhile ?d (rev ps))). ?d q"
    by (auto dest: set_takeWhileD)
  ultimately show ?thesis by blast
qed

lemma trim_pieces_prefix: "prefix (trim_pieces ps) ps"
  using trim_pieces_split [of ps] by (auto simp: prefix_def)

lemma trim_pieces_components [simp]: "body_components (trim_pieces ps) = body_components ps"
proof -
  obtain qs where "ps = trim_pieces ps @ qs" "\<forall>q\<in>set qs. piece_component q = None"
    using trim_pieces_split by blast
  then show ?thesis
    by (metis append_Nil2 body_components_None body_components_simps(3))
qed

lemma trim_pieces_last:
  "trim_pieces ps \<noteq> [] \<Longrightarrow> piece_component (last (trim_pieces ps)) \<noteq> None"
  using hd_dropWhile [of "\<lambda>p. piece_component p = None" "rev ps"]
  by (simp add: trim_pieces_def last_rev del: piece_component.simps)

lemma trim_pieces_empty_iff: "trim_pieces ps = [] \<longleftrightarrow> body_components ps = []"
proof -
  have "body_components (trim_pieces ps) \<noteq> []" if "trim_pieces ps \<noteq> []"
  proof -
    have "body_components (butlast (trim_pieces ps) @ [last (trim_pieces ps)]) \<noteq> []"
      using trim_pieces_last [OF that] by (auto simp del: piece_component.simps)
    then show ?thesis using that by simp
  qed
  moreover have "body_components (trim_pieces ps) = []" if "trim_pieces ps = []"
    by (simp add: that)
  ultimately show ?thesis by (metis trim_pieces_components)
qed

lemma body_components_butlast_trim:
  assumes "trim_pieces ps \<noteq> []"
  shows "body_components (butlast (trim_pieces ps)) = butlast (body_components ps)"
proof -
  obtain c where c: "piece_component (last (trim_pieces ps)) = Some c"
    using trim_pieces_last [OF assms] by blast
  have "body_components ps = body_components (butlast (trim_pieces ps) @ [last (trim_pieces ps)])"
    using assms by simp
  also have "\<dots> = body_components (butlast (trim_pieces ps)) @ [c]"
    using c by (simp del: piece_component.simps)
  finally show ?thesis by simp
qed

lemma parent_pieces_no_sep:
  assumes "set ps \<subseteq> set (split_on c s)" "p \<in> set (trim_pieces (butlast (trim_pieces ps)))"
  shows "c \<notin> set p"
proof -
  have "p \<in> set ps"
    using assms(2) set_mono_prefix [OF trim_pieces_prefix] in_set_butlastD by (metis subsetD)
  then show ?thesis using assms(1) split_on_pieces by blast
qed

lemma components_absolute_join:
  assumes "\<forall>p\<in>set ps. CHR ''/'' \<notin> set p"
  shows "components (CHR ''/'' # join_with CHR ''/'' ps) = RootDir # body_components ps"
  using assms
  by (cases "ps = []") (auto simp: components_def is_absolute_def starts_with_char_def split_on_join)

lemma components_relative_join:
  assumes "\<forall>p\<in>set ps. CHR ''/'' \<notin> set p" "ps \<noteq> []" "hd ps \<noteq> []"
  shows "components (join_with CHR ''/'' ps) =
    (if hd ps = ''.'' then CurDir # body_components (tl ps) else body_components ps)"
proof -
  obtain d p qs where ps: "ps = (d # p) # qs" and d: "d \<noteq> CHR ''/''"
    using assms by (cases ps; cases "hd ps") auto
  then have "\<not> is_absolute (join_with CHR ''/'' ps)"
    by (simp add: is_absolute_def starts_with_char_iff join_with_Cons)
  then show ?thesis
    unfolding components_def split_on_join [OF assms(2,1)] Let_def by simp
qed

theorem parent_components:
  "parent p = Some q \<Longrightarrow> components q = butlast (components p)"
proof (cases "is_absolute p")
  case True
  let ?ps = "split_on CHR ''/'' (tl p)"
  assume "parent p = Some q"
  with True have ne: "trim_pieces ?ps \<noteq> []"
    and q: "q = CHR ''/'' # join_with CHR ''/'' (trim_pieces (butlast (trim_pieces ?ps)))"
    by (auto simp: parent_def Let_def split: if_splits)
  have "components q = RootDir # body_components (butlast (trim_pieces ?ps))"
    unfolding q using parent_pieces_no_sep [of ?ps]
    by (subst components_absolute_join) auto
  moreover have "body_components ?ps \<noteq> []" using ne by (simp add: trim_pieces_empty_iff)
  ultimately show ?thesis
    using True body_components_butlast_trim [OF ne] by (simp add: components_def)
next
  case rel: False
  let ?ps = "split_on CHR ''/'' p"
  assume par: "parent p = Some q"
  show ?thesis
  proof (cases "hd ?ps = ''.''")
    case dot: True
    then have comps: "components p = CurDir # body_components (tl ?ps)"
      using rel by (simp add: components_def)
    show ?thesis
    proof (cases "trim_pieces (tl ?ps) = []")
      case True
      then have "q = []" using par rel dot by (simp add: parent_def)
      then show ?thesis
        using True comps by (simp add: trim_pieces_empty_iff components_def is_absolute_def starts_with_char_def)
    next
      case False
      let ?b = "trim_pieces (butlast (trim_pieces (tl ?ps)))"
      have sub: "set (tl ?ps) \<subseteq> set ?ps" by (cases ?ps) auto
      have q: "q = join_with CHR ''/'' (''.'' # ?b)"
        using par rel dot False by (simp add: parent_def)
      have "\<forall>p\<in>set (''.'' # ?b). CHR ''/'' \<notin> set p"
        using parent_pieces_no_sep [OF sub] by auto
      then have "components q = CurDir # body_components ?b"
        unfolding q by (subst components_relative_join) auto
      moreover have "body_components (tl ?ps) \<noteq> []"
        using False by (simp add: trim_pieces_empty_iff)
      ultimately show ?thesis
        using comps body_components_butlast_trim [OF False] by simp
    qed
  next
    case nodot: False
    let ?b = "trim_pieces (butlast (trim_pieces ?ps))"
    have comps: "components p = body_components ?ps"
      using rel nodot by (simp add: components_def)
    have ne: "trim_pieces ?ps \<noteq> []" and q: "q = join_with CHR ''/'' ?b"
      using par rel nodot by (auto simp: parent_def Let_def split: if_splits)
    have "components q = body_components ?b"
    proof (cases "?b = []")
      case True
      then show ?thesis
        by (simp add: q components_def is_absolute_def starts_with_char_def)
    next
      case False
      have pre: "prefix ?b ?ps"
        by (meson prefix_order.trans prefixeq_butlast trim_pieces_prefix)
      then have hd: "hd ?b = hd ?ps"
        using False by (metis hd_append2 prefixE)
      have "hd ?ps \<noteq> []"
      proof
        assume "hd ?ps = []"
        moreover have "p = join_with CHR ''/'' ?ps" by (simp add: join_with_split)
        ultimately have "p = [] \<or> hd p = CHR ''/''"
          by (cases ?ps) (auto simp: join_with_Cons split: if_splits)
        then have "p = []" using rel by (auto simp: is_absolute_def starts_with_char_iff)
        then show False using ne by (simp add: trim_pieces_def)
      qed
      then have "hd ?b \<noteq> []" "hd ?b \<noteq> ''.''" using hd nodot by simp_all
      moreover have "\<forall>p\<in>set ?b. CHR ''/'' \<notin> set p"
        using parent_pieces_no_sep [OF subset_refl] by blast
      ultimately show ?thesis
        unfolding q using components_relative_join [OF _ False] by simp
    qed
    then show ?thesis
      using comps body_components_butlast_trim [OF ne] by simp
  qed
qed

lemma RootDir_not_in_body: "RootDir \<notin> set (body_components ps)"
  by (induction ps) (auto split: if_splits)

lemma RootDir_in_components: "RootDir \<in> set (components p) \<longleftrightarrow> is_absolute p"
  by (simp add: components_def Let_def RootDir_not_in_body)

theorem parent_None_iff:
  "parent p = None \<longleftrightarrow> components p = [] \<or> components p = [RootDir]"
proof -
  have "body_components ps \<noteq> [RootDir]" for ps
    by (metis list.set_intros(1) RootDir_not_in_body)
  then show ?thesis
    by (simp add: parent_def components_def Let_def trim_pieces_empty_iff)
qed

lemma parent_shorter:
  "parent p = Some q \<Longrightarrow> length (components q) < length (components p)"
  using parent_components [of p q] parent_None_iff [of p] by auto

lemma path_starts_with_refl [simp]: "path_starts_with p p"
  by (simp add: path_starts_with_def)

lemma path_starts_with_trans:
  "path_starts_with p q \<Longrightarrow> path_starts_with q r \<Longrightarrow> path_starts_with p r"
  unfolding path_starts_with_def by (rule prefix_order.trans)

lemma parent_starts_with: "parent p = Some q \<Longrightarrow> path_starts_with p q"
  by (simp add: path_starts_with_def parent_components prefixeq_butlast)

end
