(* ===== verification/Sandbox_Id.thy ===== *)
theory Sandbox_Id
  imports Utf8_Path
begin

unbundle bit_operations_syntax

text \<open>
  The identity of a sandbox (\<open>gascan-core/src/sandbox.rs\<close>) and the hex encoder
  (\<open>hex.rs\<close>): \<open>slugify\<close>, \<open>SandboxId::from_root\<close>, the validation
  behind \<open>TryFrom<String>\<close>, and that every generated identity passes it.  SHA-256 is the
  parameter \<open>sha256\<close>, a function from bytes to the 32 bytes of the digest.
\<close>

section \<open>Hex encoding\<close>

definition DIGITS :: string where
  "DIGITS = ''0123456789abcdef''"

definition lower :: "u8 list \<Rightarrow> string" where
  "lower bytes =
     concat (map (\<lambda>b. [DIGITS ! unat (drop_bit 4 b), DIGITS ! unat (b AND 0x0f)]) bytes)"

section \<open>Slugs and identities\<close>

datatype sandbox_id = SandboxId (as_str: string)

definition slug_step :: "string \<times> bool \<Rightarrow> char \<Rightarrow> string \<times> bool" where
  "slug_step st character =
     (let (output, pending) = st in
      if is_ascii_alphanumeric character then
        ((if pending \<and> output \<noteq> [] then output @ ''-'' else output)
           @ [to_ascii_lowercase character], False)
      else (output, output \<noteq> []))"

definition slugify :: "string \<Rightarrow> string" where
  "slugify name =
     (let slug = fst (foldl slug_step ([], False) name) in
      if slug = [] then ''sandbox'' else slug)"

definition from_root :: "(string \<Rightarrow> u8 list) \<Rightarrow> string \<Rightarrow> string \<Rightarrow> sandbox_id" where
  "from_root sha256 name canonical_root =
     (let slug = slugify name;
          digest = sha256 canonical_root;
          suffix = lower (take 6 digest)
      in SandboxId (slug @ ''-'' @ suffix))"

section \<open>Validation\<close>

datatype sandbox_id_error = SandboxIdError (message: string)

definition invalid_id :: "string \<Rightarrow> sandbox_id_error" where
  "invalid_id m = SandboxIdError m"

definition valid_slug :: "string \<Rightarrow> bool" where
  "valid_slug slug \<longleftrightarrow>
     slug \<noteq> [] \<and>
     list_all (\<lambda>b. is_ascii_lowercase b \<or> is_ascii_digit b \<or> b = CHR ''-'') slug \<and>
     \<not> starts_with_char CHR ''-'' slug \<and>
     \<not> ends_with_char CHR ''-'' slug \<and>
     \<not> sublist ''--'' slug"

definition validate_sandbox_id :: "string \<Rightarrow> (unit, sandbox_id_error) result outcome" where
  "validate_sandbox_id value =
     (if length value < 12 + 1 then
        Returned (Err (invalid_id ''expected a slug and 12-character digest''))
      else
        let prefix_length = length value - (12 + 1) in
        if \<not> is_char_boundary value (prefix_length + 1) then Panicked
        else
          let slug_and_separator = take (prefix_length + 1) value;
              digest = drop (prefix_length + 1) value
          in Returned
            (case strip_suffix ''-'' slug_and_separator of
               None \<Rightarrow> Err (invalid_id ''missing digest separator'')
             | Some slug \<Rightarrow>
                 if \<not> valid_slug slug then
                   Err (invalid_id ''slug must use lowercase letters, digits, and single hyphens'')
                 else if length digest \<noteq> 12 \<or> \<not> list_all is_lower_hex digest then
                   Err (invalid_id ''digest must be exactly 12 lowercase hexadecimal characters'')
                 else Ok ()))"

definition try_from :: "string \<Rightarrow> (sandbox_id, sandbox_id_error) result outcome" where
  "try_from value =
     (case validate_sandbox_id value of
        Panicked \<Rightarrow> Panicked
      | Returned r \<Rightarrow> Returned (and_then r (\<lambda>_. Ok (SandboxId value))))"

section \<open>The hex encoder is injective and writes two digits per byte\<close>

lemma nibble_high: "unat (drop_bit 4 (b :: u8)) = unat b div 16"
  by (simp add: unat_drop_bit_eq) (simp add: drop_bit_eq_div)

lemma nibble_low: "unat (b AND 0x0f :: u8) = unat b mod 16"
proof -
  have "b AND 0x0f = take_bit 4 b"
    by (simp add: take_bit_eq_mask mask_eq_exp_minus_1)
  then have "unat (b AND 0x0f) = take_bit 4 (unat b)"
    by (simp only: unsigned_take_bit_eq)
  then show ?thesis
    by (simp add: take_bit_eq_mod)
qed

lemma nibble_bounds: "unat (drop_bit 4 (b :: u8)) < 16" "unat (b AND 0x0f :: u8) < 16"
proof -
  have "unat b < 2 ^ LENGTH(8)" by (rule unsigned_less)
  then show "unat (drop_bit 4 b) < 16" "unat (b AND 0x0f) < 16"
    by (simp_all add: nibble_high nibble_low)
qed

lemma DIGITS_hex: "i < 16 \<Longrightarrow> is_lower_hex (DIGITS ! i)"
proof -
  have "list_all is_lower_hex DIGITS" by (simp add: DIGITS_def ascii_simps)
  moreover have "length DIGITS = 16" by (simp add: DIGITS_def)
  ultimately show "i < 16 \<Longrightarrow> is_lower_hex (DIGITS ! i)" by (simp add: list_all_length)
qed

lemma DIGITS_inject: "i < 16 \<Longrightarrow> j < 16 \<Longrightarrow> DIGITS ! i = DIGITS ! j \<longleftrightarrow> i = j"
  by (rule nth_eq_iff_index_eq) (simp_all add: DIGITS_def)

lemma lower_simps [simp]:
  "lower [] = []"
  "lower (b # bs) = DIGITS ! unat (drop_bit 4 b) # DIGITS ! unat (b AND 0x0f) # lower bs"
  by (simp_all add: lower_def)

lemma lower_length: "length (lower bs) = 2 * length bs"
  by (induction bs) simp_all

lemma lower_is_hex: "list_all is_lower_hex (lower bs)"
  by (induction bs) (simp_all add: DIGITS_hex nibble_bounds)

lemma byte_of_nibbles:
  fixes b c :: u8
  assumes "unat (drop_bit 4 b) = unat (drop_bit 4 c)" "unat (b AND 0x0f) = unat (c AND 0x0f)"
  shows "b = c"
  using assms unfolding nibble_high nibble_low
  by (metis div_mult_mod_eq word_unat_eq_iff)

lemma lower_inject: "lower bs = lower cs \<longleftrightarrow> bs = cs"
proof (induction bs arbitrary: cs)
  case Nil
  then show ?case by (cases cs) auto
next
  case (Cons b bs)
  then show ?case
    by (cases cs) (auto simp: DIGITS_inject nibble_bounds intro: byte_of_nibbles)
qed

section \<open>Slugs\<close>

lemma slug_step_pair:
  "slug_step (output, pending) c =
     (if is_ascii_alphanumeric c
      then ((if pending \<and> output \<noteq> [] then output @ ''-'' else output) @ [to_ascii_lowercase c], False)
      else (output, output \<noteq> []))"
  by (simp add: slug_step_def)

lemma hyphen_not_alphanumeric [simp]: "\<not> is_ascii_alphanumeric CHR ''-''"
  by (simp add: ascii_simps)

lemma slug_step_idem:
  "\<not> is_ascii_alphanumeric c \<Longrightarrow> \<not> is_ascii_alphanumeric d \<Longrightarrow>
     slug_step (slug_step st c) d = slug_step st c"
  by (cases st) (simp add: slug_step_pair)

lemma valid_slug_single:
  "is_ascii_lowercase c \<or> is_ascii_digit c \<Longrightarrow> valid_slug [c]"
  by (auto simp: valid_slug_def starts_with_char_iff ends_with_char_iff ascii_simps
      dest: sublist_length_le)

lemma valid_slug_snoc:
  assumes "valid_slug s" "is_ascii_lowercase c \<or> is_ascii_digit c"
  shows "valid_slug (s @ [c])" "valid_slug (s @ [CHR ''-'', c])"
proof -
  have c: "c \<noteq> CHR ''-''" using assms(2) by (auto simp: ascii_simps)
  have last: "last s \<noteq> CHR ''-''" "s \<noteq> []" "\<not> sublist ''--'' s"
    using assms(1) by (auto simp: valid_slug_def ends_with_char_iff)
  have one: "\<not> sublist ''--'' (t @ [d])" if "\<not> sublist ''--'' t" "d \<noteq> CHR ''-'' \<or> (t \<noteq> [] \<and> last t \<noteq> CHR ''-'')" for t d
  proof
    assume "sublist ''--'' (t @ [d])"
    then obtain ps ss where "t @ [d] = ps @ ''--'' @ ss" by (auto simp: sublist_def)
    with that show False
      by (cases ss rule: rev_cases) (auto simp: sublist_def append_eq_append_conv2)
  qed
  show "valid_slug (s @ [c])"
    using assms c one [OF last(3)]
    by (auto simp: valid_slug_def starts_with_char_iff ends_with_char_iff)
  have "\<not> sublist ''--'' ((s @ ''-'') @ [c])"
    by (rule one) (use c last one [OF last(3), of "CHR ''-''"] in auto)
  then show "valid_slug (s @ [CHR ''-'', c])"
    using assms c by (auto simp: valid_slug_def starts_with_char_iff ends_with_char_iff)
qed

lemma slug_fold_valid:
  "fst (foldl slug_step ([], False) name) = [] \<or> valid_slug (fst (foldl slug_step ([], False) name))"
  by (rule foldl_invariant)
    (auto simp: slug_step_def Let_def split: prod.splits
      intro: valid_slug_single valid_slug_snoc dest!: to_ascii_lowercase_class)

lemma slugify_valid: "valid_slug (slugify name)"
proof -
  have "valid_slug ''sandbox''"
    by (simp add: valid_slug_def ascii_simps starts_with_char_def ends_with_char_def sublist_code)
  then show ?thesis
    using slug_fold_valid [of name] by (auto simp: slugify_def Let_def)
qed

lemma slug_fold_fixed:
  assumes "list_all (\<lambda>b. is_ascii_lowercase b \<or> is_ascii_digit b \<or> b = CHR ''-'') s"
    and "\<not> starts_with_char CHR ''-'' s" "\<not> sublist ''--'' s"
  shows "foldl slug_step ([], False) s =
    (if ends_with_char CHR ''-'' s then (butlast s, True) else (s, False))"
  using assms
proof (induction s rule: rev_induct)
  case Nil
  then show ?case by (simp add: ends_with_char_iff)
next
  case (snoc c s)
  have sub: "\<not> sublist ''--'' s"
    using snoc.prems(3) sublist_append_rightI sublist_order.order_trans by blast
  have start: "\<not> starts_with_char CHR ''-'' s"
    using snoc.prems(2) by (auto simp: starts_with_char_iff)
  have IH: "foldl slug_step ([], False) s =
      (if ends_with_char CHR ''-'' s then (butlast s, True) else (s, False))"
    using snoc.IH snoc.prems(1) start sub by simp
  show ?case
  proof (cases "c = CHR ''-''")
    case True
    have "\<not> ends_with_char CHR ''-'' s"
    proof
      assume "ends_with_char CHR ''-'' s"
      then have "s @ [c] = butlast s @ ''--'' @ []"
        using True by (auto simp: ends_with_char_iff)
          (metis append_butlast_last_id append_Cons append_Nil append_assoc)
      then show False using snoc.prems(3) unfolding sublist_def by blast
    qed
    moreover have "s \<noteq> []" using True snoc.prems(2) by (auto simp: starts_with_char_iff)
    ultimately show ?thesis
      using IH True by (simp add: slug_step_pair ends_with_char_iff)
  next
    case False
    then have c: "is_ascii_lowercase c \<or> is_ascii_digit c" using snoc.prems(1) by simp
    then have low: "to_ascii_lowercase c = c" "is_ascii_alphanumeric c"
      by (auto simp: to_ascii_lowercase_def ascii_simps)
    have "butlast s \<noteq> []" "butlast s @ ''-'' = s" if "ends_with_char CHR ''-'' s"
    proof -
      show s: "butlast s @ ''-'' = s"
        using that by (auto simp: ends_with_char_iff) (metis append_butlast_last_id)
      then show "butlast s \<noteq> []"
        using start by (metis append_Nil list.sel(1) not_Cons_self2 starts_with_char_iff)
    qed
    then show ?thesis
      using IH False low by (auto simp: slug_step_pair ends_with_char_iff)
  qed
qed

lemma slugify_fixed: "valid_slug s \<Longrightarrow> slugify s = s"
  by (simp add: slugify_def slug_fold_fixed valid_slug_def)

section \<open>Generated identities\<close>

lemma validate_sandbox_id_Ok:
  "validate_sandbox_id value = Returned (Ok u) \<longleftrightarrow>
     (\<exists>slug digest. value = slug @ ''-'' @ digest \<and> valid_slug slug \<and>
        length digest = 12 \<and> list_all is_lower_hex digest)"
  (is "?L \<longleftrightarrow> ?R")
proof
  assume ?L
  then have len: "\<not> length value < 13"
    by (auto simp: validate_sandbox_id_def)
  let ?k = "length value - 13 + 1"
  from \<open>?L\<close> len obtain slug where "take ?k value = slug @ ''-''" "valid_slug slug"
    "length (drop ?k value) = 12" "list_all is_lower_hex (drop ?k value)"
    by (auto simp: validate_sandbox_id_def Let_def split: if_splits option.splits)
  then have "value = slug @ ''-'' @ drop ?k value"
    by (metis append.assoc append_take_drop_id)
  then show ?R
    using \<open>valid_slug slug\<close> \<open>length (drop ?k value) = 12\<close> \<open>list_all is_lower_hex (drop ?k value)\<close>
    by blast
next
  assume ?R
  then obtain slug digest where v: "value = slug @ ''-'' @ digest" "valid_slug slug"
    "length digest = 12" "list_all is_lower_hex digest" by blast
  have k: "length value - 13 + 1 = length slug + 1" and len: "\<not> length value < 13"
    using v by auto
  have "is_lower_hex (digest ! 0)"
    using v(3,4) by (simp add: list_all_length)
  then have "is_char_boundary value (length slug + 1)"
    using v(1,3) by (auto simp: is_char_boundary_def is_continuation_def ascii_simps nth_append)
  moreover have "take (length slug + 1) value = slug @ ''-''" "drop (length slug + 1) value = digest"
    using v(1) by simp_all
  ultimately show ?L
    using k len v by (auto simp: validate_sandbox_id_def Let_def split: option.splits)
qed

lemma from_root_valid:
  assumes "6 \<le> length (sha256 root)"
  shows "validate_sandbox_id (as_str (from_root sha256 name root)) = Returned (Ok ())"
proof -
  have "as_str (from_root sha256 name root) = slugify name @ ''-'' @ lower (take 6 (sha256 root))"
    by (simp add: from_root_def)
  moreover have "length (lower (take 6 (sha256 root))) = 12"
    using assms by (simp add: lower_length)
  ultimately show ?thesis
    unfolding validate_sandbox_id_Ok using slugify_valid lower_is_hex by blast
qed

section \<open>Properties\<close>

text \<open>Round trip: whatever the project name and root, the string of an identity made by
  \<open>SandboxId::from_root\<close> is accepted by \<open>TryFrom<String>\<close>, which returns that
  identity; in particular the conversion does not panic on it.\<close>

lemma from_root_try_from:
  assumes "length (sha256 root) = 32"
  shows "try_from (as_str (from_root sha256 name root)) = Returned (Ok (from_root sha256 name root))"
proof -
  have "validate_sandbox_id (as_str (from_root sha256 name root)) = Returned (Ok ())"
    by (rule from_root_valid) (simp add: assms)
  then show ?thesis by (simp add: try_from_def)
qed

text \<open>C28. \<open>TryFrom<String>\<close> accepts exactly the strings made of a slug (lower-case
  letters, digits and single inner hyphens), a hyphen and twelve lower-case hexadecimal
  digits, and keeps the string as it is.\<close>

theorem try_from_accepts:
  "try_from v = Returned (Ok i) \<longleftrightarrow>
     i = SandboxId v \<and>
     (\<exists>slug digest. v = slug @ ''-'' @ digest \<and> valid_slug slug \<and>
        length digest = 12 \<and> list_all is_lower_hex digest)"
  unfolding validate_sandbox_id_Ok [of v "()", symmetric]
  by (auto simp: try_from_def result_simps split: outcome.splits)

lemma try_from_panic_iff:
  "try_from v = Panicked \<longleftrightarrow> 13 \<le> length v \<and> is_continuation (v ! (length v - 12))"
proof -
  have "length v - 13 + 1 = length v - 12" if "13 \<le> length v"
    using that by simp
  then show ?thesis
    by (auto simp: try_from_def validate_sandbox_id_def Let_def is_char_boundary_def
        split: outcome.splits)
qed

text \<open>C29. \<open>TryFrom<String>\<close> does not return an error on every malformed string: it
  panics exactly when the byte that starts the last twelve bytes continues a multi-byte
  character, because \<open>split_at\<close> is applied before the bytes are checked.\<close>

theorem try_from_panics:
  "try_from v = Panicked \<longleftrightarrow>
     13 \<le> length v \<and> is_continuation (v ! (length v - 12))"
  by (rule try_from_panic_iff)

text \<open>\<open>slugify\<close> always yields a valid slug and is idempotent.\<close>

lemma slugify_canonical:
  "valid_slug (slugify name) \<and> slugify (slugify name) = slugify name"
  by (simp add: slugify_valid slugify_fixed)

text \<open>The hex encoder writes two lower-case hexadecimal digits per byte and loses
  nothing: different byte strings have different encodings.\<close>

lemma lower_encodes:
  "length (lower bs) = 2 * length bs \<and> list_all is_lower_hex (lower bs) \<and>
     (lower bs = lower cs \<longleftrightarrow> bs = cs)"
  by (simp add: lower_length lower_is_hex lower_inject)

end
