(* ===== verification/Btree_Map.thy ===== *)
theory Btree_Map
  imports Prelude
begin

text \<open>
  Rust's \<open>BTreeMap\<close> as an association list in strictly increasing key order: the
  iteration order of the source is the order of the list.  \<open>HashMap\<close>, whose order the
  source does not rely on, is an association list with distinct keys.  The interface locale
  \<open>lookup_map\<close> states the laws the clients use, \<open>ordered_map\<close> adds
  extensionality; they are interpreted on the functions of this theory, and their lemmas
  (\<open>bt.extend_get\<close>, \<open>hm.del_all_get\<close> and the others) are what the components cite.
\<close>

section \<open>The operations\<close>

type_synonym ('k, 'v) btree_map = "('k \<times> 'v) list"

definition bt_wf :: "('k::linorder, 'v) btree_map \<Rightarrow> bool" where
  "bt_wf m = sorted_wrt (<) (map fst m)"

fun bt_insert :: "'k::linorder \<Rightarrow> 'v \<Rightarrow> ('k, 'v) btree_map \<Rightarrow> ('k, 'v) btree_map" where
  "bt_insert k v [] = [(k, v)]"
| "bt_insert k v ((k', v') # m) =
     (if k < k' then (k, v) # (k', v') # m
      else if k = k' then (k, v) # m
      else (k', v') # bt_insert k v m)"

definition bt_remove :: "'k::linorder \<Rightarrow> ('k, 'v) btree_map \<Rightarrow> ('k, 'v) btree_map" where
  "bt_remove k m = filter (\<lambda>(k', _). k' \<noteq> k) m"

definition bt_retain :: "('k \<Rightarrow> 'v \<Rightarrow> bool) \<Rightarrow> ('k::linorder, 'v) btree_map \<Rightarrow> ('k, 'v) btree_map" where
  "bt_retain P m = filter (\<lambda>(k, v). P k v) m"

definition bt_keys :: "('k, 'v) btree_map \<Rightarrow> 'k list" where
  "bt_keys m = map fst m"

definition bt_values :: "('k, 'v) btree_map \<Rightarrow> 'v list" where
  "bt_values m = map snd m"

definition bt_contains :: "'k \<Rightarrow> ('k, 'v) btree_map \<Rightarrow> bool" where
  "bt_contains k m \<longleftrightarrow> map_of m k \<noteq> None"

abbreviation bt_get :: "('k, 'v) btree_map \<Rightarrow> 'k \<Rightarrow> 'v option" where
  "bt_get m \<equiv> map_of m"

lemma bt_wf_Nil [simp]: "bt_wf []"
  by (simp add: bt_wf_def)

lemma bt_wf_Cons: "bt_wf ((k, v) # m) \<longleftrightarrow> (\<forall>k'\<in>fst ` set m. k < k') \<and> bt_wf m"
  by (auto simp: bt_wf_def)

lemma bt_wf_distinct: "bt_wf m \<Longrightarrow> distinct (map fst m)"
  by (simp add: bt_wf_def strict_sorted_iff)

lemma bt_insert_keys: "fst ` set (bt_insert k v m) = insert k (fst ` set m)"
  by (induction k v m rule: bt_insert.induct) auto

lemma bt_insert_wf: "bt_wf m \<Longrightarrow> bt_wf (bt_insert k v m)"
  by (induction k v m rule: bt_insert.induct)
    (auto simp: bt_wf_Cons bt_insert_keys intro: less_trans)

lemma bt_insert_get: "bt_wf m \<Longrightarrow> bt_get (bt_insert k v m) = (bt_get m)(k \<mapsto> v)"
  by (induction k v m rule: bt_insert.induct) (auto simp: bt_wf_Cons fun_eq_iff)

lemma bt_filter_wf: "bt_wf m \<Longrightarrow> bt_wf (filter P m)"
  unfolding bt_wf_def by (rule sorted_wrt_mono_rel [of _ "(<)", rotated])
    (auto simp: sorted_wrt_map intro: sorted_wrt_filter)

lemma bt_remove_wf: "bt_wf m \<Longrightarrow> bt_wf (bt_remove k m)"
  unfolding bt_remove_def by (rule bt_filter_wf)

lemma bt_retain_wf: "bt_wf m \<Longrightarrow> bt_wf (bt_retain P m)"
  unfolding bt_retain_def by (rule bt_filter_wf)

lemma bt_remove_get: "bt_get (bt_remove k m) = (bt_get m)(k := None)"
  unfolding bt_remove_def by (induction m) (auto simp: fun_eq_iff)

lemma bt_retain_get:
  "bt_wf m \<Longrightarrow>
     bt_get (bt_retain P m) k = (case bt_get m k of None \<Rightarrow> None | Some v \<Rightarrow> if P k v then Some v else None)"
proof (induction m)
  case (Cons a m)
  obtain k' v' where a: "a = (k', v')" by (cases a)
  have "bt_get m k' = None"
    using Cons.prems by (auto simp: a bt_wf_Cons map_of_eq_None_iff)
  then show ?case
    using Cons by (auto simp: a bt_wf_Cons bt_retain_def split: option.splits)
qed (simp add: bt_retain_def)

lemma bt_get_Some_iff: "bt_wf m \<Longrightarrow> bt_get m k = Some v \<longleftrightarrow> (k, v) \<in> set m"
  by (metis bt_wf_distinct map_of_eq_Some_iff)

text \<open>Two maps are equal as Rust values exactly when they have the same entries.\<close>

lemma bt_eqI:
  assumes "bt_wf m" "bt_wf n" "\<And>k. bt_get m k = bt_get n k"
  shows "m = n"
proof -
  have "set m = set n"
    using assms by (auto simp: bt_get_Some_iff [symmetric])
  moreover have "inj_on fst (set m \<union> set n)"
    using \<open>set m = set n\<close> bt_wf_distinct [OF assms(1)] by (simp add: distinct_map)
  ultimately show ?thesis
    using assms(1,2) by (auto simp: bt_wf_def strict_sorted_iff intro: map_sorted_distinct_set_unique)
qed

lemma bt_keys_wf: "bt_wf m \<Longrightarrow> sorted_wrt (<) (bt_keys m)"
  by (simp add: bt_wf_def bt_keys_def)

lemma bt_contains_iff: "bt_contains k m \<longleftrightarrow> k \<in> fst ` set m"
  by (simp add: bt_contains_def map_of_eq_None_iff)

section \<open>The interfaces\<close>

text \<open>The laws of any map, whatever its order, and those of a map whose representation is
  determined by its entries.\<close>

locale lookup_map =
  fixes empty :: 'm
    and get :: "'m \<Rightarrow> 'k \<Rightarrow> 'v option"
    and put :: "'k \<Rightarrow> 'v \<Rightarrow> 'm \<Rightarrow> 'm"
    and del :: "'k \<Rightarrow> 'm \<Rightarrow> 'm"
    and invar :: "'m \<Rightarrow> bool"
  assumes empty_invar: "invar empty"
    and empty_get: "get empty k = None"
    and put_invar: "invar m \<Longrightarrow> invar (put k v m)"
    and put_get: "invar m \<Longrightarrow> get (put k v m) = (get m)(k \<mapsto> v)"
    and del_invar: "invar m \<Longrightarrow> invar (del k m)"
    and del_get: "invar m \<Longrightarrow> get (del k m) = (get m)(k := None)"
begin

lemma extend_invar:
  "invar m \<Longrightarrow> invar (foldl (\<lambda>m (k, v). put k v m) m kvs)"
  by (induction kvs arbitrary: m) (auto simp: put_invar)

lemma extend_get:
  "invar m \<Longrightarrow>
     get (foldl (\<lambda>m (k, v). put k v m) m kvs) k =
       (case map_of (rev kvs) k of Some v \<Rightarrow> Some v | None \<Rightarrow> get m k)"
  by (induction kvs arbitrary: m)
    (auto simp: put_invar put_get map_add_def split: option.splits)

lemma del_all_invar: "invar m \<Longrightarrow> invar (foldl (\<lambda>m k. del k m) m ks)"
  by (induction ks arbitrary: m) (auto simp: del_invar)

lemma del_all_get:
  "invar m \<Longrightarrow> get (foldl (\<lambda>m k. del k m) m ks) k = (if k \<in> set ks then None else get m k)"
  by (induction ks arbitrary: m) (auto simp: del_invar del_get)

lemma put_other: "invar m \<Longrightarrow> l \<noteq> k \<Longrightarrow> get (put k v m) l = get m l"
  by (simp add: put_get)

lemma del_put_get: "invar m \<Longrightarrow> get m k = None \<Longrightarrow> get (del k (put k v m)) = get m"
  by (auto simp: put_invar put_get del_get)

end

locale ordered_map = lookup_map +
  assumes extensional: "invar m \<Longrightarrow> invar n \<Longrightarrow> (\<And>k. get m k = get n k) \<Longrightarrow> m = n"
begin

lemma put_commute: "invar m \<Longrightarrow> k \<noteq> l \<Longrightarrow> put k v (put l w m) = put l w (put k v m)"
  by (rule extensional) (auto simp: put_invar put_get)

lemma put_same: "invar m \<Longrightarrow> get m k = Some v \<Longrightarrow> put k v m = m"
  by (rule extensional) (auto simp: put_invar put_get)

lemma del_put: "invar m \<Longrightarrow> get m k = None \<Longrightarrow> del k (put k v m) = m"
  by (rule extensional) (auto simp: put_invar put_get del_invar del_get)

lemma del_absent: "invar m \<Longrightarrow> get m k = None \<Longrightarrow> del k m = m"
  by (rule extensional) (auto simp: del_invar del_get)

end

interpretation bt: ordered_map "[]" bt_get bt_insert bt_remove bt_wf
  by unfold_locales
    (auto simp: bt_insert_wf bt_insert_get bt_remove_wf bt_remove_get intro: bt_eqI)

definition bt_extend :: "('k::linorder \<times> 'v) list \<Rightarrow> ('k, 'v) btree_map \<Rightarrow> ('k, 'v) btree_map" where
  "bt_extend kvs m = foldl (\<lambda>m (k, v). bt_insert k v m) m kvs"

definition bt_collect :: "('k::linorder \<times> 'v) list \<Rightarrow> ('k, 'v) btree_map" where
  "bt_collect kvs = bt_extend kvs []"

lemma bt_extend_wf: "bt_wf m \<Longrightarrow> bt_wf (bt_extend kvs m)"
  unfolding bt_extend_def by (rule bt.extend_invar)

lemma bt_extend_get:
  "bt_wf m \<Longrightarrow>
     bt_get (bt_extend kvs m) k =
       (case map_of (rev kvs) k of Some v \<Rightarrow> Some v | None \<Rightarrow> bt_get m k)"
  unfolding bt_extend_def by (rule bt.extend_get)

lemma bt_collect_wf: "bt_wf (bt_collect kvs)"
  unfolding bt_collect_def by (rule bt_extend_wf) simp

lemma bt_collect_get: "bt_get (bt_collect kvs) k = map_of (rev kvs) k"
  unfolding bt_collect_def by (simp add: bt_extend_get split: option.splits)

lemma bt_collect_id: "bt_wf m \<Longrightarrow> bt_collect m = m"
proof (rule bt_eqI)
  fix k
  assume "bt_wf m"
  then have "map_of (rev m) = map_of m"
    using bt_wf_distinct [of m] by (subst map_of_inject_set) (simp_all flip: rev_map)
  then show "bt_get (bt_collect m) k = bt_get m k"
    by (simp add: bt_collect_get)
qed (simp_all add: bt_collect_wf)

section \<open>Hash maps\<close>

type_synonym ('k, 'v) hash_map = "('k \<times> 'v) list"

definition hm_wf :: "('k, 'v) hash_map \<Rightarrow> bool" where
  "hm_wf m = distinct (map fst m)"

definition hm_remove :: "'k \<Rightarrow> ('k, 'v) hash_map \<Rightarrow> ('k, 'v) hash_map" where
  "hm_remove k m = filter (\<lambda>(k', _). k' \<noteq> k) m"

definition hm_insert :: "'k \<Rightarrow> 'v \<Rightarrow> ('k, 'v) hash_map \<Rightarrow> ('k, 'v) hash_map" where
  "hm_insert k v m = (k, v) # hm_remove k m"

definition hm_values :: "('k, 'v) hash_map \<Rightarrow> 'v list" where
  "hm_values m = map snd m"

abbreviation hm_get :: "('k, 'v) hash_map \<Rightarrow> 'k \<Rightarrow> 'v option" where
  "hm_get m \<equiv> map_of m"

lemma hm_remove_get [simp]: "hm_get (hm_remove k m) = (hm_get m)(k := None)"
  unfolding hm_remove_def by (induction m) (auto simp: fun_eq_iff)

lemma hm_insert_get [simp]: "hm_get (hm_insert k v m) = (hm_get m)(k \<mapsto> v)"
  by (simp add: hm_insert_def)

lemma hm_remove_wf [simp]: "hm_wf m \<Longrightarrow> hm_wf (hm_remove k m)"
  unfolding hm_wf_def hm_remove_def by (rule distinct_map_filter)

lemma hm_remove_keys: "fst ` set (hm_remove k m) = fst ` set m - {k}"
  by (auto simp: hm_remove_def)

lemma hm_insert_wf [simp]: "hm_wf m \<Longrightarrow> hm_wf (hm_insert k v m)"
  using hm_remove_wf [of m k] hm_remove_keys [of k m]
  by (simp add: hm_insert_def hm_wf_def)

lemma hm_get_Some_iff: "hm_wf m \<Longrightarrow> hm_get m k = Some v \<longleftrightarrow> (k, v) \<in> set m"
  by (simp add: hm_wf_def)

interpretation hm: lookup_map "[]" hm_get hm_insert hm_remove hm_wf
proof unfold_locales
  show "hm_wf []" by (simp add: hm_wf_def)
qed simp_all

lemmas bt_wf_intros = bt_insert_wf bt_remove_wf bt_retain_wf bt_extend_wf bt_collect_wf

end
