(* ===== verification/Manifest.thy ===== *)
theory Manifest
  imports Utf8_Path Btree_Map
begin

text \<open>
  The manifest (\<open>gascan-core/src/manifest.rs\<close>): sizes with binary units, the validated
  manifest and its raw TOML form, the validation pass, and the containment check of the
  setup script.  The file system is the record \<open>fs\<close> of the \<open>std::fs\<close> calls
  the code makes; the TOML deserialiser is the parameter \<open>toml\<close>, which is given the
  deserialiser of sizes as serde's generated code is.
\<close>

section \<open>The file system and its errors\<close>

datatype io_error_kind = NotFound | PermissionDenied | OtherIo

datatype io_error = IoError (io_kind: io_error_kind) (io_text: string)

datatype path_buf = Utf8 string | NonUtf8 string

record fs =
  fs_canonicalize :: "string \<Rightarrow> (path_buf, io_error) result"
  fs_is_dir :: "path_buf \<Rightarrow> bool"
  fs_read_to_string :: "string \<Rightarrow> (string, io_error) result"
  fs_symlink_metadata :: "string \<Rightarrow> (unit, io_error) result"

section \<open>Sizes\<close>

definition KIB :: u64 where "KIB = 1024"
definition MIB :: u64 where "MIB = 1024 ^ 2"
definition GIB :: u64 where "GIB = 1024 ^ 3"
definition TIB :: u64 where "TIB = 1024 ^ 4"

definition DEFAULT_TOOLS_STORAGE_BYTES :: u64 where
  "DEFAULT_TOOLS_STORAGE_BYTES = 10 * 1024 ^ 3"

definition DEFAULT_CACHE_STORAGE_BYTES :: u64 where
  "DEFAULT_CACHE_STORAGE_BYTES = 10 * 1024 ^ 3"

definition DEFAULT_CONFIG_STORAGE_BYTES :: u64 where
  "DEFAULT_CONFIG_STORAGE_BYTES = 1024 ^ 3"

definition MAX_MANAGED_VOLUME_BYTES :: u64 where
  "MAX_MANAGED_VOLUME_BYTES = 512 * 1024 ^ 3"

datatype resource_size = ResourceSize (size_bytes: u64)

definition size_units :: "(string \<times> u64) list" where
  "size_units = [(''KiB'', KIB), (''MiB'', MIB), (''GiB'', GIB), (''TiB'', TIB)]"

fun strip_unit :: "string \<Rightarrow> (string \<times> u64) list \<Rightarrow> (string \<times> u64) option" where
  "strip_unit value [] = None"
| "strip_unit value ((unit_suffix, multiplier) # units) =
     (case strip_suffix unit_suffix value of
        Some number \<Rightarrow> Some (number, multiplier)
      | None \<Rightarrow> strip_unit value units)"

definition parse_size :: "string \<Rightarrow> (resource_size, string) result" where
  "parse_size value =
     and_then (ok_or ''resource size must use KiB, MiB, GiB, or TiB units'' (strip_unit value size_units))
       (\<lambda>(number, multiplier).
         if number = [] \<or> \<not> list_all is_ascii_digit number then
           Err ''resource size must be a positive integer with binary units''
         else
           and_then (map_err (\<lambda>e. ''invalid resource size: '' @ parse_int_message e)
                      (parse_unsigned number))
             (\<lambda>number.
               if number = 0 then Err ''resource size must be greater than zero''
               else map_ok ResourceSize
                      (ok_or ''resource size exceeds the supported range''
                        (checked_mul number multiplier))))"

section \<open>The manifest\<close>

datatype network_mode = Networked | Offline

datatype user_mode = Workspace | Root

datatype shell_prompt = Standard | Starship | StarshipNerdFont

primrec shell_prompt_as_str :: "shell_prompt \<Rightarrow> string" where
  "shell_prompt_as_str Standard = ''standard''"
| "shell_prompt_as_str Starship = ''starship''"
| "shell_prompt_as_str StarshipNerdFont = ''starship-nerd-font''"

datatype gascamp_source = Bundled | WorkspaceSource string

primrec workspace_path :: "gascamp_source \<Rightarrow> string option" where
  "workspace_path Bundled = None"
| "workspace_path (WorkspaceSource path) = Some path"

record ssh =
  ssh_enabled :: bool
  ssh_host_port :: "u16 option"

record resources =
  res_cpus :: "u16 option"
  res_memory :: "resource_size option"
  res_disk :: "resource_size option"

record storage =
  st_tools :: resource_size
  st_cache :: resource_size
  st_config :: resource_size

record manifest =
  m_version :: u32
  m_name :: "string option"
  m_network :: network_mode
  m_user :: user_mode
  m_gascamp :: gascamp_source
  m_setup :: "string option"
  m_resources :: resources
  m_storage :: storage
  m_tools :: "(string, string) btree_map"
  m_ports :: "(string, u16) btree_map"
  m_ssh :: ssh
  m_shell :: shell_prompt
  m_canonical_root :: string

definition storage_defaults :: storage where
  "storage_defaults =
     \<lparr> st_tools = ResourceSize DEFAULT_TOOLS_STORAGE_BYTES,
       st_cache = ResourceSize DEFAULT_CACHE_STORAGE_BYTES,
       st_config = ResourceSize DEFAULT_CONFIG_STORAGE_BYTES \<rparr>"

definition resources_empty :: resources where
  "resources_empty = \<lparr> res_cpus = None, res_memory = None, res_disk = None \<rparr>"

definition defaults_for_root :: "string \<Rightarrow> manifest" where
  "defaults_for_root canonical_root =
     \<lparr> m_version = 1, m_name = None, m_network = Offline, m_user = Workspace,
       m_gascamp = Bundled, m_setup = None, m_resources = resources_empty,
       m_storage = storage_defaults, m_tools = [], m_ports = [],
       m_ssh = \<lparr> ssh_enabled = False, ssh_host_port = None \<rparr>,
       m_shell = Standard, m_canonical_root = canonical_root \<rparr>"

datatype manifest_error =
    Parse string
  | UnsupportedVersion u32
  | Invalid string
  | RootNotDirectory string
  | SetupOutsideRoot string string
  | RootMismatch string string
  | NonUtf8Path string
  | Io string io_error
  | ManifestUnreadable string io_error

fun is_project_root_error :: "manifest_error \<Rightarrow> bool" where
  "is_project_root_error (Io _ _) = True"
| "is_project_root_error (RootNotDirectory _) = True"
| "is_project_root_error (NonUtf8Path _) = True"
| "is_project_root_error (Parse _) = False"
| "is_project_root_error (UnsupportedVersion _) = False"
| "is_project_root_error (Invalid _) = False"
| "is_project_root_error (SetupOutsideRoot _ _) = False"
| "is_project_root_error (RootMismatch _ _) = False"
| "is_project_root_error (ManifestUnreadable _ _) = False"

record raw_storage =
  raw_st_tools :: "resource_size option"
  raw_st_cache :: "resource_size option"
  raw_st_config :: "resource_size option"

record raw_ssh =
  raw_ssh_enabled :: "bool option"
  raw_ssh_host_port :: "u16 option"

record raw_manifest =
  raw_version :: u32
  raw_name :: "string option"
  raw_network :: network_mode
  raw_user :: user_mode
  raw_gascamp :: "string option"
  raw_setup :: "string option"
  raw_resources :: resources
  raw_storage :: raw_storage
  raw_tools :: "(string, string) btree_map"
  raw_ports :: "(string, u16) btree_map"
  raw_ssh :: raw_ssh
  raw_shell :: shell_prompt

section \<open>Path checks\<close>

definition validate_workspace_relative_path :: "string \<Rightarrow> string \<Rightarrow> (unit, manifest_error) result" where
  "validate_workspace_relative_path label path =
     (if is_absolute path \<or>
         list_ex (\<lambda>c. c = ParentDir \<or> c = RootDir) (components path) then
        Err (Invalid (label @ '' path must remain beneath the workspace root''))
      else if list_ex (\<lambda>c. c = RootDir \<or> c = ParentDir) (components path) then
        Err (Invalid (label @ '' path must remain beneath the workspace root''))
      else Ok ())"

definition from_path_buf :: "path_buf \<Rightarrow> (string, manifest_error) result" where
  "from_path_buf p = (case p of Utf8 s \<Rightarrow> Ok s | NonUtf8 s \<Rightarrow> Err (NonUtf8Path s))"

definition check_resolved ::
  "fs \<Rightarrow> string \<Rightarrow> string \<Rightarrow> string \<Rightarrow> (unit, manifest_error) result" where
  "check_resolved fs canonical_root setup candidate =
     and_then (map_err (Io candidate) (fs_canonicalize fs candidate))
       (\<lambda>resolved. and_then (from_path_buf resolved)
         (\<lambda>resolved.
           if \<not> path_starts_with resolved canonical_root then
             Err (SetupOutsideRoot setup canonical_root)
           else Ok ()))"

function containment_loop ::
  "fs \<Rightarrow> string \<Rightarrow> string \<Rightarrow> string \<Rightarrow> (unit, manifest_error) result" where
  "containment_loop fs canonical_root setup candidate =
     (case fs_symlink_metadata fs candidate of
        Ok _ \<Rightarrow> check_resolved fs canonical_root setup candidate
      | Err source \<Rightarrow>
          if io_kind source = NotFound then
            (case parent candidate of
               None \<Rightarrow> Err (Io (path_join canonical_root setup) source)
             | Some up \<Rightarrow> containment_loop fs canonical_root setup up)
          else Err (Io candidate source))"
  by pat_completeness auto
termination
  by (relation "measure (\<lambda>(_, _, _, candidate). length (components candidate))")
    (auto simp: parent_shorter)

declare containment_loop.simps [simp del]

definition validate_setup_containment ::
  "fs \<Rightarrow> string \<Rightarrow> string \<Rightarrow> (unit, manifest_error) result" where
  "validate_setup_containment fs canonical_root setup =
     containment_loop fs canonical_root setup (path_join canonical_root setup)"

section \<open>Validation\<close>

definition validate_policy :: "raw_manifest \<Rightarrow> (bool, manifest_error) result" where
  "validate_policy raw =
     (if raw_version raw \<noteq> 1 then Err (UnsupportedVersion (raw_version raw))
      else if res_cpus (raw_resources raw) = Some 0 then
        Err (Invalid ''resources.cpus must be greater than zero'')
      else if raw_network raw = Offline \<and> raw_ssh_enabled (raw_ssh raw) = Some True then
        Err (Invalid ''ssh requires network = \"networked\"; disable SSH or enable sandbox networking'')
      else
        let enabled = unwrap_or (raw_network raw = Networked) (raw_ssh_enabled (raw_ssh raw)) in
        if \<not> enabled \<and> raw_ssh_host_port (raw_ssh raw) \<noteq> None then
          Err (Invalid ''ssh.host_port cannot be set when ssh.enabled is false'')
        else if (case raw_ssh_host_port (raw_ssh raw) of None \<Rightarrow> False | Some port \<Rightarrow> port < 1024) then
          Err (Invalid ''ssh.host_port must be in 1024..=65535'')
        else Ok enabled)"

definition validate_storage :: "raw_manifest \<Rightarrow> (storage, manifest_error) result" where
  "validate_storage raw =
     (let defaults = storage_defaults;
          s = \<lparr> st_tools = unwrap_or (st_tools defaults) (raw_st_tools (raw_storage raw)),
                st_cache = unwrap_or (st_cache defaults) (raw_st_cache (raw_storage raw)),
                st_config = unwrap_or (st_config defaults) (raw_st_config (raw_storage raw)) \<rparr>
      in and_then
           (for_each_ok
              (\<lambda>(field, size).
                 if size_bytes size > MAX_MANAGED_VOLUME_BYTES then
                   Err (Invalid (''storage.'' @ field @ '' must not exceed 512GiB''))
                 else Ok ())
              [(''tools'', st_tools s), (''cache'', st_cache s), (''config'', st_config s)])
           (\<lambda>_. Ok s))"

definition validate_gascamp :: "string option \<Rightarrow> (gascamp_source, manifest_error) result" where
  "validate_gascamp gascamp =
     (case gascamp of
        None \<Rightarrow> Ok Bundled
      | Some value \<Rightarrow>
          if value = ''bundled'' then Ok Bundled
          else if \<not> path_starts_with value ''/workspace/gascamp'' \<or>
                  ParentDir \<in> set (components value) then
            Err (Invalid ''gascamp workspace path must be beneath /workspace/gascamp'')
          else Ok (WorkspaceSource value))"

definition validate :: "fs \<Rightarrow> raw_manifest \<Rightarrow> string \<Rightarrow> (manifest, manifest_error) result" where
  "validate fs raw canonical_root =
     and_then (validate_policy raw) (\<lambda>enabled.
     and_then (validate_storage raw) (\<lambda>storage.
     and_then
       (case raw_setup raw of
          None \<Rightarrow> Ok ()
        | Some setup \<Rightarrow>
            and_then (validate_workspace_relative_path ''setup'' setup)
              (\<lambda>_. validate_setup_containment fs canonical_root setup)) (\<lambda>_.
     and_then (validate_gascamp (raw_gascamp raw)) (\<lambda>gascamp.
     Ok \<lparr> m_version = raw_version raw, m_name = raw_name raw, m_network = raw_network raw,
          m_user = raw_user raw, m_gascamp = gascamp, m_setup = raw_setup raw,
          m_resources = raw_resources raw, m_storage = storage, m_tools = raw_tools raw,
          m_ports = raw_ports raw,
          m_ssh = \<lparr> ssh_enabled = enabled, ssh_host_port = raw_ssh_host_port (raw_ssh raw) \<rparr>,
          m_shell = raw_shell raw, m_canonical_root = canonical_root \<rparr>))))"

type_synonym toml =
  "(string \<Rightarrow> (resource_size, string) result) \<Rightarrow> string \<Rightarrow> (raw_manifest, string) result"

definition parse :: "toml \<Rightarrow> fs \<Rightarrow> string \<Rightarrow> string \<Rightarrow> (manifest, manifest_error) result" where
  "parse toml fs source canonical_root =
     and_then (map_err Parse (toml parse_size source)) (\<lambda>raw. validate fs raw canonical_root)"

definition load :: "toml \<Rightarrow> fs \<Rightarrow> string \<Rightarrow> (manifest, manifest_error) result" where
  "load toml fs root =
     and_then (map_err (Io root) (fs_canonicalize fs root)) (\<lambda>canonical.
     if \<not> fs_is_dir fs canonical then Err (RootNotDirectory root)
     else and_then (from_path_buf canonical) (\<lambda>canonical.
       let path = path_join canonical ''gascan.toml'' in
       case fs_read_to_string fs path of
         Ok source \<Rightarrow> parse toml fs source canonical
       | Err source \<Rightarrow>
           if io_kind source = NotFound then Ok (defaults_for_root canonical)
           else Err (ManifestUnreadable path source)))"

definition validate_for_root :: "fs \<Rightarrow> manifest \<Rightarrow> string \<Rightarrow> (unit, manifest_error) result" where
  "validate_for_root fs m canonical_root =
     (if \<not> path_eq (m_canonical_root m) canonical_root then
        Err (RootMismatch (m_canonical_root m) canonical_root)
      else
        case m_setup m of
          None \<Rightarrow> Ok ()
        | Some setup \<Rightarrow> validate_setup_containment fs canonical_root setup)"

section \<open>What the checks mean\<close>

text \<open>The path itself and every prefix of it that \<open>pop\<close> reaches.\<close>

function ancestors :: "string \<Rightarrow> string list" where
  "ancestors p = p # (case parent p of None \<Rightarrow> [] | Some q \<Rightarrow> ancestors q)"
  by pat_completeness auto
termination
  by (relation "measure (\<lambda>p. length (components p))") (auto simp: parent_shorter)

declare ancestors.simps [simp del]

definition is_missing :: "fs \<Rightarrow> string \<Rightarrow> bool" where
  "is_missing fs p = (case fs_symlink_metadata fs p of Ok _ \<Rightarrow> False | Err e \<Rightarrow> io_kind e = NotFound)"

definition resolves_beneath :: "fs \<Rightarrow> string \<Rightarrow> string \<Rightarrow> bool" where
  "resolves_beneath fs root p \<longleftrightarrow>
     (case fs_canonicalize fs p of
        Ok (Utf8 real) \<Rightarrow> path_starts_with real root
      | _ \<Rightarrow> False)"

definition ssh_wanted :: "raw_manifest \<Rightarrow> bool" where
  "ssh_wanted raw = unwrap_or (raw_network raw = Networked) (raw_ssh_enabled (raw_ssh raw))"

definition chosen_storage :: "raw_manifest \<Rightarrow> storage" where
  "chosen_storage raw =
     \<lparr> st_tools = unwrap_or (ResourceSize DEFAULT_TOOLS_STORAGE_BYTES) (raw_st_tools (raw_storage raw)),
       st_cache = unwrap_or (ResourceSize DEFAULT_CACHE_STORAGE_BYTES) (raw_st_cache (raw_storage raw)),
       st_config = unwrap_or (ResourceSize DEFAULT_CONFIG_STORAGE_BYTES) (raw_st_config (raw_storage raw)) \<rparr>"

definition storage_within :: "storage \<Rightarrow> bool" where
  "storage_within s \<longleftrightarrow>
     list_all (\<lambda>z. unat (size_bytes z) \<le> 512 * 1024 ^ 3) [st_tools s, st_cache s, st_config s]"

definition relative_beneath :: "string \<Rightarrow> bool" where
  "relative_beneath p \<longleftrightarrow> \<not> is_absolute p \<and> ParentDir \<notin> set (components p)"

definition gascamp_ok :: "gascamp_source \<Rightarrow> bool" where
  "gascamp_ok g \<longleftrightarrow>
     (case g of Bundled \<Rightarrow> True
      | WorkspaceSource p \<Rightarrow> path_starts_with p ''/workspace/gascamp'' \<and> ParentDir \<notin> set (components p))"

text \<open>The invariant of a validated manifest.\<close>

definition manifest_wf :: "manifest \<Rightarrow> bool" where
  "manifest_wf m \<longleftrightarrow>
     m_version m = 1 \<and>
     res_cpus (m_resources m) \<noteq> Some 0 \<and>
     (ssh_enabled (m_ssh m) \<longrightarrow> m_network m = Networked) \<and>
     (\<forall>p. ssh_host_port (m_ssh m) = Some p \<longrightarrow> ssh_enabled (m_ssh m) \<and> 1024 \<le> unat p) \<and>
     storage_within (m_storage m) \<and>
     (\<forall>setup. m_setup m = Some setup \<longrightarrow> relative_beneath setup) \<and>
     gascamp_ok (m_gascamp m)"

definition gascamp_of :: "string option \<Rightarrow> gascamp_source" where
  "gascamp_of g = (case g of None \<Rightarrow> Bundled
     | Some v \<Rightarrow> if v = ''bundled'' then Bundled else WorkspaceSource v)"

definition manifest_of :: "raw_manifest \<Rightarrow> string \<Rightarrow> manifest" where
  "manifest_of raw root =
     \<lparr> m_version = raw_version raw, m_name = raw_name raw, m_network = raw_network raw,
       m_user = raw_user raw, m_gascamp = gascamp_of (raw_gascamp raw), m_setup = raw_setup raw,
       m_resources = raw_resources raw, m_storage = chosen_storage raw, m_tools = raw_tools raw,
       m_ports = raw_ports raw,
       m_ssh = \<lparr> ssh_enabled = ssh_wanted raw, ssh_host_port = raw_ssh_host_port (raw_ssh raw) \<rparr>,
       m_shell = raw_shell raw, m_canonical_root = root \<rparr>"

definition sizes_parsed :: "toml \<Rightarrow> bool" where
  "sizes_parsed toml \<longleftrightarrow>
     (\<forall>p src raw. toml p src = Ok raw \<longrightarrow>
        (\<forall>z. Some z \<in> {raw_st_tools (raw_storage raw), raw_st_cache (raw_storage raw),
                       raw_st_config (raw_storage raw), res_memory (raw_resources raw),
                       res_disk (raw_resources raw)} \<longrightarrow> (\<exists>t. p t = Ok z)))"

section \<open>Sizes are exact\<close>

lemma unit_values:
  "unat KIB = 1024" "unat MIB = 1024 ^ 2" "unat GIB = 1024 ^ 3" "unat TIB = 1024 ^ 4"
  by (simp_all add: KIB_def MIB_def GIB_def TIB_def)

lemma size_unit_iff:
  "(\<exists>w. (u, w) \<in> set size_units \<and> m = unat w) \<longleftrightarrow>
     (u, m) \<in> {(''KiB'', 1024), (''MiB'', 1024 ^ 2), (''GiB'', 1024 ^ 3), (''TiB'', 1024 ^ 4)}"
proof -
  have "(\<exists>w. (u, w) \<in> set size_units \<and> m = unat w) \<longleftrightarrow>
      (u, m) \<in> map_prod id unat ` set size_units"
    by force
  then show ?thesis
    by (simp only: size_units_def unit_values list.set image_insert image_empty map_prod_simp id_apply)
qed

lemma strip_unit_Some:
  "strip_unit value size_units = Some (number, multiplier) \<longleftrightarrow>
     (\<exists>u. (u, multiplier) \<in> set size_units \<and> value = number @ u)"
proof -
  have "\<not> suffix ''KiB'' (n @ ''MiB'')" "\<not> suffix ''KiB'' (n @ ''GiB'')"
    "\<not> suffix ''KiB'' (n @ ''TiB'')" "\<not> suffix ''MiB'' (n @ ''GiB'')"
    "\<not> suffix ''MiB'' (n @ ''TiB'')" "\<not> suffix ''GiB'' (n @ ''TiB'')" for n
    by (simp_all add: suffix_def)
  moreover have "suffix u (n @ u)" for n u :: string by (simp add: suffix_def)
  ultimately show ?thesis
    by (auto simp: size_units_def split: option.splits)
qed

lemma parse_size_Ok:
  "parse_size value = Ok z \<longleftrightarrow>
     (\<exists>digits u m. value = digits @ u \<and> (u, m) \<in> set size_units \<and> digits \<noteq> [] \<and>
        list_all is_ascii_digit digits \<and> 0 < nat_of_digits digits \<and>
        nat_of_digits digits * unat m < 2 ^ 64 \<and>
        unat (size_bytes z) = nat_of_digits digits * unat m)"
  (is "?L \<longleftrightarrow> ?R")
proof
  assume ?L
  then obtain digits m w where d: "strip_unit value size_units = Some (digits, m)"
    "digits \<noteq> []" "list_all is_ascii_digit digits" "parse_unsigned digits = Ok w" "w \<noteq> 0"
    "checked_mul w m = Some (size_bytes z)"
    by (auto simp: parse_size_def result_simps)
  then have "unat w = nat_of_digits digits"
    by (simp add: parse_unsigned_digits)
  moreover have "0 < unat w" using \<open>w \<noteq> 0\<close> by (simp add: unat_gt_0)
  ultimately show ?R
    using d by (auto simp: strip_unit_Some checked_mul_eq_Some)
next
  assume ?R
  then obtain digits u m where d: "value = digits @ u" "(u, m) \<in> set size_units" "digits \<noteq> []"
    "list_all is_ascii_digit digits" "0 < nat_of_digits digits"
    "nat_of_digits digits * unat m < 2 ^ 64" "unat (size_bytes z) = nat_of_digits digits * unat m"
    by blast
  have "1 \<le> unat m" using d(2) by (auto simp: size_units_def unit_values)
  then have "nat_of_digits digits \<le> nat_of_digits digits * unat m" by simp
  with d(6) have fits: "nat_of_digits digits < 2 ^ 64" by linarith
  define w :: u64 where "w = of_nat (nat_of_digits digits)"
  have w: "unat w = nat_of_digits digits"
    using fits by (simp add: w_def unat_of_nat)
  then have "w \<noteq> 0" using d(5) by auto
  have "parse_unsigned digits = Ok w" using d(3,4) w by (simp add: parse_unsigned_digits)
  moreover have "checked_mul w m = Some (size_bytes z)"
    using d(6,7) w by (simp add: checked_mul_eq_Some)
  moreover have "strip_unit value size_units = Some (digits, m)"
    using d(1,2) by (auto simp: strip_unit_Some)
  ultimately show ?L
    using d(3,4) \<open>w \<noteq> 0\<close> by (simp add: parse_size_def result_simps)
qed

section \<open>The containment loop examines the ancestors in order\<close>

lemma ancestors_Cons: "\<exists>rest. ancestors p = p # rest"
  by (subst ancestors.simps) blast

lemma check_resolved_Ok:
  "check_resolved fs root sp candidate = Ok () \<longleftrightarrow> resolves_beneath fs root candidate"
  by (auto simp: check_resolved_def resolves_beneath_def from_path_buf_def result_simps
      split: result.splits path_buf.splits)

lemma containment_loop_Ok:
  "containment_loop fs root sp candidate = Ok () \<longleftrightarrow>
     reached (is_missing fs) (\<lambda>p. fs_symlink_metadata fs p = Ok () \<and> resolves_beneath fs root p)
       (ancestors candidate)"
proof (induction fs root sp candidate rule: containment_loop.induct)
  case (1 fs root sp candidate)
  show ?case
  proof (cases "fs_symlink_metadata fs candidate")
    case (Ok u)
    then show ?thesis
      by (subst containment_loop.simps, subst ancestors.simps)
        (simp add: is_missing_def check_resolved_Ok)
  next
    case (Err e)
    show ?thesis
    proof (cases "io_kind e = NotFound")
      case False
      then show ?thesis
        using Err by (subst containment_loop.simps, subst ancestors.simps) (simp add: is_missing_def)
    next
      case True
      then have "is_missing fs candidate" using Err by (simp add: is_missing_def)
      then show ?thesis
        using Err True 1 by (subst containment_loop.simps, subst ancestors.simps)
          (simp split: option.split)
    qed
  qed
qed

section \<open>Validation accepts exactly the well-formed manifests\<close>

lemma validate_policy_Ok:
  "validate_policy raw = Ok enabled \<longleftrightarrow>
     enabled = ssh_wanted raw \<and> raw_version raw = 1 \<and> res_cpus (raw_resources raw) \<noteq> Some 0 \<and>
     (ssh_wanted raw \<longrightarrow> raw_network raw = Networked) \<and>
     (\<forall>p. raw_ssh_host_port (raw_ssh raw) = Some p \<longrightarrow> ssh_wanted raw \<and> 1024 \<le> unat p)"
  by (cases "raw_ssh_enabled (raw_ssh raw)"; cases "raw_ssh_host_port (raw_ssh raw)";
      cases "raw_network raw")
    (auto simp: validate_policy_def ssh_wanted_def Let_def word_less_nat_alt not_less)

lemma max_volume_value: "unat MAX_MANAGED_VOLUME_BYTES = 512 * 1024 ^ 3"
  by (simp add: MAX_MANAGED_VOLUME_BYTES_def)

lemma validate_storage_Ok:
  "validate_storage raw = Ok s \<longleftrightarrow> s = chosen_storage raw \<and> storage_within (chosen_storage raw)"
  by (auto simp: validate_storage_def chosen_storage_def storage_within_def storage_defaults_def
      result_simps loop_simps Let_def word_less_nat_alt max_volume_value not_less)

lemma relative_path_Ok:
  "validate_workspace_relative_path label p = Ok () \<longleftrightarrow> relative_beneath p"
  using RootDir_in_components [of p]
  by (auto simp: validate_workspace_relative_path_def relative_beneath_def list_ex_iff)

lemma validate_gascamp_Ok:
  "validate_gascamp g = Ok src \<longleftrightarrow> src = gascamp_of g \<and> gascamp_ok (gascamp_of g)"
  by (cases g) (auto simp: validate_gascamp_def gascamp_of_def gascamp_ok_def)

lemma validate_Ok:
  "validate fs raw root = Ok m \<longleftrightarrow>
     m = manifest_of raw root \<and> manifest_wf (manifest_of raw root) \<and>
     (\<forall>setup. raw_setup raw = Some setup \<longrightarrow> validate_setup_containment fs root setup = Ok ())"
  by (cases "raw_setup raw")
    (auto simp: validate_def result_simps validate_policy_Ok validate_storage_Ok
      validate_gascamp_Ok relative_path_Ok manifest_of_def manifest_wf_def)

lemma defaults_wf: "manifest_wf (defaults_for_root root)"
  by (simp add: manifest_wf_def defaults_for_root_def storage_defaults_def storage_within_def
      resources_empty_def gascamp_ok_def DEFAULT_TOOLS_STORAGE_BYTES_def
      DEFAULT_CACHE_STORAGE_BYTES_def DEFAULT_CONFIG_STORAGE_BYTES_def)

lemma load_cases:
  assumes "load toml fs root = Ok m"
  obtains (manifest_file) raw src r where "toml parse_size src = Ok raw" "m = manifest_of raw r"
      "manifest_wf (manifest_of raw r)"
    | (absent) r where "m = defaults_for_root r"
  using assms unfolding load_def parse_def Let_def
  by (auto simp: result_simps validate_Ok dest!: result_case_Ok split: if_splits)

lemma parse_size_positive:
  "parse_size t = Ok z \<Longrightarrow> 0 < unat (size_bytes z) \<and> 1024 dvd unat (size_bytes z)"
  by (auto simp: parse_size_Ok size_units_def unit_values)

definition sizes_positive :: "manifest \<Rightarrow> bool" where
  "sizes_positive m \<longleftrightarrow>
     list_all (\<lambda>z. 0 < unat (size_bytes z) \<and> 1024 dvd unat (size_bytes z))
       ([st_tools (m_storage m), st_cache (m_storage m), st_config (m_storage m)] @
        List.map_filter id [res_memory (m_resources m), res_disk (m_resources m)])"

lemma default_sizes_positive: "sizes_positive (defaults_for_root root)"
  by (simp add: sizes_positive_def defaults_for_root_def storage_defaults_def resources_empty_def
      DEFAULT_TOOLS_STORAGE_BYTES_def DEFAULT_CACHE_STORAGE_BYTES_def
      DEFAULT_CONFIG_STORAGE_BYTES_def map_filter_def)

lemma unwrap_or_positive:
  assumes "\<And>z. x = Some z \<Longrightarrow> P z" "P d"
  shows "P (unwrap_or d x)"
  using assms by (cases x) auto

lemma manifest_of_sizes:
  assumes "\<And>z. Some z \<in> {raw_st_tools (raw_storage raw), raw_st_cache (raw_storage raw),
                raw_st_config (raw_storage raw), res_memory (raw_resources raw),
                res_disk (raw_resources raw)} \<Longrightarrow>
              0 < unat (size_bytes z) \<and> 1024 dvd unat (size_bytes z)"
  shows "sizes_positive (manifest_of raw root)"
proof -
  let ?P = "\<lambda>z. 0 < unat (size_bytes z) \<and> 1024 dvd unat (size_bytes z)"
  have "?P (ResourceSize DEFAULT_TOOLS_STORAGE_BYTES)" "?P (ResourceSize DEFAULT_CACHE_STORAGE_BYTES)"
    "?P (ResourceSize DEFAULT_CONFIG_STORAGE_BYTES)"
    by (simp_all add: DEFAULT_TOOLS_STORAGE_BYTES_def DEFAULT_CACHE_STORAGE_BYTES_def
        DEFAULT_CONFIG_STORAGE_BYTES_def)
  then have "?P (st_tools (chosen_storage raw))" "?P (st_cache (chosen_storage raw))"
    "?P (st_config (chosen_storage raw))"
    using assms unfolding chosen_storage_def storage.simps
    by - (rule unwrap_or_positive [where P = ?P]; simp)+
  moreover have "list_all ?P (List.map_filter id [res_memory (raw_resources raw), res_disk (raw_resources raw)])"
    using assms by (auto simp: map_filter_def list_all_iff)
  ultimately show ?thesis
    by (simp add: sizes_positive_def manifest_of_def)
qed

section \<open>Properties\<close>

text \<open>C26. \<open>ResourceSize::parse\<close> is exact: it accepts precisely a non-empty string of
  decimal digits with a positive value followed by KiB, MiB, GiB or TiB whose product fits
  64 bits, and the size it returns is that product, with no wrap-around.\<close>

theorem parse_size_exact:
  "parse_size s = Ok z \<longleftrightarrow>
     (\<exists>digits u m. s = digits @ u \<and>
        (u, m) \<in> {(''KiB'', 1024), (''MiB'', 1024 ^ 2), (''GiB'', 1024 ^ 3), (''TiB'', 1024 ^ 4)} \<and>
        digits \<noteq> [] \<and> list_all is_ascii_digit digits \<and> 0 < nat_of_digits digits \<and>
        nat_of_digits digits * m < 2 ^ 64 \<and>
        unat (size_bytes z) = nat_of_digits digits * m)"
  unfolding parse_size_Ok size_unit_iff [symmetric] by blast


text \<open>C19. The containment check of the setup script returns on every file system, and it
  succeeds exactly when the nearest existing ancestor of the script (symbolic links counted as
  existing) resolves to a path beneath the root.\<close>

theorem setup_containment_exact:
  "validate_setup_containment fs root script = Ok () \<longleftrightarrow>
     (\<exists>missing existing rest.
        ancestors (path_join root script) = missing @ existing # rest \<and>
        list_all (is_missing fs) missing \<and>
        fs_symlink_metadata fs existing = Ok () \<and> resolves_beneath fs root existing)"
  by (simp add: validate_setup_containment_def containment_loop_Ok reached_iff)

text \<open>C27. Every manifest that \<open>Manifest::load\<close> returns, from a file or from the
  defaults, satisfies the manifest invariant, and every size in it is a positive multiple of
  1024, given that the TOML deserialiser reads sizes with the deserialiser it is handed.\<close>

theorem load_sound:
  assumes "sizes_parsed toml" and "load toml fs root = Ok m"
  shows "manifest_wf m \<and> sizes_positive m"
  using assms(2)
proof (cases rule: load_cases)
  case (manifest_file raw src r)
  have "sizes_positive (manifest_of raw r)"
  proof (rule manifest_of_sizes)
    fix z
    assume "Some z \<in> {raw_st_tools (raw_storage raw), raw_st_cache (raw_storage raw),
      raw_st_config (raw_storage raw), res_memory (raw_resources raw), res_disk (raw_resources raw)}"
    then obtain t where "parse_size t = Ok z"
      using assms(1) manifest_file(1) unfolding sizes_parsed_def by blast
    then show "0 < unat (size_bytes z) \<and> 1024 dvd unat (size_bytes z)"
      by (rule parse_size_positive)
  qed
  then show ?thesis using manifest_file by simp
qed (simp add: defaults_wf default_sizes_positive)

definition example_raw :: "resource_size \<Rightarrow> raw_manifest" where
  "example_raw z =
     \<lparr> raw_version = 1, raw_name = Some ''demo'', raw_network = Networked, raw_user = Workspace,
       raw_gascamp = None, raw_setup = None, raw_resources = resources_empty,
       raw_storage = \<lparr> raw_st_tools = Some z, raw_st_cache = None, raw_st_config = None \<rparr>,
       raw_tools = [], raw_ports = [],
       raw_ssh = \<lparr> raw_ssh_enabled = None, raw_ssh_host_port = Some 2222 \<rparr>, raw_shell = Starship \<rparr>"

definition example_toml :: toml where
  "example_toml p src = map_ok example_raw (p src)"

definition example_fs :: fs where
  "example_fs =
     \<lparr> fs_canonicalize = (\<lambda>p. Ok (Utf8 p)), fs_is_dir = (\<lambda>_. True),
       fs_read_to_string = (\<lambda>_. Ok ''20GiB''), fs_symlink_metadata = (\<lambda>_. Ok ()) \<rparr>"

theorem load_sound_witness:
  "\<exists>m. load example_toml example_fs ''/w'' = Ok m \<and> manifest_wf m \<and> sizes_positive m \<and>
     size_bytes (st_tools (m_storage m)) = 20 * 1024 ^ 3"
proof -
  have parsed: "sizes_parsed example_toml"
    by (auto simp: sizes_parsed_def example_toml_def example_raw_def resources_empty_def result_simps)
  let ?raw = "example_raw (ResourceSize (20 * 1024 ^ 3))"
  have "parse_size ''20GiB'' = Ok (ResourceSize (20 * 1024 ^ 3))"
    unfolding parse_size_Ok
    by (rule exI [of _ "''20''"], rule exI [of _ "''GiB''"], rule exI [of _ GIB])
      (simp add: size_units_def ascii_simps nat_of_digits_def digit_value_def unit_values)
  moreover have "storage_within (chosen_storage ?raw)"
    by (simp add: storage_within_def chosen_storage_def example_raw_def
        DEFAULT_CACHE_STORAGE_BYTES_def DEFAULT_CONFIG_STORAGE_BYTES_def)
  then have "manifest_wf (manifest_of ?raw ''/w'')"
    by (simp add: manifest_of_def manifest_wf_def example_raw_def ssh_wanted_def
        resources_empty_def gascamp_of_def gascamp_ok_def)
  then have "validate example_fs ?raw ''/w'' = Ok (manifest_of ?raw ''/w'')"
    by (simp add: validate_Ok) (simp add: example_raw_def)
  ultimately have loaded: "load example_toml example_fs ''/w'' = Ok (manifest_of ?raw ''/w'')"
    by (simp add: load_def parse_def example_toml_def example_fs_def from_path_buf_def)
  moreover have "size_bytes (st_tools (m_storage (manifest_of ?raw ''/w''))) = 20 * 1024 ^ 3"
    by (simp add: manifest_of_def chosen_storage_def example_raw_def)
  ultimately show ?thesis
    using load_sound [OF parsed loaded] by blast
qed

end
