(* ===== verification/Sandbox_Spec.thy ===== *)
theory Sandbox_Spec
  imports Sandbox_Id Manifest
begin

text \<open>
  The specification of a sandbox (\<open>gascan-core/src/sandbox.rs\<close>): the identity, the
  canonical root, the manifest and the single bind mount.  \<open>sandbox_from_root\<close> is
  \<open>SandboxSpec::from_root\<close> over the file system parameter.
\<close>

definition WORKSPACE_TARGET :: string where
  "WORKSPACE_TARGET = ''/workspace''"

record bind_mount =
  mount_source :: string
  mount_target :: string
  mount_writable :: bool

record sandbox_spec =
  spec_id :: sandbox_id
  spec_root :: string
  spec_manifest :: manifest
  spec_mounts :: "bind_mount list"

datatype sandbox_error =
    SandboxRootNotDirectory string
  | SandboxNonUtf8Path string
  | SandboxIo string io_error
  | InvalidManifest manifest_error

definition sandbox_from_root ::
  "(string \<Rightarrow> u8 list) \<Rightarrow> fs \<Rightarrow> string \<Rightarrow> string \<Rightarrow> manifest \<Rightarrow> (sandbox_spec, sandbox_error) result" where
  "sandbox_from_root sha256 fs name root m =
     and_then (map_err (SandboxIo root) (fs_canonicalize fs root)) (\<lambda>canonical.
     if \<not> fs_is_dir fs canonical then Err (SandboxRootNotDirectory root)
     else and_then (case canonical of Utf8 s \<Rightarrow> Ok s | NonUtf8 s \<Rightarrow> Err (SandboxNonUtf8Path s))
       (\<lambda>canonical_root.
         and_then (map_err InvalidManifest (validate_for_root fs m canonical_root)) (\<lambda>_.
         Ok \<lparr> spec_id = from_root sha256 name canonical_root, spec_root = canonical_root,
              spec_manifest = m,
              spec_mounts = [\<lparr> mount_source = canonical_root, mount_target = WORKSPACE_TARGET,
                               mount_writable = True \<rparr>] \<rparr>)))"

text \<open>The invariant of a specification.\<close>

definition spec_wf :: "sandbox_spec \<Rightarrow> bool" where
  "spec_wf spec \<longleftrightarrow>
     validate_sandbox_id (as_str (spec_id spec)) = Returned (Ok ()) \<and>
     spec_mounts spec =
       [\<lparr> mount_source = spec_root spec, mount_target = WORKSPACE_TARGET, mount_writable = True \<rparr>] \<and>
     path_eq (m_canonical_root (spec_manifest spec)) (spec_root spec)"

lemma sandbox_from_root_Ok:
  assumes "sandbox_from_root sha256 fs name root m = Ok spec" "\<And>r. length (sha256 r) = 32"
  shows "spec_wf spec" and "spec_manifest spec = m"
proof -
  obtain c where "fs_canonicalize fs root = Ok c"
    using assms(1) by (auto simp: sandbox_from_root_def result_simps)
  with assms show "spec_wf spec" "spec_manifest spec = m"
    by (cases c; auto simp: sandbox_from_root_def result_simps spec_wf_def from_root_valid
        validate_for_root_def split: if_splits)+
qed

end
