(* ===== verification/Rust_Text.thy ===== *)
theory Rust_Text
  imports Utf8_Path
begin

text \<open>
  The part of Rust's text library that the SSH and diagnostic code uses: UTF-8 validation and
  lossy decoding, lines, white-space fields, searching and replacing.
\<close>

section \<open>UTF-8\<close>

text \<open>The bytes that may follow a lead byte: their number, and the range of the first of them.\<close>

definition utf8_second :: "nat \<Rightarrow> (nat \<times> nat \<times> nat) option" where
  "utf8_second b =
     (if 194 \<le> b \<and> b \<le> 223 then Some (1, 128, 191)
      else if b = 224 then Some (2, 160, 191)
      else if 225 \<le> b \<and> b \<le> 236 \<or> b = 238 \<or> b = 239 then Some (2, 128, 191)
      else if b = 237 then Some (2, 128, 159)
      else if b = 240 then Some (3, 144, 191)
      else if 241 \<le> b \<and> b \<le> 243 then Some (3, 128, 191)
      else if b = 244 then Some (3, 128, 143)
      else None)"

definition in_range :: "nat \<Rightarrow> nat \<Rightarrow> char \<Rightarrow> bool" where
  "in_range lo hi c \<longleftrightarrow> lo \<le> byte c \<and> byte c \<le> hi"

text \<open>How many bytes after the lead byte belong to the well-formed prefix, out of how many.\<close>

definition utf8_follow :: "nat \<Rightarrow> string \<Rightarrow> (nat \<times> nat) option" where
  "utf8_follow b rest =
     (case utf8_second b of
        None \<Rightarrow> None
      | Some (n, lo, hi) \<Rightarrow>
          (case rest of
             [] \<Rightarrow> Some (0, n)
           | c # cs \<Rightarrow>
               if in_range lo hi c
               then Some (Suc (length (takeWhile (in_range 128 191) (take (n - 1) cs))), n)
               else Some (0, n)))"

text \<open>The first character of a byte string: whether it is well formed, and its bytes.\<close>

definition utf8_first :: "char \<Rightarrow> string \<Rightarrow> bool \<times> nat" where
  "utf8_first c cs =
     (if byte c < 128 then (True, 1)
      else case utf8_follow (byte c) cs of
             None \<Rightarrow> (False, 1)
           | Some (got, n) \<Rightarrow> (got = n, Suc got))"

lemma utf8_first_pos: "0 < snd (utf8_first c cs)"
  by (simp add: utf8_first_def split: option.split prod.split)

lemma utf8_first_shorter: "length (drop (snd (utf8_first c cs)) (c # cs)) < length (c # cs)"
  using utf8_first_pos [of c cs] by (cases "snd (utf8_first c cs)") (simp_all add: less_Suc_eq_le)

function utf8_valid :: "string \<Rightarrow> bool" where
  "utf8_valid [] = True"
| "utf8_valid (c # cs) =
     (fst (utf8_first c cs) \<and> utf8_valid (drop (snd (utf8_first c cs)) (c # cs)))"
  by pat_completeness auto
termination
  by (relation "measure length") (simp_all only: in_measure utf8_first_shorter wf_measure)

text \<open>\<open>String::from_utf8_lossy\<close>: every maximal ill-formed part becomes U+FFFD.\<close>

definition replacement_character :: string where
  "replacement_character = [CHR 0xEF, CHR 0xBF, CHR 0xBD]"

function from_utf8_lossy :: "string \<Rightarrow> string" where
  "from_utf8_lossy [] = []"
| "from_utf8_lossy (c # cs) =
     (let (ok, n) = utf8_first c cs in
      (if ok then take n (c # cs) else replacement_character) @ from_utf8_lossy (drop n (c # cs)))"
  by pat_completeness auto
termination
proof (relation "measure length", goal_cases)
  case (2 c cs x ok n)
  then have "snd (utf8_first c cs) = n" by (metis snd_conv)
  then show ?case using utf8_first_shorter [of c cs] by (simp only: in_measure)
qed simp

declare utf8_valid.simps(2) [simp del] from_utf8_lossy.simps(2) [simp del]

lemma utf8_first_ascii: "is_ascii_byte c \<Longrightarrow> utf8_first c cs = (True, 1)"
  by (simp add: utf8_first_def is_ascii_byte_def)

lemma utf8_valid_ascii: "list_all is_ascii_byte s \<Longrightarrow> utf8_valid s"
  by (induction s) (simp_all add: utf8_valid.simps utf8_first_ascii)

lemma from_utf8_lossy_valid: "utf8_valid s \<Longrightarrow> from_utf8_lossy s = s"
proof (induction s rule: utf8_valid.induct)
  case (2 c cs)
  then have "fst (utf8_first c cs)" "utf8_valid (drop (snd (utf8_first c cs)) (c # cs))"
    by (simp_all add: utf8_valid.simps(2))
  with 2 show ?case
    by (simp only: from_utf8_lossy.simps(2) Let_def case_prod_beta if_True append_take_drop_id)
qed simp

section \<open>Lines and fields\<close>

definition strip_cr :: "string \<Rightarrow> string" where
  "strip_cr line = (if line \<noteq> [] \<and> last line = CHR 0x0D then butlast line else line)"

definition lines :: "string \<Rightarrow> string list" where
  "lines s =
     (let ps = split_on (CHR 0x0A) s in
      map strip_cr (butlast ps) @ (if last ps = [] then [] else [last ps]))"

definition split_ascii_whitespace :: "string \<Rightarrow> string list" where
  "split_ascii_whitespace s =
     filter (\<lambda>w. w \<noteq> [])
       (split_on CHR '' '' (map (\<lambda>c. if is_ascii_whitespace c then CHR '' '' else c) s))"

lemma lines_Nil [simp]: "lines [] = []"
  by (simp add: lines_def)

lemma lines_append:
  assumes "CHR 0x0A \<notin> set l" "l = [] \<or> last l \<noteq> CHR 0x0D"
  shows "lines (l @ CHR 0x0A # s) = l # lines s"
  using assms by (auto simp: lines_def Let_def split_on_append strip_cr_def)

section \<open>Searching\<close>

fun split_once :: "string \<Rightarrow> string \<Rightarrow> (string \<times> string) option" where
  "split_once pat [] = (if pat = [] then Some ([], []) else None)"
| "split_once pat (c # s) =
     (if prefix pat (c # s) then Some ([], drop (length pat) (c # s))
      else map_option (apfst (Cons c)) (split_once pat s))"

fun str_contains :: "string \<Rightarrow> string \<Rightarrow> bool" where
  "str_contains pat [] = (pat = [])"
| "str_contains pat (c # s) = (prefix pat (c # s) \<or> str_contains pat s)"

text \<open>\<open>str::replace\<close> with a pattern of at least one byte.\<close>

function str_replace :: "string \<Rightarrow> string \<Rightarrow> string \<Rightarrow> string" where
  "str_replace old new s =
     (if old = [] \<or> s = [] then s
      else if prefix old s then new @ str_replace old new (drop (length old) s)
      else hd s # str_replace old new (tl s))"
  by pat_completeness auto
termination
  by (relation "measure (\<lambda>(_, _, s). length s)") (auto simp: length_tl)

declare str_replace.simps [simp del]

lemma split_once_Some: "split_once pat s = Some (a, b) \<Longrightarrow> s = a @ pat @ b"
proof (induction s arbitrary: a)
  case (Cons c s)
  then show ?case by (auto simp: prefix_def split: if_splits)
qed (auto split: if_splits)

end
