(* ===== verification/Runtime.thy ===== *)
theory Runtime
  imports Sandbox_Id Btree_Map Rust_Text
begin

text \<open>
  The runtime interface (\<open>gascan-core/src/runtime.rs\<close>): capabilities, create requests,
  resource identities and their ownership, immutable image references, and the evidence types
  (\<open>CreateOutcome\<close>, \<open>CreateFailure\<close>, \<open>RetainedResources\<close>,
  \<open>RecreateRequest\<close>, \<open>RemoveRequest\<close>) whose constructors validate what a backend
  reports.  A \<open>RemovalProof\<close>, which the source compares by pointer, is a token of
  type \<open>nat\<close> that is fresh for each observation.  \<open>BTreeSet\<close>s that are only
  tested for membership are lists without repetitions.
\<close>

section \<open>Capabilities and labels\<close>

record runtime_version =
  v_major :: u64
  v_minor :: u64
  v_patch :: u64

datatype network_isolation = Proven | Unsupported | Unverified

record runtime_capabilities =
  cap_version :: runtime_version
  cap_bind_mounts :: bool
  cap_named_volumes :: bool
  cap_tty :: bool
  cap_signals :: bool
  cap_loopback_publish :: bool
  cap_resource_limits :: bool
  cap_offline :: network_isolation

record ownership_metadata =
  om_managed_by :: string
  om_sandbox_id :: sandbox_id

definition MANAGED_BY :: string where "MANAGED_BY = ''gascan''"
definition MANAGED_BY_LABEL :: string where "MANAGED_BY_LABEL = ''dev.gascan.managed-by''"
definition SANDBOX_ID_LABEL :: string where "SANDBOX_ID_LABEL = ''dev.gascan.sandbox-id''"

datatype sandbox_label = LabelAbsent | LabelUnparseable | LabelParsed sandbox_id

datatype resource_kind = Container | Volume | Network

datatype resource_ownership = GasCanOwned | Foreign | Mismatched

definition classify_resource_ownership ::
  "resource_kind \<Rightarrow> string \<Rightarrow> string option \<Rightarrow> sandbox_label \<Rightarrow> resource_ownership" where
  "classify_resource_ownership kind name managed_by sandbox =
     (case (managed_by, sandbox) of
        (None, LabelAbsent) \<Rightarrow> Foreign
      | (Some manager, LabelParsed i) \<Rightarrow>
          if manager = MANAGED_BY then
            (if kind = Container \<and> as_str i \<noteq> name then Mismatched else GasCanOwned)
          else Foreign
      | (Some manager, _) \<Rightarrow> if manager \<noteq> MANAGED_BY then Foreign else Mismatched
      | _ \<Rightarrow> Mismatched)"

section \<open>Requests\<close>

datatype ip_addr = IpV4 u8 u8 u8 u8 | IpV6 "128 word"

definition LOCALHOST :: ip_addr where "LOCALHOST = IpV4 127 0 0 1"

primrec is_loopback :: "ip_addr \<Rightarrow> bool" where
  "is_loopback (IpV4 a b c d) = (a = 127)"
| "is_loopback (IpV6 w) = (w = 1)"

record runtime_bind_mount =
  bm_source :: string
  bm_target :: string
  bm_writable :: bool

record runtime_volume =
  vol_name :: string
  vol_target :: string
  vol_writable :: bool
  vol_capacity_bytes :: u64
  vol_ownership :: ownership_metadata

record runtime_port =
  rp_host_address :: ip_addr
  rp_host_port :: u16
  rp_guest_port :: u16

record runtime_resource_limits =
  lim_cpus :: "u16 option"
  lim_memory_bytes :: "u64 option"
  lim_disk_bytes :: "u64 option"
  lim_process_count :: "u32 option"

datatype runtime_network = RuntimeNetworked string | RuntimeOffline

primrec managed_name :: "runtime_network \<Rightarrow> string option" where
  "managed_name (RuntimeNetworked name) = Some name"
| "managed_name RuntimeOffline = None"

datatype runtime_user = RuntimeWorkspace | RuntimeRoot

record create_request =
  cr_id :: sandbox_id
  cr_image :: string
  cr_bind_mounts :: "runtime_bind_mount list"
  cr_volumes :: "runtime_volume list"
  cr_ports :: "runtime_port list"
  cr_environment :: "(string, string) btree_map"
  cr_resources :: runtime_resource_limits
  cr_network :: runtime_network
  cr_user :: runtime_user
  cr_init :: bool
  cr_ownership :: ownership_metadata

datatype container_state = Creating | Running | Stopped

record runtime_sandbox =
  rs_id :: sandbox_id
  rs_image :: string
  rs_state :: container_state
  rs_ownership :: ownership_metadata
  rs_ports :: "runtime_port list"

record exec_request =
  ex_id :: sandbox_id
  ex_argv :: "string list"
  ex_stdin :: string
  ex_environment :: "(string, string) btree_map"
  ex_tty :: bool

datatype exec_output = Stdout string | Stderr string | Exit int int

definition from_output :: "string \<Rightarrow> string \<Rightarrow> int \<Rightarrow> exec_output list" where
  "from_output out err exit_code = [Stdout out, Stderr err, Exit exit_code 0]"

section \<open>Errors\<close>

datatype runtime_error =
    CommandIo string string
  | CommandFailed string "int option" string
  | InvalidOutput string string
  | HelperError string string string
  | RuntimeUnsupportedVersion runtime_version string
  | UnsupportedCapability string
  | OwnershipMismatch string
  | ForeignResourceRefused string
  | InvalidResourceIdentity string
  | Conflict string string
  | ResourceNotFound string
  | InvalidState string string
  | UnknownActualState string string
  | InjectedFailure string

primrec runtime_error_code :: "runtime_error \<Rightarrow> string" where
  "runtime_error_code (CommandIo _ _) = ''command_io''"
| "runtime_error_code (CommandFailed _ _ _) = ''command_failed''"
| "runtime_error_code (InvalidOutput _ _) = ''invalid_output''"
| "runtime_error_code (HelperError _ _ _) = ''helper_error''"
| "runtime_error_code (RuntimeUnsupportedVersion _ _) = ''unsupported_version''"
| "runtime_error_code (UnsupportedCapability _) = ''unsupported_capability''"
| "runtime_error_code (OwnershipMismatch _) = ''ownership_mismatch''"
| "runtime_error_code (ForeignResourceRefused _) = ''foreign_resource_refused''"
| "runtime_error_code (InvalidResourceIdentity _) = ''invalid_resource_identity''"
| "runtime_error_code (Conflict _ _) = ''resource_conflict''"
| "runtime_error_code (ResourceNotFound _) = ''not_found''"
| "runtime_error_code (InvalidState _ _) = ''invalid_state''"
| "runtime_error_code (UnknownActualState _ _) = ''unknown_actual_state''"
| "runtime_error_code (InjectedFailure _) = ''injected_failure''"

section \<open>Resource identities\<close>

datatype resource_identity = ResourceIdentity (ri_kind: resource_kind) (ri_name: string)

text \<open>The derived order: by kind in declaration order, then by name.\<close>

primrec kind_rank :: "resource_kind \<Rightarrow> nat" where
  "kind_rank Container = 0"
| "kind_rank Volume = 1"
| "kind_rank Network = 2"

lemma kind_rank_inject [simp]: "kind_rank a = kind_rank b \<longleftrightarrow> a = b"
  by (cases a; cases b) simp_all

instantiation resource_kind :: linorder
begin

definition less_eq_resource_kind :: "resource_kind \<Rightarrow> resource_kind \<Rightarrow> bool" where
  "less_eq_resource_kind a b \<longleftrightarrow> kind_rank a \<le> kind_rank b"

definition less_resource_kind :: "resource_kind \<Rightarrow> resource_kind \<Rightarrow> bool" where
  "less_resource_kind a b \<longleftrightarrow> kind_rank a < kind_rank b"

instance
  by standard (auto simp: less_eq_resource_kind_def less_resource_kind_def
      dest!: antisym [where 'a = nat])

end

instantiation resource_identity :: linorder
begin

definition less_resource_identity :: "resource_identity \<Rightarrow> resource_identity \<Rightarrow> bool" where
  "less_resource_identity a b \<longleftrightarrow>
     ri_kind a < ri_kind b \<or> ri_kind a = ri_kind b \<and> ri_name a < ri_name b"

definition less_eq_resource_identity :: "resource_identity \<Rightarrow> resource_identity \<Rightarrow> bool" where
  "less_eq_resource_identity a b \<longleftrightarrow> a < b \<or> a = b"

instance
proof
  fix x y :: resource_identity
  show "x \<le> y \<or> y \<le> x"
    by (cases x; cases y)
      (auto simp: less_eq_resource_identity_def less_resource_identity_def neq_iff)
qed (auto simp: less_eq_resource_identity_def less_resource_identity_def intro: less_trans)

end

definition new_identity :: "resource_kind \<Rightarrow> string \<Rightarrow> (resource_identity, runtime_error) result" where
  "new_identity kind name =
     (if trim_is_empty name \<or> list_ex is_control (chars name)
      then Err (InvalidResourceIdentity name)
      else Ok (ResourceIdentity kind name))"

type_synonym removal_proof = nat

record runtime_resource =
  rr_identity :: resource_identity
  rr_sandbox_id :: "sandbox_id option"
  rr_ownership :: resource_ownership
  rr_proof :: removal_proof

abbreviation rr_name :: "runtime_resource \<Rightarrow> string" where
  "rr_name r \<equiv> ri_name (rr_identity r)"

abbreviation rr_kind :: "runtime_resource \<Rightarrow> resource_kind" where
  "rr_kind r \<equiv> ri_kind (rr_identity r)"

definition discovered ::
  "removal_proof \<Rightarrow> resource_identity \<Rightarrow> sandbox_id option \<Rightarrow> resource_ownership \<Rightarrow> runtime_resource" where
  "discovered proof_token identity sandbox ownership =
     \<lparr> rr_identity = identity, rr_sandbox_id = sandbox, rr_ownership = ownership,
       rr_proof = proof_token \<rparr>"

section \<open>Immutable image references\<close>

fun rfind :: "char \<Rightarrow> string \<Rightarrow> nat option" where
  "rfind c [] = None"
| "rfind c (d # s) = (case rfind c s of Some i \<Rightarrow> Some (Suc i) | None \<Rightarrow> if d = c then Some 0 else None)"

definition tag_separator :: "string \<Rightarrow> nat option" where
  "tag_separator name =
     (case rfind CHR '':'' name of
        None \<Rightarrow> None
      | Some separator \<Rightarrow>
          (case rfind CHR ''/'' name of
             None \<Rightarrow> Some separator
           | Some slash \<Rightarrow> if separator > slash then Some separator else None))"

definition valid_tag :: "string \<Rightarrow> bool" where
  "valid_tag tag \<longleftrightarrow>
     \<not> (tag = [] \<or> length tag > 128 \<or>
        \<not> (is_ascii_alphanumeric (hd tag) \<or> hd tag = CHR ''_'') \<or>
        \<not> list_all (\<lambda>b. is_ascii_alphanumeric b \<or> b \<in> set ''_.-'') tag)"

definition valid_repository_component :: "string \<Rightarrow> bool \<Rightarrow> bool" where
  "valid_repository_component component allow_port =
     (let (component, port) =
        (if allow_port then
           (case split_once '':'' component of
              None \<Rightarrow> (component, None)
            | Some (host, port) \<Rightarrow> (host, Some port))
         else (component, None))
      in if (case port of None \<Rightarrow> False | Some port \<Rightarrow> port = [] \<or> \<not> list_all is_ascii_digit port)
         then False
         else component \<noteq> [] \<and>
           (is_ascii_lowercase (hd component) \<or> is_ascii_digit (hd component)) \<and>
           (is_ascii_lowercase (last component) \<or> is_ascii_digit (last component)) \<and>
           list_all (\<lambda>b. is_ascii_lowercase b \<or> is_ascii_digit b \<or> b \<in> set ''._-'') component)"

definition valid_image_name :: "string \<Rightarrow> bool" where
  "valid_image_name name =
     (if name = [] \<or> \<not> list_all is_ascii_byte name \<or> list_ex is_ascii_whitespace name then False
      else
        let (repository, tag) =
          (case tag_separator name of
             None \<Rightarrow> (name, None)
           | Some separator \<Rightarrow> (take separator name, Some (drop (separator + 1) name)))
        in if (case tag of None \<Rightarrow> False | Some tag \<Rightarrow> \<not> valid_tag tag) then False
           else list_all (\<lambda>(index, component). valid_repository_component component (index = 0))
                  (List.enumerate 0 (split_on CHR ''/'' repository)))"

definition immutable_image_reference :: "string \<Rightarrow> bool" where
  "immutable_image_reference img =
     (case split_once ''@sha256:'' img of
        None \<Rightarrow> False
      | Some (name, digest) \<Rightarrow>
          valid_image_name name \<and> length digest = 64 \<and> list_all is_lower_hex digest)"

definition immutable_image_identity :: "string \<Rightarrow> (string \<times> string) option" where
  "immutable_image_identity img =
     (if \<not> immutable_image_reference img then None
      else case split_once ''@sha256:'' img of
        None \<Rightarrow> None
      | Some (name, digest) \<Rightarrow>
          let repository =
            (case tag_separator name of None \<Rightarrow> name | Some separator \<Rightarrow> take separator name)
          in Some (repository, digest))"

definition same_immutable_image :: "string \<Rightarrow> string \<Rightarrow> bool" where
  "same_immutable_image left right =
     (case immutable_image_identity left of
        None \<Rightarrow> False
      | Some left \<Rightarrow>
          (case immutable_image_identity right of
             None \<Rightarrow> False
           | Some right \<Rightarrow> left = right))"

section \<open>Evidence\<close>

definition container_identity :: "create_request \<Rightarrow> resource_identity" where
  "container_identity req = ResourceIdentity Container (as_str (cr_id req))"

definition volume_identities :: "create_request \<Rightarrow> resource_identity list" where
  "volume_identities req = map (\<lambda>v. ResourceIdentity Volume (vol_name v)) (cr_volumes req)"

definition allowed_network :: "create_request \<Rightarrow> resource_identity option" where
  "allowed_network req = map_option (ResourceIdentity Network) (managed_name (cr_network req))"

definition checked_volumes :: "create_request \<Rightarrow> (resource_identity list, runtime_error) result" where
  "checked_volumes req =
     map_ok remdups (collect_ok (\<lambda>v. new_identity Volume (vol_name v)) (cr_volumes req))"

definition note_owned ::
  "(resource_identity \<Rightarrow> bool) \<Rightarrow> sandbox_id \<Rightarrow> runtime_resource \<Rightarrow> resource_identity list \<Rightarrow>
     (resource_identity list, runtime_error) result" where
  "note_owned allowed i resource identities =
     (if \<not> allowed (rr_identity resource) \<or> rr_ownership resource \<noteq> GasCanOwned \<or>
         rr_sandbox_id resource \<noteq> Some i \<or> rr_identity resource \<in> set identities
      then Err (OwnershipMismatch (rr_name resource))
      else Ok (rr_identity resource # identities))"

definition validate_retained_resources ::
  "create_request \<Rightarrow> runtime_resource list \<Rightarrow> (unit, runtime_error) result" where
  "validate_retained_resources req resources =
     and_then (checked_volumes req) (\<lambda>expected_volumes.
     and_then
       (fold_ok
          (note_owned (\<lambda>i. i \<in> set expected_volumes \<or> allowed_network req = Some i) (cr_id req))
          resources []) (\<lambda>identities.
     let expected_count =
       length expected_volumes + (if allowed_network req \<noteq> None then 1 else 0)
     in if length identities \<noteq> expected_count then
          Err (InvalidState (as_str (cr_id req))
            ''retained resources do not exactly match the requested topology'')
        else Ok ()))"

definition validate_recreated_container ::
  "create_request \<Rightarrow> runtime_resource list \<Rightarrow> (unit, runtime_error) result" where
  "validate_recreated_container req created =
     and_then (new_identity Container (as_str (cr_id req))) (\<lambda>expected.
     case created of
       [container] \<Rightarrow>
         if rr_identity container \<noteq> expected \<or> rr_ownership container \<noteq> GasCanOwned \<or>
            rr_sandbox_id container \<noteq> Some (cr_id req)
         then Err (OwnershipMismatch (rr_name container))
         else Ok ()
     | _ \<Rightarrow> Err (InvalidState (as_str (cr_id req))
              ''recreate outcome must contain exactly the requested container''))"

definition validate_created_resources ::
  "create_request \<Rightarrow> runtime_resource list \<Rightarrow> bool \<Rightarrow> (unit, runtime_error) result" where
  "validate_created_resources req created require_container =
     and_then (new_identity Container (as_str (cr_id req))) (\<lambda>container.
     and_then (checked_volumes req) (\<lambda>allowed_volumes.
     and_then
       (fold_ok
          (note_owned (\<lambda>i. i = container \<or> i \<in> set allowed_volumes \<or> allowed_network req = Some i)
             (cr_id req))
          created []) (\<lambda>identities.
     if require_container \<and> container \<notin> set identities then
       Err (InvalidState (as_str (cr_id req))
         ''create outcome does not contain the requested container'')
     else if require_container \<and>
         (case allowed_network req of None \<Rightarrow> False | Some network \<Rightarrow> network \<notin> set identities) then
       Err (InvalidState (as_str (cr_id req))
         ''create outcome does not contain the requested managed network'')
     else Ok ())))"

datatype retained_resources = RetainedResources (retained_list: "runtime_resource list")

definition new_retained ::
  "create_request \<Rightarrow> runtime_resource list \<Rightarrow> (retained_resources, runtime_error) result" where
  "new_retained req resources =
     and_then (validate_retained_resources req resources) (\<lambda>_. Ok (RetainedResources resources))"

record recreate_request =
  rc_create :: create_request
  rc_retained :: retained_resources

definition new_recreate ::
  "create_request \<Rightarrow> retained_resources \<Rightarrow> (recreate_request, runtime_error) result" where
  "new_recreate create retained =
     and_then (validate_retained_resources create (retained_list retained))
       (\<lambda>_. Ok \<lparr> rc_create = create, rc_retained = retained \<rparr>)"

definition recreate_for_image ::
  "create_request \<Rightarrow> string \<Rightarrow> retained_resources \<Rightarrow> (recreate_request, runtime_error) result" where
  "recreate_for_image create img retained =
     (if \<not> immutable_image_reference img then
        Err (InvalidState ''recreate image'' ''image must be a nonempty named sha256 digest reference'')
      else new_recreate (create \<lparr> cr_image := img \<rparr>) retained)"

datatype create_outcome = CreateOutcome (outcome_created: "runtime_resource list")

definition new_outcome ::
  "create_request \<Rightarrow> runtime_resource list \<Rightarrow> (create_outcome, runtime_error) result" where
  "new_outcome req created =
     and_then (validate_created_resources req created True) (\<lambda>_. Ok (CreateOutcome created))"

definition outcome_for_recreate ::
  "recreate_request \<Rightarrow> runtime_resource list \<Rightarrow> (create_outcome, runtime_error) result" where
  "outcome_for_recreate req created =
     and_then (validate_recreated_container (rc_create req) created) (\<lambda>_. Ok (CreateOutcome created))"

datatype create_failure =
  CreateFailure (failure_created: "runtime_resource list") (failure_source: runtime_error)

definition new_failure ::
  "create_request \<Rightarrow> runtime_resource list \<Rightarrow> runtime_error \<Rightarrow> (create_failure, runtime_error) result" where
  "new_failure req created source =
     and_then (validate_created_resources req created False) (\<lambda>_. Ok (CreateFailure created source))"

definition failure_from_source :: "runtime_error \<Rightarrow> create_failure" where
  "failure_from_source source = CreateFailure [] source"

fun keep_evidence ::
  "(runtime_resource \<Rightarrow> bool) \<Rightarrow> resource_identity list \<Rightarrow> runtime_resource list \<Rightarrow> runtime_resource list" where
  "keep_evidence valid identities [] = []"
| "keep_evidence valid identities (r # rs) =
     (if valid r \<and> rr_identity r \<notin> set identities
      then r # keep_evidence valid (rr_identity r # identities) rs
      else keep_evidence valid identities rs)"

definition owned_evidence :: "create_request \<Rightarrow> runtime_resource \<Rightarrow> bool" where
  "owned_evidence req resource \<longleftrightarrow>
     (rr_identity resource = container_identity req \<or>
      rr_identity resource \<in> set (volume_identities req) \<or>
      allowed_network req = Some (rr_identity resource)) \<and>
     rr_ownership resource = GasCanOwned \<and> rr_sandbox_id resource = Some (cr_id req)"

definition from_created_evidence ::
  "create_request \<Rightarrow> runtime_resource list \<Rightarrow> runtime_error \<Rightarrow> create_failure" where
  "from_created_evidence req created source =
     CreateFailure (keep_evidence (owned_evidence req) [] created) source"

datatype remove_request = RemoveRequest (remove_list: "runtime_resource list")

definition remove_from_resources ::
  "runtime_resource list \<Rightarrow> (remove_request, runtime_error) result" where
  "remove_from_resources resources =
     (if resources = [] then
        Err (InvalidState ''remove request'' ''at least one exact resource is required'')
      else if list_ex (\<lambda>r. rr_ownership r \<noteq> GasCanOwned) resources then
        Err (OwnershipMismatch ''remove request'')
      else Ok (RemoveRequest resources))"

datatype runtime_call =
    CallCapabilities
  | CallInspect sandbox_id
  | CallCreate create_request
  | CallPrepareImage string
  | CallCreateContainer recreate_request
  | CallStart sandbox_id
  | CallStop sandbox_id
  | CallRemove remove_request
  | CallExec exec_request
  | CallLogs sandbox_id
  | CallListResources

datatype runtime_outcome =
    OutcomeCreated create_outcome
  | OutcomeRemoved remove_request
  | OutcomeFailure string string

section \<open>The loops over evidence\<close>

definition valid_resource_name :: "string \<Rightarrow> bool" where
  "valid_resource_name name \<longleftrightarrow> \<not> (trim_is_empty name \<or> list_ex is_control (chars name))"

definition request_names_ok :: "create_request \<Rightarrow> bool" where
  "request_names_ok req \<longleftrightarrow>
     valid_resource_name (as_str (cr_id req)) \<and>
     list_all (\<lambda>v. valid_resource_name (vol_name v)) (cr_volumes req)"

definition owned_by :: "sandbox_id \<Rightarrow> runtime_resource \<Rightarrow> bool" where
  "owned_by i r \<longleftrightarrow> rr_ownership r = GasCanOwned \<and> rr_sandbox_id r = Some i"

text \<open>What must survive while the container is replaced: the volumes and the network.\<close>

definition topology :: "create_request \<Rightarrow> resource_identity set" where
  "topology req = set (volume_identities req) \<union> set_option (allowed_network req)"

lemma new_identity_eq_Ok [simp]:
  "new_identity kind name = Ok i \<longleftrightarrow> valid_resource_name name \<and> i = ResourceIdentity kind name"
  by (auto simp: new_identity_def valid_resource_name_def)

definition plain_byte :: "char \<Rightarrow> bool" where
  "plain_byte c \<longleftrightarrow> 33 \<le> byte c \<and> byte c < 127"

lemma plain_name_valid:
  assumes "list_all plain_byte s" "s \<noteq> []"
  shows "valid_resource_name s"
proof -
  have "list_all is_ascii_byte s"
    using assms(1) by (auto simp: list_all_iff plain_byte_def ascii_simps)
  then have chars: "chars s = map byte s" by (rule chars_ascii)
  obtain c t where s: "s = c # t" using assms(2) by (cases s) auto
  have "\<not> is_whitespace (byte c)"
    using assms(1) by (auto simp: s plain_byte_def is_whitespace_def)
  moreover have "\<not> list_ex is_control (map byte s)"
    using assms(1) by (auto simp: list_ex_iff list_all_iff plain_byte_def is_control_def)
  ultimately show ?thesis
    by (simp add: valid_resource_name_def trim_is_empty_def chars) (simp add: s)
qed

lemma checked_volumes_eq_Ok:
  "checked_volumes req = Ok vs \<longleftrightarrow>
     list_all (\<lambda>v. valid_resource_name (vol_name v)) (cr_volumes req) \<and>
     vs = remdups (volume_identities req)"
proof -
  have "list_all2 (\<lambda>v i. new_identity Volume (vol_name v) = Ok i) xs is \<longleftrightarrow>
      list_all (\<lambda>v. valid_resource_name (vol_name v)) xs \<and>
      is = map (\<lambda>v. ResourceIdentity Volume (vol_name v)) xs" for xs "is"
    by (induction xs arbitrary: "is") (auto simp: list_all2_Cons1)
  then show ?thesis
    by (auto simp: checked_volumes_def result_simps loop_simps volume_identities_def)
qed

lemma fold_note_owned:
  "fold_ok (note_owned allowed i) rs ids = Ok ids' \<longleftrightarrow>
     (\<forall>r\<in>set rs. allowed (rr_identity r) \<and> owned_by i r) \<and>
     distinct (map rr_identity rs) \<and> set (map rr_identity rs) \<inter> set ids = {} \<and>
     ids' = rev (map rr_identity rs) @ ids"
  by (induction rs arbitrary: ids) (auto simp: note_owned_def result_simps owned_by_def)

lemma volume_identity_kind: "x \<in> set (volume_identities req) \<Longrightarrow> ri_kind x = Volume"
  by (auto simp: volume_identities_def)

lemma network_identity_kind: "allowed_network req = Some x \<Longrightarrow> ri_kind x = Network"
  by (auto simp: allowed_network_def)

lemma topology_card:
  "card (topology req) =
     length (remdups (volume_identities req)) + (if allowed_network req \<noteq> None then 1 else 0)"
proof (cases "allowed_network req")
  case None
  then show ?thesis by (simp add: topology_def length_remdups_card_conv)
next
  case (Some n)
  then have "n \<notin> set (volume_identities req)"
    using network_identity_kind volume_identity_kind by fastforce
  with Some show ?thesis by (simp add: topology_def length_remdups_card_conv)
qed

lemma validate_retained_eq_Ok:
  "validate_retained_resources req rs = Ok () \<longleftrightarrow>
     list_all (\<lambda>v. valid_resource_name (vol_name v)) (cr_volumes req) \<and>
     (\<forall>r\<in>set rs. owned_by (cr_id req) r) \<and> distinct (map rr_identity rs) \<and>
     set (map rr_identity rs) = topology req"
  (is "?L \<longleftrightarrow> ?R")
proof -
  let ?ids = "map rr_identity rs"
  have fin: "finite (topology req)" by (simp add: topology_def)
  have allowed: "(\<forall>r\<in>set rs. rr_identity r \<in> set (volume_identities req) \<or>
      allowed_network req = Some (rr_identity r)) \<longleftrightarrow> set ?ids \<subseteq> topology req"
    by (auto simp: topology_def)
  have "?L \<longleftrightarrow> list_all (\<lambda>v. valid_resource_name (vol_name v)) (cr_volumes req) \<and>
      (\<forall>r\<in>set rs. owned_by (cr_id req) r) \<and> distinct ?ids \<and> set ?ids \<subseteq> topology req \<and>
      length ?ids = card (topology req)"
    unfolding validate_retained_resources_def allowed [symmetric] topology_card
    by (auto simp: result_simps checked_volumes_eq_Ok fold_note_owned Let_def)
  also have "\<dots> \<longleftrightarrow> ?R"
    using fin card_subset_eq distinct_card by (metis order_refl)
  finally show ?thesis .
qed

lemma validate_created_eq_Ok:
  "validate_created_resources req rs require = Ok () \<longleftrightarrow>
     request_names_ok req \<and> (\<forall>r\<in>set rs. owned_by (cr_id req) r) \<and> distinct (map rr_identity rs) \<and>
     set (map rr_identity rs) \<subseteq> insert (container_identity req) (topology req) \<and>
     (require \<longrightarrow> container_identity req \<in> set (map rr_identity rs) \<and>
        set_option (allowed_network req) \<subseteq> set (map rr_identity rs))"
  by (cases "allowed_network req")
    (auto simp: validate_created_resources_def result_simps checked_volumes_eq_Ok fold_note_owned
      request_names_ok_def container_identity_def topology_def)

lemma validate_recreated_eq_Ok:
  "validate_recreated_container req rs = Ok () \<longleftrightarrow>
     valid_resource_name (as_str (cr_id req)) \<and>
     (\<exists>r. rs = [r] \<and> rr_identity r = container_identity req \<and> owned_by (cr_id req) r)"
  by (auto simp: validate_recreated_container_def result_simps container_identity_def owned_by_def
      split: list.splits)

section \<open>Kept evidence\<close>

lemma keep_evidence_subset: "set (keep_evidence valid ids rs) \<subseteq> {r \<in> set rs. valid r}"
  by (induction rs arbitrary: ids) auto

lemma keep_evidence_distinct:
  "distinct (map rr_identity (keep_evidence valid ids rs)) \<and>
   set (map rr_identity (keep_evidence valid ids rs)) \<inter> set ids = {}"
proof (induction rs arbitrary: ids)
  case (Cons r rs)
  then show ?case
    using Cons.IH [of ids] Cons.IH [of "rr_identity r # ids"] by auto
qed simp

lemma keep_evidence_complete:
  "r \<in> set rs \<Longrightarrow> valid r \<Longrightarrow> rr_identity r \<notin> set ids \<Longrightarrow>
     rr_identity r \<in> rr_identity ` set (keep_evidence valid ids rs)"
proof (induction rs arbitrary: ids)
  case (Cons x rs)
  then show ?case
    by (cases "rr_identity x = rr_identity r") (auto simp: image_iff)
qed simp

lemma keep_evidence_subseq: "subseq (keep_evidence valid ids rs) rs"
  by (induction rs arbitrary: ids) auto

lemma owned_evidence_iff:
  "owned_evidence req r \<longleftrightarrow>
     owned_by (cr_id req) r \<and> rr_identity r \<in> insert (container_identity req) (topology req)"
  by (auto simp: owned_evidence_def owned_by_def topology_def)

section \<open>Image references\<close>

lemma rfind_Some: "rfind c s = Some i \<Longrightarrow> i < length s \<and> s ! i = c"
  by (induction s arbitrary: i) (auto split: option.splits if_splits)

lemma tag_separator_Some:
  assumes "tag_separator name = Some i"
  shows "name = take i name @ '':'' @ drop (i + 1) name"
proof -
  have "rfind CHR '':'' name = Some i"
    using assms by (auto simp: tag_separator_def split: option.splits if_splits)
  then have "i < length name" "name ! i = CHR '':''" by (auto dest: rfind_Some)
  then show ?thesis
    using id_take_nth_drop [of i name] by simp
qed

definition tag_suffix :: "string \<Rightarrow> bool" where
  "tag_suffix t \<longleftrightarrow> t = [] \<or> (\<exists>tag. t = '':'' @ tag \<and> valid_tag tag)"

lemma image_identity_Some:
  assumes "immutable_image_identity img = Some (repository, digest)"
  shows "\<exists>t. img = repository @ t @ ''@sha256:'' @ digest \<and> tag_suffix t \<and>
    length digest = 64 \<and> list_all is_lower_hex digest"
proof -
  obtain name where s: "split_once ''@sha256:'' img = Some (name, digest)"
    and v: "valid_image_name name" "length digest = 64" "list_all is_lower_hex digest"
    and repo: "repository = (case tag_separator name of None \<Rightarrow> name | Some i \<Rightarrow> take i name)"
    using assms
    by (auto simp: immutable_image_identity_def immutable_image_reference_def Let_def
        split: if_splits option.splits prod.splits)
  have "\<exists>t. name = repository @ t \<and> tag_suffix t"
  proof (cases "tag_separator name")
    case None
    then show ?thesis using repo by (simp add: tag_suffix_def)
  next
    case (Some i)
    then have "valid_tag (drop (i + 1) name)"
      using v(1) by (auto simp: valid_image_name_def split: if_splits)
    then show ?thesis
      using repo Some tag_separator_Some [OF Some] by (auto simp: tag_suffix_def)
  qed
  then show ?thesis
    using split_once_Some [OF s] v by auto
qed

lemma same_immutable_image_iff:
  "same_immutable_image l r \<longleftrightarrow>
     immutable_image_identity l \<noteq> None \<and> immutable_image_identity l = immutable_image_identity r"
  by (auto simp: same_immutable_image_def split: option.splits)

lemma immutable_image_reference_iff:
  "immutable_image_reference img \<longleftrightarrow> immutable_image_identity img \<noteq> None"
  by (auto simp: immutable_image_identity_def immutable_image_reference_def Let_def
      split: option.splits prod.splits)

section \<open>Properties\<close>

definition example_id :: sandbox_id where
  "example_id = SandboxId ''demo-0123456789ab''"

definition example_ownership :: ownership_metadata where
  "example_ownership = \<lparr> om_managed_by = ''gascan'', om_sandbox_id = example_id \<rparr>"

definition example_digest :: string where
  "example_digest = replicate 64 CHR ''a''"

definition example_request :: create_request where
  "example_request =
     \<lparr> cr_id = example_id, cr_image = ''ghcr.io/gascan/workspace@sha256:'' @ example_digest,
       cr_bind_mounts = [], cr_volumes =
         [\<lparr> vol_name = ''gascan-v'', vol_target = ''/home'', vol_writable = True,
            vol_capacity_bytes = 1024, vol_ownership = example_ownership \<rparr>],
       cr_ports = [], cr_environment = [],
       cr_resources = \<lparr> lim_cpus = None, lim_memory_bytes = None, lim_disk_bytes = None,
                       lim_process_count = None \<rparr>,
       cr_network = RuntimeNetworked ''gascan-n'', cr_user = RuntimeWorkspace, cr_init = True,
       cr_ownership = example_ownership \<rparr>"

text \<open>C33. Retained resources are exact: the validation behind \<open>RetainedResources::new\<close>
  and \<open>RecreateRequest::new\<close> accepts a list of observations exactly when all are owned
  by the sandbox, none is repeated, and their identities are the volumes and the network of the
  request, no more and no fewer.\<close>

theorem retained_exact:
  "validate_retained_resources req rs = Ok () \<longleftrightarrow>
     list_all (\<lambda>v. valid_resource_name (vol_name v)) (cr_volumes req) \<and>
     list_all (owned_by (cr_id req)) rs \<and> distinct (map rr_identity rs) \<and>
     set (map rr_identity rs) = topology req"
  by (simp add: validate_retained_eq_Ok list_all_iff)

text \<open>C34. The evidence of a failed create is exactly the usable part of what was observed:
  \<open>CreateFailure::from_created_evidence\<close> keeps a subsequence of the observations that the
  checked constructor \<open>CreateFailure::new\<close> would accept, and it loses no identity for
  which some observation is owned by the sandbox and belongs to the request.\<close>

theorem created_evidence_kept:
  assumes "request_names_ok req"
  shows "let kept = failure_created (from_created_evidence req created source) in
     new_failure req kept source = Ok (from_created_evidence req created source) \<and>
     subseq kept created \<and>
     rr_identity ` set kept = rr_identity ` {r \<in> set created. owned_evidence req r}"
proof -
  let ?kept = "keep_evidence (owned_evidence req) [] created"
  have sub: "set ?kept \<subseteq> {r \<in> set created. owned_evidence req r}" by (rule keep_evidence_subset)
  then have "validate_created_resources req ?kept False = Ok ()"
    unfolding validate_created_eq_Ok
    using assms keep_evidence_distinct [of "owned_evidence req" "[]" created]
    by (auto simp: owned_evidence_iff)
  moreover have "rr_identity ` set ?kept = rr_identity ` {r \<in> set created. owned_evidence req r}"
    using sub keep_evidence_complete [of _ created "owned_evidence req" "[]"] by auto
  ultimately show ?thesis
    by (simp add: new_failure_def from_created_evidence_def keep_evidence_subseq)
qed

theorem created_evidence_kept_witness:
  "let req = example_request;
       v = discovered 1 (ResourceIdentity Volume ''gascan-v'') (Some example_id) GasCanOwned;
       f = discovered 2 (ResourceIdentity Network ''gascan-n'') None Foreign
   in failure_created (from_created_evidence req [v, v, f] (InjectedFailure ''x'')) = [v] \<and>
      new_failure req [v] (InjectedFailure ''x'') =
        Ok (from_created_evidence req [v, v, f] (InjectedFailure ''x''))"
proof -
  let ?v = "discovered 1 (ResourceIdentity Volume ''gascan-v'') (Some example_id) GasCanOwned"
  let ?f = "discovered 2 (ResourceIdentity Network ''gascan-n'') None Foreign"
  have "request_names_ok example_request"
    by (simp add: request_names_ok_def example_request_def example_id_def plain_name_valid plain_byte_def)
  moreover have "failure_created (from_created_evidence example_request [?v, ?v, ?f]
      (InjectedFailure ''x'')) = [?v]"
    by code_simp
  ultimately show ?thesis
    using created_evidence_kept [of example_request "[?v, ?v, ?f]" "InjectedFailure ''x''"]
    by (simp add: Let_def)
qed

text \<open>Two references that \<open>same_immutable_image\<close> identifies name the same
  repository and the same 64-digit SHA-256 digest and differ at most in a valid tag; the
  relation is symmetric and transitive, and reflexive exactly on immutable references.\<close>

lemma same_image_up_to_tag:
  "(same_immutable_image l r \<longrightarrow>
      (\<exists>repository digest lt rt.
         l = repository @ lt @ ''@sha256:'' @ digest \<and> tag_suffix lt \<and>
         r = repository @ rt @ ''@sha256:'' @ digest \<and> tag_suffix rt \<and>
         length digest = 64 \<and> list_all is_lower_hex digest)) \<and>
   (same_immutable_image l l \<longleftrightarrow> immutable_image_reference l) \<and>
   (same_immutable_image l r \<longleftrightarrow> same_immutable_image r l) \<and>
   (same_immutable_image l m \<longrightarrow> same_immutable_image m r \<longrightarrow> same_immutable_image l r)"
proof (intro conjI impI)
  assume "same_immutable_image l r"
  then obtain repository digest where "immutable_image_identity l = Some (repository, digest)"
    "immutable_image_identity r = Some (repository, digest)"
    by (cases "immutable_image_identity l") (auto simp: same_immutable_image_iff)
  note ids = this [THEN image_identity_Some]
  obtain lt where lt: "l = repository @ lt @ ''@sha256:'' @ digest" "tag_suffix lt"
    using ids(1) by blast
  obtain rt where "r = repository @ rt @ ''@sha256:'' @ digest" "tag_suffix rt"
    "length digest = 64" "list_all is_lower_hex digest"
    using ids(2) by blast
  with lt show "\<exists>repository digest lt rt.
         l = repository @ lt @ ''@sha256:'' @ digest \<and> tag_suffix lt \<and>
         r = repository @ rt @ ''@sha256:'' @ digest \<and> tag_suffix rt \<and>
         length digest = 64 \<and> list_all is_lower_hex digest"
    by (intro exI conjI)
qed (unfold same_immutable_image_iff immutable_image_reference_iff, metis+)

text \<open>A discovered resource counts as owned exactly when it carries the manager label
  with the value gascan and a parseable sandbox label, and, for a container, its name is the
  sandbox id; it counts as foreign exactly when it names another manager or carries no label.\<close>

lemma ownership_classified:
  "(classify_resource_ownership kind name manager label = GasCanOwned \<longleftrightarrow>
      manager = Some ''gascan'' \<and>
      (\<exists>i. label = LabelParsed i \<and> (if kind = Container then as_str i = name else True))) \<and>
   (classify_resource_ownership kind name manager label = Foreign \<longleftrightarrow>
      (\<exists>other. manager = Some other \<and> other \<noteq> ''gascan'') \<or>
      manager = None \<and> label = LabelAbsent)"
  by (cases manager; cases label)
    (auto simp: classify_resource_ownership_def MANAGED_BY_def)

end
