(* ===== verification/Policy.thy ===== *)
theory Policy
  imports Sandbox_Spec Runtime Rust_Text
begin

text \<open>
  The policy compiler (\<open>gascan-core/src/policy.rs\<close>), the only way a create request comes
  into being: image, mount, capability, port and resource checks, the SSH transport with its key
  check, and the environment filters.  Base64 decoding is the parameter \<open>b64\<close>, which returns
  the decoded bytes or \<open>None\<close>.
\<close>

section \<open>Constants\<close>

definition DEFAULT_CPUS :: u16 where "DEFAULT_CPUS = 4"
definition MAX_CPUS :: u16 where "MAX_CPUS = 16"
definition DEFAULT_MEMORY_BYTES :: u64 where "DEFAULT_MEMORY_BYTES = 8 * 1024 ^ 3"
definition MAX_MEMORY_BYTES :: u64 where "MAX_MEMORY_BYTES = 64 * 1024 ^ 3"

definition WORKSPACE_IMAGE :: string where
  "WORKSPACE_IMAGE =
     ''ghcr.io/liquescent-development/gascan/workspace:da2ca49349e9be1b-'' @
     ''84f6b685002369aff5daa38add02c93d51caeac2c842d0eed49633493e7303da'' @ ''@sha256:'' @
     ''84f6b685002369aff5daa38add02c93d51caeac2c842d0eed49633493e7303da''"

definition WORKSPACE_HOME :: string where "WORKSPACE_HOME = ''/home/workspace''"
definition TOOLS_ROOT :: string where "TOOLS_ROOT = ''/home/workspace/.local''"
definition CACHE_ROOT :: string where "CACHE_ROOT = ''/home/workspace/.cache''"
definition CONFIG_ROOT :: string where "CONFIG_ROOT = ''/home/workspace/.config''"
definition CARGO_HOME :: string where "CARGO_HOME = ''/home/workspace/.local/share/cargo''"
definition RUSTUP_HOME :: string where "RUSTUP_HOME = ''/home/workspace/.local/share/rustup''"
definition NPM_CACHE_DIR :: string where "NPM_CACHE_DIR = ''/home/workspace/.cache/npm''"
definition GO_PATH :: string where "GO_PATH = ''/home/workspace/.local/share/go''"
definition GO_BIN :: string where "GO_BIN = ''/home/workspace/.local/bin''"
definition MISE_DATA_DIR :: string where "MISE_DATA_DIR = ''/home/workspace/.local/share/mise''"
definition MISE_CACHE_DIR :: string where "MISE_CACHE_DIR = ''/home/workspace/.cache/mise''"
definition MISE_GLOBAL_CONFIG_FILE :: string where
  "MISE_GLOBAL_CONFIG_FILE = ''/home/workspace/.config/gascan/mise.toml''"
definition MISE_STATE_DIR :: string where
  "MISE_STATE_DIR = ''/home/workspace/.config/gascan/mise-state''"
definition MISE_SYSTEM_CONFIG_FILE :: string where
  "MISE_SYSTEM_CONFIG_FILE = ''/etc/mise/config.toml''"
definition MISE_SYSTEM_DATA_DIR :: string where "MISE_SYSTEM_DATA_DIR = ''/opt/gascan/mise''"

definition CONTAINER_PATH :: string where
  "CONTAINER_PATH =
     ''/home/workspace/.local/bin:'' @
     ''/home/workspace/.local/share/cargo/bin:'' @
     ''/home/workspace/.local/share/go/bin:'' @
     ''/home/workspace/.local/share/gem/bin:'' @
     ''/home/workspace/.local/share/mise/shims:'' @
     ''/opt/gascan/mise/shims:'' @
     ''/usr/local/sbin:/usr/local/bin:'' @
     ''/opt/gascan/workstation/bin:'' @
     ''/usr/sbin:/usr/bin:/sbin:/bin''"

record control_plane_policy =
  cp_ssh_authorized_key :: "string option"
  cp_ssh_host_port :: "u16 option"

datatype policy_error =
    InvalidWorkspaceImage
  | InvalidSshAuthorizedKey
  | MissingSshAuthorizedKey
  | MissingSshHostPort
  | InvalidSshHostPort
  | SshHostPortMismatch u16 u16
  | InvalidMount
  | BindMountsUnavailable
  | NamedVolumesUnavailable
  | ResourceLimitsUnavailable
  | LoopbackPublishUnavailable
  | OfflineUnavailable
  | OfflineUnsupported runtime_version
  | OfflinePortsForbidden
  | InvalidPort
  | DuplicatePort u16
  | CpusExceedMaximum u16
  | MemoryExceedsMaximum u64
  | DiskExceedsMaximum u64
  | DiskControlUnsupported

primrec policy_error_code :: "policy_error \<Rightarrow> string" where
  "policy_error_code InvalidWorkspaceImage = ''invalid_workspace_image''"
| "policy_error_code InvalidSshAuthorizedKey = ''invalid_ssh_authorized_key''"
| "policy_error_code MissingSshAuthorizedKey = ''missing_ssh_authorized_key''"
| "policy_error_code MissingSshHostPort = ''missing_ssh_host_port''"
| "policy_error_code InvalidSshHostPort = ''invalid_ssh_host_port''"
| "policy_error_code (SshHostPortMismatch _ _) = ''ssh_host_port_mismatch''"
| "policy_error_code InvalidMount = ''invalid_mount''"
| "policy_error_code BindMountsUnavailable = ''bind_mounts_unavailable''"
| "policy_error_code NamedVolumesUnavailable = ''named_volumes_unavailable''"
| "policy_error_code ResourceLimitsUnavailable = ''resource_limits_unavailable''"
| "policy_error_code LoopbackPublishUnavailable = ''loopback_publish_unavailable''"
| "policy_error_code OfflineUnavailable = ''offline_unavailable''"
| "policy_error_code (OfflineUnsupported _) = ''offline_unavailable''"
| "policy_error_code OfflinePortsForbidden = ''offline_ports_forbidden''"
| "policy_error_code InvalidPort = ''invalid_port''"
| "policy_error_code (DuplicatePort _) = ''duplicate_port''"
| "policy_error_code (CpusExceedMaximum _) = ''cpus_exceed_maximum''"
| "policy_error_code (MemoryExceedsMaximum _) = ''memory_exceeds_maximum''"
| "policy_error_code (DiskExceedsMaximum _) = ''disk_exceeds_maximum''"
| "policy_error_code DiskControlUnsupported = ''disk_control_unsupported''"

section \<open>Names of managed resources\<close>

definition managed_network_name :: "sandbox_id \<Rightarrow> string" where
  "managed_network_name i = ''gascan-network-'' @ as_str i"

definition managed_volume_names :: "string \<Rightarrow> string list" where
  "managed_volume_names i =
     map (\<lambda>kind. ''gascan-'' @ kind @ ''-'' @ i) [''mise'', ''cache'', ''config'']"

definition expected_resource_identities ::
  "sandbox_id \<Rightarrow> (resource_identity list, runtime_error) result" where
  "expected_resource_identities i =
     and_then (new_identity Container (as_str i)) (\<lambda>container.
     and_then (collect_ok (new_identity Volume) (managed_volume_names (as_str i))) (\<lambda>volumes.
     and_then (new_identity Network (managed_network_name i)) (\<lambda>network.
     Ok ([container] @ volumes @ [network]))))"

section \<open>SSH keys\<close>

definition from_be_bytes :: "string \<Rightarrow> nat" where
  "from_be_bytes bs = foldl (\<lambda>acc b. acc * 256 + byte b) 0 bs"

definition ssh_wire_string :: "string \<Rightarrow> (string \<times> string) option" where
  "ssh_wire_string bytes =
     (if length bytes < 4 then None
      else
        let wire_length = from_be_bytes (take 4 bytes);
            content = drop 4 bytes
        in if length content < wire_length then None
           else Some (take wire_length content, drop wire_length content))"

definition is_ssh_public_key :: "(string \<Rightarrow> string option) \<Rightarrow> string \<Rightarrow> bool" where
  "is_ssh_public_key b64 key =
     (case split_ascii_whitespace key of
        kind # encoded # rest \<Rightarrow>
          if kind \<noteq> ''ssh-ed25519'' \<or> rest \<noteq> [] \<or>
             length key \<noteq> length kind + 1 + length encoded \<or>
             (if length kind < length key then Some (key ! length kind) else None) \<noteq> Some CHR '' ''
          then False
          else
            (case b64 encoded of
               None \<Rightarrow> False
             | Some blob \<Rightarrow>
                 (case ssh_wire_string blob of
                    None \<Rightarrow> False
                  | Some (wire_kind, key_data) \<Rightarrow>
                      (case ssh_wire_string key_data of
                         None \<Rightarrow> False
                       | Some (public_key, trailing) \<Rightarrow>
                           wire_kind = kind \<and> length public_key = 32 \<and> trailing = [])))
      | _ \<Rightarrow> False)"

section \<open>Environments\<close>

definition workspace_environment :: "(string, string) btree_map" where
  "workspace_environment = bt_collect
     [(''CARGO_HOME'', CARGO_HOME),
      (''GEM_HOME'', ''/home/workspace/.local/share/gem''),
      (''GOCACHE'', ''/home/workspace/.cache/go-build''),
      (''GOBIN'', GO_BIN),
      (''GOMODCACHE'', ''/home/workspace/.cache/go-mod''),
      (''GOPATH'', GO_PATH),
      (''HEX_HOME'', ''/home/workspace/.local/share/hex''),
      (''HOME'', WORKSPACE_HOME),
      (''MISE_CARGO_HOME'', CARGO_HOME),
      (''MISE_CACHE_DIR'', MISE_CACHE_DIR),
      (''MISE_DATA_DIR'', MISE_DATA_DIR),
      (''MISE_GLOBAL_CONFIG_FILE'', MISE_GLOBAL_CONFIG_FILE),
      (''MISE_STATE_DIR'', MISE_STATE_DIR),
      (''MISE_SYSTEM_CONFIG_FILE'', MISE_SYSTEM_CONFIG_FILE),
      (''MISE_SYSTEM_DATA_DIR'', MISE_SYSTEM_DATA_DIR),
      (''MISE_RUSTUP_HOME'', RUSTUP_HOME),
      (''MIX_HOME'', ''/home/workspace/.local/share/mix''),
      (''NPM_CONFIG_CACHE'', NPM_CACHE_DIR),
      (''NPM_CONFIG_PREFIX'', TOOLS_ROOT),
      (''PATH'', CONTAINER_PATH),
      (''PYTHONUSERBASE'', TOOLS_ROOT),
      (''REBAR_CACHE_DIR'', ''/home/workspace/.cache/rebar3''),
      (''RUSTUP_HOME'', RUSTUP_HOME),
      (''XDG_CACHE_HOME'', CACHE_ROOT),
      (''XDG_CONFIG_HOME'', CONFIG_ROOT),
      (''XDG_DATA_HOME'', ''/home/workspace/.local/share'')]"

definition guest_environment :: "bool \<Rightarrow> control_plane_policy \<Rightarrow> (string, string) btree_map" where
  "guest_environment ssh_on control =
     (let environment =
        bt_insert ''GASCAN_SSH_ENABLED'' (if ssh_on then ''1'' else ''0'') workspace_environment
      in case cp_ssh_authorized_key control of
           Some authorized_key \<Rightarrow>
             if ssh_on then bt_insert ''GASCAN_SSH_AUTHORIZED_KEY'' authorized_key environment
             else environment
         | None \<Rightarrow> environment)"

definition is_allowed_environment_key :: "string \<Rightarrow> bool" where
  "is_allowed_environment_key key \<longleftrightarrow>
     key \<in> set [''TERM'', ''COLORTERM'', ''LANG'', ''GH_NO_UPDATE_NOTIFIER'', ''GLAB_CHECK_UPDATE'',
                ''NO_COLOR''] \<or>
     (case strip_prefix ''LC_'' key of None \<Rightarrow> False | Some rest \<Rightarrow> rest \<noteq> [])"

definition filtered_host_environment :: "(string \<times> string) list \<Rightarrow> (string, string) btree_map" where
  "filtered_host_environment environment =
     bt_collect (filter (\<lambda>(key, _). is_allowed_environment_key key) environment)"

section \<open>Checks\<close>

definition validate_spec :: "sandbox_spec \<Rightarrow> (unit, policy_error) result" where
  "validate_spec spec =
     (case spec_mounts spec of
        [mount] \<Rightarrow>
          if \<not> path_eq (mount_source mount) (spec_root spec) \<or>
             \<not> path_eq (mount_target mount) WORKSPACE_TARGET \<or> \<not> mount_writable mount
          then Err InvalidMount
          else Ok ()
      | _ \<Rightarrow> Err InvalidMount)"

definition validate_capabilities ::
  "sandbox_spec \<Rightarrow> runtime_capabilities \<Rightarrow> bool \<Rightarrow> (unit, policy_error) result" where
  "validate_capabilities spec capabilities ssh_on =
     (if \<not> cap_bind_mounts capabilities then Err BindMountsUnavailable
      else if \<not> cap_named_volumes capabilities then Err NamedVolumesUnavailable
      else if \<not> cap_resource_limits capabilities then Err ResourceLimitsUnavailable
      else if (m_ports (spec_manifest spec) \<noteq> [] \<or> ssh_on) \<and> \<not> cap_loopback_publish capabilities then
        Err LoopbackPublishUnavailable
      else if m_network (spec_manifest spec) = Offline then
        (case cap_offline capabilities of
           Proven \<Rightarrow> Ok ()
         | Unsupported \<Rightarrow> Err (OfflineUnsupported (cap_version capabilities))
         | Unverified \<Rightarrow> Err OfflineUnavailable)
      else Ok ())"

definition loopback_port :: "u16 \<Rightarrow> u16 \<Rightarrow> runtime_port" where
  "loopback_port host guest =
     \<lparr> rp_host_address = LOCALHOST, rp_host_port = host, rp_guest_port = guest \<rparr>"

fun compile_declared :: "u16 list \<Rightarrow> u16 list \<Rightarrow> (runtime_port list, policy_error) result" where
  "compile_declared seen [] = Ok []"
| "compile_declared seen (port # ports) =
     (if port = 0 then Err InvalidPort
      else if port \<in> set seen then Err (DuplicatePort port)
      else map_ok (Cons (loopback_port port port)) (compile_declared (port # seen) ports))"

definition compile_ports ::
  "network_mode \<Rightarrow> (string, u16) btree_map \<Rightarrow> u16 option \<Rightarrow> (runtime_port list, policy_error) result" where
  "compile_ports network declared ssh_port =
     (if network = Offline \<and> declared \<noteq> [] then Err OfflinePortsForbidden
      else
        and_then (compile_declared [] (bt_values declared)) (\<lambda>ports.
        case ssh_port of
          Some host_port \<Rightarrow>
            if host_port \<in> set (bt_values declared) then Err (DuplicatePort host_port)
            else Ok (ports @ [loopback_port host_port 22])
        | None \<Rightarrow> Ok ports))"

definition compile_resources :: "resources \<Rightarrow> (runtime_resource_limits, policy_error) result" where
  "compile_resources declared =
     (let cpus = unwrap_or DEFAULT_CPUS (res_cpus declared) in
      if cpus > MAX_CPUS then Err (CpusExceedMaximum cpus)
      else
        let memory = (case res_memory declared of
                        None \<Rightarrow> DEFAULT_MEMORY_BYTES | Some v \<Rightarrow> size_bytes v) in
        if memory > MAX_MEMORY_BYTES then Err (MemoryExceedsMaximum memory)
        else if res_disk declared \<noteq> None then Err DiskControlUnsupported
        else Ok \<lparr> lim_cpus = Some cpus, lim_memory_bytes = Some memory,
                  lim_disk_bytes = None, lim_process_count = None \<rparr>)"

definition managed_volumes ::
  "string \<Rightarrow> storage \<Rightarrow> ownership_metadata \<Rightarrow> runtime_volume list" where
  "managed_volumes i storage ownership =
     map (\<lambda>(name, target, capacity).
            \<lparr> vol_name = name, vol_target = target, vol_writable = True,
              vol_capacity_bytes = capacity, vol_ownership = ownership \<rparr>)
       (zip (managed_volume_names i)
          [(TOOLS_ROOT, size_bytes (st_tools storage)),
           (CACHE_ROOT, size_bytes (st_cache storage)),
           (CONFIG_ROOT, size_bytes (st_config storage))])"

section \<open>The compiler\<close>

definition check_ssh_key_and_port ::
  "(string \<Rightarrow> string option) \<Rightarrow> control_plane_policy \<Rightarrow> (string \<times> u16, policy_error) result" where
  "check_ssh_key_and_port b64 control =
     and_then (ok_or MissingSshAuthorizedKey (cp_ssh_authorized_key control)) (\<lambda>authorized_key.
     if \<not> is_ssh_public_key b64 authorized_key then Err InvalidSshAuthorizedKey
     else
       and_then (ok_or MissingSshHostPort (cp_ssh_host_port control)) (\<lambda>host_port.
       if host_port < 1024 then Err InvalidSshHostPort
       else Ok (authorized_key, host_port)))"

definition compile_for_image_internal ::
  "(string \<Rightarrow> string option) \<Rightarrow> sandbox_spec \<Rightarrow> runtime_capabilities \<Rightarrow> string \<Rightarrow>
     control_plane_policy option \<Rightarrow> (create_request, policy_error) result" where
  "compile_for_image_internal b64 spec capabilities workspace_image control =
     (if \<not> immutable_image_reference workspace_image then Err InvalidWorkspaceImage
      else
        and_then (validate_spec spec) (\<lambda>_.
        let m = spec_manifest spec;
            ssh_on = ssh_enabled (m_ssh m) \<and> control \<noteq> None
        in
        and_then (validate_capabilities spec capabilities ssh_on) (\<lambda>_.
        let control = unwrap_or \<lparr> cp_ssh_authorized_key = None, cp_ssh_host_port = None \<rparr> control in
        and_then
          (if ssh_on then
             and_then (check_ssh_key_and_port b64 control) (\<lambda>(_, host_port).
             case ssh_host_port (m_ssh m) of
               Some manifest_host_port \<Rightarrow>
                 if manifest_host_port \<noteq> host_port then
                   Err (SshHostPortMismatch manifest_host_port host_port)
                 else Ok (Some host_port)
             | None \<Rightarrow> Ok (Some host_port))
           else Ok None) (\<lambda>host_port.
        and_then (compile_ports (m_network m) (m_ports m) host_port) (\<lambda>ports.
        and_then (compile_resources (m_resources m)) (\<lambda>limits.
        let ownership = \<lparr> om_managed_by = MANAGED_BY, om_sandbox_id = spec_id spec \<rparr> in
        Ok \<lparr> cr_id = spec_id spec, cr_image = workspace_image,
             cr_bind_mounts =
               map (\<lambda>mount. \<lparr> bm_source = mount_source mount, bm_target = mount_target mount,
                               bm_writable = mount_writable mount \<rparr>) (spec_mounts spec),
             cr_volumes = managed_volumes (as_str (spec_id spec)) (m_storage m) ownership,
             cr_ports = ports,
             cr_environment = guest_environment ssh_on control,
             cr_resources = limits,
             cr_network = (case m_network m of
                 Networked \<Rightarrow> RuntimeNetworked (managed_network_name (spec_id spec))
               | Offline \<Rightarrow> RuntimeOffline),
             cr_user = (case m_user m of Workspace \<Rightarrow> RuntimeWorkspace | Root \<Rightarrow> RuntimeRoot),
             cr_init = True,
             cr_ownership = ownership \<rparr>))))))"

definition compile_for_image ::
  "(string \<Rightarrow> string option) \<Rightarrow> sandbox_spec \<Rightarrow> runtime_capabilities \<Rightarrow> string \<Rightarrow>
     (create_request, policy_error) result" where
  "compile_for_image b64 spec capabilities workspace_image =
     compile_for_image_internal b64 spec capabilities workspace_image None"

definition compile_policy ::
  "(string \<Rightarrow> string option) \<Rightarrow> sandbox_spec \<Rightarrow> runtime_capabilities \<Rightarrow>
     (create_request, policy_error) result" where
  "compile_policy b64 spec capabilities =
     compile_for_image b64 spec capabilities WORKSPACE_IMAGE"

definition compile_for_image_with_control_plane ::
  "(string \<Rightarrow> string option) \<Rightarrow> sandbox_spec \<Rightarrow> runtime_capabilities \<Rightarrow> string \<Rightarrow>
     control_plane_policy \<Rightarrow> (create_request, policy_error) result" where
  "compile_for_image_with_control_plane b64 spec capabilities workspace_image control =
     compile_for_image_internal b64 spec capabilities workspace_image (Some control)"

definition compile_with_control_plane ::
  "(string \<Rightarrow> string option) \<Rightarrow> sandbox_spec \<Rightarrow> runtime_capabilities \<Rightarrow>
     control_plane_policy \<Rightarrow> (create_request, policy_error) result" where
  "compile_with_control_plane b64 spec capabilities control =
     compile_for_image_with_control_plane b64 spec capabilities WORKSPACE_IMAGE control"

definition clear_ssh_transport :: "bool \<Rightarrow> create_request \<Rightarrow> create_request" where
  "clear_ssh_transport ssh_on req =
     req \<lparr> cr_ports := filter (\<lambda>mapping. rp_guest_port mapping \<noteq> 22) (cr_ports req),
           cr_environment :=
             bt_insert ''GASCAN_SSH_ENABLED'' (if ssh_on then ''1'' else ''0'')
               (bt_remove ''GASCAN_SSH_AUTHORIZED_KEY'' (cr_environment req)) \<rparr>"

definition restore_ssh_transport ::
  "(string \<Rightarrow> string option) \<Rightarrow> create_request \<Rightarrow> control_plane_policy option \<Rightarrow>
     (create_request, policy_error) result" where
  "restore_ssh_transport b64 req control =
     (let req = clear_ssh_transport (control \<noteq> None) req in
      case control of
        None \<Rightarrow> Ok req
      | Some control \<Rightarrow>
          if cr_network req = RuntimeOffline then Err OfflinePortsForbidden
          else
            and_then (check_ssh_key_and_port b64 control) (\<lambda>(authorized_key, host_port).
            if list_ex (\<lambda>mapping. rp_host_port mapping = host_port) (cr_ports req) then
              Err (DuplicatePort host_port)
            else
              Ok (req \<lparr> cr_ports := cr_ports req @ [loopback_port host_port 22],
                        cr_environment :=
                          bt_insert ''GASCAN_SSH_AUTHORIZED_KEY'' authorized_key
                            (cr_environment req) \<rparr>)))"

section \<open>Each check, declaratively\<close>

lemma compile_declared_Ok:
  "compile_declared seen ps = Ok rs \<longleftrightarrow>
     distinct ps \<and> set ps \<inter> set seen = {} \<and> 0 \<notin> set ps \<and> rs = map (\<lambda>p. loopback_port p p) ps"
  by (induction ps arbitrary: seen rs) (auto simp: result_simps)

lemma compile_ports_Ok:
  "compile_ports network declared ssh_port = Ok ports \<longleftrightarrow>
     (network = Offline \<longrightarrow> declared = []) \<and>
     distinct (bt_values declared @ (case ssh_port of None \<Rightarrow> [] | Some p \<Rightarrow> [p])) \<and>
     0 \<notin> set (bt_values declared) \<and>
     ports = map (\<lambda>p. loopback_port p p) (bt_values declared) @
       (case ssh_port of None \<Rightarrow> [] | Some p \<Rightarrow> [loopback_port p 22])"
  by (auto simp: compile_ports_def result_simps compile_declared_Ok split: option.splits)

lemma compile_resources_Ok:
  "compile_resources declared = Ok limits \<longleftrightarrow>
     unwrap_or DEFAULT_CPUS (res_cpus declared) \<le> MAX_CPUS \<and>
     (case res_memory declared of None \<Rightarrow> DEFAULT_MEMORY_BYTES | Some v \<Rightarrow> size_bytes v) \<le> MAX_MEMORY_BYTES \<and>
     res_disk declared = None \<and>
     limits = \<lparr> lim_cpus = Some (unwrap_or DEFAULT_CPUS (res_cpus declared)),
                lim_memory_bytes = Some (case res_memory declared of
                  None \<Rightarrow> DEFAULT_MEMORY_BYTES | Some v \<Rightarrow> size_bytes v),
                lim_disk_bytes = None, lim_process_count = None \<rparr>"
  by (auto simp: compile_resources_def Let_def not_less)

lemma validate_spec_Ok:
  "validate_spec spec = Ok () \<longleftrightarrow>
     (\<exists>mount. spec_mounts spec = [mount] \<and> path_eq (mount_source mount) (spec_root spec) \<and>
        path_eq (mount_target mount) WORKSPACE_TARGET \<and> mount_writable mount)"
  by (auto simp: validate_spec_def split: list.splits)

lemma validate_capabilities_Ok:
  "validate_capabilities spec caps ssh_on = Ok () \<longleftrightarrow>
     cap_bind_mounts caps \<and> cap_named_volumes caps \<and> cap_resource_limits caps \<and>
     (m_ports (spec_manifest spec) \<noteq> [] \<or> ssh_on \<longrightarrow> cap_loopback_publish caps) \<and>
     (m_network (spec_manifest spec) = Offline \<longrightarrow> cap_offline caps = Proven)"
  by (auto simp: validate_capabilities_def split: network_isolation.splits)

lemma check_ssh_Ok:
  "check_ssh_key_and_port b64 control = Ok (key, port) \<longleftrightarrow>
     cp_ssh_authorized_key control = Some key \<and> is_ssh_public_key b64 key \<and>
     cp_ssh_host_port control = Some port \<and> 1024 \<le> port"
  by (auto simp: check_ssh_key_and_port_def result_simps not_less)

text \<open>The transport the compiler settles on: \<open>None\<close> without SSH, otherwise the key and
  the host port of the control plane.\<close>

definition ssh_requested :: "sandbox_spec \<Rightarrow> control_plane_policy option \<Rightarrow> bool" where
  "ssh_requested spec control \<longleftrightarrow> ssh_enabled (m_ssh (spec_manifest spec)) \<and> control \<noteq> None"

definition ssh_transport_ok ::
  "(string \<Rightarrow> string option) \<Rightarrow> sandbox_spec \<Rightarrow> control_plane_policy option \<Rightarrow> u16 option \<Rightarrow> bool" where
  "ssh_transport_ok b64 spec control port \<longleftrightarrow>
     (if ssh_requested spec control then
        (\<exists>c key p. control = Some c \<and> cp_ssh_authorized_key c = Some key \<and>
           is_ssh_public_key b64 key \<and> cp_ssh_host_port c = Some p \<and> 1024 \<le> p \<and>
           ssh_host_port (m_ssh (spec_manifest spec)) \<in> {None, Some p} \<and> port = Some p)
      else port = None)"

definition compiled_request ::
  "sandbox_spec \<Rightarrow> string \<Rightarrow> control_plane_policy option \<Rightarrow> u16 option \<Rightarrow> create_request" where
  "compiled_request spec img control port =
     (let m = spec_manifest spec;
          ownership = \<lparr> om_managed_by = MANAGED_BY, om_sandbox_id = spec_id spec \<rparr>
      in \<lparr> cr_id = spec_id spec, cr_image = img,
           cr_bind_mounts =
             map (\<lambda>mount. \<lparr> bm_source = mount_source mount, bm_target = mount_target mount,
                             bm_writable = mount_writable mount \<rparr>) (spec_mounts spec),
           cr_volumes = managed_volumes (as_str (spec_id spec)) (m_storage m) ownership,
           cr_ports = map (\<lambda>p. loopback_port p p) (bt_values (m_ports m)) @
             (case port of None \<Rightarrow> [] | Some p \<Rightarrow> [loopback_port p 22]),
           cr_environment = guest_environment (ssh_requested spec control)
             (unwrap_or \<lparr> cp_ssh_authorized_key = None, cp_ssh_host_port = None \<rparr> control),
           cr_resources = \<lparr> lim_cpus = Some (unwrap_or DEFAULT_CPUS (res_cpus (m_resources m))),
             lim_memory_bytes = Some (case res_memory (m_resources m) of
               None \<Rightarrow> DEFAULT_MEMORY_BYTES | Some v \<Rightarrow> size_bytes v),
             lim_disk_bytes = None, lim_process_count = None \<rparr>,
           cr_network = (case m_network m of
               Networked \<Rightarrow> RuntimeNetworked (managed_network_name (spec_id spec))
             | Offline \<Rightarrow> RuntimeOffline),
           cr_user = (case m_user m of Workspace \<Rightarrow> RuntimeWorkspace | Root \<Rightarrow> RuntimeRoot),
           cr_init = True, cr_ownership = ownership \<rparr>)"

definition policy_accepts ::
  "(string \<Rightarrow> string option) \<Rightarrow> sandbox_spec \<Rightarrow> runtime_capabilities \<Rightarrow> string \<Rightarrow>
     control_plane_policy option \<Rightarrow> u16 option \<Rightarrow> bool" where
  "policy_accepts b64 spec caps img control port \<longleftrightarrow>
     (let m = spec_manifest spec in
      immutable_image_reference img \<and>
      (\<exists>mount. spec_mounts spec = [mount] \<and> path_eq (mount_source mount) (spec_root spec) \<and>
         path_eq (mount_target mount) WORKSPACE_TARGET \<and> mount_writable mount) \<and>
      cap_bind_mounts caps \<and> cap_named_volumes caps \<and> cap_resource_limits caps \<and>
      (m_ports m \<noteq> [] \<or> ssh_requested spec control \<longrightarrow> cap_loopback_publish caps) \<and>
      (m_network m = Offline \<longrightarrow> cap_offline caps = Proven \<and> m_ports m = []) \<and>
      ssh_transport_ok b64 spec control port \<and>
      distinct (bt_values (m_ports m) @ (case port of None \<Rightarrow> [] | Some p \<Rightarrow> [p])) \<and>
      0 \<notin> set (bt_values (m_ports m)) \<and>
      unwrap_or DEFAULT_CPUS (res_cpus (m_resources m)) \<le> MAX_CPUS \<and>
      (case res_memory (m_resources m) of
         None \<Rightarrow> DEFAULT_MEMORY_BYTES | Some v \<Rightarrow> size_bytes v) \<le> MAX_MEMORY_BYTES \<and>
      res_disk (m_resources m) = None)"

lemma compile_ssh_part:
  "(if ssh_requested spec control then
      and_then (check_ssh_key_and_port b64
          (unwrap_or \<lparr> cp_ssh_authorized_key = None, cp_ssh_host_port = None \<rparr> control)) (\<lambda>(_, host_port).
      case ssh_host_port (m_ssh (spec_manifest spec)) of
        Some manifest_host_port \<Rightarrow>
          if manifest_host_port \<noteq> host_port then Err (SshHostPortMismatch manifest_host_port host_port)
          else Ok (Some host_port)
      | None \<Rightarrow> Ok (Some host_port))
    else Ok None) = Ok port \<longleftrightarrow> ssh_transport_ok b64 spec control port"
proof (cases control)
  case None
  then show ?thesis by (auto simp: ssh_transport_ok_def ssh_requested_def)
next
  case (Some c)
  then show ?thesis
    by (cases "ssh_host_port (m_ssh (spec_manifest spec))")
      (auto simp: ssh_transport_ok_def ssh_requested_def result_simps check_ssh_Ok split: if_splits)
qed

lemma compile_Ok:
  "compile_for_image_internal b64 spec caps img control = Ok req \<longleftrightarrow>
     (\<exists>port. policy_accepts b64 spec caps img control port \<and> req = compiled_request spec img control port)"
  unfolding compile_for_image_internal_def Let_def ssh_requested_def [symmetric]
  by (auto simp: result_simps compile_ssh_part validate_spec_Ok validate_capabilities_Ok
      compile_ports_Ok compile_resources_Ok policy_accepts_def compiled_request_def Let_def)

section \<open>Names\<close>

lemma plain_byte_classes:
  "is_ascii_lowercase c \<or> is_ascii_digit c \<or> c = CHR ''-'' \<Longrightarrow> plain_byte c"
  "is_lower_hex c \<Longrightarrow> plain_byte c"
  by (auto simp: plain_byte_def ascii_simps)

lemma valid_id_plain:
  assumes "validate_sandbox_id s = Returned (Ok ())"
  shows "list_all plain_byte s" "s \<noteq> []"
proof -
  obtain slug digest where s: "s = slug @ ''-'' @ digest" "list_all is_lower_hex digest"
    "list_all (\<lambda>b. is_ascii_lowercase b \<or> is_ascii_digit b \<or> b = CHR ''-'') slug"
    using assms unfolding validate_sandbox_id_Ok valid_slug_def by blast
  then show "list_all plain_byte s" "s \<noteq> []"
    using plain_byte_classes by (auto simp: list_all_iff)
qed

lemma valid_names:
  assumes "validate_sandbox_id (as_str i) = Returned (Ok ())"
  shows "valid_resource_name (as_str i)" "valid_resource_name (managed_network_name i)"
    "list_all valid_resource_name (managed_volume_names (as_str i))"
  using valid_id_plain [OF assms]
  by (auto simp: managed_network_name_def managed_volume_names_def plain_byte_def
      intro!: plain_name_valid)

definition managed_identities :: "sandbox_id \<Rightarrow> resource_identity list" where
  "managed_identities i =
     [ResourceIdentity Container (as_str i)] @
     map (ResourceIdentity Volume) (managed_volume_names (as_str i)) @
     [ResourceIdentity Network (managed_network_name i)]"

lemma expected_identities_Ok:
  assumes "validate_sandbox_id (as_str i) = Returned (Ok ())"
  shows "expected_resource_identities i = Ok (managed_identities i)"
  using valid_names [OF assms]
  by (auto simp: expected_resource_identities_def result_simps loop_simps managed_identities_def
      managed_volume_names_def)

lemma managed_identities_disjoint:
  "i \<noteq> j \<Longrightarrow> set (managed_identities i) \<inter> set (managed_identities j) = {}"
  by (cases i; cases j)
    (auto simp: managed_identities_def managed_volume_names_def managed_network_name_def)

lemma managed_identities_distinct: "distinct (managed_identities i)"
  by (simp add: managed_identities_def managed_volume_names_def)

lemma compiled_request_fields [simp]:
  "cr_id (compiled_request spec img control port) = spec_id spec"
  "cr_image (compiled_request spec img control port) = img"
  "cr_volumes (compiled_request spec img control port) =
     managed_volumes (as_str (spec_id spec)) (m_storage (spec_manifest spec))
       \<lparr> om_managed_by = MANAGED_BY, om_sandbox_id = spec_id spec \<rparr>"
  "cr_ports (compiled_request spec img control port) =
     map (\<lambda>p. loopback_port p p) (bt_values (m_ports (spec_manifest spec))) @
       (case port of None \<Rightarrow> [] | Some p \<Rightarrow> [loopback_port p 22])"
  "cr_environment (compiled_request spec img control port) =
     guest_environment (ssh_requested spec control)
       (unwrap_or \<lparr> cp_ssh_authorized_key = None, cp_ssh_host_port = None \<rparr> control)"
  "cr_network (compiled_request spec img control port) =
     (case m_network (spec_manifest spec) of
        Networked \<Rightarrow> RuntimeNetworked (managed_network_name (spec_id spec))
      | Offline \<Rightarrow> RuntimeOffline)"
  "cr_ownership (compiled_request spec img control port) =
     \<lparr> om_managed_by = MANAGED_BY, om_sandbox_id = spec_id spec \<rparr>"
  by (simp_all add: compiled_request_def Let_def)

lemma compiled_volume_names:
  "map vol_name (cr_volumes (compiled_request spec img control port)) =
     managed_volume_names (as_str (spec_id spec))"
  by (simp add: managed_volumes_def managed_volume_names_def)

lemma compiled_names_ok:
  assumes "validate_sandbox_id (as_str (spec_id spec)) = Returned (Ok ())"
  shows "request_names_ok (compiled_request spec img control port)"
proof -
  have "list_all valid_resource_name (map vol_name (cr_volumes (compiled_request spec img control port)))"
    unfolding compiled_volume_names using valid_names(3) [OF assms] .
  then show ?thesis
    using valid_names(1) [OF assms]
    by (simp add: request_names_ok_def list.pred_map o_def)
qed

lemma compiled_topology:
  "insert (container_identity (compiled_request spec img control port))
     (topology (compiled_request spec img control port)) =
   (if m_network (spec_manifest spec) = Networked then set (managed_identities (spec_id spec))
    else set (managed_identities (spec_id spec)) -
      {ResourceIdentity Network (managed_network_name (spec_id spec))})"
proof -
  let ?req = "compiled_request spec img control port"
  have "volume_identities ?req =
      map (ResourceIdentity Volume) (managed_volume_names (as_str (spec_id spec)))"
    unfolding volume_identities_def compiled_volume_names [symmetric, of _ img control port] by simp
  moreover have "allowed_network ?req = (case m_network (spec_manifest spec) of
      Networked \<Rightarrow> Some (ResourceIdentity Network (managed_network_name (spec_id spec)))
    | Offline \<Rightarrow> None)"
    by (simp add: allowed_network_def split: network_mode.splits)
  moreover have "container_identity ?req = ResourceIdentity Container (as_str (spec_id spec))"
    by (simp add: container_identity_def)
  ultimately show ?thesis
    by (auto simp: topology_def managed_identities_def split: network_mode.splits)
qed

section \<open>SSH keys\<close>

definition be4 :: "nat \<Rightarrow> string" where
  "be4 n = map char_of [n div 16777216 mod 256, n div 65536 mod 256, n div 256 mod 256, n mod 256]"

definition wire :: "string \<Rightarrow> string" where
  "wire s = be4 (length s) @ s"

lemma length_be4 [simp]: "length (be4 n) = 4"
  by (simp add: be4_def)

lemma from_be_bytes_be4: "n < 2 ^ 32 \<Longrightarrow> from_be_bytes (be4 n) = n"
proof -
  assume n: "n < 2 ^ 32"
  define a b c where "a = n div 256" and "b = a div 256" and "c = b div 256"
  have q: "n div 256 = a" "n div 65536 = b" "n div 16777216 = c"
    by (simp_all add: a_def b_def c_def div_mult2_eq [symmetric])
  have "c mod 256 = c" using n by (simp add: q(3) [symmetric])
  moreover have "n = a * 256 + n mod 256" "a = b * 256 + a mod 256" "b = c * 256 + b mod 256"
    by (simp_all add: a_def b_def c_def)
  ultimately show ?thesis
    unfolding from_be_bytes_def be4_def q by simp
qed

lemma base256_digit:
  fixes x d :: nat
  assumes "d < 256"
  shows "(x * 256 + d) div 256 = x" "(x * 256 + d) mod 256 = d"
  using assms by simp_all

lemma be4_from_be_bytes:
  assumes "length bs = 4"
  shows "be4 (from_be_bytes bs) = bs" "from_be_bytes bs < 2 ^ 32"
proof -
  obtain a b c d where bs: "bs = [a, b, c, d]"
    using assms by (auto simp: length_Suc_conv numeral_eq_Suc)
  define x y z where "x = byte a * 256 + byte b" and "y = x * 256 + byte c" and "z = y * 256 + byte d"
  have n: "from_be_bytes bs = z"
    by (simp add: from_be_bytes_def bs x_def y_def z_def)
  have "z \<le> ((255 * 256 + 255) * 256 + 255) * 256 + 255"
    unfolding x_def y_def z_def by (intro add_mono mult_right_mono byte_le) simp_all
  then show "from_be_bytes bs < 2 ^ 32" by (simp add: n)
  have steps: "z div 256 = y" "y div 256 = x" "x div 256 = byte a"
    "z mod 256 = byte d" "y mod 256 = byte c" "x mod 256 = byte b"
    unfolding z_def y_def x_def by (simp_all only: base256_digit [OF byte_less])
  have "z div 65536 = z div 256 div 256" "z div 16777216 = z div 256 div 256 div 256"
    by (simp_all add: div_mult2_eq [symmetric])
  then show "be4 (from_be_bytes bs) = bs"
    unfolding n by (simp add: be4_def bs steps)
qed

lemma ssh_wire_string_Some:
  "ssh_wire_string bs = Some (content, rest) \<longleftrightarrow>
     length content < 2 ^ 32 \<and> bs = wire content @ rest"
proof
  assume l: "ssh_wire_string bs = Some (content, rest)"
  then have len: "4 \<le> length bs" and fits: "from_be_bytes (take 4 bs) \<le> length (drop 4 bs)"
    and content: "content = take (from_be_bytes (take 4 bs)) (drop 4 bs)"
    and rest: "rest = drop (from_be_bytes (take 4 bs)) (drop 4 bs)"
    by (auto simp: ssh_wire_string_def Let_def not_less split: if_splits)
  have four: "length (take 4 bs) = 4" using len by simp
  have n: "length content = from_be_bytes (take 4 bs)" using content fits by simp
  have "wire content = take 4 bs @ content"
    unfolding wire_def n be4_from_be_bytes(1) [OF four] by (rule refl)
  moreover have "bs = take 4 bs @ content @ rest"
    unfolding content rest by (metis append_take_drop_id)
  ultimately show "length content < 2 ^ 32 \<and> bs = wire content @ rest"
    using be4_from_be_bytes(2) [OF four] n by (metis append_assoc)
next
  assume "length content < 2 ^ 32 \<and> bs = wire content @ rest"
  then show "ssh_wire_string bs = Some (content, rest)"
    by (auto simp: ssh_wire_string_def wire_def from_be_bytes_be4 Let_def)
qed

lemma length_join_with:
  "ps \<noteq> [] \<Longrightarrow> length (join_with c ps) + 1 = sum_list (map length ps) + length ps"
  by (induction ps) (auto simp: join_with_Cons)

lemma nonempty_pieces_length:
  fixes ps :: "'a list list"
  shows "sum_list (map length (filter (\<lambda>w. w \<noteq> []) ps)) = sum_list (map length ps)"
  by (induction ps) auto

definition spaced :: "string \<Rightarrow> string" where
  "spaced s = map (\<lambda>c. if is_ascii_whitespace c then CHR '' '' else c) s"

lemma spaced_simps [simp]:
  "spaced [] = []"
  "spaced (c # s) = (if is_ascii_whitespace c then CHR '' '' else c) # spaced s"
  "spaced (s @ t) = spaced s @ spaced t"
  "length (spaced s) = length s"
  by (simp_all add: spaced_def)

lemma two_words:
  assumes "split_ascii_whitespace key = [kind, encoded]"
    and "length key = length kind + 1 + length encoded"
  shows "spaced key = kind @ '' '' @ encoded"
    and "CHR '' '' \<notin> set kind" "CHR '' '' \<notin> set encoded" "encoded \<noteq> []"
proof -
  let ?ps = "split_on CHR '' '' (spaced key)"
  have words: "filter (\<lambda>w. w \<noteq> []) ?ps = [kind, encoded]"
    using assms(1) by (simp add: split_ascii_whitespace_def spaced_def)
  have "length (spaced key) + 1 = sum_list (map length ?ps) + length ?ps"
    using length_join_with [of ?ps "CHR '' ''"] by (simp add: join_with_split)
  also have "sum_list (map length ?ps) = length kind + length encoded"
    using nonempty_pieces_length [of ?ps] words by simp
  finally have "length ?ps = 2" using assms(2) by (simp add: spaced_def)
  then obtain a b where ab: "?ps = [a, b]" by (auto simp: numeral_2_eq_2 length_Suc_conv)
  with words have "?ps = [kind, encoded]" "encoded \<noteq> []" by (auto split: if_splits)
  then show "spaced key = kind @ '' '' @ encoded" "encoded \<noteq> []"
    using join_with_split [of "CHR '' ''" "spaced key"] by auto
  show "CHR '' '' \<notin> set kind" "CHR '' '' \<notin> set encoded"
    using \<open>?ps = [kind, encoded]\<close> split_on_pieces [of _ "CHR '' ''" "spaced key"] by auto
qed

lemma spaced_no_space:
  "CHR '' '' \<notin> set t \<Longrightarrow> spaced s = t \<Longrightarrow> s = t \<and> list_all (\<lambda>c. \<not> is_ascii_whitespace c) s"
  by (induction s arbitrary: t) (auto split: if_splits)

lemma spaced_id: "list_all (\<lambda>c. \<not> is_ascii_whitespace c) s \<Longrightarrow> spaced s = s"
  by (induction s) auto

lemma space_is_whitespace: "is_ascii_whitespace CHR '' ''"
  by (simp add: is_ascii_whitespace_def)

lemma no_whitespace_no_space:
  "list_all (\<lambda>c. \<not> is_ascii_whitespace c) s \<Longrightarrow> CHR '' '' \<notin> set s"
  using space_is_whitespace by (auto simp: list_all_iff)

lemma public_key_fields:
  "(\<exists>rest. split_ascii_whitespace key = ''ssh-ed25519'' # encoded # rest \<and> rest = [] \<and>
      length key = length ''ssh-ed25519'' + 1 + length encoded \<and> key ! 11 = CHR '' '') \<longleftrightarrow>
   key = ''ssh-ed25519 '' @ encoded \<and> encoded \<noteq> [] \<and>
     list_all (\<lambda>c. \<not> is_ascii_whitespace c) encoded"
  (is "?L \<longleftrightarrow> ?R")
proof
  assume ?L
  then have words: "split_ascii_whitespace key = [''ssh-ed25519'', encoded]"
    and len: "length key = length ''ssh-ed25519'' + 1 + length encoded"
    and sep: "key ! 11 = CHR '' ''" by auto
  note two = two_words [OF words len]
  define pre post where "pre = take 11 key" and "post = drop 12 key"
  have key: "key = pre @ key ! 11 # post"
    unfolding pre_def post_def using len id_take_nth_drop [of 11 key] by simp
  have "length pre = 11" using len by (simp add: pre_def)
  have "spaced key = spaced pre @ '' '' @ spaced post"
    using arg_cong [OF key, of spaced] sep space_is_whitespace by simp
  then have eq: "spaced pre @ '' '' @ spaced post = ''ssh-ed25519'' @ '' '' @ encoded"
    using two(1) by (rule trans [OF sym])
  have "length (spaced pre) = length ''ssh-ed25519''"
    using \<open>length pre = 11\<close> by simp
  then have "spaced pre = ''ssh-ed25519'' \<and> '' '' @ spaced post = '' '' @ encoded"
    by (rule iffD1 [OF append_eq_append_conv [OF disjI1] eq])
  then have "spaced pre = ''ssh-ed25519''" "spaced post = encoded" by simp_all
  then have "pre = ''ssh-ed25519''" "post = encoded" "list_all (\<lambda>c. \<not> is_ascii_whitespace c) post"
    using spaced_no_space [of "''ssh-ed25519''" pre] spaced_no_space [OF two(3), of post] by auto
  then show ?R using key sep two(4) by simp
next
  assume r: ?R
  have kind: "list_all (\<lambda>c. \<not> is_ascii_whitespace c) ''ssh-ed25519''"
    by (simp add: is_ascii_whitespace_def)
  have "spaced key = ''ssh-ed25519'' @ CHR '' '' # encoded"
    using r spaced_id [OF kind] spaced_id [of encoded]
    by (simp add: is_ascii_whitespace_def)
  then have "split_on CHR '' '' (spaced key) = [''ssh-ed25519'', encoded]"
    using r no_whitespace_no_space [of encoded]
      split_on_append [of "CHR '' ''" "''ssh-ed25519''" encoded]
    by (simp add: split_on_no_sep)
  then show ?L
    using r by (simp add: split_ascii_whitespace_def spaced_def)
qed

lemma is_ssh_public_key_cases:
  "is_ssh_public_key b64 key \<longleftrightarrow>
     (\<exists>encoded. (\<exists>rest. split_ascii_whitespace key = ''ssh-ed25519'' # encoded # rest \<and> rest = [] \<and>
        length key = length ''ssh-ed25519'' + 1 + length encoded \<and> key ! 11 = CHR '' '') \<and>
        (\<exists>blob key_data public_key. b64 encoded = Some blob \<and>
           ssh_wire_string blob = Some (''ssh-ed25519'', key_data) \<and>
           ssh_wire_string key_data = Some (public_key, []) \<and> length public_key = 32))"
  (is "_ \<longleftrightarrow> (\<exists>encoded. (\<exists>rest. ?words encoded rest) \<and> ?wire encoded)")
proof (cases "\<exists>encoded rest. ?words encoded rest")
  case True
  then obtain encoded where w: "?words encoded []" by blast
  then have "is_ssh_public_key b64 key \<longleftrightarrow> ?wire encoded"
    by (simp add: is_ssh_public_key_def eval_nat_numeral split: option.splits) blast
  then show ?thesis using w by auto
next
  case False
  have "\<not> is_ssh_public_key b64 key"
  proof
    assume k: "is_ssh_public_key b64 key"
    then obtain kind encoded rest where "split_ascii_whitespace key = kind # encoded # rest"
      by (auto simp: is_ssh_public_key_def split: list.splits)
    with k have "?words encoded rest"
      by (auto simp: is_ssh_public_key_def eval_nat_numeral split: if_splits)
    with False show False by blast
  qed
  with False show ?thesis by blast
qed

lemma key_blob_iff:
  "(\<exists>blob key_data public_key. x = Some blob \<and>
      ssh_wire_string blob = Some (''ssh-ed25519'', key_data) \<and>
      ssh_wire_string key_data = Some (public_key, []) \<and> length public_key = 32) \<longleftrightarrow>
   (\<exists>public_key. length public_key = 32 \<and> x = Some (wire ''ssh-ed25519'' @ wire public_key))"
proof
  assume "\<exists>public_key. length public_key = 32 \<and> x = Some (wire ''ssh-ed25519'' @ wire public_key)"
  then obtain public_key where k: "length public_key = 32"
    "x = Some (wire ''ssh-ed25519'' @ wire public_key)" by blast
  have "ssh_wire_string (wire ''ssh-ed25519'' @ wire public_key) =
      Some (''ssh-ed25519'', wire public_key)"
    "ssh_wire_string (wire public_key) = Some (public_key, [])"
    using k(1) by (simp_all only: ssh_wire_string_Some) simp_all
  with k show "\<exists>blob key_data public_key. x = Some blob \<and>
      ssh_wire_string blob = Some (''ssh-ed25519'', key_data) \<and>
      ssh_wire_string key_data = Some (public_key, []) \<and> length public_key = 32"
    by blast
qed (auto simp: ssh_wire_string_Some)

lemma is_ssh_public_key_iff:
  "is_ssh_public_key b64 key \<longleftrightarrow>
     (\<exists>encoded public_key. key = ''ssh-ed25519 '' @ encoded \<and> encoded \<noteq> [] \<and>
        list_all (\<lambda>c. \<not> is_ascii_whitespace c) encoded \<and> length public_key = 32 \<and>
        b64 encoded = Some (wire ''ssh-ed25519'' @ wire public_key))"
  unfolding is_ssh_public_key_cases public_key_fields key_blob_iff by blast

section \<open>Environment\<close>

lemma workspace_environment_wf: "bt_wf workspace_environment"
  unfolding workspace_environment_def by (rule bt_collect_wf)

lemma workspace_environment_no_ssh:
  "bt_get workspace_environment ''GASCAN_SSH_ENABLED'' = None"
  "bt_get workspace_environment ''GASCAN_SSH_AUTHORIZED_KEY'' = None"
  unfolding workspace_environment_def bt_collect_get by simp_all

lemma guest_environment_wf: "bt_wf (guest_environment ssh_on control)"
  by (simp add: guest_environment_def Let_def bt_wf_intros workspace_environment_wf split: option.splits)

lemma guest_environment_get:
  "bt_get (guest_environment ssh_on control) k =
     (if k = ''GASCAN_SSH_ENABLED'' then Some (if ssh_on then ''1'' else ''0'')
      else if k = ''GASCAN_SSH_AUTHORIZED_KEY'' then
        (if ssh_on then cp_ssh_authorized_key control else None)
      else bt_get workspace_environment k)"
  by (auto simp: guest_environment_def Let_def bt_insert_get bt_wf_intros workspace_environment_wf
      workspace_environment_no_ssh split: option.splits)

section \<open>Restoring a transport\<close>

lemma clear_environment_get:
  "bt_wf (cr_environment req) \<Longrightarrow>
     bt_get (cr_environment (clear_ssh_transport ssh_on req)) k =
       (if k = ''GASCAN_SSH_ENABLED'' then Some (if ssh_on then ''1'' else ''0'')
        else if k = ''GASCAN_SSH_AUTHORIZED_KEY'' then None
        else bt_get (cr_environment req) k)"
  by (simp add: clear_ssh_transport_def bt_insert_get bt_remove_get bt_wf_intros)

lemma clear_environment_wf:
  "bt_wf (cr_environment req) \<Longrightarrow> bt_wf (cr_environment (clear_ssh_transport ssh_on req))"
  by (simp add: clear_ssh_transport_def bt_wf_intros)

lemma restored_environment:
  assumes "cp_ssh_authorized_key c2 = Some key"
  shows "bt_insert ''GASCAN_SSH_AUTHORIZED_KEY'' key
     (bt_insert ''GASCAN_SSH_ENABLED'' ''1''
       (bt_remove ''GASCAN_SSH_AUTHORIZED_KEY'' (guest_environment b c1))) = guest_environment True c2"
  using assms
  by (intro bt_eqI)
    (simp_all add: bt_wf_intros guest_environment_wf bt_insert_get bt_remove_get guest_environment_get)

lemma cleared_ports:
  assumes "22 \<notin> set (bt_values (m_ports (spec_manifest spec)))"
  shows "cr_ports (clear_ssh_transport b (compiled_request spec img control port)) =
    map (\<lambda>p. loopback_port p p) (bt_values (m_ports (spec_manifest spec)))"
proof -
  have "filter (\<lambda>p. p \<noteq> 22) (bt_values (m_ports (spec_manifest spec))) =
      bt_values (m_ports (spec_manifest spec))"
    using assms by (auto simp: filter_id_conv)
  then show ?thesis
    by (simp add: clear_ssh_transport_def loopback_port_def filter_map o_def split: option.splits)
qed

lemma restored_request:
  assumes "22 \<notin> set (bt_values (m_ports (spec_manifest spec)))"
    and "ssh_enabled (m_ssh (spec_manifest spec))"
    and "cp_ssh_authorized_key c2 = Some key"
  shows "(clear_ssh_transport True (compiled_request spec img (Some c1) port))
      \<lparr> cr_ports := cr_ports (clear_ssh_transport True (compiled_request spec img (Some c1) port))
          @ [loopback_port p2 22],
        cr_environment := bt_insert ''GASCAN_SSH_AUTHORIZED_KEY'' key
          (cr_environment (clear_ssh_transport True (compiled_request spec img (Some c1) port))) \<rparr> =
    compiled_request spec img (Some c2) (Some p2)"
proof -
  have "ssh_requested spec (Some c2)" using assms(2) by (simp add: ssh_requested_def)
  then show ?thesis
    unfolding cleared_ports [OF assms(1)]
    by (simp add: clear_ssh_transport_def compiled_request_def Let_def restored_environment [OF assms(3)])
qed

lemma workspace_image_immutable: "immutable_image_reference WORKSPACE_IMAGE"
  by code_simp

lemma compiled_ports_distinct:
  assumes "policy_accepts b64 spec caps img control port"
  shows "distinct (map rp_host_port (cr_ports (compiled_request spec img control port)))"
    "list_all (\<lambda>p. rp_host_address p = LOCALHOST \<and> rp_host_port p \<noteq> 0)
       (cr_ports (compiled_request spec img control port))"
proof -
  let ?declared = "bt_values (m_ports (spec_manifest spec))"
  have ports: "distinct (?declared @ (case port of None \<Rightarrow> [] | Some p \<Rightarrow> [p]))" "0 \<notin> set ?declared"
    "\<And>p. port = Some p \<Longrightarrow> 1024 \<le> p"
    using assms by (auto simp: policy_accepts_def ssh_transport_ok_def Let_def split: if_splits)
  show "distinct (map rp_host_port (cr_ports (compiled_request spec img control port)))"
    using ports(1) by (simp add: loopback_port_def o_def split: option.splits)
  have "port = Some p \<Longrightarrow> p \<noteq> 0" for p using ports(3) by fastforce
  then show "list_all (\<lambda>p. rp_host_address p = LOCALHOST \<and> rp_host_port p \<noteq> 0)
       (cr_ports (compiled_request spec img control port))"
    using ports(2) by (auto simp: list_all_iff loopback_port_def split: option.splits)
qed

lemma compiled_volumes_owned:
  assumes "storage_within (m_storage (spec_manifest spec))"
  shows "list_all (\<lambda>v. vol_ownership v = cr_ownership (compiled_request spec img control port) \<and>
     unat (vol_capacity_bytes v) \<le> 512 * 1024 ^ 3) (cr_volumes (compiled_request spec img control port))"
  using assms
  by (simp add: managed_volumes_def managed_volume_names_def storage_within_def)

lemma compiled_offline:
  assumes "manifest_wf (spec_manifest spec)" "m_network (spec_manifest spec) = Offline"
    and "policy_accepts b64 spec caps img control port"
  shows "cr_ports (compiled_request spec img control port) = []" "cap_offline caps = Proven"
proof -
  have "\<not> ssh_enabled (m_ssh (spec_manifest spec))"
    using assms(1,2) by (auto simp: manifest_wf_def)
  then have "port = None" "m_ports (spec_manifest spec) = []"
    using assms(2,3) by (auto simp: policy_accepts_def ssh_transport_ok_def ssh_requested_def Let_def)
  then show "cr_ports (compiled_request spec img control port) = []"
    by (simp add: bt_values_def)
  show "cap_offline caps = Proven"
    using assms(2,3) by (simp add: policy_accepts_def Let_def)
qed

lemma compiled_limits:
  assumes "manifest_wf (spec_manifest spec)" "policy_accepts b64 spec caps img control port"
  shows "\<exists>c mem. cr_resources (compiled_request spec img control port) =
      \<lparr> lim_cpus = Some c, lim_memory_bytes = Some mem, lim_disk_bytes = None, lim_process_count = None \<rparr> \<and>
    1 \<le> unat c \<and> unat c \<le> 16 \<and> unat mem \<le> 64 * 1024 ^ 3"
proof -
  let ?r = "m_resources (spec_manifest spec)"
  let ?c = "unwrap_or DEFAULT_CPUS (res_cpus ?r)"
  let ?m = "case res_memory ?r of None \<Rightarrow> DEFAULT_MEMORY_BYTES | Some v \<Rightarrow> size_bytes v"
  have "?c \<le> MAX_CPUS" "?m \<le> MAX_MEMORY_BYTES"
    using assms(2) by (simp_all add: policy_accepts_def Let_def)
  then have "unat ?c \<le> 16" "unat ?m \<le> 64 * 1024 ^ 3"
    by (simp_all add: word_le_nat_alt MAX_CPUS_def MAX_MEMORY_BYTES_def)
  moreover have "?c \<noteq> 0"
    using assms(1) by (cases "res_cpus ?r") (auto simp: manifest_wf_def DEFAULT_CPUS_def)
  then have "1 \<le> unat ?c" by (simp add: unat_gt_0 Suc_le_eq)
  ultimately show ?thesis
    by (intro exI [of _ ?c] exI [of _ ?m]) (simp add: compiled_request_def Let_def)
qed

section \<open>Properties\<close>

text \<open>C1. Isolation: a create request that the compiler returns for a validated manifest runs
  an immutable image, mounts exactly the canonical root at /workspace, uses only volumes that
  carry the ownership of the sandbox and hold at most 512 GiB, publishes distinct non-zero ports
  on the loopback address only, and has between 1 and 16 CPUs and at most 64 GiB of memory; if
  the manifest is offline, the runtime has proven isolation, there is no network and no port is
  published.\<close>

theorem compile_isolates:
  assumes "manifest_wf (spec_manifest spec)"
    and "compile_for_image_internal b64 spec caps img control = Ok req"
  shows "immutable_image_reference (cr_image req) \<and>
    (\<exists>mount. cr_bind_mounts req = [mount] \<and> path_eq (bm_source mount) (spec_root spec) \<and>
       path_eq (bm_target mount) ''/workspace'' \<and> bm_writable mount) \<and>
    cr_ownership req = \<lparr> om_managed_by = ''gascan'', om_sandbox_id = spec_id spec \<rparr> \<and>
    list_all (\<lambda>v. vol_ownership v = cr_ownership req \<and> unat (vol_capacity_bytes v) \<le> 512 * 1024 ^ 3)
      (cr_volumes req) \<and>
    distinct (map rp_host_port (cr_ports req)) \<and>
    list_all (\<lambda>p. rp_host_address p = LOCALHOST \<and> rp_host_port p \<noteq> 0) (cr_ports req) \<and>
    (\<exists>c mem. cr_resources req = \<lparr> lim_cpus = Some c, lim_memory_bytes = Some mem,
         lim_disk_bytes = None, lim_process_count = None \<rparr> \<and>
       1 \<le> unat c \<and> unat c \<le> 16 \<and> unat mem \<le> 64 * 1024 ^ 3) \<and>
    (case m_network (spec_manifest spec) of
       Offline \<Rightarrow> cap_offline caps = Proven \<and> cr_network req = RuntimeOffline \<and> cr_ports req = []
     | Networked \<Rightarrow> cr_network req = RuntimeNetworked (managed_network_name (spec_id spec)))"
proof -
  obtain port where acc: "policy_accepts b64 spec caps img control port"
    and req: "req = compiled_request spec img control port"
    using assms(2) by (auto simp: compile_Ok)
  have mount: "\<exists>mount. cr_bind_mounts req = [mount] \<and> path_eq (bm_source mount) (spec_root spec) \<and>
       path_eq (bm_target mount) ''/workspace'' \<and> bm_writable mount"
    using acc by (auto simp: policy_accepts_def req compiled_request_def Let_def WORKSPACE_TARGET_def)
  have "storage_within (m_storage (spec_manifest spec))"
    using assms(1) by (simp add: manifest_wf_def)
  note vols = compiled_volumes_owned [OF this, of img control port, folded req]
  have owner: "cr_ownership req = \<lparr> om_managed_by = ''gascan'', om_sandbox_id = spec_id spec \<rparr>"
    by (simp add: req MANAGED_BY_def)
  have img: "immutable_image_reference (cr_image req)"
    using acc by (simp add: req policy_accepts_def Let_def)
  have net: "case m_network (spec_manifest spec) of
       Offline \<Rightarrow> cap_offline caps = Proven \<and> cr_network req = RuntimeOffline \<and> cr_ports req = []
     | Networked \<Rightarrow> cr_network req = RuntimeNetworked (managed_network_name (spec_id spec))"
    using compiled_offline [OF assms(1) _ acc, folded req]
    by (cases "m_network (spec_manifest spec)") (simp_all add: req)
  show ?thesis
    using img mount owner vols compiled_ports_distinct [OF acc, folded req]
      compiled_limits [OF assms(1) acc, folded req] net
    by (intro conjI)
qed

definition example_manifest :: manifest where
  "example_manifest = (defaults_for_root ''/w'')
     \<lparr> m_network := Networked, m_ports := [(''web'', 8080)],
       m_ssh := \<lparr> ssh_enabled = True, ssh_host_port = None \<rparr> \<rparr>"

definition example_spec :: sandbox_spec where
  "example_spec =
     \<lparr> spec_id = example_id, spec_root = ''/w'', spec_manifest = example_manifest,
       spec_mounts = [\<lparr> mount_source = ''/w'', mount_target = WORKSPACE_TARGET, mount_writable = True \<rparr>] \<rparr>"

definition example_capabilities :: runtime_capabilities where
  "example_capabilities =
     \<lparr> cap_version = \<lparr> v_major = 1, v_minor = 1, v_patch = 0 \<rparr>, cap_bind_mounts = True,
       cap_named_volumes = True, cap_tty = True, cap_signals = True, cap_loopback_publish = True,
       cap_resource_limits = True, cap_offline = Proven \<rparr>"

definition example_b64 :: "string \<Rightarrow> string option" where
  "example_b64 s = Some (wire ''ssh-ed25519'' @ wire (replicate 32 CHR ''k''))"

definition example_control :: "u16 \<Rightarrow> control_plane_policy" where
  "example_control p =
     \<lparr> cp_ssh_authorized_key = Some ''ssh-ed25519 QUJD'', cp_ssh_host_port = Some p \<rparr>"

lemma example_manifest_wf: "manifest_wf example_manifest"
  using defaults_wf [of "''/w''"]
  by (simp add: example_manifest_def manifest_wf_def defaults_for_root_def)

lemma example_key: "is_ssh_public_key example_b64 ''ssh-ed25519 QUJD''"
  unfolding is_ssh_public_key_iff
  by (rule exI [of _ "''QUJD''"], rule exI [of _ "replicate 32 CHR ''k''"])
    (simp add: example_b64_def is_ascii_whitespace_def)

lemma example_accepts:
  assumes "p \<in> {2222, 2223}"
  shows "policy_accepts example_b64 example_spec example_capabilities WORKSPACE_IMAGE
     (Some (example_control p)) (Some p)"
  using assms workspace_image_immutable example_key
  by (auto simp: policy_accepts_def example_spec_def example_capabilities_def example_manifest_def
      example_control_def defaults_for_root_def resources_empty_def ssh_transport_ok_def
      ssh_requested_def path_eq_def bt_values_def DEFAULT_CPUS_def MAX_CPUS_def
      DEFAULT_MEMORY_BYTES_def MAX_MEMORY_BYTES_def)

lemma example_compiles:
  "p \<in> {2222, 2223} \<Longrightarrow>
     compile_for_image_internal example_b64 example_spec example_capabilities WORKSPACE_IMAGE
       (Some (example_control p)) =
     Ok (compiled_request example_spec WORKSPACE_IMAGE (Some (example_control p)) (Some p))"
  using example_accepts by (auto simp: compile_Ok)

theorem compile_isolates_witness:
  "\<exists>req. compile_for_image_internal example_b64 example_spec example_capabilities WORKSPACE_IMAGE
      (Some (example_control 2222)) = Ok req \<and>
    immutable_image_reference (cr_image req) \<and> distinct (map rp_host_port (cr_ports req)) \<and>
    map rp_host_port (cr_ports req) = [8080, 2222]"
proof -
  have wf: "manifest_wf (spec_manifest example_spec)"
    by (simp add: example_spec_def example_manifest_wf)
  have ok: "compile_for_image_internal example_b64 example_spec example_capabilities WORKSPACE_IMAGE
      (Some (example_control 2222)) =
    Ok (compiled_request example_spec WORKSPACE_IMAGE (Some (example_control 2222)) (Some 2222))"
    by (rule example_compiles) simp
  have "map rp_host_port (cr_ports
      (compiled_request example_spec WORKSPACE_IMAGE (Some (example_control 2222)) (Some 2222))) =
      [8080, 2222]"
    by (simp add: example_spec_def example_manifest_def bt_values_def loopback_port_def)
  then show ?thesis
    using compile_isolates [OF wf ok] ok by (elim conjE) (intro exI conjI)
qed

text \<open>C16. The compiler is exact: it returns a request precisely when the image is immutable, the
  specification has the one canonical writable mount, the runtime has the capabilities that the
  manifest needs (loopback publishing for ports or SSH, proven isolation for offline), the SSH key
  and host port are valid and agree with the manifest, the published ports are distinct and
  non-zero, and the resources are within the ceilings; and the request is determined by them.\<close>

theorem compile_exact:
  "compile_for_image_internal b64 spec caps img control = Ok req \<longleftrightarrow>
     (\<exists>port. policy_accepts b64 spec caps img control port \<and>
        req = compiled_request spec img control port)"
  by (rule compile_Ok)

text \<open>C30. Restoring a transport is recompiling: for a manifest with SSH enabled, no fixed SSH host
  port and no declared port 22, \<open>restore_ssh_transport\<close> applied to a compiled request gives
  the same result, errors included, as compiling with the other control-plane policy.\<close>

theorem restore_is_recompile:
  assumes "manifest_wf (spec_manifest spec)"
    and "ssh_enabled (m_ssh (spec_manifest spec))"
    and "ssh_host_port (m_ssh (spec_manifest spec)) = None"
    and "22 \<notin> set (bt_values (m_ports (spec_manifest spec)))"
    and "compile_for_image_internal b64 spec caps img (Some c1) = Ok req"
  shows "restore_ssh_transport b64 req (Some c2) =
    compile_for_image_internal b64 spec caps img (Some c2)"
proof -
  obtain port where acc: "policy_accepts b64 spec caps img (Some c1) port"
    and req: "req = compiled_request spec img (Some c1) port"
    using assms(5) by (auto simp: compile_Ok)
  have net: "m_network (spec_manifest spec) = Networked"
    using assms(1,2) by (simp add: manifest_wf_def)
  have checks: "immutable_image_reference img" "validate_spec spec = Ok ()"
    "validate_capabilities spec caps True = Ok ()"
    "compile_resources (m_resources (spec_manifest spec)) =
       Ok (cr_resources (compiled_request spec img (Some c2) port))"
    using acc assms(2)
    by (simp_all add: policy_accepts_def Let_def validate_spec_Ok validate_capabilities_Ok
        ssh_requested_def compile_resources_Ok compiled_request_def)
  show ?thesis
  proof (cases "check_ssh_key_and_port b64 c2")
    case (Err e)
    then show ?thesis
      using checks(1-3) net assms(2)
      by (simp add: restore_ssh_transport_def compile_for_image_internal_def req
          clear_ssh_transport_def)
  next
    case (Ok kp)
    then obtain key p2 where c2: "check_ssh_key_and_port b64 c2 = Ok (key, p2)" by (cases kp) auto
    then have key: "cp_ssh_authorized_key c2 = Some key" by (simp add: check_ssh_Ok)
    let ?declared = "bt_values (m_ports (spec_manifest spec))"
    have declared: "compile_declared [] ?declared = Ok (map (\<lambda>p. loopback_port p p) ?declared)"
      using acc by (simp add: policy_accepts_def Let_def compile_declared_Ok)
    have used: "list_ex (\<lambda>mapping. rp_host_port mapping = p2)
        (cr_ports (clear_ssh_transport True req)) \<longleftrightarrow> p2 \<in> set ?declared"
      unfolding req cleared_ports [OF assms(4)] by (auto simp: list_ex_iff loopback_port_def)
    show ?thesis
    proof (cases "p2 \<in> set ?declared")
      case True
      then show ?thesis
        using used checks(1-3) net assms(2,3) c2 declared
        by (simp add: restore_ssh_transport_def compile_for_image_internal_def compile_ports_def)
          (simp add: req clear_ssh_transport_def)
    next
      case False
      have "restore_ssh_transport b64 req (Some c2) =
          Ok (compiled_request spec img (Some c2) (Some p2))"
        using False used c2 net restored_request [OF assms(4,2) key, of img c1 port p2]
        by (simp add: restore_ssh_transport_def Let_def) (simp add: req clear_ssh_transport_def)
      moreover have "policy_accepts b64 spec caps img (Some c2) (Some p2)"
        using acc c2 False assms(2,3)
        by (auto simp: policy_accepts_def Let_def ssh_transport_ok_def ssh_requested_def check_ssh_Ok
            split: option.splits)
      ultimately show ?thesis by (metis compile_Ok)
    qed
  qed
qed

theorem restore_is_recompile_witness:
  "restore_ssh_transport example_b64
      (compiled_request example_spec WORKSPACE_IMAGE (Some (example_control 2222)) (Some 2222))
      (Some (example_control 2223)) =
    Ok (compiled_request example_spec WORKSPACE_IMAGE (Some (example_control 2223)) (Some 2223))"
proof -
  have "restore_ssh_transport example_b64
      (compiled_request example_spec WORKSPACE_IMAGE (Some (example_control 2222)) (Some 2222))
      (Some (example_control 2223)) =
    compile_for_image_internal example_b64 example_spec example_capabilities WORKSPACE_IMAGE
       (Some (example_control 2223))"
    by (rule restore_is_recompile [OF _ _ _ _ example_compiles])
      (simp_all add: example_spec_def example_manifest_wf,
       simp_all add: example_manifest_def bt_values_def)
  then show ?thesis by (simp add: example_compiles)
qed

text \<open>C31. Restoring does more than its description says: the transport is recognised by guest
  port 22 alone, so when the manifest itself declares port 22, restoring the absent transport over
  a request that has none drops the declared mapping.\<close>

theorem restore_drops_declared_port:
  assumes "compile_for_image_internal b64 spec caps img None = Ok req"
    and "22 \<in> set (bt_values (m_ports (spec_manifest spec)))"
  shows "loopback_port 22 22 \<in> set (cr_ports req) \<and>
    (\<exists>req'. restore_ssh_transport b64 req None = Ok req' \<and> loopback_port 22 22 \<notin> set (cr_ports req'))"
proof -
  obtain port where "req = compiled_request spec img None port"
    using assms(1) by (auto simp: compile_Ok)
  then show ?thesis
    using assms(2)
    by (auto simp: restore_ssh_transport_def clear_ssh_transport_def loopback_port_def)
qed

theorem restore_drops_declared_port_witness:
  "let spec = example_spec \<lparr> spec_manifest := example_manifest \<lparr> m_ports := [(''ssh'', 22)] \<rparr> \<rparr>
   in \<exists>req. compile_for_image_internal example_b64 spec example_capabilities WORKSPACE_IMAGE None = Ok req \<and>
        loopback_port 22 22 \<in> set (cr_ports req)"
proof -
  let ?spec = "example_spec \<lparr> spec_manifest := example_manifest \<lparr> m_ports := [(''ssh'', 22)] \<rparr> \<rparr>"
  have "policy_accepts example_b64 ?spec example_capabilities WORKSPACE_IMAGE None None"
    using workspace_image_immutable
    by (simp add: policy_accepts_def example_spec_def example_capabilities_def example_manifest_def
        defaults_for_root_def resources_empty_def ssh_transport_ok_def ssh_requested_def path_eq_def
        bt_values_def DEFAULT_CPUS_def MAX_CPUS_def DEFAULT_MEMORY_BYTES_def MAX_MEMORY_BYTES_def)
  then have ok: "compile_for_image_internal example_b64 ?spec example_capabilities WORKSPACE_IMAGE None =
      Ok (compiled_request ?spec WORKSPACE_IMAGE None None)"
    by (auto simp: compile_Ok)
  have "22 \<in> set (bt_values (m_ports (spec_manifest ?spec)))"
    by (simp add: example_spec_def bt_values_def)
  from restore_drops_declared_port [OF ok this] ok show ?thesis
    unfolding Let_def by (elim conjE) (intro exI conjI)
qed

text \<open>A key is accepted exactly when it is the text ssh-ed25519, one space and a non-empty
  word without white space that decodes to the two wire strings ssh-ed25519 and a 32-byte public
  key with nothing after them.\<close>

lemma ssh_public_key_exact:
  "is_ssh_public_key b64 key \<longleftrightarrow>
     (\<exists>encoded public_key. key = ''ssh-ed25519 '' @ encoded \<and> encoded \<noteq> [] \<and>
        list_all (\<lambda>c. \<not> is_ascii_whitespace c) encoded \<and> length public_key = 32 \<and>
        b64 encoded = Some (wire ''ssh-ed25519'' @ wire public_key))"
  by (rule is_ssh_public_key_iff)

text \<open>C32. The names that destroy and reconciliation look for are the names that the compiler
  uses: for a specification with a valid identity, the container, the volumes and the network of a
  compiled request are exactly the expected identities of its sandbox when the manifest is networked,
  and exactly those but the network when it is offline; and the expected identities of two sandboxes
  never overlap.\<close>

theorem compiled_resources_expected:
  assumes "validate_sandbox_id (as_str (spec_id spec)) = Returned (Ok ())"
    and "compile_for_image_internal b64 spec caps img control = Ok req"
  shows "\<exists>xs. expected_resource_identities (spec_id spec) = Ok xs \<and> distinct xs \<and>
     insert (container_identity req) (topology req) =
       (if m_network (spec_manifest spec) = Networked then set xs
        else set xs - {ResourceIdentity Network (managed_network_name (spec_id spec))}) \<and>
     request_names_ok req \<and>
     (expected_resource_identities other = Ok ys \<longrightarrow> other \<noteq> spec_id spec \<longrightarrow> set xs \<inter> set ys = {})"
proof -
  obtain port where req: "req = compiled_request spec img control port"
    using assms(2) by (auto simp: compile_Ok)
  have "set ys = set (managed_identities other)" if "expected_resource_identities other = Ok ys"
    using that by (auto simp: expected_resource_identities_def managed_identities_def result_simps
        loop_simps managed_volume_names_def list_all2_Cons1)
  then show ?thesis
    unfolding req compiled_topology
    using expected_identities_Ok [OF assms(1)] managed_identities_distinct compiled_names_ok [OF assms(1)]
      managed_identities_disjoint
    by (intro exI [of _ "managed_identities (spec_id spec)"]) auto
qed

theorem compiled_resources_expected_witness:
  "let req = compiled_request example_spec WORKSPACE_IMAGE (Some (example_control 2222)) (Some 2222) in
   compile_for_image_internal example_b64 example_spec example_capabilities WORKSPACE_IMAGE
     (Some (example_control 2222)) = Ok req \<and>
   expected_resource_identities example_id = Ok (managed_identities example_id) \<and>
   insert (container_identity req) (topology req) = set (managed_identities example_id) \<and>
   ResourceIdentity Volume ''gascan-cache-demo-0123456789ab'' \<in> set (managed_identities example_id)"
proof -
  have "list_all is_lower_hex ''0123456789ab'' \<and> valid_slug ''demo''"
    by (simp add: ascii_simps valid_slug_def starts_with_char_def ends_with_char_def sublist_code)
  then have "validate_sandbox_id (''demo'' @ ''-'' @ ''0123456789ab'') = Returned (Ok ())"
    unfolding validate_sandbox_id_Ok
    by (intro exI [of _ "''demo''"] exI [of _ "''0123456789ab''"]) simp
  then have valid: "validate_sandbox_id (as_str (spec_id example_spec)) = Returned (Ok ())"
    by (simp add: example_spec_def example_id_def)
  have ok: "compile_for_image_internal example_b64 example_spec example_capabilities WORKSPACE_IMAGE
      (Some (example_control 2222)) =
    Ok (compiled_request example_spec WORKSPACE_IMAGE (Some (example_control 2222)) (Some 2222))"
    by (rule example_compiles) simp
  have net: "m_network (spec_manifest example_spec) = Networked" and id: "spec_id example_spec = example_id"
    by (simp_all add: example_spec_def example_manifest_def defaults_for_root_def)
  have exp: "expected_resource_identities example_id = Ok (managed_identities example_id)"
    using expected_identities_Ok [OF valid] by (simp add: id)
  with compiled_resources_expected [OF valid ok] net
  have "insert (container_identity (compiled_request example_spec WORKSPACE_IMAGE (Some (example_control 2222)) (Some 2222)))
      (topology (compiled_request example_spec WORKSPACE_IMAGE (Some (example_control 2222)) (Some 2222))) =
    set (managed_identities example_id)"
    by (auto simp: id)
  with ok exp show ?thesis
    unfolding Let_def
    by (simp add: example_id_def managed_identities_def managed_volume_names_def)
qed

text \<open>The host environment that reaches a sandbox is exactly the allow-list: a variable is
  passed, with its last value, if it is one of the six named variables or LC_ followed by at least
  one character, and otherwise it is absent.\<close>

lemma host_environment_filtered:
  "bt_get (filtered_host_environment env) k =
     (if k \<in> {''TERM'', ''COLORTERM'', ''LANG'', ''GH_NO_UPDATE_NOTIFIER'', ''GLAB_CHECK_UPDATE'', ''NO_COLOR''} \<or>
         (\<exists>c rest. k = ''LC_'' @ c # rest)
      then map_of (rev env) k else None)"
proof -
  have allowed: "is_allowed_environment_key k \<longleftrightarrow>
      k \<in> {''TERM'', ''COLORTERM'', ''LANG'', ''GH_NO_UPDATE_NOTIFIER'', ''GLAB_CHECK_UPDATE'', ''NO_COLOR''} \<or>
      (\<exists>c rest. k = ''LC_'' @ c # rest)"
  proof -
    have "(case strip_prefix ''LC_'' k of None \<Rightarrow> False | Some rest \<Rightarrow> rest \<noteq> []) \<longleftrightarrow>
        (\<exists>c rest. k = ''LC_'' @ c # rest)"
      by (auto simp: strip_prefix_def prefix_def neq_Nil_conv)
    then show ?thesis unfolding is_allowed_environment_key_def by simp
  qed
  have "map_of (rev (filter (\<lambda>(key, _). is_allowed_environment_key key) env)) k =
      (if is_allowed_environment_key k then map_of (rev env) k else None)"
    by (simp add: rev_filter map_of_filter_key)
  then show ?thesis
    unfolding filtered_host_environment_def bt_collect_get allowed .
qed

end
