(* ===== verification/Provision.thy ===== *)
theory Provision
  imports Manifest Sandbox_Id
begin

text \<open>
  The provisioning planner (\<open>gascan-core/src/provision.rs\<close>): which guest steps an apply
  runs, given the manifest and the hashes recorded by the last one, and how the setup script is
  opened component by component without following links.  Parameters: \<open>sha256\<close>, the JSON
  serialiser of the tool map \<open>to_json\<close>, and the record \<open>dir_fs\<close> of the
  descriptor-based system calls.
\<close>

record applied_state =
  ap_tool_hash :: "string option"
  ap_setup_sha256 :: "string option"
  ap_shell_hash :: "string option"

definition applied_empty :: applied_state where
  "applied_empty = \<lparr> ap_tool_hash = None, ap_setup_sha256 = None, ap_shell_hash = None \<rparr>"

record setup_script =
  su_path :: string
  su_sha256 :: string

datatype provision_step =
    WriteSafeMiseConfig
  | InstallTools
  | ConfigureShell
  | RunSetup
  | VerifyGascamp
  | HealthCheck
  | InitializeRuntimeHome

primrec provision_step_as_str :: "provision_step \<Rightarrow> string" where
  "provision_step_as_str WriteSafeMiseConfig = ''write_safe_mise_config''"
| "provision_step_as_str InstallTools = ''install_tools''"
| "provision_step_as_str ConfigureShell = ''configure_shell''"
| "provision_step_as_str RunSetup = ''run_setup''"
| "provision_step_as_str VerifyGascamp = ''verify_gascamp''"
| "provision_step_as_str HealthCheck = ''health_check''"
| "provision_step_as_str InitializeRuntimeHome = ''initialize_runtime_home''"

record provision_plan =
  pl_steps :: "provision_step list"
  pl_desired_tools :: "(string, string) btree_map"
  pl_desired_tool_hash :: string
  pl_tools_changed :: bool
  pl_desired_shell_hash :: string
  pl_shell_prompt :: shell_prompt
  pl_shell_changed :: bool
  pl_setup_script :: "setup_script option"
  pl_setup_changed :: bool

datatype provision_error =
    HashTools string
  | SerializeConfig string
  | ProvisionSetupOutsideRoot
  | SetupSymlink
  | SetupNotRegular
  | SetupUnreadable

type_synonym tool_map = "(string, string) btree_map"
type_synonym digest = "string \<Rightarrow> u8 list"

definition sha256_string :: "digest \<Rightarrow> string \<Rightarrow> string" where
  "sha256_string sha256 bytes = ''sha256:'' @ lower (sha256 bytes)"

definition MANAGED_SHELL_CONFIG_VERSION :: string where
  "MANAGED_SHELL_CONFIG_VERSION = ''gascan-managed-shell-v1''"

definition desired_shell_hash :: "digest \<Rightarrow> shell_prompt \<Rightarrow> string" where
  "desired_shell_hash sha256 prompt =
     sha256_string sha256
       (MANAGED_SHELL_CONFIG_VERSION @ [CHR 0x00] @
        (case prompt of
           Standard \<Rightarrow> ''standard''
         | Starship \<Rightarrow> ''starship''
         | StarshipNerdFont \<Rightarrow> ''starship-nerd-font''))"

definition plan ::
  "digest \<Rightarrow> (tool_map \<Rightarrow> (string, string) result) \<Rightarrow> manifest \<Rightarrow> applied_state \<Rightarrow>
     (provision_plan, provision_error) result" where
  "plan sha256 to_json m applied =
     and_then (map_err HashTools (to_json (m_tools m))) (\<lambda>serialized.
     let desired_tool_hash = sha256_string sha256 serialized;
         tools_changed = (case ap_tool_hash applied of
             Some applied_hash \<Rightarrow> applied_hash \<noteq> desired_tool_hash
           | None \<Rightarrow> m_tools m \<noteq> []);
         shell_hash = desired_shell_hash sha256 (m_shell m);
         shell_changed = (ap_shell_hash applied \<noteq> Some shell_hash)
     in Ok \<lparr> pl_steps =
               (if tools_changed then [WriteSafeMiseConfig, InstallTools] else []) @
               (if shell_changed then [ConfigureShell] else []) @
               (if m_setup m \<noteq> None then [RunSetup] else []) @
               [VerifyGascamp] @ [HealthCheck],
             pl_desired_tools = m_tools m, pl_desired_tool_hash = desired_tool_hash,
             pl_tools_changed = tools_changed, pl_desired_shell_hash = shell_hash,
             pl_shell_prompt = m_shell m, pl_shell_changed = shell_changed,
             pl_setup_script = None, pl_setup_changed = False \<rparr>)"

definition safe_mise_toml ::
  "(tool_map \<Rightarrow> (string, string) result) \<Rightarrow> provision_plan \<Rightarrow> (string option, provision_error) result" where
  "safe_mise_toml to_toml p =
     (if \<not> pl_tools_changed p then Ok None
      else map_err SerializeConfig (map_ok Some (to_toml (pl_desired_tools p))))"

section \<open>Opening the setup script\<close>

datatype errno = ELOOP | ENOTDIR | OtherErrno nat

record 'fd dir_fs =
  df_open_root :: "('fd, errno) result"
  df_openat :: "'fd \<Rightarrow> string \<Rightarrow> bool \<Rightarrow> ('fd, errno) result"
  df_is_regular :: "'fd \<Rightarrow> (bool, errno) result"
  df_read :: "'fd \<Rightarrow> (string, errno) result"

definition map_setup_open_error :: "errno \<Rightarrow> provision_error" where
  "map_setup_open_error e = (if e = ELOOP \<or> e = ENOTDIR then SetupSymlink else SetupUnreadable)"

fun open_components :: "'fd dir_fs \<Rightarrow> 'fd \<Rightarrow> component list \<Rightarrow> ('fd, provision_error) result" where
  "open_components d dir [] = Ok dir"
| "open_components d dir (Normal c # cs) =
     and_then (map_err map_setup_open_error (df_openat d dir c True)) (\<lambda>dir. open_components d dir cs)"
| "open_components d dir (_ # cs) = Err ProvisionSetupOutsideRoot"

definition open_root_no_follow :: "'fd dir_fs \<Rightarrow> string \<Rightarrow> ('fd, provision_error) result" where
  "open_root_no_follow d path =
     (case components path of
        RootDir # cs \<Rightarrow>
          and_then (map_err map_setup_open_error (df_open_root d)) (\<lambda>dir. open_components d dir cs)
      | _ \<Rightarrow> Err ProvisionSetupOutsideRoot)"

fun walk_setup ::
  "'fd dir_fs \<Rightarrow> 'fd \<Rightarrow> string \<Rightarrow> 'fd option \<Rightarrow> component list \<Rightarrow>
     (string \<times> 'fd option, provision_error) result" where
  "walk_setup d dir path opened [] = Ok (path, opened)"
| "walk_setup d dir path opened (CurDir # cs) = walk_setup d dir path opened cs"
| "walk_setup d dir path opened (Normal c # cs) =
     and_then (map_err map_setup_open_error (df_openat d dir c (cs \<noteq> []))) (\<lambda>fd.
     if cs = [] then walk_setup d dir (path_join path c) (Some fd) cs
     else walk_setup d fd (path_join path c) opened cs)"
| "walk_setup d dir path opened (_ # cs) = Err ProvisionSetupOutsideRoot"

definition resolve_setup ::
  "digest \<Rightarrow> 'fd dir_fs \<Rightarrow> string \<Rightarrow> string \<Rightarrow> (setup_script, provision_error) result" where
  "resolve_setup sha256 d canonical_root relative_path =
     and_then (open_root_no_follow d canonical_root) (\<lambda>dir.
     and_then (walk_setup d dir [] None (components relative_path)) (\<lambda>(path, opened).
     and_then (ok_or SetupNotRegular opened) (\<lambda>script.
     and_then (map_err (\<lambda>_. SetupUnreadable) (df_is_regular d script)) (\<lambda>regular.
     if \<not> regular then Err SetupNotRegular
     else
       and_then (map_err (\<lambda>_. SetupUnreadable) (df_read d script)) (\<lambda>bytes.
       Ok \<lparr> su_path = path, su_sha256 = sha256_string sha256 bytes \<rparr>)))))"

fun insert_before_verify :: "provision_step list \<Rightarrow> provision_step list" where
  "insert_before_verify [] = [RunSetup]"
| "insert_before_verify (st # sts) =
     (if st = VerifyGascamp then RunSetup # st # sts else st # insert_before_verify sts)"

definition plan_for_root ::
  "digest \<Rightarrow> (tool_map \<Rightarrow> (string, string) result) \<Rightarrow> 'fd dir_fs \<Rightarrow> string \<Rightarrow> manifest \<Rightarrow>
     applied_state \<Rightarrow> (provision_plan, provision_error) result" where
  "plan_for_root sha256 to_json d canonical_root m applied =
     and_then (plan sha256 to_json m applied) (\<lambda>p.
     let steps = filter (\<lambda>step. step \<noteq> RunSetup) (pl_steps p) in
     and_then
       (case m_setup m of
          None \<Rightarrow> Ok None
        | Some path \<Rightarrow> map_ok Some (resolve_setup sha256 d canonical_root path)) (\<lambda>script.
     let changed = (case script of
           None \<Rightarrow> False
         | Some su \<Rightarrow> ap_setup_sha256 applied \<noteq> Some (su_sha256 su))
     in Ok (p \<lparr> pl_steps := (if changed then insert_before_verify steps else steps),
                pl_setup_script := script, pl_setup_changed := changed \<rparr>)))"

section \<open>What a plan contains\<close>

definition applied_by :: "provision_plan \<Rightarrow> applied_state" where
  "applied_by p =
     \<lparr> ap_tool_hash = Some (pl_desired_tool_hash p),
       ap_setup_sha256 = map_option su_sha256 (pl_setup_script p),
       ap_shell_hash = Some (pl_desired_shell_hash p) \<rparr>"

lemma plan_for_root_Ok:
  assumes "plan_for_root sha256 to_json d root m applied = Ok p"
  shows "pl_steps p =
      (if pl_tools_changed p then [WriteSafeMiseConfig, InstallTools] else []) @
      (if pl_shell_changed p then [ConfigureShell] else []) @
      (if pl_setup_changed p then [RunSetup] else []) @ [VerifyGascamp, HealthCheck]"
  using assms unfolding plan_for_root_def plan_def
  by (cases "m_setup m") (auto simp: result_simps Let_def)

lemma walk_setup_components:
  "walk_setup d dir path opened cs = Ok r \<Longrightarrow> set cs \<subseteq> insert CurDir (range Normal)"
proof (induction d dir path opened cs rule: walk_setup.induct)
  case (3 d dir path opened c cs)
  then show ?case by (cases "cs = []") (auto simp: result_simps)
qed auto

lemma resolve_setup_beneath:
  assumes "resolve_setup sha256 d root path = Ok script"
  shows "relative_beneath path"
proof -
  have "set (components path) \<subseteq> insert CurDir (range Normal)"
    using assms by (auto simp: resolve_setup_def result_simps dest: walk_setup_components)
  then have "RootDir \<notin> set (components path)" "ParentDir \<notin> set (components path)" by auto
  then show ?thesis
    by (simp add: relative_beneath_def RootDir_in_components)
qed

section \<open>Properties\<close>

text \<open>Which steps the inputs call for: the tools when the hash of their JSON text differs from the
  applied one or, with none applied, when there are tools at all; the shell when its hash differs;
  the setup when there is a script whose hash differs; the last two always.\<close>

definition tools_outdated ::
  "digest \<Rightarrow> (tool_map \<Rightarrow> (string, string) result) \<Rightarrow> manifest \<Rightarrow> applied_state \<Rightarrow> bool" where
  "tools_outdated sha256 to_json m applied =
     (case ap_tool_hash applied of
        None \<Rightarrow> m_tools m \<noteq> []
      | Some h \<Rightarrow> map_ok (sha256_string sha256) (to_json (m_tools m)) \<noteq> Ok h)"

definition setup_outdated ::
  "digest \<Rightarrow> 'fd dir_fs \<Rightarrow> string \<Rightarrow> manifest \<Rightarrow> applied_state \<Rightarrow> bool" where
  "setup_outdated sha256 d root m applied =
     (case m_setup m of
        None \<Rightarrow> False
      | Some path \<Rightarrow>
          (case resolve_setup sha256 d root path of
             Err _ \<Rightarrow> False
           | Ok script \<Rightarrow> ap_setup_sha256 applied \<noteq> Some (su_sha256 script)))"

fun step_needed ::
  "digest \<Rightarrow> (tool_map \<Rightarrow> (string, string) result) \<Rightarrow> 'fd dir_fs \<Rightarrow> string \<Rightarrow> manifest \<Rightarrow>
     applied_state \<Rightarrow> provision_step \<Rightarrow> bool" where
  "step_needed sha256 to_json d root m applied WriteSafeMiseConfig = tools_outdated sha256 to_json m applied"
| "step_needed sha256 to_json d root m applied InstallTools = tools_outdated sha256 to_json m applied"
| "step_needed sha256 to_json d root m applied ConfigureShell =
     (ap_shell_hash applied \<noteq> Some (desired_shell_hash sha256 (m_shell m)))"
| "step_needed sha256 to_json d root m applied RunSetup = setup_outdated sha256 d root m applied"
| "step_needed sha256 to_json d root m applied VerifyGascamp = True"
| "step_needed sha256 to_json d root m applied HealthCheck = True"

text \<open>C35. The steps of a plan are exactly the ones that the inputs call for, in the fixed order tools,
  shell, setup, verification, health check: the tools when the hash of their JSON text is not the
  applied one (with none applied: when there are tools), the shell when the hash of its configuration
  is not the applied one, the setup when the hash of its script is not the applied one.  A setup
  script that is planned for lies beneath the root, without parent or root components.  Planning
  fails only when the tools cannot be written as JSON or the setup script cannot be resolved, with
  the error of that.\<close>

theorem plan_steps_exact:
  "case plan_for_root sha256 to_json d root m applied of
     Ok p \<Rightarrow>
       pl_steps p = filter (step_needed sha256 to_json d root m applied)
         [WriteSafeMiseConfig, InstallTools, ConfigureShell, RunSetup, VerifyGascamp, HealthCheck] \<and>
       (\<forall>path. m_setup m = Some path \<longrightarrow> relative_beneath path)
   | Err e \<Rightarrow>
       (\<exists>x. to_json (m_tools m) = Err x \<and> e = HashTools x) \<or>
       (\<exists>path. m_setup m = Some path \<and> resolve_setup sha256 d root path = Err e)"
proof (cases "plan_for_root sha256 to_json d root m applied")
  case (Err e)
  then show ?thesis
    by (cases "m_setup m") (auto simp: plan_for_root_def plan_def result_simps Let_def)
next
  case (Ok p)
  obtain ser where ser: "to_json (m_tools m) = Ok ser"
    using Ok by (auto simp: plan_for_root_def plan_def result_simps)
  have tools: "pl_tools_changed p \<longleftrightarrow> tools_outdated sha256 to_json m applied"
    using Ok ser
    by (cases "ap_tool_hash applied")
      (auto simp: plan_for_root_def plan_def result_simps Let_def tools_outdated_def)
  have shell: "pl_shell_changed p \<longleftrightarrow> ap_shell_hash applied \<noteq> Some (desired_shell_hash sha256 (m_shell m))"
    using Ok by (auto simp: plan_for_root_def plan_def result_simps Let_def)
  have set: "pl_setup_changed p \<longleftrightarrow> setup_outdated sha256 d root m applied"
    using Ok by (cases "m_setup m")
      (auto simp: plan_for_root_def result_simps Let_def setup_outdated_def)
  have "relative_beneath path" if "m_setup m = Some path" for path
    using Ok that by (auto simp: plan_for_root_def result_simps Let_def intro: resolve_setup_beneath)
  then show ?thesis using plan_for_root_Ok [OF Ok] by (simp add: Ok tools shell set)
qed

text \<open>C36. Provisioning converges: once the hashes of a plan have been recorded as applied,
  planning again for the same manifest and files runs only the verification and the health
  check.\<close>

theorem plan_converges:
  assumes "plan_for_root sha256 to_json d root m applied = Ok p"
  shows "\<exists>p'. plan_for_root sha256 to_json d root m (applied_by p) = Ok p' \<and>
    pl_steps p' = [VerifyGascamp, HealthCheck] \<and> applied_by p' = applied_by p"
proof -
  let ?resolved = "case m_setup m of None \<Rightarrow> Ok None
    | Some path \<Rightarrow> map_ok Some (resolve_setup sha256 d root path)"
  obtain ser where ser: "to_json (m_tools m) = Ok ser"
    using assms by (auto simp: plan_for_root_def plan_def result_simps)
  obtain script where script: "?resolved = Ok script"
    using assms by (auto simp: plan_for_root_def result_simps Let_def)
  have p: "pl_setup_script p = script" "pl_desired_tool_hash p = sha256_string sha256 ser"
    "pl_desired_shell_hash p = desired_shell_hash sha256 (m_shell m)"
    using assms ser by (auto simp: plan_for_root_def plan_def script Let_def)
  show ?thesis
    by (cases script)
      (simp_all add: plan_for_root_def plan_def applied_by_def ser script p)
qed

definition example_dir_fs :: "nat dir_fs" where
  "example_dir_fs =
     \<lparr> df_open_root = Ok 0, df_openat = (\<lambda>fd _ _. Ok (Suc fd)), df_is_regular = (\<lambda>_. Ok True),
       df_read = (\<lambda>_. Ok ''#!/bin/sh'') \<rparr>"

definition example_setup_manifest :: manifest where
  "example_setup_manifest = (defaults_for_root ''/w'')
     \<lparr> m_setup := Some ''bin/setup'', m_tools := [(''node'', ''22'')] \<rparr>"

lemma example_plan:
  "\<exists>p. plan_for_root (\<lambda>_. []) (\<lambda>_. Ok ''{}'') example_dir_fs ''/w'' example_setup_manifest applied_empty
      = Ok p \<and> pl_tools_changed p \<and> pl_shell_changed p \<and> pl_setup_changed p"
  by (simp add: plan_for_root_def plan_def example_setup_manifest_def example_dir_fs_def
      resolve_setup_def open_root_no_follow_def components_def is_absolute_def starts_with_char_def
      applied_empty_def)

theorem plan_steps_exact_witness:
  "\<exists>p. plan_for_root (\<lambda>_. []) (\<lambda>_. Ok ''{}'') example_dir_fs ''/w'' example_setup_manifest
        (applied_empty \<lparr> ap_tool_hash := Some ''sha256:'' \<rparr>) = Ok p \<and>
    pl_steps p = [ConfigureShell, RunSetup, VerifyGascamp, HealthCheck] \<and> relative_beneath ''bin/setup''"
proof -
  let ?applied = "applied_empty \<lparr> ap_tool_hash := Some ''sha256:'' \<rparr>"
  obtain p script where p: "plan_for_root (\<lambda>_. []) (\<lambda>_. Ok ''{}'') example_dir_fs ''/w''
      example_setup_manifest ?applied = Ok p"
    and script: "resolve_setup (\<lambda>_. []) example_dir_fs ''/w'' ''bin/setup'' = Ok script"
    by (simp add: plan_for_root_def plan_def example_setup_manifest_def example_dir_fs_def
      resolve_setup_def open_root_no_follow_def components_def is_absolute_def starts_with_char_def
      applied_empty_def Let_def)
  have "\<not> tools_outdated (\<lambda>_. []) (\<lambda>_. Ok ''{}'') example_setup_manifest ?applied"
    "setup_outdated (\<lambda>_. []) example_dir_fs ''/w'' example_setup_manifest ?applied"
    "m_setup example_setup_manifest = Some ''bin/setup''"
    using script by (simp_all add: tools_outdated_def setup_outdated_def applied_empty_def sha256_string_def
        example_setup_manifest_def)
  with plan_steps_exact [of "\<lambda>_. []" "\<lambda>_. Ok ''{}''" example_dir_fs "''/w''" example_setup_manifest ?applied] p
  show ?thesis by (simp add: applied_empty_def)
qed

theorem plan_converges_witness:
  "\<exists>p p'. plan_for_root (\<lambda>_. []) (\<lambda>_. Ok ''{}'') example_dir_fs ''/w'' example_setup_manifest applied_empty
      = Ok p \<and>
    plan_for_root (\<lambda>_. []) (\<lambda>_. Ok ''{}'') example_dir_fs ''/w'' example_setup_manifest (applied_by p) = Ok p' \<and>
    pl_steps p' = [VerifyGascamp, HealthCheck]"
proof -
  obtain p where p: "plan_for_root (\<lambda>_. []) (\<lambda>_. Ok ''{}'') example_dir_fs ''/w'' example_setup_manifest
      applied_empty = Ok p"
    using example_plan by blast
  from plan_converges [OF p] p show ?thesis by blast
qed

end
