(* ===== verification/Fake_Runtime.thy ===== *)
theory Fake_Runtime
  imports Runtime
begin

text \<open>
  The in-memory backend (\<open>gascan-core/src/fake_runtime.rs\<close>), the reference
  implementation of the \<open>RuntimeBackend\<close> trait: its state, failure injection, and every
  operation of the trait as a function from the state to a result and a state.  Each operation of
  the source runs under one lock, so operations are atomic steps; gates, which only delay
  \<open>start\<close>, do not change the state.  A removal proof is drawn from the counter
  \<open>fk_next_proof\<close>.  A persistent runtime (\<open>fk_persistence\<close>; \<open>None\<close> for
  one that is not) carries the path of its snapshot, the two \<open>serde_json\<close> conversions
  between a snapshot and the bytes of the file, and the errors the file system answers; the files
  are the map \<open>fk_files\<close> from paths to bytes.  A panic of the decoder is outside the model.
\<close>

section \<open>State\<close>

type_synonym fake_exec_result = "string \<times> string \<times> int \<times> int"

record fake_log_record =
  fl_sandbox_id :: sandbox_id
  fl_timestamp_millis :: int
  fl_bytes :: string

record persisted_resource =
  pr_kind :: resource_kind
  pr_name :: string
  pr_sandbox_id :: "sandbox_id option"
  pr_ownership :: resource_ownership

record fake_snapshot =
  sn_sandboxes :: "runtime_sandbox list"
  sn_resources :: "persisted_resource list"
  sn_logs :: "fake_log_record list"

text \<open>What a persistent runtime asks of its surroundings: the encoder and the decoder of
  \<open>serde_json\<close>, whose errors are texts, and for each call of \<open>std::fs\<close> the error it
  answers.  A missing file is not a read error here.  A write that fails says what it left in the
  file.\<close>

record persistence =
  pe_path :: string
  pe_to_vec :: "fake_snapshot \<Rightarrow> (string, string) result"
  pe_from_slice :: "string \<Rightarrow> (fake_snapshot, string) result"
  pe_read_error :: "string \<Rightarrow> string option"
  pe_create_dir_error :: "string \<Rightarrow> string option"
  pe_write_error :: "string \<Rightarrow> string \<Rightarrow> (string \<times> string option) option"
  pe_rename_error :: "string \<Rightarrow> string \<Rightarrow> string option"

datatype failure_boundary =
    AtCapabilities | AtInspect | AtCreate | AtPrepareImage | AtCreateContainer
  | AtCreateContainerAfterMutation | AtStart | AtStop | AtRemove | AtExec | AtLogs | AtListResources

datatype fake_exec_hang_phase = HangStart | HangClose | HangOutput | HangDrain

primrec boundary_as_str :: "failure_boundary \<Rightarrow> string" where
  "boundary_as_str AtCapabilities = ''capabilities''"
| "boundary_as_str AtInspect = ''inspect''"
| "boundary_as_str AtCreate = ''create''"
| "boundary_as_str AtPrepareImage = ''prepare_image''"
| "boundary_as_str AtCreateContainer = ''create_container''"
| "boundary_as_str AtCreateContainerAfterMutation = ''create_container_after_mutation''"
| "boundary_as_str AtStart = ''start''"
| "boundary_as_str AtStop = ''stop''"
| "boundary_as_str AtRemove = ''remove''"
| "boundary_as_str AtExec = ''exec''"
| "boundary_as_str AtLogs = ''logs''"
| "boundary_as_str AtListResources = ''list_resources''"

record fake_state =
  fk_capabilities :: runtime_capabilities
  fk_sandboxes :: "(sandbox_id, runtime_sandbox) hash_map"
  fk_resources :: "(resource_identity, runtime_resource) hash_map"
  fk_calls :: "runtime_call list"
  fk_outcomes :: "runtime_outcome list"
  fk_failures :: "failure_boundary set"
  fk_create_failure_after :: "nat option"
  fk_image_change :: "string option"
  fk_exec_result :: fake_exec_result
  fk_exec_results :: "fake_exec_result list"
  fk_exec_results_by_argv :: "(string list, fake_exec_result list) hash_map"
  fk_exec_errors :: "runtime_error list"
  fk_create_errors :: "runtime_error list"
  fk_ssh_port_collisions :: nat
  fk_created_ssh_host_ports :: "u16 list"
  fk_exec_hangs :: "fake_exec_hang_phase list"
  fk_exec_input_failures :: nat
  fk_exec_stream_errors :: "runtime_error list"
  fk_exec_cancellations :: nat
  fk_logs :: "fake_log_record list"
  fk_next_proof :: removal_proof
  fk_persistence :: "persistence option"
  fk_files :: "string \<rightharpoonup> string"

definition fake_new :: "runtime_capabilities \<Rightarrow> fake_state" where
  "fake_new capabilities =
     \<lparr> fk_capabilities = capabilities, fk_sandboxes = [], fk_resources = [], fk_calls = [],
       fk_outcomes = [], fk_failures = {}, fk_create_failure_after = None, fk_image_change = None,
       fk_exec_result = ([], [], 0, 0), fk_exec_results = [], fk_exec_results_by_argv = [],
       fk_exec_errors = [], fk_create_errors = [], fk_ssh_port_collisions = 0,
       fk_created_ssh_host_ports = [], fk_exec_hangs = [], fk_exec_input_failures = 0,
       fk_exec_stream_errors = [], fk_exec_cancellations = 0, fk_logs = [], fk_next_proof = 0,
       fk_persistence = None, fk_files = Map.empty \<rparr>"

definition fixture_capabilities :: runtime_capabilities where
  "fixture_capabilities =
     \<lparr> cap_version = \<lparr> v_major = 1, v_minor = 0, v_patch = 0 \<rparr>, cap_bind_mounts = True,
       cap_named_volumes = True, cap_tty = True, cap_signals = True, cap_loopback_publish = True,
       cap_resource_limits = True, cap_offline = Proven \<rparr>"

section \<open>Helpers\<close>

definition record_call :: "runtime_call \<Rightarrow> fake_state \<Rightarrow> fake_state" where
  "record_call c s = s \<lparr> fk_calls := fk_calls s @ [c] \<rparr>"

definition record_outcome :: "runtime_outcome \<Rightarrow> fake_state \<Rightarrow> fake_state" where
  "record_outcome r s = s \<lparr> fk_outcomes := fk_outcomes s @ [r] \<rparr>"

definition fail_once :: "failure_boundary \<Rightarrow> fake_state \<Rightarrow> (unit, runtime_error, fake_state) stateful" where
  "fail_once boundary s =
     (if boundary \<in> fk_failures s then
        (Err (InjectedFailure (boundary_as_str boundary)),
         record_outcome (OutcomeFailure (boundary_as_str boundary) ''injected_failure'')
           (s \<lparr> fk_failures := fk_failures s - {boundary} \<rparr>))
      else (Ok (), s))"

definition missing_sandbox :: "sandbox_id \<Rightarrow> runtime_error" where
  "missing_sandbox i = ResourceNotFound (as_str i)"

definition snapshot_of :: "fake_state \<Rightarrow> fake_snapshot" where
  "snapshot_of s =
     \<lparr> sn_sandboxes = hm_values (fk_sandboxes s),
       sn_resources = map (\<lambda>r. \<lparr> pr_kind = rr_kind r, pr_name = rr_name r,
                                  pr_sandbox_id = rr_sandbox_id r, pr_ownership = rr_ownership r \<rparr>)
         (hm_values (fk_resources s)),
       sn_logs = fk_logs s \<rparr>"

definition replace_file ::
  "persistence \<Rightarrow> string \<Rightarrow> (string \<rightharpoonup> string) \<Rightarrow> (unit, string, string \<rightharpoonup> string) stateful" where
  "replace_file p bytes files =
     (let temporary = with_extension (pe_path p) ''tmp'' in
      case pe_write_error p temporary bytes of
        Some (m, left) \<Rightarrow> (Err m, files(temporary := left))
      | None \<Rightarrow>
          (case pe_rename_error p temporary (pe_path p) of
             Some m \<Rightarrow> (Err m, files(temporary \<mapsto> bytes))
           | None \<Rightarrow> (Ok (), files(temporary := None, pe_path p \<mapsto> bytes))))"

definition persist_state :: "fake_state \<Rightarrow> (unit, runtime_error, fake_state) stateful" where
  "persist_state s =
     (case fk_persistence s of
        None \<Rightarrow> (Ok (), s)
      | Some p \<Rightarrow>
          (case pe_to_vec p (snapshot_of s) of
             Err m \<Rightarrow> (Err (InvalidOutput ''fake_runtime_save'' m), s)
           | Ok bytes \<Rightarrow>
               (case Option.bind (parent (pe_path p)) (pe_create_dir_error p) of
                  Some m \<Rightarrow> (Err (CommandIo ''fake_runtime_save'' m), s)
                | None \<Rightarrow>
                    (let (r, files) = replace_file p bytes (fk_files s) in
                     (map_err (CommandIo ''fake_runtime_save'') r, s \<lparr> fk_files := files \<rparr>)))))"

definition insert_resource ::
  "resource_identity \<Rightarrow> sandbox_id option \<Rightarrow> resource_ownership \<Rightarrow> fake_state \<Rightarrow> runtime_resource \<times> fake_state" where
  "insert_resource identity sandbox ownership s =
     (let resource = discovered (fk_next_proof s) identity sandbox ownership in
      (resource, s \<lparr> fk_resources := hm_insert identity resource (fk_resources s),
                     fk_next_proof := Suc (fk_next_proof s) \<rparr>))"

fun load_resources ::
  "persisted_resource list \<Rightarrow> removal_proof \<Rightarrow> (resource_identity, runtime_resource) hash_map \<Rightarrow>
     ((resource_identity, runtime_resource) hash_map \<times> removal_proof, runtime_error) result" where
  "load_resources [] next_proof m = Ok (m, next_proof)"
| "load_resources (p # ps) next_proof m =
     and_then (new_identity (pr_kind p) (pr_name p)) (\<lambda>identity.
     load_resources ps (Suc next_proof)
       (hm_insert identity (discovered next_proof identity (pr_sandbox_id p) (pr_ownership p)) m))"

definition read_snapshot ::
  "persistence \<Rightarrow> (string \<rightharpoonup> string) \<Rightarrow> (fake_snapshot, runtime_error) result" where
  "read_snapshot p files =
     (case pe_read_error p (pe_path p) of
        Some m \<Rightarrow> Err (CommandIo ''fake_runtime_load'' m)
      | None \<Rightarrow>
          (case files (pe_path p) of
             Some bytes \<Rightarrow> map_err (InvalidOutput ''fake_runtime_load'') (pe_from_slice p bytes)
           | None \<Rightarrow> Ok \<lparr> sn_sandboxes = [], sn_resources = [], sn_logs = [] \<rparr>))"

definition load_state ::
  "runtime_capabilities \<Rightarrow> persistence \<Rightarrow> (string \<rightharpoonup> string) \<Rightarrow> (fake_state, runtime_error) result" where
  "load_state capabilities p files =
     and_then (read_snapshot p files) (\<lambda>snap.
     map_ok (\<lambda>(resources, next_proof).
         (fake_new capabilities)
           \<lparr> fk_sandboxes := foldl (\<lambda>m sb. hm_insert (rs_id sb) sb m) [] (sn_sandboxes snap),
             fk_resources := resources, fk_logs := sn_logs snap, fk_next_proof := next_proof,
             fk_persistence := Some p, fk_files := files \<rparr>)
       (load_resources (sn_resources snap) 0 []))"

definition FAKE_WORKSPACE_IMAGE :: string where
  "FAKE_WORKSPACE_IMAGE =
     ''ghcr.io/liquescent-development/gascan/workspace:fake@sha256:'' @ replicate 64 CHR ''a''"

definition insert_container_resource ::
  "sandbox_id \<Rightarrow> resource_ownership \<Rightarrow> fake_state \<Rightarrow> fake_state" where
  "insert_container_resource i ownership s =
     (case new_identity Container (as_str i) of
        Ok identity \<Rightarrow> snd (insert_resource identity (Some i) ownership s)
      | Err _ \<Rightarrow> s)"

definition seed_sandbox ::
  "string \<Rightarrow> sandbox_id \<Rightarrow> resource_ownership \<Rightarrow> sandbox_id \<Rightarrow> fake_state \<Rightarrow> fake_state" where
  "seed_sandbox managed_by owner ownership i s =
     insert_container_resource i ownership
       (s \<lparr> fk_sandboxes := hm_insert i
          \<lparr> rs_id = i, rs_image = FAKE_WORKSPACE_IMAGE, rs_state = Stopped,
            rs_ownership = \<lparr> om_managed_by = managed_by, om_sandbox_id = owner \<rparr>, rs_ports = [] \<rparr>
          (fk_sandboxes s) \<rparr>)"

definition seed_resource ::
  "resource_kind \<Rightarrow> string \<Rightarrow> sandbox_id option \<Rightarrow> resource_ownership \<Rightarrow> fake_state \<Rightarrow>
     (unit, runtime_error, fake_state) stateful" where
  "seed_resource kind name sandbox ownership s =
     (case new_identity kind name of
        Err e \<Rightarrow> (Err e, s)
      | Ok identity \<Rightarrow> (Ok (), snd (insert_resource identity sandbox ownership s)))"

definition fake_create_failure :: "create_request \<Rightarrow> runtime_resource list \<Rightarrow> runtime_error \<Rightarrow> create_failure" where
  "fake_create_failure req created source =
     (case new_failure req created source of Ok f \<Rightarrow> f | Err e \<Rightarrow> failure_from_source e)"

fun set_first_ssh_port :: "u16 \<Rightarrow> runtime_port list \<Rightarrow> runtime_port list" where
  "set_first_ssh_port host_port [] = []"
| "set_first_ssh_port host_port (m # ms) =
     (if rp_guest_port m = 22 then m \<lparr> rp_host_port := host_port \<rparr> # ms
      else m # set_first_ssh_port host_port ms)"

definition observed_created_ports :: "create_request \<Rightarrow> fake_state \<Rightarrow> runtime_port list \<times> fake_state" where
  "observed_created_ports req s =
     (case fk_created_ssh_host_ports s of
        [] \<Rightarrow> (cr_ports req, s)
      | host_port # rest \<Rightarrow>
          (set_first_ssh_port host_port (cr_ports req), s \<lparr> fk_created_ssh_host_ports := rest \<rparr>))"

definition selected_ssh_port_collision :: "create_request \<Rightarrow> runtime_error" where
  "selected_ssh_port_collision req =
     (let port = (case find (\<lambda>m. rp_guest_port m = 22) (cr_ports req) of
          None \<Rightarrow> 49152 | Some m \<Rightarrow> rp_host_port m)
      in CommandFailed ''container'' (Some 1)
           (''Error: listen tcp 127.0.0.1:'' @ show_nat (unat port) @
            '': bind: address already in use'' @ [CHR 0x0A]))"

definition fail_after_create_mutation ::
  "create_request \<Rightarrow> runtime_resource list \<Rightarrow> fake_state \<Rightarrow> (unit, create_failure, fake_state) stateful" where
  "fail_after_create_mutation req created s =
     (if fk_create_failure_after s = Some (length created) then
        (let source = InjectedFailure ''create_after_mutation'' in
         (Err (fake_create_failure req created source),
          record_outcome (OutcomeFailure ''create_after_mutation'' (runtime_error_code source))
            (s \<lparr> fk_create_failure_after := None \<rparr>)))
      else (Ok (), s))"

section \<open>The operations of the trait\<close>

definition fake_capabilities :: "fake_state \<Rightarrow> (runtime_capabilities, runtime_error, fake_state) stateful" where
  "fake_capabilities s =
     st_then (fail_once AtCapabilities (record_call CallCapabilities s))
       (\<lambda>_ s. (Ok (fk_capabilities s), s))"

definition fake_inspect ::
  "sandbox_id \<Rightarrow> fake_state \<Rightarrow> (runtime_sandbox option, runtime_error, fake_state) stateful" where
  "fake_inspect i s =
     st_then (fail_once AtInspect (record_call (CallInspect i) s))
       (\<lambda>_ s. (Ok (hm_get (fk_sandboxes s) i), s))"

definition create_preamble ::
  "failure_boundary \<Rightarrow> create_request \<Rightarrow> fake_state \<Rightarrow> (unit, create_failure, fake_state) stateful" where
  "create_preamble boundary req s =
     (if fk_ssh_port_collisions s > 0 then
        (let error = selected_ssh_port_collision req in
         (Err (failure_from_source error),
          record_outcome (OutcomeFailure (boundary_as_str boundary) (runtime_error_code error))
            (s \<lparr> fk_ssh_port_collisions := fk_ssh_port_collisions s - 1 \<rparr>)))
      else
        (case fk_create_errors s of
           error # rest \<Rightarrow>
             (Err (failure_from_source error),
              record_outcome (OutcomeFailure (boundary_as_str boundary) (runtime_error_code error))
                (s \<lparr> fk_create_errors := rest \<rparr>))
         | [] \<Rightarrow> st_map_err failure_from_source (fail_once boundary s)))"

definition create_network ::
  "create_request \<Rightarrow> fake_state \<Rightarrow> (runtime_resource list, create_failure, fake_state) stateful" where
  "create_network req s =
     (case managed_name (cr_network req) of
        None \<Rightarrow> (Ok [], s)
      | Some name \<Rightarrow>
          (case new_identity Network name of
             Err error \<Rightarrow> (Err (fake_create_failure req [] error), s)
           | Ok identity \<Rightarrow>
               if hm_get (fk_resources s) identity \<noteq> None then
                 (Err (fake_create_failure req [] (Conflict name ''network already exists'')), s)
               else
                 (let (resource, s) = insert_resource identity (Some (cr_id req)) GasCanOwned s in
                  st_then (fail_after_create_mutation req [resource] s)
                    (\<lambda>_ s. (Ok [resource], s)))))"

fun create_volumes ::
  "create_request \<Rightarrow> runtime_volume list \<Rightarrow> runtime_resource list \<Rightarrow> fake_state \<Rightarrow>
     (runtime_resource list, create_failure, fake_state) stateful" where
  "create_volumes req [] created s = (Ok created, s)"
| "create_volumes req (v # vs) created s =
     (case new_identity Volume (vol_name v) of
        Err error \<Rightarrow> (Err (failure_from_source error), s)
      | Ok identity \<Rightarrow>
          (case hm_get (fk_resources s) identity of
             Some existing \<Rightarrow>
               if rr_ownership existing \<noteq> GasCanOwned \<or> rr_sandbox_id existing \<noteq> Some (cr_id req) then
                 (Err (fake_create_failure req created
                    (Conflict (vol_name v) ''volume exists with different ownership'')), s)
               else create_volumes req vs created s
           | None \<Rightarrow>
               (let (resource, s) = insert_resource identity (Some (cr_id req)) GasCanOwned s in
                st_then (fail_after_create_mutation req (created @ [resource]) s)
                  (\<lambda>_ s. create_volumes req vs (created @ [resource]) s))))"

definition insert_container ::
  "create_request \<Rightarrow> fake_state \<Rightarrow> (runtime_resource, create_failure, fake_state) stateful" where
  "insert_container req s =
     (let (ports, s) = observed_created_ports req s;
          s = s \<lparr> fk_sandboxes := hm_insert (cr_id req)
                \<lparr> rs_id = cr_id req, rs_image = cr_image req, rs_state = Stopped,
                  rs_ownership = cr_ownership req, rs_ports = ports \<rparr> (fk_sandboxes s) \<rparr>
      in case new_identity Container (as_str (cr_id req)) of
           Err error \<Rightarrow> (Err (failure_from_source error), s)
         | Ok identity \<Rightarrow>
             (let (resource, s) = insert_resource identity (Some (cr_id req)) GasCanOwned s in
              (Ok resource, s)))"

definition finish_create ::
  "create_request \<Rightarrow> runtime_resource list \<Rightarrow> fake_state \<Rightarrow> (create_outcome, create_failure, fake_state) stateful" where
  "finish_create req created s =
     st_then (insert_container req s) (\<lambda>resource s.
     st_then (fail_after_create_mutation req (created @ [resource]) s) (\<lambda>_ s.
     case new_outcome req (created @ [resource]) of
       Err e \<Rightarrow> (Err (failure_from_source e), s)
     | Ok outcome \<Rightarrow>
         (let s = record_outcome (OutcomeCreated outcome) s in
          st_then (st_map_err failure_from_source (persist_state s)) (\<lambda>_ s. (Ok outcome, s)))))"

definition fake_create ::
  "create_request \<Rightarrow> fake_state \<Rightarrow> (create_outcome, create_failure, fake_state) stateful" where
  "fake_create req s =
     st_then (create_preamble AtCreate req (record_call (CallCreate req) s)) (\<lambda>_ s.
     if cr_id req \<noteq> om_sandbox_id (cr_ownership req) then
       (Err (failure_from_source (OwnershipMismatch (as_str (cr_id req)))), s)
     else if hm_get (fk_sandboxes s) (cr_id req) \<noteq> None then
       (Err (failure_from_source (Conflict (as_str (cr_id req)) ''sandbox already exists'')), s)
     else
       st_then (create_network req s) (\<lambda>created s.
       st_then (create_volumes req (cr_volumes req) created s) (\<lambda>created s.
       finish_create req created s)))"

definition fake_prepare_image ::
  "string \<Rightarrow> fake_state \<Rightarrow> (unit, runtime_error, fake_state) stateful" where
  "fake_prepare_image img s =
     st_then (fail_once AtPrepareImage (record_call (CallPrepareImage img) s)) (\<lambda>_ s.
     case fk_image_change s of
       None \<Rightarrow> (Ok (), s)
     | Some changed \<Rightarrow>
         (let s = s \<lparr> fk_image_change := None \<rparr> in
          case fk_sandboxes s of
            [] \<Rightarrow> (Err (InvalidState ''fake runtime'' ''no sandbox exists for configured image change''), s)
          | (i, sb) # rest \<Rightarrow>
              (let s = s \<lparr> fk_sandboxes := (i, sb \<lparr> rs_image := changed \<rparr>) # rest \<rparr> in
               persist_state s)))"

definition check_retained ::
  "fake_state \<Rightarrow> runtime_resource \<Rightarrow> (unit, create_failure) result" where
  "check_retained s retained =
     (if hm_get (fk_resources s) (rr_identity retained) \<noteq> Some retained then
        Err (failure_from_source (OwnershipMismatch (rr_name retained)))
      else Ok ())"

definition fake_create_container ::
  "recreate_request \<Rightarrow> fake_state \<Rightarrow> (create_outcome, create_failure, fake_state) stateful" where
  "fake_create_container request s =
     st_then (create_preamble AtCreateContainer (rc_create request)
        (record_call (CallCreateContainer request) s)) (\<lambda>_ s.
     let create = rc_create request in
     if hm_get (fk_sandboxes s) (cr_id create) \<noteq> None then
       (Err (failure_from_source (Conflict (as_str (cr_id create)) ''sandbox already exists'')), s)
     else
       case for_each_ok (check_retained s) (retained_list (rc_retained request)) of
         Err failure \<Rightarrow> (Err failure, s)
       | Ok _ \<Rightarrow>
           st_then (insert_container create s) (\<lambda>container s.
           case fail_once AtCreateContainerAfterMutation s of
             (Err source, s) \<Rightarrow> (Err (from_created_evidence create [container] source), s)
           | (Ok _, s) \<Rightarrow>
               (case outcome_for_recreate request [container] of
                  Err e \<Rightarrow> (Err (failure_from_source e), s)
                | Ok outcome \<Rightarrow>
                    (let s = record_outcome (OutcomeCreated outcome) s in
                     st_then (st_map_err failure_from_source (persist_state s)) (\<lambda>_ s. (Ok outcome, s))))))"

definition update_sandbox ::
  "(runtime_sandbox \<Rightarrow> runtime_sandbox) \<Rightarrow> sandbox_id \<Rightarrow> fake_state \<Rightarrow>
     (unit, runtime_error, fake_state) stateful" where
  "update_sandbox f i s =
     (case hm_get (fk_sandboxes s) i of
        None \<Rightarrow> (Err (missing_sandbox i), s)
      | Some sb \<Rightarrow> persist_state (s \<lparr> fk_sandboxes := hm_insert i (f sb) (fk_sandboxes s) \<rparr>))"

definition fake_start :: "sandbox_id \<Rightarrow> fake_state \<Rightarrow> (unit, runtime_error, fake_state) stateful" where
  "fake_start i s =
     st_then (fail_once AtStart (record_call (CallStart i) s))
       (\<lambda>_ s. update_sandbox (\<lambda>sb. sb \<lparr> rs_state := Running \<rparr>) i s)"

definition fake_stop :: "sandbox_id \<Rightarrow> fake_state \<Rightarrow> (unit, runtime_error, fake_state) stateful" where
  "fake_stop i s =
     st_then (fail_once AtStop (record_call (CallStop i) s))
       (\<lambda>_ s. update_sandbox (\<lambda>sb. sb \<lparr> rs_state := Stopped \<rparr>) i s)"

definition check_removal :: "fake_state \<Rightarrow> runtime_resource \<Rightarrow> (unit, runtime_error) result" where
  "check_removal s expected =
     (case hm_get (fk_resources s) (rr_identity expected) of
        None \<Rightarrow> Err (ResourceNotFound (rr_name expected))
      | Some actual \<Rightarrow>
          if rr_ownership actual = Foreign then Err (ForeignResourceRefused (rr_name actual))
          else if actual \<noteq> expected then Err (OwnershipMismatch (rr_name actual))
          else Ok ())"

definition remove_one :: "fake_state \<Rightarrow> runtime_resource \<Rightarrow> fake_state" where
  "remove_one s expected =
     (let s = s \<lparr> fk_resources := hm_remove (rr_identity expected) (fk_resources s) \<rparr> in
      case (rr_kind expected, rr_sandbox_id expected) of
        (Container, Some i) \<Rightarrow> s \<lparr> fk_sandboxes := hm_remove i (fk_sandboxes s) \<rparr>
      | _ \<Rightarrow> s)"

definition fake_remove :: "remove_request \<Rightarrow> fake_state \<Rightarrow> (unit, runtime_error, fake_state) stateful" where
  "fake_remove request s =
     st_then (fail_once AtRemove (record_call (CallRemove request) s)) (\<lambda>_ s.
     case for_each_ok (check_removal s) (remove_list request) of
       Err e \<Rightarrow> (Err e, s)
     | Ok _ \<Rightarrow>
         (let removal = sort_key (\<lambda>r. kind_rank (rr_kind r)) (remove_list request);
              s = foldl remove_one s removal
          in case remove_from_resources removal of
               Err e \<Rightarrow> (Err e, s)
             | Ok removed \<Rightarrow>
                 (let s = record_outcome (OutcomeRemoved removed) s in persist_state s)))"

definition fake_logs ::
  "sandbox_id \<Rightarrow> int option \<Rightarrow> fake_state \<Rightarrow> (string, runtime_error, fake_state) stateful" where
  "fake_logs i since s =
     st_then (fail_once AtLogs (record_call (CallLogs i) s)) (\<lambda>_ s.
     if hm_get (fk_sandboxes s) i = None then (Err (missing_sandbox i), s)
     else
       (Ok (concat (map fl_bytes
          (filter (\<lambda>r. fl_sandbox_id r = i \<and>
                       (case since of None \<Rightarrow> True | Some t \<Rightarrow> fl_timestamp_millis r \<ge> t))
             (fk_logs s)))), s))"

definition fake_list_resources ::
  "fake_state \<Rightarrow> (runtime_resource list, runtime_error, fake_state) stateful" where
  "fake_list_resources s =
     st_then (fail_once AtListResources (record_call CallListResources s)) (\<lambda>_ s.
     (Ok (sort_key rr_identity (hm_values (fk_resources s))), s))"

section \<open>Guest commands\<close>

datatype exec_input = Stdin string | Resize nat nat | Signal int | CloseInput

definition is_managed_shell_configurator :: "string list \<Rightarrow> bool" where
  "is_managed_shell_configurator argv =
     (case argv of
        [sudo, non_interactive, configurator, prompt] \<Rightarrow>
          sudo = ''/usr/bin/sudo'' \<and> non_interactive = ''-n'' \<and>
          configurator = ''/usr/local/bin/configure-shell-home'' \<and>
          prompt \<in> {''standard'', ''starship'', ''starship-nerd-font''}
      | _ \<Rightarrow> False)"

text \<open>\<open>str::parse::<i32>\<close>, of which only the success matters here: an optional sign and
  digits whose value fits 32 bits.\<close>

definition parse_i32 :: "string \<Rightarrow> int option" where
  "parse_i32 s =
     (let (neg, digits) = (case s of [] \<Rightarrow> (False, []) | c # cs \<Rightarrow>
          if c = CHR ''-'' then (True, cs) else if c = CHR ''+'' then (False, cs) else (False, s));
          n = int (nat_of_digits digits);
          v = (if neg then - n else n)
      in if digits = [] \<or> \<not> list_all is_ascii_digit digits \<or> v < - (2 ^ 31) \<or> v \<ge> 2 ^ 31
         then None else Some v)"

definition interpret_fake_command ::
  "string list \<Rightarrow> (string, string) btree_map \<Rightarrow> string \<Rightarrow> string \<times> string \<times> int \<Rightarrow>
     (nat \<times> nat) option \<Rightarrow> string \<times> string \<times> int" where
  "interpret_fake_command argv environment input configured resize =
     (case argv of
        [] \<Rightarrow> configured
      | command # args \<Rightarrow>
          let arg = (case args of [] \<Rightarrow> None | a # _ \<Rightarrow> Some a) in
          if command = ''fake-echo-stdin'' then (input, [], 0)
          else if command = ''fake-exit'' then
            ([], [], unwrap_or 64 (Option.bind arg parse_i32))
          else if command = ''fake-stdout'' then (unwrap_or [] arg, [], 0)
          else if command = ''fake-stderr'' then ([], unwrap_or [] arg, 0)
          else if command = ''fake-env'' then
            (unwrap_or [] (Option.bind arg (bt_get environment)), [], 0)
          else if command = ''fake-last-resize'' then
            ((case resize of None \<Rightarrow> []
              | Some (columns, rows) \<Rightarrow> show_nat columns @ ''x'' @ show_nat rows), [], 0)
          else if command = ''select-gascamp'' \<or> command = ''/usr/local/bin/select-gascamp'' then
            (''{\"source\":\"bundled\"}'', [], 0)
          else if command = ''true'' \<or> command = ''sh'' then ([], [], 0)
          else configured)"

datatype fake_session =
    HangingSession fake_exec_hang_phase
  | InputClosedSession
  | StreamErrorSession runtime_error
  | LiveSession exec_request fake_exec_result

definition take_configured ::
  "string list \<Rightarrow> fake_state \<Rightarrow> fake_exec_result \<times> fake_state" where
  "take_configured argv s =
     (case hm_get (fk_exec_results_by_argv s) argv of
        Some (r # rs) \<Rightarrow>
          (r, s \<lparr> fk_exec_results_by_argv := hm_insert argv rs (fk_exec_results_by_argv s) \<rparr>)
      | _ \<Rightarrow>
          if is_managed_shell_configurator argv then (([], [], 0, 0), s)
          else
            (case fk_exec_results s of
               r # rs \<Rightarrow> (r, s \<lparr> fk_exec_results := rs \<rparr>)
             | [] \<Rightarrow> (fk_exec_result s, s)))"

definition open_session ::
  "exec_request \<Rightarrow> fake_state \<Rightarrow> (fake_session, runtime_error, fake_state) stateful" where
  "open_session request s =
     (case fk_exec_hangs s of
        phase # rest \<Rightarrow> (Ok (HangingSession phase), s \<lparr> fk_exec_hangs := rest \<rparr>)
      | [] \<Rightarrow>
          if fk_exec_input_failures s > 0 then
            (Ok InputClosedSession,
             s \<lparr> fk_exec_input_failures := fk_exec_input_failures s - 1 \<rparr>)
          else
            (case fk_exec_stream_errors s of
               error # rest \<Rightarrow>
                 (Ok (StreamErrorSession error), s \<lparr> fk_exec_stream_errors := rest \<rparr>)
             | [] \<Rightarrow>
                 (let (configured, s) = take_configured (ex_argv request) s in
                  (Ok (LiveSession request configured), s))))"

definition fake_exec ::
  "exec_request \<Rightarrow> fake_state \<Rightarrow> (fake_session, runtime_error, fake_state) stateful" where
  "fake_exec request s =
     (let s = record_call (CallExec request) s in
      case fk_exec_errors s of
        error # rest \<Rightarrow> (Err error, s \<lparr> fk_exec_errors := rest \<rparr>)
      | [] \<Rightarrow>
          st_then (fail_once AtExec s) (\<lambda>_ s.
          case hm_get (fk_sandboxes s) (ex_id request) of
            None \<Rightarrow> (Err (missing_sandbox (ex_id request)), s)
          | Some sandbox \<Rightarrow>
              if rs_state sandbox \<noteq> Running then
                (Err (InvalidState (as_str (ex_id request)) ''exec requires a running sandbox''), s)
              else open_session request s))"

fun read_inputs ::
  "exec_input list \<Rightarrow> string \<Rightarrow> int \<Rightarrow> (nat \<times> nat) option \<Rightarrow> string \<times> int \<times> (nat \<times> nat) option" where
  "read_inputs [] input sig resize = (input, sig, resize)"
| "read_inputs (Stdin bytes # fs) input sig resize = read_inputs fs (input @ bytes) sig resize"
| "read_inputs (Resize columns rows # fs) input sig resize = read_inputs fs input sig (Some (columns, rows))"
| "read_inputs (Signal number # fs) input sig resize = read_inputs fs input number resize"
| "read_inputs (CloseInput # fs) input sig resize = (input, sig, resize)"

text \<open>How the reader of a session may end it early: it drops the channel before the frame a
  draining command sends first, or it cancels, or drops the channel, before frame \<open>n\<close> of the
  result.\<close>

datatype interruption =
    Uninterrupted
  | DroppedBeforeReady
  | CancelledBefore nat
  | DroppedBefore nat

fun delivered :: "interruption \<Rightarrow> exec_output list \<Rightarrow> exec_output list" where
  "delivered (CancelledBefore n) frames = take n frames"
| "delivered (DroppedBefore n) frames = take n frames"
| "delivered _ frames = frames"

fun cancellations :: "interruption \<Rightarrow> exec_output list \<Rightarrow> nat" where
  "cancellations (CancelledBefore n) frames = (if n < length frames then 1 else 0)"
| "cancellations _ frames = 0"

definition ready_then_drain :: "string list \<Rightarrow> string option" where
  "ready_then_drain argv =
     (case argv of
        [] \<Rightarrow> None
      | command # _ \<Rightarrow>
          if command = ''fake-ready-then-drain'' then Some ''ready''
          else if command = ''fake-large-ready-then-drain'' then
            Some (replicate (1024 * 1024) CHR ''x'')
          else None)"

definition result_frames :: "string \<Rightarrow> string \<Rightarrow> int \<Rightarrow> int \<Rightarrow> exec_output list" where
  "result_frames out err code sig =
     (if out \<noteq> [] then [Stdout out] else []) @ (if err \<noteq> [] then [Stderr err] else []) @
     [Exit (if sig = 0 then code else min (128 + sig) (2 ^ 31 - 1)) sig]"

text \<open>The task behind a live session, at time \<open>now\<close>: the frames the reader receives and
  the state after the log record is appended and saved.\<close>

definition run_session ::
  "int \<Rightarrow> interruption \<Rightarrow> exec_request \<Rightarrow> fake_exec_result \<Rightarrow> exec_input list \<Rightarrow> fake_state \<Rightarrow>
     exec_output list \<times> fake_state" where
  "run_session now interrupt request configured inputs s =
     (let (out0, err0, code0, sig0) = configured; ready = ready_then_drain (ex_argv request) in
      if ready \<noteq> None \<and> interrupt = DroppedBeforeReady then ([], s)
      else
        let (input, sig, resize) = read_inputs inputs (ex_stdin request) sig0 None;
            (out, err, code) = (if ready \<noteq> None then ([], [], 0)
               else interpret_fake_command (ex_argv request) (ex_environment request) input
                      (out0, err0, code0) resize);
            s = s \<lparr> fk_logs := fk_logs s @ [\<lparr> fl_sandbox_id = ex_id request,
                  fl_timestamp_millis = now, fl_bytes = out @ err \<rparr>] \<rparr>;
            s = snd (persist_state s);
            frames = result_frames out err code sig
        in ((case ready of None \<Rightarrow> [] | Some bytes \<Rightarrow> [Stdout bytes]) @ delivered interrupt frames,
            s \<lparr> fk_exec_cancellations := fk_exec_cancellations s + cancellations interrupt frames \<rparr>))"

section \<open>Arranging a scenario\<close>

definition persistent ::
  "runtime_capabilities \<Rightarrow> persistence \<Rightarrow> (string \<rightharpoonup> string) \<Rightarrow> (fake_state, runtime_error) result" where
  "persistent capabilities p files = load_state capabilities p files"

definition inject_failure :: "failure_boundary \<Rightarrow> fake_state \<Rightarrow> fake_state" where
  "inject_failure boundary s = s \<lparr> fk_failures := insert boundary (fk_failures s) \<rparr>"

definition failing_once :: "failure_boundary \<Rightarrow> fake_state" where
  "failing_once boundary = inject_failure boundary (fake_new fixture_capabilities)"

definition fail_create_after_mutations :: "nat \<Rightarrow> fake_state \<Rightarrow> fake_state" where
  "fail_create_after_mutations mutations s = s \<lparr> fk_create_failure_after := Some mutations \<rparr>"

definition change_image_on_prepare :: "string \<Rightarrow> fake_state \<Rightarrow> fake_state" where
  "change_image_on_prepare img s = s \<lparr> fk_image_change := Some img \<rparr>"

definition set_exec_result :: "string \<Rightarrow> string \<Rightarrow> int \<Rightarrow> fake_state \<Rightarrow> fake_state" where
  "set_exec_result out err exit_code s = s \<lparr> fk_exec_result := (out, err, exit_code, 0) \<rparr>"

definition queue_exec_results :: "(string \<times> string \<times> int) list \<Rightarrow> fake_state \<Rightarrow> fake_state" where
  "queue_exec_results results s =
     s \<lparr> fk_exec_results := fk_exec_results s @ map (\<lambda>(out, err, code). (out, err, code, 0)) results \<rparr>"

definition queue_exec_results_with_signals :: "fake_exec_result list \<Rightarrow> fake_state \<Rightarrow> fake_state" where
  "queue_exec_results_with_signals results s = s \<lparr> fk_exec_results := fk_exec_results s @ results \<rparr>"

definition queue_exec_result_for_argv ::
  "string list \<Rightarrow> string \<Rightarrow> string \<Rightarrow> int \<Rightarrow> fake_state \<Rightarrow> fake_state" where
  "queue_exec_result_for_argv argv out err exit_code s =
     s \<lparr> fk_exec_results_by_argv := hm_insert argv
           (unwrap_or [] (hm_get (fk_exec_results_by_argv s) argv) @ [(out, err, exit_code, 0)])
           (fk_exec_results_by_argv s) \<rparr>"

definition queue_exec_error :: "runtime_error \<Rightarrow> fake_state \<Rightarrow> fake_state" where
  "queue_exec_error error s = s \<lparr> fk_exec_errors := fk_exec_errors s @ [error] \<rparr>"

definition queue_create_error :: "runtime_error \<Rightarrow> fake_state \<Rightarrow> fake_state" where
  "queue_create_error error s = s \<lparr> fk_create_errors := fk_create_errors s @ [error] \<rparr>"

definition queue_ssh_port_collision :: "fake_state \<Rightarrow> fake_state" where
  "queue_ssh_port_collision s = s \<lparr> fk_ssh_port_collisions := fk_ssh_port_collisions s + 1 \<rparr>"

definition queue_created_ssh_host_port :: "u16 \<Rightarrow> fake_state \<Rightarrow> fake_state" where
  "queue_created_ssh_host_port port s =
     s \<lparr> fk_created_ssh_host_ports := fk_created_ssh_host_ports s @ [port] \<rparr>"

definition queue_exec_input_failure :: "fake_state \<Rightarrow> fake_state" where
  "queue_exec_input_failure s = s \<lparr> fk_exec_input_failures := fk_exec_input_failures s + 1 \<rparr>"

definition queue_exec_hang :: "fake_exec_hang_phase \<Rightarrow> fake_state \<Rightarrow> fake_state" where
  "queue_exec_hang phase s = s \<lparr> fk_exec_hangs := fk_exec_hangs s @ [phase] \<rparr>"

definition queue_exec_stream_error :: "runtime_error \<Rightarrow> fake_state \<Rightarrow> fake_state" where
  "queue_exec_stream_error error s =
     s \<lparr> fk_exec_stream_errors := fk_exec_stream_errors s @ [error] \<rparr>"

definition set_sandbox_ports ::
  "sandbox_id \<Rightarrow> runtime_port list \<Rightarrow> fake_state \<Rightarrow> (unit, runtime_error, fake_state) stateful" where
  "set_sandbox_ports i ports s = update_sandbox (\<lambda>sb. sb \<lparr> rs_ports := ports \<rparr>) i s"

definition set_sandbox_image ::
  "sandbox_id \<Rightarrow> string \<Rightarrow> fake_state \<Rightarrow> (unit, runtime_error, fake_state) stateful" where
  "set_sandbox_image i img s = update_sandbox (\<lambda>sb. sb \<lparr> rs_image := img \<rparr>) i s"

definition set_logs :: "string \<Rightarrow> fake_state \<Rightarrow> fake_state" where
  "set_logs logs s =
     (let s = (case fk_sandboxes s of
          [] \<Rightarrow> s
        | (i, _) # _ \<Rightarrow> s \<lparr> fk_logs := [\<lparr> fl_sandbox_id = i, fl_timestamp_millis = 0,
                                           fl_bytes = logs \<rparr>] \<rparr>)
      in snd (persist_state s))"

definition seed_unowned :: "sandbox_id \<Rightarrow> fake_state \<Rightarrow> fake_state" where
  "seed_unowned i s = seed_sandbox ''foreign-runtime-client'' i Foreign i s"

definition seed_owned :: "sandbox_id \<Rightarrow> fake_state \<Rightarrow> fake_state" where
  "seed_owned i s = seed_sandbox ''gascan'' i GasCanOwned i s"

definition seed_mismatched :: "(string \<Rightarrow> u8 list) \<Rightarrow> sandbox_id \<Rightarrow> fake_state \<Rightarrow> fake_state" where
  "seed_mismatched sha256 i s =
     seed_sandbox ''gascan'' (from_root sha256 ''different-owner'' ''/gascan/test-fixture'')
       Mismatched i s"

definition seed_volume ::
  "string \<Rightarrow> sandbox_id option \<Rightarrow> resource_ownership \<Rightarrow> fake_state \<Rightarrow>
     (unit, runtime_error, fake_state) stateful" where
  "seed_volume name sandbox ownership s = seed_resource Volume name sandbox ownership s"

definition seed_network ::
  "string \<Rightarrow> sandbox_id option \<Rightarrow> resource_ownership \<Rightarrow> fake_state \<Rightarrow>
     (unit, runtime_error, fake_state) stateful" where
  "seed_network name sandbox ownership s = seed_resource Network name sandbox ownership s"

definition seed_container_resource ::
  "string \<Rightarrow> sandbox_id \<Rightarrow> resource_ownership \<Rightarrow> fake_state \<Rightarrow>
     (unit, runtime_error, fake_state) stateful" where
  "seed_container_resource name i ownership s = seed_resource Container name (Some i) ownership s"

definition forget_resource :: "resource_identity \<Rightarrow> fake_state \<Rightarrow> fake_state" where
  "forget_resource identity s = s \<lparr> fk_resources := hm_remove identity (fk_resources s) \<rparr>"

end
