(* ===== verification/Fake_Runtime_Correct.thy ===== *)
theory Fake_Runtime_Correct
  imports Fake_Runtime "HOL-Library.Countable"
begin

text \<open>
  Correctness of the in-memory backend: a well-formedness invariant and the freshness of removal
  proofs over every operation, the evidence a create returns, removal, and the snapshot.
\<close>

section \<open>Invariant and freshness\<close>

definition fake_wf :: "fake_state \<Rightarrow> bool" where
  "fake_wf s \<longleftrightarrow>
     hm_wf (fk_sandboxes s) \<and> (\<forall>(i, sb) \<in> set (fk_sandboxes s). rs_id sb = i) \<and>
     hm_wf (fk_resources s) \<and>
     (\<forall>(k, r) \<in> set (fk_resources s).
        valid_resource_name (ri_name k) \<and> rr_identity r = k \<and> rr_proof r < fk_next_proof s) \<and>
     distinct (map rr_proof (hm_values (fk_resources s)))"

definition resources_of :: "fake_state \<Rightarrow> runtime_resource set" where
  "resources_of s = set (hm_values (fk_resources s))"

definition evolves :: "fake_state \<Rightarrow> fake_state \<Rightarrow> bool" where
  "evolves s t \<longleftrightarrow>
     (fake_wf s \<longrightarrow> fake_wf t) \<and> fk_next_proof s \<le> fk_next_proof t \<and>
     (\<forall>r\<in>resources_of t. r \<in> resources_of s \<or> fk_next_proof s \<le> rr_proof r)"

interpretation ev: stepwise evolves
proof
  show "evolves s s" for s by (simp add: evolves_def)
  show "evolves s t \<Longrightarrow> evolves t u \<Longrightarrow> evolves s u" for s t u
    unfolding evolves_def by (metis order_trans)
qed

declare ev.step_refl [simp]

text \<open>The parts of the state the invariant is about.\<close>

definition same_maps :: "fake_state \<Rightarrow> fake_state \<Rightarrow> bool" where
  "same_maps s t \<longleftrightarrow>
     fk_sandboxes t = fk_sandboxes s \<and> fk_resources t = fk_resources s \<and>
     fk_next_proof t = fk_next_proof s"

lemma same_maps_evolves: "same_maps s t \<Longrightarrow> evolves s t"
  by (simp add: same_maps_def evolves_def fake_wf_def resources_of_def)

lemma evolves_sandboxes:
  assumes "hm_wf (fk_sandboxes s) \<Longrightarrow> \<forall>(i, sb) \<in> set (fk_sandboxes s). rs_id sb = i \<Longrightarrow>
      hm_wf m \<and> (\<forall>(i, sb) \<in> set m. rs_id sb = i)"
  shows "evolves s (s \<lparr> fk_sandboxes := m \<rparr>)"
  using assms by (auto simp: evolves_def fake_wf_def resources_of_def)

lemma set_hm_remove: "set (hm_remove k m) = {(k', v) \<in> set m. k' \<noteq> k}"
  by (auto simp: hm_remove_def)

lemma set_hm_insert: "set (hm_insert k v m) = insert (k, v) {(k', v) \<in> set m. k' \<noteq> k}"
  by (simp add: hm_insert_def set_hm_remove)

lemma evolves_insert_sandbox:
  "rs_id sb = i \<Longrightarrow> evolves s (s \<lparr> fk_sandboxes := hm_insert i sb (fk_sandboxes s) \<rparr>)"
  by (rule evolves_sandboxes) (auto simp: set_hm_insert)

lemma evolves_remove_sandbox: "evolves s (s \<lparr> fk_sandboxes := hm_remove i (fk_sandboxes s) \<rparr>)"
  by (rule evolves_sandboxes) (auto simp: set_hm_remove)

lemma hm_values_remove: "set (hm_values (hm_remove k m)) \<subseteq> set (hm_values m)"
  by (auto simp: hm_values_def hm_remove_def)

lemma distinct_proofs_remove:
  "distinct (map rr_proof (hm_values m)) \<Longrightarrow> distinct (map rr_proof (hm_values (hm_remove k m)))"
  unfolding hm_values_def hm_remove_def map_map by (rule distinct_map_filter)

lemma evolves_remove_resource: "evolves s (s \<lparr> fk_resources := hm_remove k (fk_resources s) \<rparr>)"
  using hm_values_remove [of k "fk_resources s"]
  by (auto simp: evolves_def fake_wf_def resources_of_def set_hm_remove distinct_proofs_remove)

lemma fake_wf_proof_less: "fake_wf s \<Longrightarrow> r \<in> resources_of s \<Longrightarrow> rr_proof r < fk_next_proof s"
  by (auto simp: fake_wf_def resources_of_def hm_values_def)

lemma evolves_insert_resource:
  assumes "valid_resource_name (ri_name k)"
  shows "evolves s (snd (insert_resource k sandbox ownership s))"
proof -
  define r where "r = discovered (fk_next_proof s) k sandbox ownership"
  define t where "t = snd (insert_resource k sandbox ownership s)"
  have t: "fk_sandboxes t = fk_sandboxes s" "fk_next_proof t = Suc (fk_next_proof s)"
    "fk_resources t = hm_insert k r (fk_resources s)"
    by (simp_all add: t_def r_def insert_resource_def Let_def)
  have r: "rr_identity r = k" "rr_proof r = fk_next_proof s"
    by (simp_all add: r_def discovered_def)
  have vals: "hm_values (fk_resources t) = r # hm_values (hm_remove k (fk_resources s))"
    by (simp add: t hm_insert_def hm_values_def)
  have sub: "set (hm_values (hm_remove k (fk_resources s))) \<subseteq> resources_of s"
    using hm_values_remove [of k "fk_resources s"] by (simp add: resources_of_def)
  have "fake_wf t" if "fake_wf s"
  proof -
    have "rr_proof r \<notin> rr_proof ` set (hm_values (hm_remove k (fk_resources s)))"
      using fake_wf_proof_less [OF that] sub r by fastforce
    with that assms show ?thesis
      by (auto simp: fake_wf_def vals [unfolded t(3)] distinct_proofs_remove t r set_hm_insert
          intro: less_SucI)
  qed
  moreover have "\<forall>x\<in>resources_of t. x \<in> resources_of s \<or> fk_next_proof s \<le> rr_proof x"
    using sub by (auto simp: resources_of_def vals r)
  ultimately show ?thesis
    by (simp add: evolves_def flip: t_def) (simp add: t)
qed

lemma same_maps_refl [simp]: "same_maps s s"
  by (simp add: same_maps_def)

interpretation sm: stepwise same_maps
  by unfold_locales (auto simp: same_maps_def)

lemma record_call_maps [simp]: "same_maps s (record_call c t) \<longleftrightarrow> same_maps s t"
  by (simp add: record_call_def same_maps_def)

lemma record_outcome_maps [simp]: "same_maps s (record_outcome c t) \<longleftrightarrow> same_maps s t"
  by (simp add: record_outcome_def same_maps_def)

lemma fail_once_maps [simp]: "same_maps s (snd (fail_once b t)) \<longleftrightarrow> same_maps s t"
  by (simp add: fail_once_def record_outcome_def same_maps_def)

lemma persist_frame: "\<exists>files. snd (persist_state s) = s \<lparr> fk_files := files \<rparr>"
proof -
  have "\<exists>files. s = s \<lparr> fk_files := files \<rparr>" by (rule exI [of _ "fk_files s"]) simp
  then show ?thesis
    by (auto simp: persist_state_def Let_def case_prod_beta split: option.split result.split)
qed

lemma persist_fields [simp]:
  "fk_resources (snd (persist_state s)) = fk_resources s"
  "fk_sandboxes (snd (persist_state s)) = fk_sandboxes s"
  "fk_next_proof (snd (persist_state s)) = fk_next_proof s"
  using persist_frame [of s] by auto

lemma persist_maps [simp]: "same_maps s (snd (persist_state t)) \<longleftrightarrow> same_maps s t"
  using persist_frame [of t] by (auto simp: same_maps_def)

lemma preamble_maps [simp]: "same_maps s (snd (create_preamble b req t)) \<longleftrightarrow> same_maps s t"
  by (simp add: create_preamble_def Let_def split: list.split)
    (simp add: same_maps_def record_outcome_def)

lemma after_mutation_maps [simp]:
  "same_maps s (snd (fail_after_create_mutation req created t)) \<longleftrightarrow> same_maps s t"
  by (simp add: fail_after_create_mutation_def Let_def same_maps_def record_outcome_def)

lemma observed_ports_maps [simp]:
  "same_maps s (snd (observed_created_ports req t)) \<longleftrightarrow> same_maps s t"
  by (simp add: observed_created_ports_def same_maps_def split: list.split)

section \<open>Every operation\<close>

lemmas evolves_intros =
  same_maps_evolves ev.step_st_then evolves_insert_resource evolves_insert_sandbox
  evolves_remove_resource evolves_remove_sandbox

lemma evolves_record_call [simp]: "evolves s (record_call c t) \<longleftrightarrow> evolves s t"
  by (simp add: record_call_def evolves_def fake_wf_def resources_of_def)

lemma evolves_record_outcome [simp]: "evolves s (record_outcome c t) \<longleftrightarrow> evolves s t"
  by (simp add: record_outcome_def evolves_def fake_wf_def resources_of_def)

lemma evolves_persist [simp]: "evolves s (snd (persist_state t)) \<longleftrightarrow> evolves s t"
  using persist_frame [of t] by (auto simp: evolves_def fake_wf_def resources_of_def)

lemma evolves_fail_once [intro]: "evolves s (snd (fail_once b (record_call c s)))"
  by (rule same_maps_evolves) simp

lemma evolves_update_sandbox:
  assumes "\<And>sb. rs_id (f sb) = rs_id sb"
  shows "evolves s (snd (update_sandbox f i s))"
proof (cases "hm_get (fk_sandboxes s) i")
  case None
  then show ?thesis by (simp add: update_sandbox_def ev.step_refl)
next
  case (Some sb)
  then have "(i, sb) \<in> set (fk_sandboxes s)" by (rule map_of_SomeD)
  then have "evolves s (s \<lparr> fk_sandboxes := hm_insert i (f sb) (fk_sandboxes s) \<rparr>)"
    by (intro evolves_sandboxes) (auto simp: set_hm_insert assms)
  with Some show ?thesis by (simp add: update_sandbox_def)
qed

lemma evolves_start: "evolves s (snd (fake_start i s))"
  unfolding fake_start_def by (rule ev.step_st_then) (auto intro: evolves_update_sandbox)

lemma evolves_stop: "evolves s (snd (fake_stop i s))"
  unfolding fake_stop_def by (rule ev.step_st_then) (auto intro: evolves_update_sandbox)

lemma insert_resource_evolves:
  "insert_resource k x w s = (r, t) \<Longrightarrow> valid_resource_name (ri_name k) \<Longrightarrow> evolves s t"
  using evolves_insert_resource [of k s x w] by simp

lemma evolves_after_mutation:
  "insert_resource k x w s = (r, t) \<Longrightarrow> valid_resource_name (ri_name k) \<Longrightarrow>
     evolves s (snd (fail_after_create_mutation req c t))"
  by (rule ev.step_trans [OF insert_resource_evolves]) (auto simp: same_maps_evolves)

lemma evolves_create_network: "evolves s (snd (create_network req s))"
  by (auto simp: create_network_def split: option.split result.split prod.split
      intro!: ev.step_st_then intro: ev.step_refl evolves_after_mutation)

lemma evolves_create_volumes: "evolves s (snd (create_volumes req vs created s))"
proof (induction vs arbitrary: created s)
  case Nil
  then show ?case by (simp add: ev.step_refl)
next
  case (Cons v vs)
  then show ?case
    by (auto simp: ev.step_refl split: option.split result.split prod.split
        intro!: ev.step_st_then intro: evolves_after_mutation)
qed

lemma evolves_insert_container: "evolves s (snd (insert_container req s))"
proof -
  obtain ports t where t: "observed_created_ports req s = (ports, t)" by fastforce
  define u where "u = t \<lparr> fk_sandboxes := hm_insert (cr_id req)
    \<lparr> rs_id = cr_id req, rs_image = cr_image req, rs_state = Stopped,
      rs_ownership = cr_ownership req, rs_ports = ports \<rparr> (fk_sandboxes t) \<rparr>"
  have "same_maps s t" using observed_ports_maps [of s req s] by (simp add: t)
  then have u: "evolves s u"
    unfolding u_def by (intro ev.step_trans [OF same_maps_evolves evolves_insert_sandbox]) simp_all
  show ?thesis
    by (auto simp: insert_container_def t Let_def u split: result.split prod.split simp flip: u_def
        intro: ev.step_trans [OF u insert_resource_evolves])
qed

lemma evolves_preamble [intro]: "evolves s (snd (create_preamble b req (record_call c s)))"
  by (rule same_maps_evolves) simp

lemma evolves_finish_create:
  "evolves s (snd (st_then (st_map_err f (persist_state (record_outcome c s))) (\<lambda>_ t. (Ok x, t))))"
  by (rule ev.step_st_then) (simp_all add: ev.step_refl)

lemma evolves_finish: "evolves s (snd (finish_create req created s))"
  unfolding finish_create_def
  by (auto intro!: ev.step_st_then evolves_insert_container evolves_finish_create [unfolded Let_def]
      same_maps_evolves [OF after_mutation_maps [THEN iffD2]] simp: Let_def split: result.split)

lemma evolves_create: "evolves s (snd (fake_create req s))"
  unfolding fake_create_def
  by (auto intro!: ev.step_st_then evolves_create_network evolves_create_volumes evolves_finish)

lemma evolves_create_container: "evolves s (snd (fake_create_container request s))"
  unfolding fake_create_container_def
  by (auto intro!: ev.step_st_then evolves_insert_container evolves_finish_create
      simp: Let_def split: result.split prod.split)
    (metis evolves_fail_once fail_once_maps same_maps_evolves same_maps_refl snd_conv
      ev.step_trans evolves_finish_create)+

lemma evolves_prepare_image: "evolves s (snd (fake_prepare_image img s))"
proof -
  have "evolves t (t \<lparr> fk_image_change := None, fk_sandboxes := (i, sb \<lparr> rs_image := c \<rparr>) # rest \<rparr>)"
    if "fk_sandboxes t = (i, sb) # rest" for t i sb rest c
    using that by (auto simp: evolves_def fake_wf_def resources_of_def hm_wf_def)
  moreover have "evolves t (t \<lparr> fk_image_change := None \<rparr>)" for t
    by (rule same_maps_evolves) (simp add: same_maps_def)
  ultimately show ?thesis
    unfolding fake_prepare_image_def
    by (auto intro!: ev.step_st_then simp: Let_def split: option.split list.split)
qed

lemma evolves_remove_one: "evolves s (remove_one s r)"
  by (auto simp: remove_one_def Let_def evolves_remove_resource
      split: prod.split resource_kind.split option.split
      intro: ev.step_trans [OF evolves_remove_resource]
        evolves_remove_sandbox [of "s \<lparr> fk_resources := m \<rparr>" for m, simplified])

lemma evolves_remove: "evolves s (snd (fake_remove request s))"
  unfolding fake_remove_def
  by (auto intro!: ev.step_st_then ev.step_foldl evolves_remove_one
      simp: Let_def split: result.split)

lemma evolves_reads:
  "evolves s (snd (fake_capabilities s))" "evolves s (snd (fake_inspect i s))"
  "evolves s (snd (fake_logs i since s))" "evolves s (snd (fake_list_resources s))"
  unfolding fake_capabilities_def fake_inspect_def fake_logs_def fake_list_resources_def
  by (auto intro!: ev.step_st_then)

lemma take_configured_maps [simp]: "same_maps s (snd (take_configured argv t)) \<longleftrightarrow> same_maps s t"
  by (simp add: take_configured_def same_maps_def split: option.split list.split)

lemma open_session_maps: "same_maps s (snd (open_session request s))"
  using take_configured_maps [of s "ex_argv request" s]
  by (cases "take_configured (ex_argv request) s")
    (simp add: open_session_def, simp add: same_maps_def split: list.split)

lemma fake_exec_maps: "same_maps s (snd (fake_exec request s))"
proof (cases "fk_exec_errors (record_call (CallExec request) s)")
  case Nil
  then show ?thesis
    by (auto simp: fake_exec_def Let_def open_session_maps intro!: sm.step_st_then split: option.split)
next
  case (Cons e es)
  then show ?thesis by (simp add: fake_exec_def Let_def) (simp add: same_maps_def record_call_def)
qed

lemma run_session_maps: "same_maps s (snd (run_session now interrupt request configured inputs s))"
proof -
  have "same_maps s (snd (persist_state (s \<lparr> fk_logs := l \<rparr>)) \<lparr> fk_exec_cancellations := n \<rparr>)" for l n
    using persist_maps [of s "s \<lparr> fk_logs := l \<rparr>"] by (simp add: same_maps_def)
  then show ?thesis
    by (simp add: run_session_def Let_def split: prod.split)
qed

lemma evolves_seed_resource: "evolves s (snd (seed_resource kind name sandbox ownership s))"
  by (simp add: seed_resource_def evolves_insert_resource split: result.split)

lemma evolves_seed_sandbox: "evolves s (seed_sandbox managed_by owner ownership i s)"
proof -
  have "evolves t (insert_container_resource i ownership t)" for t
    by (simp add: insert_container_resource_def evolves_insert_resource split: result.split)
  note ev.step_trans [OF evolves_insert_sandbox this]
  then show ?thesis unfolding seed_sandbox_def by simp
qed

text \<open>A step of the backend: any operation of the trait, a guest command that finishes, or an
  arrangement of the scenario.\<close>

inductive fake_step :: "fake_state \<Rightarrow> fake_state \<Rightarrow> bool" where
  step_capabilities: "fake_step s (snd (fake_capabilities s))"
| step_inspect: "fake_step s (snd (fake_inspect i s))"
| step_create: "fake_step s (snd (fake_create req s))"
| step_prepare_image: "fake_step s (snd (fake_prepare_image img s))"
| step_create_container: "fake_step s (snd (fake_create_container rec s))"
| step_start: "fake_step s (snd (fake_start i s))"
| step_stop: "fake_step s (snd (fake_stop i s))"
| step_remove: "fake_step s (snd (fake_remove rem s))"
| step_exec: "fake_step s (snd (fake_exec ex s))"
| step_session: "fake_step s (snd (run_session now interrupt ex configured inputs s))"
| step_logs: "fake_step s (snd (fake_logs i since s))"
| step_list: "fake_step s (snd (fake_list_resources s))"
| step_seed: "fake_step s (seed_sandbox managed_by owner ownership i s)"
| step_seed_resource: "fake_step s (snd (seed_resource kind name sandbox ownership s))"
| step_forget: "fake_step s (forget_resource identity s)"
| step_set_ports: "fake_step s (snd (set_sandbox_ports i ports s))"
| step_set_image: "fake_step s (snd (set_sandbox_image i img s))"
| step_arrange: "same_maps s t \<Longrightarrow> fake_step s t"

lemma fake_step_evolves: "fake_step s t \<Longrightarrow> evolves s t"
  by (induction rule: fake_step.induct)
    (simp_all add: evolves_reads evolves_create evolves_prepare_image evolves_create_container
      evolves_start evolves_stop evolves_remove same_maps_evolves [OF fake_exec_maps]
      same_maps_evolves [OF run_session_maps] same_maps_evolves
      evolves_seed_sandbox evolves_seed_resource forget_resource_def evolves_remove_resource
      set_sandbox_ports_def set_sandbox_image_def evolves_update_sandbox)

text \<open>Failure injection, the queues and the logs are such arrangements.\<close>

lemma arrangements:
  "same_maps s (inject_failure boundary s)" "same_maps s (fail_create_after_mutations n s)"
  "same_maps s (change_image_on_prepare img s)" "same_maps s (set_exec_result out err code s)"
  "same_maps s (queue_exec_results results s)" "same_maps s (queue_exec_results_with_signals rs s)"
  "same_maps s (queue_exec_result_for_argv argv out err code s)"
  "same_maps s (queue_exec_error error s)" "same_maps s (queue_create_error error s)"
  "same_maps s (queue_ssh_port_collision s)" "same_maps s (queue_created_ssh_host_port port s)"
  "same_maps s (queue_exec_input_failure s)" "same_maps s (queue_exec_hang phase s)"
  "same_maps s (queue_exec_stream_error error s)" "same_maps s (set_logs logs s)"
  by (simp_all add: same_maps_def inject_failure_def fail_create_after_mutations_def
      change_image_on_prepare_def set_exec_result_def queue_exec_results_def
      queue_exec_results_with_signals_def queue_exec_result_for_argv_def queue_exec_error_def
      queue_create_error_def queue_ssh_port_collision_def queue_created_ssh_host_port_def
      queue_exec_input_failure_def queue_exec_hang_def queue_exec_stream_error_def set_logs_def
      Let_def split: list.split option.split result.split)

lemma fake_wf_new: "fake_wf (fake_new capabilities)"
  by (simp add: fake_wf_def fake_new_def hm_wf_def hm_values_def)

lemma reachable_evolves: "fake_step\<^sup>*\<^sup>* s t \<Longrightarrow> evolves s t"
  by (erule ev.step_rtranclp) (rule fake_step_evolves)

section \<open>Removal\<close>

lemma fake_wf_get:
  assumes "fake_wf s"
  shows "hm_get (fk_resources s) (rr_identity r) = Some r \<longleftrightarrow> r \<in> resources_of s"
  using assms by (force simp: fake_wf_def hm_get_Some_iff resources_of_def hm_values_def)

lemma fake_wf_get_identity:
  assumes "fake_wf s" "hm_get (fk_resources s) k = Some r"
  shows "rr_identity r = k"
  using assms by (auto simp: fake_wf_def dest!: map_of_SomeD)

lemma fail_once_not: "b \<notin> fk_failures s \<Longrightarrow> fail_once b s = (Ok (), s)"
  by (simp add: fail_once_def)

lemma fail_once_in: "b \<in> fk_failures s \<Longrightarrow> is_err (fst (fail_once b s))"
  by (simp add: fail_once_def)

lemma record_call_fields [simp]:
  "fk_failures (record_call c s) = fk_failures s" "fk_resources (record_call c s) = fk_resources s"
  "fk_sandboxes (record_call c s) = fk_sandboxes s" "fk_persistence (record_call c s) = fk_persistence s"
  "fk_next_proof (record_call c s) = fk_next_proof s"
  "fk_ssh_port_collisions (record_call c s) = fk_ssh_port_collisions s"
  "fk_create_errors (record_call c s) = fk_create_errors s"
  by (simp_all add: record_call_def)

lemma record_outcome_fields [simp]:
  "fk_failures (record_outcome c s) = fk_failures s"
  "fk_resources (record_outcome c s) = fk_resources s"
  "fk_sandboxes (record_outcome c s) = fk_sandboxes s" "fk_persistence (record_outcome c s) = fk_persistence s"
  "fk_next_proof (record_outcome c s) = fk_next_proof s"
  by (simp_all add: record_outcome_def)

definition container_owners :: "runtime_resource list \<Rightarrow> sandbox_id set" where
  "container_owners rs = {i. \<exists>r\<in>set rs. rr_kind r = Container \<and> rr_sandbox_id r = Some i}"

lemma remove_one_get:
  "hm_get (fk_resources (remove_one s r)) = hm_get (fk_resources s) |` (- {rr_identity r})"
  "hm_get (fk_sandboxes (remove_one s r)) = hm_get (fk_sandboxes s) |` (- container_owners [r])"
  "fk_persistence (remove_one s r) = fk_persistence s"
  by (auto simp: remove_one_def Let_def container_owners_def restrict_map_def fun_eq_iff
      split: resource_kind.split option.split)

lemma foldl_remove_get:
  "hm_get (fk_resources (foldl remove_one s rs)) = hm_get (fk_resources s) |` (- rr_identity ` set rs)"
  "hm_get (fk_sandboxes (foldl remove_one s rs)) = hm_get (fk_sandboxes s) |` (- container_owners rs)"
  "fk_persistence (foldl remove_one s rs) = fk_persistence s"
  by (induction rs arbitrary: s)
    (auto simp: remove_one_get restrict_map_def fun_eq_iff container_owners_def)

lemma check_removal_Ok:
  assumes "fake_wf s" "rr_ownership r = GasCanOwned"
  shows "check_removal s r = Ok () \<longleftrightarrow> r \<in> resources_of s"
  using assms(2) by (auto simp: check_removal_def simp flip: fake_wf_get [OF assms(1)]
      split: option.split)

lemma remove_from_resources_Ok:
  "remove_from_resources rs = Ok q \<longleftrightarrow>
     rs \<noteq> [] \<and> (\<forall>r\<in>set rs. rr_ownership r = GasCanOwned) \<and> q = RemoveRequest rs"
  by (auto simp: remove_from_resources_def list_ex_iff)

text \<open>The map of a well-formed state depends only on lookups.\<close>

lemma remove_refused:
  assumes "fake_wf s" "remove_from_resources rs = Ok request"
    and "AtRemove \<in> fk_failures s \<or> \<not> set rs \<subseteq> resources_of s"
  shows "is_err (fst (fake_remove request s)) \<and> same_maps s (snd (fake_remove request s))"
proof (cases "AtRemove \<in> fk_failures s")
  case True
  have "same_maps s (snd (fail_once AtRemove (record_call (CallRemove request) s)))" by simp
  moreover obtain e t where "fail_once AtRemove (record_call (CallRemove request) s) = (Err e, t)"
    using True by (simp add: fail_once_def)
  ultimately show ?thesis by (simp add: fake_remove_def)
next
  case False
  have rs: "remove_list request = rs" "\<forall>r\<in>set rs. rr_ownership r = GasCanOwned"
    using assms(2) by (auto simp: remove_from_resources_Ok)
  have wf: "fake_wf (record_call c s)" for c
    using assms(1) same_maps_evolves [of s "record_call c s"] by (simp add: evolves_def)
  have "resources_of (record_call c s) = resources_of s" for c by (simp add: resources_of_def)
  then have "for_each_ok (check_removal (record_call (CallRemove request) s)) rs \<noteq> Ok ()"
    using False assms(3) rs(2) wf by (auto simp: loop_simps check_removal_Ok)
  then show ?thesis
    using False by (cases "for_each_ok (check_removal (record_call (CallRemove request) s)) rs")
      (auto simp: fake_remove_def fail_once_not rs)
qed

lemma remove_performed:
  assumes "fake_wf s" "remove_from_resources rs = Ok request"
    and "AtRemove \<notin> fk_failures s" "set rs \<subseteq> resources_of s"
  shows "hm_get (fk_resources (snd (fake_remove request s))) =
      hm_get (fk_resources s) |` (- rr_identity ` set rs)" (is ?res)
    and "hm_get (fk_sandboxes (snd (fake_remove request s))) =
      hm_get (fk_sandboxes s) |` (- container_owners rs)" (is ?sb)
    and "fk_persistence s = None \<Longrightarrow> fst (fake_remove request s) = Ok ()" (is "?save \<Longrightarrow> ?ok")
proof -
  define u where "u = record_call (CallRemove request) s"
  define sorted where "sorted = sort_key (\<lambda>r. kind_rank (rr_kind r)) rs"
  define v where "v = record_outcome (OutcomeRemoved (RemoveRequest sorted)) (foldl remove_one u sorted)"
  have rs: "remove_list request = rs" "\<forall>r\<in>set rs. rr_ownership r = GasCanOwned" "rs \<noteq> []"
    using assms(2) by (auto simp: remove_from_resources_Ok)
  have sorted: "set sorted = set rs" by (simp add: sorted_def)
  have wf: "fake_wf u"
    using assms(1) same_maps_evolves [of s u] by (simp add: evolves_def u_def)
  have "resources_of u = resources_of s" by (simp add: resources_of_def u_def)
  then have "for_each_ok (check_removal u) rs = Ok ()"
    using rs(2) wf assms(4) by (auto simp: loop_simps check_removal_Ok)
  moreover have "remove_from_resources sorted = Ok (RemoveRequest sorted)"
    using rs sorted by (auto simp: remove_from_resources_Ok)
  ultimately have eq: "fake_remove request s = persist_state v"
    using assms(3) by (simp add: fake_remove_def fail_once_not rs Let_def v_def u_def sorted_def)
  have "container_owners sorted = container_owners rs"
    by (simp add: container_owners_def sorted)
  then show ?res ?sb
    by (simp_all add: eq v_def foldl_remove_get sorted u_def)
  show ?ok if ?save
    using that by (simp add: eq persist_state_def v_def foldl_remove_get u_def)
qed

definition removed_exactly :: "runtime_resource list \<Rightarrow> fake_state \<Rightarrow> fake_state \<Rightarrow> bool" where
  "removed_exactly rs s t \<longleftrightarrow>
     hm_get (fk_resources t) = hm_get (fk_resources s) |` (- rr_identity ` set rs) \<and>
     hm_get (fk_sandboxes t) = hm_get (fk_sandboxes s) |` (- container_owners rs)"

text \<open>C10. Removal by the in-memory backend is all or nothing and never touches what was not
  proved to be owned.  For a request made of resources \<open>rs\<close>: if a failure is injected, or one
  of them is not a present resource with the very removal proof given, the call is an error and
  neither map changes; otherwise exactly the resources of the request, and exactly the sandboxes
  whose container is among them, are gone, and without persistence the call succeeds.\<close>

theorem fake_remove_exact:
  assumes "fake_wf s" and "remove_from_resources rs = Ok request"
  shows "if AtRemove \<in> fk_failures s \<or> \<not> set rs \<subseteq> resources_of s
    then is_err (fst (fake_remove request s)) \<and> same_maps s (snd (fake_remove request s))
    else removed_exactly rs s (snd (fake_remove request s)) \<and>
      (fk_persistence s = None \<longrightarrow> fst (fake_remove request s) = Ok ())"
  using remove_refused [OF assms] remove_performed [OF assms] by (simp add: removed_exactly_def)

text \<open>C22. A removal proof is good for one removal.  After a resource was removed, no sequence of
  operations of the backend, including a new create of the same sandbox, makes a request that
  contains the old evidence acceptable: it is refused and changes neither map.\<close>

theorem stale_proof_refused:
  assumes "fake_wf s" and "remove_from_resources rs = Ok request"
    and "fake_remove request s = (Ok (), t)" and "r \<in> set rs"
    and "fake_step\<^sup>*\<^sup>* t u" and "remove_from_resources rs' = Ok again" and "r \<in> set rs'"
  shows "is_err (fst (fake_remove again u)) \<and> same_maps u (snd (fake_remove again u))"
proof -
  have acc: "AtRemove \<notin> fk_failures s" "set rs \<subseteq> resources_of s"
    using remove_refused [OF assms(1,2)] assms(3) by auto
  then have old: "rr_proof r < fk_next_proof s"
    using fake_wf_proof_less [OF assms(1)] assms(4) by auto
  have st: "evolves s t" using evolves_remove [of s request] assms(3) by simp
  then have wf: "fake_wf t" and le: "fk_next_proof s \<le> fk_next_proof t"
    using assms(1) by (auto simp: evolves_def)
  have "hm_get (fk_resources t) (rr_identity r) = None"
    using remove_performed(1) [OF assms(1,2) acc] assms(3,4) by (simp add: restrict_map_def)
  then have "r \<notin> resources_of t" using fake_wf_get [OF wf, of r] by simp
  moreover have tu: "evolves t u" using assms(5) by (rule reachable_evolves)
  ultimately have "r \<notin> resources_of u"
    using old le by (force simp: evolves_def)
  moreover have "fake_wf u" using tu wf by (simp add: evolves_def)
  ultimately show ?thesis using remove_refused [OF _ assms(6)] assms(7) by blast
qed

section \<open>Evidence of a create\<close>

abbreviation by_identity :: "runtime_resource list \<Rightarrow> (resource_identity \<times> runtime_resource) list" where
  "by_identity rs \<equiv> map (\<lambda>r. (rr_identity r, r)) rs"

definition added :: "runtime_resource list \<Rightarrow> fake_state \<Rightarrow> fake_state \<Rightarrow> bool" where
  "added rs s t \<longleftrightarrow>
     hm_get (fk_resources t) = hm_get (fk_resources s) ++ map_of (by_identity rs) \<and>
     (\<forall>r\<in>set rs. hm_get (fk_resources s) (rr_identity r) = None) \<and> distinct (map rr_identity rs)"

definition created_ok :: "create_request \<Rightarrow> runtime_resource list \<Rightarrow> bool" where
  "created_ok req rs \<longleftrightarrow>
     (\<forall>r\<in>set rs. owned_by (cr_id req) r) \<and> distinct (map rr_identity rs) \<and>
     set (map rr_identity rs) \<subseteq> insert (container_identity req) (topology req)"

text \<open>The resources a create reports, whether it succeeds or fails.\<close>

fun evidence :: "(create_outcome, create_failure) result \<Rightarrow> runtime_resource list" where
  "evidence (Ok outcome) = outcome_created outcome"
| "evidence (Err failure) = failure_created failure"

definition same_frame :: "fake_state \<Rightarrow> fake_state \<Rightarrow> bool" where
  "same_frame s t \<longleftrightarrow> fk_sandboxes t = fk_sandboxes s \<and> fk_persistence t = fk_persistence s"

interpretation fr: stepwise same_frame
  by unfold_locales (auto simp: same_frame_def)

lemma added_none [simp]: "fk_resources t = fk_resources s \<Longrightarrow> added [] s t"
  by (simp add: added_def)

lemma dom_by_identity: "dom (map_of (by_identity rs)) = rr_identity ` set rs"
  by (simp add: dom_map_of_conv_image_fst image_image)

lemma added_append:
  assumes "added xs s t" "added ys t u"
  shows "added (xs @ ys) s u"
proof -
  have disj: "rr_identity ` set xs \<inter> rr_identity ` set ys = {}"
  proof (rule ccontr)
    assume "\<not> ?thesis"
    then obtain k where k: "k \<in> rr_identity ` set xs" "k \<in> rr_identity ` set ys" by blast
    from k(2) assms(2) have "hm_get (fk_resources t) k = None" by (auto simp: added_def)
    with assms(1) have "k \<notin> dom (map_of (by_identity xs))" by (auto simp: added_def)
    with k(1) show False by (simp add: dom_by_identity)
  qed
  then have "map_of (by_identity xs) ++ map_of (by_identity ys) =
      map_of (by_identity ys) ++ map_of (by_identity xs)"
    by (intro map_add_comm) (simp add: dom_by_identity Int_commute)
  moreover have "hm_get (fk_resources s) (rr_identity r) = None" if "r \<in> set ys" for r
    using assms that by (auto simp: added_def)
  ultimately show ?thesis
    using assms disj by (auto simp: added_def simp del: map_add_assoc) (simp add: map_add_assoc [symmetric] del: map_add_assoc)
qed

lemma insert_resource_added:
  assumes "insert_resource k (Some i) GasCanOwned s = (r, t)"
  shows "rr_identity r = k" "owned_by i r" "same_frame s t"
    and "hm_get (fk_resources s) k = None \<Longrightarrow> added [r] s t"
    and "fk_resources t = hm_insert k r (fk_resources s)"
  using assms by (auto simp: insert_resource_def Let_def discovered_def owned_by_def same_frame_def
      added_def)

lemma fake_create_failure_created:
  assumes "created_ok req created" "request_names_ok req"
  shows "failure_created (fake_create_failure req created e) = created"
proof -
  have "validate_created_resources req created False = Ok ()"
    using assms by (simp add: validate_created_eq_Ok created_ok_def)
  then show ?thesis by (simp add: fake_create_failure_def new_failure_def)
qed

lemma after_mutation_cases:
  assumes "fail_after_create_mutation req created s = (r, t)" "created_ok req created"
    "request_names_ok req"
  shows "fk_resources t = fk_resources s" "same_frame s t"
    and "\<And>f. r = Err f \<Longrightarrow> failure_created f = created"
  using assms fake_create_failure_created [OF assms(2,3)]
  by (auto simp: fail_after_create_mutation_def same_frame_def record_outcome_def Let_def
      split: if_splits)

lemma create_network_added:
  assumes "create_network req s = (r, t)" "request_names_ok req"
  obtains xs where "added xs s t" "created_ok req xs" "same_frame s t"
    "rr_identity ` set xs \<subseteq> set_option (allowed_network req)"
    "\<And>f. r = Err f \<Longrightarrow> failure_created f = xs"
    "\<And>c. r = Ok c \<Longrightarrow> c = xs \<and> set_option (allowed_network req) = rr_identity ` set xs"
proof (cases "managed_name (cr_network req)")
  case None
  with assms that [of "[]"] show ?thesis
    by (auto simp: create_network_def created_ok_def allowed_network_def fr.step_refl)
next
  case (Some name)
  show ?thesis
  proof (cases "valid_resource_name name \<and> hm_get (fk_resources s) (ResourceIdentity Network name) = None")
    case False
    then have "\<exists>e. r = Err (fake_create_failure req [] e) \<and> t = s"
      using assms(1) by (cases "new_identity Network name")
        (auto simp: create_network_def Some split: if_splits)
    moreover have "created_ok req []" by (simp add: created_ok_def)
    ultimately show ?thesis
      using that [of "[]"] fake_create_failure_created [OF _ assms(2)]
      by (auto simp: fr.step_refl)
  next
    case True
    obtain x u where ins:
      "insert_resource (ResourceIdentity Network name) (Some (cr_id req)) GasCanOwned s = (x, u)"
      by fastforce
    note x = insert_resource_added [OF ins]
    have ok: "created_ok req [x]"
      using x Some by (simp add: created_ok_def topology_def allowed_network_def)
    have id: "new_identity Network name = Ok (ResourceIdentity Network name)" using True by simp
    obtain w v where f: "fail_after_create_mutation req [x] u = (w, v)" by fastforce
    note v = after_mutation_cases [OF f ok assms(2)]
    have res: "t = v" "r = (case w of Ok _ \<Rightarrow> Ok [x] | Err e \<Rightarrow> Err e)"
      using assms(1) True by (cases w; simp add: create_network_def Some id ins f)+
    show ?thesis
    proof (rule that [of "[x]"])
      show "added [x] s t" using x(4) True v(1) by (simp add: added_def res)
      show "rr_identity ` set [x] \<subseteq> set_option (allowed_network req)"
        using x(1) Some by (simp add: allowed_network_def)
      show "same_frame s t" unfolding res using x(3) v(2) by (rule fr.step_trans)
      show "failure_created f = [x]" if "r = Err f" for f
        using that v(3) by (cases w) (simp_all add: res)
      show "c = [x] \<and> set_option (allowed_network req) = rr_identity ` set [x]" if "r = Ok c" for c
        using that x(1) Some by (cases w) (auto simp: res allowed_network_def)
    qed (rule ok)
  qed
qed

lemma added_present: "added xs s t \<Longrightarrow> r \<in> set xs \<Longrightarrow> hm_get (fk_resources t) (rr_identity r) \<noteq> None"
  using dom_by_identity [of xs] by (auto simp: added_def dom_def map_add_def split: option.splits)

lemma added_keeps: "added xs s t \<Longrightarrow> hm_get (fk_resources s) k \<noteq> None \<Longrightarrow> hm_get (fk_resources t) k \<noteq> None"
  by (auto simp: added_def map_add_def split: option.splits)

lemma create_volumes_added:
  assumes "create_volumes req vs created s = (r, t)" "request_names_ok req"
    and "set vs \<subseteq> set (cr_volumes req)" "created_ok req created"
    and "\<forall>x\<in>set created. hm_get (fk_resources s) (rr_identity x) \<noteq> None"
  shows "\<exists>xs. added xs s t \<and> created_ok req (created @ xs) \<and> same_frame s t \<and>
    (\<forall>x\<in>set xs. ri_kind (rr_identity x) = Volume) \<and>
    (case r of Ok c \<Rightarrow> c = created @ xs | Err f \<Rightarrow> failure_created f = created @ xs)"
  using assms
proof (induction vs arbitrary: created s)
  case Nil
  then show ?case by (intro exI [of _ "[]"]) (auto simp: fr.step_refl)
next
  case (Cons v vs)
  define k where "k = ResourceIdentity Volume (vol_name v)"
  have mem: "v \<in> set (cr_volumes req)" using Cons.prems(3) by simp
  then have id: "new_identity Volume (vol_name v) = Ok k"
    using Cons.prems(2) by (simp add: request_names_ok_def list_all_iff k_def)
  show ?case
  proof (cases "hm_get (fk_resources s) k")
    case (Some existing)
    show ?thesis
    proof (cases "rr_ownership existing \<noteq> GasCanOwned \<or> rr_sandbox_id existing \<noteq> Some (cr_id req)")
      case True
      with Cons.prems(1) have "t = s" "\<exists>e. r = Err (fake_create_failure req created e)"
        by (auto simp: id Some)
      then show ?thesis
        using fake_create_failure_created [OF Cons.prems(4,2)] Cons.prems(4)
        by (intro exI [of _ "[]"]) (auto simp: fr.step_refl)
    next
      case False
      with Cons.prems(1) have "create_volumes req vs created s = (r, t)" by (simp add: id Some)
      with Cons.prems show ?thesis by (intro Cons.IH) simp_all
    qed
  next
    case None
    obtain x u where ins: "insert_resource k (Some (cr_id req)) GasCanOwned s = (x, u)" by fastforce
    note x = insert_resource_added [OF ins]
    have "k \<notin> rr_identity ` set created" using Cons.prems(5) None by auto
    moreover have "k \<in> topology req" using mem by (auto simp: topology_def volume_identities_def k_def)
    ultimately have ok: "created_ok req (created @ [x])"
      using Cons.prems(4) x by (auto simp: created_ok_def)
    obtain w v' where f: "fail_after_create_mutation req (created @ [x]) u = (w, v')" by fastforce
    note v = after_mutation_cases [OF f ok Cons.prems(2)]
    have one: "added [x] s v'" using x(4) None v(1) by (simp add: added_def)
    have frame: "same_frame s v'" using x(3) v(2) by (rule fr.step_trans)
    show ?thesis
    proof (cases w)
      case (Err e)
      with Cons.prems(1) None have "t = v'" "r = Err e" by (simp_all add: id ins f)
      with one frame ok v(3) Err x(1) show ?thesis
        by (intro exI [of _ "[x]"]) (simp add: k_def)
    next
      case (Ok _)
      with Cons.prems(1) None have "create_volumes req vs (created @ [x]) v' = (r, t)"
        by (simp add: id ins f)
      moreover have "\<forall>y\<in>set (created @ [x]). hm_get (fk_resources v') (rr_identity y) \<noteq> None"
        using added_keeps [OF one] added_present [OF one] Cons.prems(5) by auto
      ultimately obtain xs where "added xs v' t" "created_ok req ((created @ [x]) @ xs)"
        "same_frame v' t" "\<forall>x\<in>set xs. ri_kind (rr_identity x) = Volume"
        "case r of Ok c \<Rightarrow> c = (created @ [x]) @ xs | Err f \<Rightarrow> failure_created f = (created @ [x]) @ xs"
        using Cons.IH [of "created @ [x]" v'] Cons.prems(2,3) ok by auto
      with one frame x(1) show ?thesis
        using added_append [OF one, of xs t] fr.step_trans [OF frame, of t]
        by (intro exI [of _ "x # xs"]) (cases r; simp add: k_def)
    qed
  qed
qed

text \<open>What a create leaves behind: the resources of its evidence, and the sandbox when the
  container is among them.\<close>

definition created_state ::
  "create_request \<Rightarrow> runtime_resource list \<Rightarrow> fake_state \<Rightarrow> fake_state \<Rightarrow> bool" where
  "created_state req rs s t \<longleftrightarrow>
     added rs s t \<and> created_ok req rs \<and>
     (if container_identity req \<in> rr_identity ` set rs
      then hm_get (fk_sandboxes s) (cr_id req) = None \<and>
        (\<exists>ports. hm_get (fk_sandboxes t) = (hm_get (fk_sandboxes s))(cr_id req \<mapsto>
           \<lparr> rs_id = cr_id req, rs_image = cr_image req, rs_state = Stopped,
             rs_ownership = cr_ownership req, rs_ports = ports \<rparr>))
      else hm_get (fk_sandboxes t) = hm_get (fk_sandboxes s))"

lemma created_state_none:
  "fk_resources t = fk_resources s \<Longrightarrow> fk_sandboxes t = fk_sandboxes s \<Longrightarrow> created_state req [] s t"
  by (simp add: created_state_def created_ok_def)

lemma created_state_cong:
  "fk_resources s = fk_resources s' \<Longrightarrow> fk_sandboxes s = fk_sandboxes s' \<Longrightarrow>
     created_state req rs s t \<longleftrightarrow> created_state req rs s' t"
  by (simp add: created_state_def added_def)

lemma insert_container_added:
  assumes "insert_container req s = (r, t)" "request_names_ok req"
    and "hm_get (fk_resources s) (container_identity req) = None"
  obtains x ports where "r = Ok x" "rr_identity x = container_identity req" "added [x] s t"
    "owned_by (cr_id req) x" "fk_persistence t = fk_persistence s"
    "fk_sandboxes t = hm_insert (cr_id req)
       \<lparr> rs_id = cr_id req, rs_image = cr_image req, rs_state = Stopped,
         rs_ownership = cr_ownership req, rs_ports = ports \<rparr> (fk_sandboxes s)"
proof -
  obtain ports u where u: "observed_created_ports req s = (ports, u)" by fastforce
  then have fu: "fk_resources u = fk_resources s" "same_frame s u"
    by (auto simp: observed_created_ports_def same_frame_def split: list.splits)
  define v where "v = u \<lparr> fk_sandboxes := hm_insert (cr_id req)
       \<lparr> rs_id = cr_id req, rs_image = cr_image req, rs_state = Stopped,
         rs_ownership = cr_ownership req, rs_ports = ports \<rparr> (fk_sandboxes u) \<rparr>"
  obtain x w where ins:
    "insert_resource (container_identity req) (Some (cr_id req)) GasCanOwned v = (x, w)" by fastforce
  note x = insert_resource_added [OF ins]
  have id: "new_identity Container (as_str (cr_id req)) = Ok (container_identity req)"
    using assms(2) by (simp add: request_names_ok_def container_identity_def)
  have eq: "r = Ok x" "t = w"
    using assms(1) by (simp_all add: insert_container_def u Let_def id ins flip: v_def)
  have res: "fk_resources v = fk_resources s" by (simp add: v_def fu)
  show thesis
  proof (rule that [of x ports])
    show "added [x] s t" using x(4) assms(3) by (simp add: added_def res eq)
  qed (use x fu in \<open>simp_all add: eq same_frame_def v_def\<close>)
qed

lemma container_not_topology: "container_identity req \<notin> topology req"
  using volume_identity_kind [of "container_identity req" req]
    network_identity_kind [of req "container_identity req"]
  by (auto simp: topology_def container_identity_def)

lemma preamble_Err: "create_preamble b req s = (Err f, t) \<Longrightarrow> failure_created f = []"
  by (auto simp: create_preamble_def Let_def failure_from_source_def st_map_err_def fail_once_def
      split: if_splits list.splits)

lemma preamble_frame: "create_preamble b req s = (r, t) \<Longrightarrow> fk_persistence t = fk_persistence s"
  by (auto simp: create_preamble_def Let_def st_map_err_def fail_once_def record_outcome_def
      split: if_splits list.splits)

text \<open>The failure is that of saving the state it left.\<close>

definition save_failed :: "create_failure \<Rightarrow> fake_state \<Rightarrow> bool" where
  "save_failed failure t =
     (case fst (persist_state t) of Ok _ \<Rightarrow> False | Err e \<Rightarrow> failure = failure_from_source e)"

text \<open>A create is accounted for when the resources it added are its evidence, or when all of them,
  the container included, are there and only saving the state failed.\<close>

definition accounted ::
  "create_request \<Rightarrow> (create_outcome, create_failure) result \<Rightarrow> runtime_resource list \<Rightarrow>
     fake_state \<Rightarrow> fake_state \<Rightarrow> bool" where
  "accounted req r rs s t \<longleftrightarrow>
     created_state req rs s t \<and>
     (is_ok r \<longrightarrow> container_identity req \<in> rr_identity ` set rs) \<and>
     (evidence r = rs \<or>
      container_identity req \<in> rr_identity ` set rs \<and>
        (case r of Ok _ \<Rightarrow> False | Err failure \<Rightarrow> save_failed failure t))"

lemma persist_again: "fst (persist_state (snd (persist_state s))) = fst (persist_state s)"
  by (simp add: persist_state_def replace_file_def snapshot_of_def Let_def case_prod_beta
      split: option.split result.split)

lemma accounted_cong:
  "fk_resources s = fk_resources s' \<Longrightarrow> fk_sandboxes s = fk_sandboxes s' \<Longrightarrow>
     accounted req r rs s t \<longleftrightarrow> accounted req r rs s' t"
  by (simp add: accounted_def created_state_cong [of s s'])

lemma finish_create_step:
  assumes "added pre s u" "created_ok req pre" "same_frame s u"
    and "request_names_ok req" "container_identity req \<notin> rr_identity ` set pre"
    and "hm_get (fk_resources s) (container_identity req) = None"
    and "hm_get (fk_sandboxes s) (cr_id req) = None"
    and "set_option (allowed_network req) \<subseteq> rr_identity ` set pre"
    and "finish_create req pre u = (r, t)"
  shows "\<exists>rs. accounted req r rs s t"
proof -
  have none: "hm_get (fk_resources u) (container_identity req) = None"
    using assms(1,5,6) dom_by_identity [of pre] by (auto simp: added_def map_add_None dom_def)
  obtain w v where ic: "insert_container req u = (w, v)" by fastforce
  from insert_container_added [OF this assms(4) none] obtain x ports where
    x: "w = Ok x" "rr_identity x = container_identity req" "added [x] u v" "owned_by (cr_id req) x"
    "fk_persistence v = fk_persistence u"
    "fk_sandboxes v = hm_insert (cr_id req)
       \<lparr> rs_id = cr_id req, rs_image = cr_image req, rs_state = Stopped,
         rs_ownership = cr_ownership req, rs_ports = ports \<rparr> (fk_sandboxes u)" by metis
  have ok: "created_ok req (pre @ [x])"
    using assms(2,5) x(2,4) by (auto simp: created_ok_def)
  have add: "added (pre @ [x]) s v" using assms(1) x(3) by (rule added_append)
  obtain q y where f: "fail_after_create_mutation req (pre @ [x]) v = (q, y)" by fastforce
  note y = after_mutation_cases [OF f ok assms(4)]
  have outcome: "new_outcome req (pre @ [x]) = Ok (CreateOutcome (pre @ [x]))"
  proof -
    have "validate_created_resources req (pre @ [x]) True = Ok ()"
      using ok assms(4,8) x(2) by (auto simp: validate_created_eq_Ok created_ok_def)
    then show ?thesis by (simp add: new_outcome_def)
  qed
  obtain p z where pz: "persist_state (record_outcome (OutcomeCreated (CreateOutcome (pre @ [x]))) y) = (p, z)"
    by fastforce
  then have z: "fk_resources z = fk_resources y" "fk_sandboxes z = fk_sandboxes y" "fst (persist_state z) = p"
    using persist_fields persist_again by (metis fst_conv snd_conv record_outcome_fields)+
  note run = finish_create_def ic x(1) f outcome Let_def st_map_err_def pz
  have rt: "fk_resources t = fk_resources y" "fk_sandboxes t = fk_sandboxes y"
    using assms(9) z(1,2) by (cases q; cases p; simp add: run)+
  have ev: "evidence r = pre @ [x] \<or> (\<exists>e. r = Err (failure_from_source e) \<and> fst (persist_state t) = Err e)"
  proof (cases q)
    case (Err e)
    then show ?thesis using assms(9) y(3) [OF Err] by (auto simp: run)
  next
    case (Ok _)
    then show ?thesis using assms(9) z(3) by (cases p) (auto simp: run)
  qed
  have "added (pre @ [x]) s t" using add by (simp add: added_def rt y)
  moreover have "fk_sandboxes t = fk_sandboxes v" using rt y(2) by (simp add: same_frame_def)
  ultimately have "created_state req (pre @ [x]) s t"
    using ok x(2,6) assms(3,7) by (auto simp: created_state_def rt same_frame_def)
  then show ?thesis
    using ev x(2) by (intro exI [of _ "pre @ [x]"]) (auto simp: accounted_def save_failed_def)
qed

lemma created_state_frame:
  "added ys s t \<Longrightarrow> created_ok req ys \<Longrightarrow> same_frame s t \<Longrightarrow>
     container_identity req \<notin> rr_identity ` set ys \<Longrightarrow> failure_created f = ys \<Longrightarrow>
     \<exists>rs. accounted req (Err f) rs s t"
  by (intro exI [of _ ys]) (simp add: accounted_def created_state_def same_frame_def)

lemma create_volumes_step:
  assumes "added xs s u" "created_ok req xs" "same_frame s u"
    and "request_names_ok req" "rr_identity ` set xs = set_option (allowed_network req)"
    and "hm_get (fk_resources s) (container_identity req) = None"
    and "hm_get (fk_sandboxes s) (cr_id req) = None"
    and "st_then (create_volumes req (cr_volumes req) xs u) (finish_create req) = (r, t)"
  shows "\<exists>rs. accounted req r rs s t"
proof -
  obtain q v where q: "create_volumes req (cr_volumes req) xs u = (q, v)" by fastforce
  from create_volumes_added [OF this assms(4) subset_refl assms(2)] added_present [OF assms(1)]
  obtain ys where ys: "added ys u v" "created_ok req (xs @ ys)" "same_frame u v"
    "\<forall>x\<in>set ys. ri_kind (rr_identity x) = Volume"
    "case q of Ok c \<Rightarrow> c = xs @ ys | Err f \<Rightarrow> failure_created f = xs @ ys" by blast
  have add: "added (xs @ ys) s v" using assms(1) ys(1) by (rule added_append)
  have frame: "same_frame s v" using assms(3) ys(3) by (rule fr.step_trans)
  have notin: "container_identity req \<notin> rr_identity ` set (xs @ ys)"
  proof
    assume "container_identity req \<in> rr_identity ` set (xs @ ys)"
    then have "container_identity req \<in> topology req \<or> ri_kind (container_identity req) = Volume"
      using assms(5) ys(4) by (auto simp: topology_def)
    then show False using container_not_topology [of req] by (simp add: container_identity_def)
  qed
  show ?thesis
  proof (cases q)
    case (Err f)
    with assms(8) q have "t = v" "r = Err f" by simp_all
    with created_state_frame [OF add ys(2) frame notin] ys(5) Err show ?thesis by simp
  next
    case (Ok d)
    with assms(8) q ys(5) have "finish_create req (xs @ ys) v = (r, t)" by simp
    from finish_create_step [OF add ys(2) frame assms(4) notin assms(6,7) _ this] assms(5)
    show ?thesis by auto
  qed
qed

lemma create_resources_step:
  assumes "request_names_ok req"
    and "hm_get (fk_resources s) (container_identity req) = None"
    and "hm_get (fk_sandboxes s) (cr_id req) = None"
    and "st_then (create_network req s) (\<lambda>created s.
       st_then (create_volumes req (cr_volumes req) created s) (finish_create req)) = (r, t)"
  shows "\<exists>rs. accounted req r rs s t"
proof -
  obtain n u where n: "create_network req s = (n, u)" by fastforce
  from create_network_added [OF n assms(1)] obtain xs where
    xs: "added xs s u" "created_ok req xs" "same_frame s u"
      "rr_identity ` set xs \<subseteq> set_option (allowed_network req)"
      "\<And>f. n = Err f \<Longrightarrow> failure_created f = xs"
      "\<And>c. n = Ok c \<Longrightarrow> c = xs \<and> set_option (allowed_network req) = rr_identity ` set xs" by metis
  have notin: "container_identity req \<notin> rr_identity ` set xs"
    using xs(4) container_not_topology [of req] by (auto simp: topology_def)
  show ?thesis
  proof (cases n)
    case (Err f)
    with assms(4) n have "t = u" "r = Err f" by simp_all
    with created_state_frame [OF xs(1-3) notin] xs(5) Err show ?thesis by simp
  next
    case (Ok c)
    with xs(6) have "c = xs" "rr_identity ` set xs = set_option (allowed_network req)" by auto
    then show ?thesis
      using create_volumes_step [OF xs(1-3) assms(1) _ assms(2,3)] assms(4) n Ok by simp
  qed
qed

lemma create_state_after:
  assumes "fake_create req s = (r, t)" "request_names_ok req"
    and "hm_get (fk_resources s) (container_identity req) = None"
  shows "\<exists>rs. accounted req r rs s t"
proof -
  obtain p s0 where pre: "create_preamble AtCreate req (record_call (CallCreate req) s) = (p, s0)"
    by fastforce
  have s0: "fk_resources s0 = fk_resources s" "fk_sandboxes s0 = fk_sandboxes s"
    using preamble_maps [of s AtCreate req "record_call (CallCreate req) s"]
    by (simp_all add: pre same_maps_def)
  have none: ?thesis if "t = s0" "r = Err f" "failure_created f = []" for f
    using that by (intro exI [of _ "[]"]) (simp add: accounted_def created_state_none s0)
  show ?thesis
  proof (cases p)
    case (Err f)
    with assms(1) pre have "t = s0" "r = Err f" by (simp_all add: fake_create_def)
    with Err preamble_Err pre show ?thesis by (intro none [of f]) simp_all
  next
    case (Ok _)
    show ?thesis
    proof (cases "cr_id req \<noteq> om_sandbox_id (cr_ownership req) \<or> hm_get (fk_sandboxes s0) (cr_id req) \<noteq> None")
      case True
      with assms(1) pre Ok obtain e where "t = s0" "r = Err (failure_from_source e)"
        by (auto simp: fake_create_def split: if_splits)
      then show ?thesis
        by (intro none [of "failure_from_source e"]) (simp_all add: failure_from_source_def)
    next
      case False
      with assms(1) have "st_then (create_network req s0) (\<lambda>created s.
         st_then (create_volumes req (cr_volumes req) created s) (finish_create req)) = (r, t)"
        by (simp add: fake_create_def pre Ok)
      from create_resources_step [OF assms(2) _ _ this] False assms(3) s0
      have "\<exists>rs. accounted req r rs s0 t" by simp
      then show ?thesis using accounted_cong [OF s0] by blast
    qed
  qed
qed

text \<open>C23. A create by the in-memory backend is fully accounted for, provided that the names of the
  request are valid and that no container of the sandbox's name is there beforehand.  Whatever the
  outcome, also when an injected failure strikes between two mutations, there is a list of resources
  such that those present afterwards are those present before and exactly the listed ones; these are
  new, distinct, owned by the sandbox and belong to the request, and the sandbox exists, stopped,
  exactly when its container is listed, which it is on success.  The list is the evidence returned,
  with a single exception: when a persistent backend has added everything, the container included,
  and then fails to save its state, the error of the save is returned and carries no evidence.\<close>

theorem create_evidence_exact:
  assumes "request_names_ok req"
    and "hm_get (fk_resources s) (container_identity req) = None"
  shows "let (r, t) = fake_create req s in
    \<exists>rs. created_state req rs s t \<and>
      (is_ok r \<longrightarrow> container_identity req \<in> rr_identity ` set rs) \<and>
      (evidence r = rs \<or>
       evidence r = [] \<and> container_identity req \<in> rr_identity ` set rs \<and>
         (\<exists>e. fst (persist_state t) = Err e \<and> r = Err (failure_from_source e)))"
proof (cases "fake_create req s")
  case (Pair r t)
  from create_state_after [OF this assms] obtain rs where "accounted req r rs s t" by blast
  then show ?thesis
    unfolding Pair Let_def case_prod_conv
    by (intro exI [of _ rs])
      (auto simp: accounted_def save_failed_def failure_from_source_def split: result.splits)
qed

lemma created_owners:
  assumes "created_ok req rs"
  shows "container_owners rs = (if container_identity req \<in> rr_identity ` set rs then {cr_id req} else {})"
proof -
  have kind: "rr_kind r = Container \<longleftrightarrow> rr_identity r = container_identity req"
    "rr_sandbox_id r = Some (cr_id req)" if "r \<in> set rs" for r
    using assms that volume_identity_kind [of "rr_identity r" req]
      network_identity_kind [of req "rr_identity r"]
    by (auto simp: created_ok_def owned_by_def topology_def container_identity_def)
  then show ?thesis by (auto simp: container_owners_def image_iff)
qed

lemma added_resources:
  assumes "added rs s t" "fake_wf t"
  shows "set rs \<subseteq> resources_of t"
proof
  fix r
  assume "r \<in> set rs"
  then have "map_of (by_identity rs) (rr_identity r) = Some r"
    using assms(1) by (intro map_of_is_SomeI) (auto simp: added_def comp_def)
  with assms show "r \<in> resources_of t"
    by (simp add: added_def flip: fake_wf_get)
qed

lemma removed_created:
  assumes "created_state req rs s t" "removed_exactly rs t u"
  shows "hm_get (fk_resources u) = hm_get (fk_resources s)"
    and "hm_get (fk_sandboxes u) = hm_get (fk_sandboxes s)"
proof -
  have add: "added rs s t" "created_ok req rs" using assms(1) by (simp_all add: created_state_def)
  show "hm_get (fk_resources u) = hm_get (fk_resources s)"
  proof
    fix k
    show "hm_get (fk_resources u) k = hm_get (fk_resources s) k"
      using add(1) assms(2) dom_by_identity [of rs]
      by (cases "k \<in> rr_identity ` set rs")
        (auto simp: added_def removed_exactly_def map_add_def domIff split: option.split)
  qed
  show "hm_get (fk_sandboxes u) = hm_get (fk_sandboxes s)"
    using assms created_owners [OF add(2)]
    by (auto simp: created_state_def removed_exactly_def restrict_map_def fun_eq_iff split: if_splits)
qed

text \<open>C15. Rolling back a failed create leaves no trace.  Let the names of the request be valid and
  no container of the sandbox's name be there beforehand, and let the create fail in any way but in
  saving its state.  Either its evidence is empty and nothing was added, or the evidence can be
  turned into a removal request, and when no failure is injected into the removal, afterwards every
  lookup of resources and sandboxes answers as before the create.  A backend that is not persistent
  also reports this removal as successful.\<close>

theorem create_rollback_restores:
  assumes "fake_wf s" and "request_names_ok req"
    and "hm_get (fk_resources s) (container_identity req) = None"
    and "fake_create req s = (Err failure, t)" and "\<not> save_failed failure t"
    and "AtRemove \<notin> fk_failures t"
  shows "case remove_from_resources (failure_created failure) of
      Err _ \<Rightarrow> failure_created failure = [] \<and>
        hm_get (fk_resources t) = hm_get (fk_resources s) \<and>
        hm_get (fk_sandboxes t) = hm_get (fk_sandboxes s)
    | Ok request \<Rightarrow> (let (r, u) = fake_remove request t in
        hm_get (fk_resources u) = hm_get (fk_resources s) \<and>
        hm_get (fk_sandboxes u) = hm_get (fk_sandboxes s) \<and>
        (fk_persistence t = None \<longrightarrow> r = Ok ()))"
proof -
  have cs: "created_state req (failure_created failure) s t"
    using create_state_after [OF assms(4,2,3)] assms(5) by (auto simp: accounted_def)
  have wf: "fake_wf t" using evolves_create [of s req] assms(1,4) by (simp add: evolves_def)
  have sub: "set (failure_created failure) \<subseteq> resources_of t"
    using cs wf by (auto simp: created_state_def intro: added_resources [THEN subsetD])
  show ?thesis
  proof (cases "failure_created failure = []")
    case True
    then have "removed_exactly (failure_created failure) t t"
      by (simp add: removed_exactly_def container_owners_def restrict_map_def)
    note same = removed_created [OF cs this]
    show ?thesis unfolding True remove_from_resources_def using same by simp
  next
    case False
    have "\<forall>r\<in>set (failure_created failure). rr_ownership r = GasCanOwned"
      using cs by (simp add: created_state_def created_ok_def owned_by_def)
    with False have req: "remove_from_resources (failure_created failure) =
        Ok (RemoveRequest (failure_created failure))"
      by (simp add: remove_from_resources_def list_ex_iff)
    from remove_performed(1,2) [OF wf req assms(6) sub]
    have "removed_exactly (failure_created failure) t
        (snd (fake_remove (RemoveRequest (failure_created failure)) t))"
      by (simp add: removed_exactly_def)
    from removed_created [OF cs this] remove_performed(3) [OF wf req assms(6) sub]
    show ?thesis by (simp add: req case_prod_beta)
  qed
qed

section \<open>Snapshots\<close>

text \<open>What a resource is apart from its removal proof.\<close>

definition unproved :: "runtime_resource \<Rightarrow> resource_identity \<times> sandbox_id option \<times> resource_ownership" where
  "unproved r = (rr_identity r, rr_sandbox_id r, rr_ownership r)"

abbreviation persisted_identity :: "persisted_resource \<Rightarrow> resource_identity" where
  "persisted_identity p \<equiv> ResourceIdentity (pr_kind p) (pr_name p)"

abbreviation persisted_entries ::
  "persisted_resource list \<Rightarrow> (resource_identity \<times> resource_identity \<times> sandbox_id option \<times> resource_ownership) list" where
  "persisted_entries ps \<equiv>
     map (\<lambda>p. (persisted_identity p, persisted_identity p, pr_sandbox_id p, pr_ownership p)) ps"

lemma map_add_rev_Cons: "f ++ map_of (rev ((k, v) # es)) = f(k \<mapsto> v) ++ map_of (rev es)"
  by (simp add: map_of_append)

lemma load_resources_Ok:
  assumes "\<forall>p\<in>set ps. valid_resource_name (pr_name p)"
  obtains m' where "load_resources ps n m = Ok (m', n + length ps)"
    "map_option unproved \<circ> hm_get m' =
       (map_option unproved \<circ> hm_get m) ++ map_of (rev (persisted_entries ps))"
proof -
  have "\<exists>m'. load_resources ps n m = Ok (m', n + length ps) \<and>
    map_option unproved \<circ> hm_get m' =
       (map_option unproved \<circ> hm_get m) ++ map_of (rev (persisted_entries ps))"
    using assms
  proof (induction ps arbitrary: n m)
    case (Cons p ps)
    define r where "r = discovered n (persisted_identity p) (pr_sandbox_id p) (pr_ownership p)"
    have "\<exists>m'. load_resources ps (Suc n) (hm_insert (persisted_identity p) r m) = Ok (m', n + length (p # ps)) \<and>
      map_option unproved \<circ> hm_get m' =
         (map_option unproved \<circ> hm_get (hm_insert (persisted_identity p) r m)) ++
         map_of (rev (persisted_entries ps))"
      using Cons.IH [of "Suc n" "hm_insert (persisted_identity p) r m"] Cons.prems
      unfolding length_Cons add_Suc_right add_Suc by (meson list.set_intros(2))
    then obtain m' where
      m': "load_resources ps (Suc n) (hm_insert (persisted_identity p) r m) = Ok (m', n + length (p # ps))"
      "map_option unproved \<circ> hm_get m' =
         (map_option unproved \<circ> hm_get (hm_insert (persisted_identity p) r m)) ++
         map_of (rev (persisted_entries ps))" by blast
    have id: "new_identity (pr_kind p) (pr_name p) = Ok (persisted_identity p)"
      using Cons.prems by simp
    have "load_resources (p # ps) n m = Ok (m', n + length (p # ps))"
      using m'(1) by (simp add: id r_def)
    moreover have "map_option unproved \<circ> hm_get (hm_insert (persisted_identity p) r m) =
        (map_option unproved \<circ> hm_get m)(persisted_identity p \<mapsto>
           (persisted_identity p, pr_sandbox_id p, pr_ownership p))"
      by (auto simp: fun_eq_iff unproved_def r_def discovered_def)
    then have "map_option unproved \<circ> hm_get m' =
        (map_option unproved \<circ> hm_get m) ++ map_of (rev (persisted_entries (p # ps)))"
      unfolding m'(2) list.map(2) map_add_rev_Cons by (rule arg_cong)
    ultimately show ?case by blast
  qed simp
  then show thesis using that by blast
qed

lemma load_resources_evolves:
  assumes "load_resources ps n m = Ok (m', n')"
  shows "evolves (s \<lparr> fk_resources := m, fk_next_proof := n \<rparr>)
    (s \<lparr> fk_resources := m', fk_next_proof := n' \<rparr>)"
  using assms
proof (induction ps arbitrary: n m)
  case (Cons p ps)
  let ?s = "s \<lparr> fk_resources := m, fk_next_proof := n \<rparr>"
  from Cons.prems have valid: "valid_resource_name (pr_name p)"
    and rest: "load_resources ps (Suc n) (hm_insert (persisted_identity p)
        (discovered n (persisted_identity p) (pr_sandbox_id p) (pr_ownership p)) m) = Ok (m', n')"
    by (auto simp: result_simps)
  have "evolves ?s (snd (insert_resource (persisted_identity p) (pr_sandbox_id p) (pr_ownership p) ?s))"
    using valid by (intro evolves_insert_resource) simp
  moreover have "snd (insert_resource (persisted_identity p) (pr_sandbox_id p) (pr_ownership p) ?s) =
    s \<lparr> fk_resources := hm_insert (persisted_identity p)
        (discovered n (persisted_identity p) (pr_sandbox_id p) (pr_ownership p)) m,
       fk_next_proof := Suc n \<rparr>"
    by (simp add: insert_resource_def Let_def)
  ultimately show ?case using Cons.IH [OF rest] ev.step_trans by simp
qed simp

lemma load_sandboxes:
  "hm_get (foldl (\<lambda>m sb. hm_insert (rs_id sb) sb m) m sbs) =
     hm_get m ++ map_of (rev (map (\<lambda>sb. (rs_id sb, sb)) sbs))"
  "hm_wf m \<Longrightarrow> hm_wf (foldl (\<lambda>m sb. hm_insert (rs_id sb) sb m) m sbs)"
  "\<forall>(i, sb) \<in> set m. rs_id sb = i \<Longrightarrow>
     \<forall>(i, sb) \<in> set (foldl (\<lambda>m sb. hm_insert (rs_id sb) sb m) m sbs). rs_id sb = i"
proof (induction sbs arbitrary: m)
  case (Cons sb sbs)
  { case 1 show ?case by (auto simp: Cons.IH fun_eq_iff map_add_def split: option.split) }
  { case 2 then show ?case by (simp add: Cons.IH) }
  { case 3
    then have "\<forall>(i, sb) \<in> set (hm_insert (rs_id sb) sb m). rs_id sb = i"
      by (auto simp: set_hm_insert)
    then show ?case unfolding foldl.simps by (rule Cons.IH(3)) }
qed simp_all

lemma map_of_rev_distinct: "distinct (map fst xs) \<Longrightarrow> map_of (rev xs) = map_of xs"
  by (rule map_of_inject_set [THEN iffD2]) (simp_all flip: rev_map)

text \<open>The sandbox ids of a snapshot are ones that the decoder accepts: \<open>SandboxId\<close> is read
  back through \<open>try_from\<close>.\<close>

definition snapshot_ids :: "fake_snapshot \<Rightarrow> sandbox_id list" where
  "snapshot_ids snap =
     map rs_id (sn_sandboxes snap) @ map (om_sandbox_id \<circ> rs_ownership) (sn_sandboxes snap) @
     List.map_filter pr_sandbox_id (sn_resources snap) @ map fl_sandbox_id (sn_logs snap)"

definition snapshot_readable :: "fake_snapshot \<Rightarrow> bool" where
  "snapshot_readable snap = list_all (\<lambda>i. try_from (as_str i) = Returned (Ok i)) (snapshot_ids snap)"

text \<open>What is relied on of \<open>serde_json\<close>: it reads back the snapshots it wrote.\<close>

definition reads_back :: "persistence \<Rightarrow> bool" where
  "reads_back p \<longleftrightarrow> (\<forall>snap bytes. snapshot_readable snap \<longrightarrow> pe_to_vec p snap = Ok bytes \<longrightarrow>
     pe_from_slice p bytes = Ok snap)"

lemma snapshot_loads:
  assumes "fake_wf s" "read_snapshot p files = Ok (snapshot_of s)"
  obtains t where "load_state capabilities p files = Ok t" "fake_wf t"
    "hm_get (fk_sandboxes t) = hm_get (fk_sandboxes s)"
    "map_option unproved \<circ> hm_get (fk_resources t) = map_option unproved \<circ> hm_get (fk_resources s)"
    "fk_logs t = fk_logs s"
proof -
  define ps where "ps = sn_resources (snapshot_of s)"
  define sbs where "sbs = foldl (\<lambda>m sb. hm_insert (rs_id sb) sb m) [] (hm_values (fk_sandboxes s))"
  have keys: "\<forall>(k, r)\<in>set (fk_resources s). valid_resource_name (ri_name k) \<and> rr_identity r = k"
    "\<forall>(i, sb)\<in>set (fk_sandboxes s). rs_id sb = i"
    "distinct (map fst (fk_resources s))" "distinct (map fst (fk_sandboxes s))"
    using assms(1) by (auto simp: fake_wf_def hm_wf_def)
  have "\<forall>p\<in>set ps. valid_resource_name (pr_name p)"
    using keys(1) by (auto simp: ps_def snapshot_of_def hm_values_def)
  then obtain m where m: "load_resources ps 0 [] = Ok (m, 0 + length ps)"
    "map_option unproved \<circ> hm_get m = (map_option unproved \<circ> hm_get []) ++ map_of (rev (persisted_entries ps))"
    by (rule load_resources_Ok)
  have entries: "persisted_entries ps = map (\<lambda>(k, r). (k, unproved r)) (fk_resources s)"
    using keys(1) by (auto simp: ps_def snapshot_of_def hm_values_def unproved_def)
  have "distinct (map fst (persisted_entries ps))"
    using keys(3) unfolding entries by (simp add: case_prod_beta comp_def)
  then have "map_of (rev (persisted_entries ps)) = map_of (persisted_entries ps)"
    by (rule map_of_rev_distinct)
  then have "map_of (rev (persisted_entries ps)) = map_option unproved \<circ> hm_get (fk_resources s)"
    unfolding entries by (simp add: map_of_map)
  with m(2) have res: "map_option unproved \<circ> hm_get m = map_option unproved \<circ> hm_get (fk_resources s)"
    by (auto simp: fun_eq_iff map_add_def split: option.splits)
  have "map (\<lambda>sb. (rs_id sb, sb)) (hm_values (fk_sandboxes s)) = fk_sandboxes s"
    unfolding hm_values_def map_map by (rule map_idI) (use keys(2) in auto)
  then have sb: "hm_get sbs = hm_get (fk_sandboxes s)" "hm_wf sbs" "\<forall>(i, sb) \<in> set sbs. rs_id sb = i"
    using load_sandboxes [of "[]" "hm_values (fk_sandboxes s)"] map_of_rev_distinct [OF keys(4)]
    by (simp_all add: sbs_def hm_wf_def)
  define base where "base = (fake_new capabilities)
    \<lparr> fk_sandboxes := sbs, fk_logs := fk_logs s, fk_persistence := Some p, fk_files := files \<rparr>"
  have "fake_wf (base \<lparr> fk_resources := [], fk_next_proof := 0 \<rparr>)"
    using sb by (simp add: base_def fake_wf_def hm_wf_def hm_values_def)
  then have "fake_wf (base \<lparr> fk_resources := m, fk_next_proof := length ps \<rparr>)"
    using load_resources_evolves [OF m(1), of base] by (simp add: evolves_def)
  moreover have "load_state capabilities p files =
      Ok (base \<lparr> fk_resources := m, fk_next_proof := length ps \<rparr>)"
    using m(1) unfolding ps_def by (simp add: load_state_def assms(2) base_def sbs_def) (simp add: snapshot_of_def)
  ultimately show thesis
    using that [of "base \<lparr> fk_resources := m, fk_next_proof := length ps \<rparr>"] sb(1) res
    by (simp add: base_def)
qed

lemma persist_cases:
  assumes "fk_persistence s = Some p"
  obtains
    (saved) bytes where "persist_state s = (Ok (), s \<lparr> fk_files :=
        (fk_files s)(with_extension (pe_path p) ''tmp'' := None, pe_path p \<mapsto> bytes) \<rparr>)"
      "pe_to_vec p (snapshot_of s) = Ok bytes"
  | (failed) e left where
      "persist_state s = (Err e, s \<lparr> fk_files := (fk_files s)(with_extension (pe_path p) ''tmp'' := left) \<rparr>)"
proof -
  let ?tmp = "with_extension (pe_path p) ''tmp''"
  note run = persist_state_def replace_file_def Let_def assms
  have early: thesis if "persist_state s = (Err e, s)" for e
    using that by (intro failed [of e "fk_files s ?tmp"]) simp
  show thesis
  proof (cases "pe_to_vec p (snapshot_of s)")
    case (Err m)
    then show thesis by (intro early) (simp add: run)
  next
    case (Ok bytes)
    show thesis
    proof (cases "Option.bind (parent (pe_path p)) (pe_create_dir_error p)")
      case (Some m)
      with Ok show thesis by (intro early) (simp add: run)
    next
      case None
      show thesis
      proof (cases "pe_write_error p ?tmp bytes")
        case (Some a)
        with Ok None show thesis by (intro failed [of _ "snd a"]) (simp add: run case_prod_beta)
      next
        case written: None
        with Ok None show thesis
          by (cases "pe_rename_error p ?tmp (pe_path p)")
            (auto simp: run intro: saved [of bytes] failed [of _ "Some bytes"])
      qed
    qed
  qed
qed

text \<open>C25. A restart of the persistent in-memory backend loses nothing but removal proofs.  Let
  \<open>serde_json\<close> read back the snapshots it wrote, let the ids of the state be valid and the
  snapshot file be readable.  After the state was saved, a new runtime over the same files starts
  and is a well-formed state with the same sandboxes, the same logs and the same resources up to
  their removal proofs.\<close>

theorem snapshot_round_trip:
  assumes "fake_wf s" and "fk_persistence s = Some p" and "persist_state s = (Ok (), t)"
    and "reads_back p" and "snapshot_readable (snapshot_of s)" and "pe_read_error p (pe_path p) = None"
  shows "\<exists>u. persistent capabilities p (fk_files t) = Ok u \<and> fake_wf u \<and>
    hm_get (fk_sandboxes u) = hm_get (fk_sandboxes s) \<and> fk_logs u = fk_logs s \<and>
    map_option unproved \<circ> hm_get (fk_resources u) = map_option unproved \<circ> hm_get (fk_resources s)"
proof -
  obtain bytes where "pe_to_vec p (snapshot_of s) = Ok bytes" "fk_files t (pe_path p) = Some bytes"
    by (rule persist_cases [OF assms(2)]) (use assms(3) in auto)
  with assms(4-6) have "read_snapshot p (fk_files t) = Ok (snapshot_of s)"
    by (simp add: read_snapshot_def reads_back_def)
  from snapshot_loads [OF assms(1) this, of capabilities] show ?thesis
    by (simp add: persistent_def) metis
qed

text \<open>A failed save never damages the snapshot.  When saving fails at any point (encoding,
  creating the directory, writing, renaming), a new runtime over the files left behind is the one
  that would have started before the attempt, apart from the files it sees; only the temporary file
  may differ.  This needs a snapshot path other than the temporary one, that is, one whose extension
  is not \<open>tmp\<close>.\<close>

lemma failed_save_keeps_snapshot:
  assumes "fk_persistence s = Some p" and "persist_state s = (Err e, t)"
    and "with_extension (pe_path p) ''tmp'' \<noteq> pe_path p"
  shows "map_ok (\<lambda>u. u \<lparr> fk_files := fk_files s \<rparr>) (persistent capabilities p (fk_files t)) =
      persistent capabilities p (fk_files s) \<and>
    (\<forall>k. k \<noteq> with_extension (pe_path p) ''tmp'' \<longrightarrow> fk_files t k = fk_files s k)"
proof -
  obtain left where t: "fk_files t = (fk_files s)(with_extension (pe_path p) ''tmp'' := left)"
    by (rule persist_cases [OF assms(1)]) (use assms(2) in auto)
  then have "fk_files t (pe_path p) = fk_files s (pe_path p)" using assms(3) by simp
  then have "read_snapshot p (fk_files t) = read_snapshot p (fk_files s)"
    by (simp add: read_snapshot_def split: option.split)
  then have "map_ok (\<lambda>u. u \<lparr> fk_files := fk_files s \<rparr>) (persistent capabilities p (fk_files t)) =
      persistent capabilities p (fk_files s)"
  proof (cases "read_snapshot p (fk_files s)")
    case (Ok snap)
    with \<open>read_snapshot p (fk_files t) = _\<close> show ?thesis
      by (cases "load_resources (sn_resources snap) 0 []") (auto simp: persistent_def load_state_def)
  qed (simp add: persistent_def load_state_def)
  with t show ?thesis by simp
qed

section \<open>Examples\<close>

definition example_volume :: resource_identity where
  "example_volume = ResourceIdentity Volume ''gascan-v''"

definition example_fake :: fake_state where
  "example_fake =
     snd (insert_resource example_volume (Some example_id) GasCanOwned (fake_new fixture_capabilities))"

definition example_resource :: runtime_resource where
  "example_resource = discovered 0 example_volume (Some example_id) GasCanOwned"

lemma example_fake_resources: "fk_resources example_fake = [(example_volume, example_resource)]"
  by (simp add: example_fake_def insert_resource_def Let_def fake_new_def hm_insert_def
      hm_remove_def example_resource_def)

lemma example_fake_fields:
  "fk_failures example_fake = {}" "fk_persistence example_fake = None" "fk_sandboxes example_fake = []"
  "fk_logs example_fake = []"
  by (simp_all add: example_fake_def insert_resource_def Let_def fake_new_def)

lemma example_fake_wf: "fake_wf example_fake"
proof -
  have "valid_resource_name ''gascan-v''" by (simp add: plain_name_valid plain_byte_def)
  then have "evolves (fake_new fixture_capabilities) example_fake"
    unfolding example_fake_def by (intro evolves_insert_resource) (simp add: example_volume_def)
  then show ?thesis using fake_wf_new by (simp add: evolves_def)
qed

lemma example_removable: "remove_from_resources [example_resource] = Ok (RemoveRequest [example_resource])"
  by (simp add: remove_from_resources_def example_resource_def discovered_def)

lemma example_present: "set [example_resource] \<subseteq> resources_of example_fake"
  by (simp add: resources_of_def hm_values_def example_fake_resources)

lemma example_removed: "fake_remove (RemoveRequest [example_resource]) example_fake =
    (Ok (), snd (fake_remove (RemoveRequest [example_resource]) example_fake))"
  using remove_performed(3) [OF example_fake_wf example_removable _ example_present]
  by (simp add: example_fake_fields prod_eq_iff)

theorem fake_remove_exact_witness:
  "removed_exactly [example_resource] example_fake
     (snd (fake_remove (RemoveRequest [example_resource]) example_fake)) \<and>
   fst (fake_remove (RemoveRequest [example_resource]) example_fake) = Ok ()"
  using fake_remove_exact [OF example_fake_wf example_removable] example_present
  by (simp add: example_fake_fields)

theorem stale_proof_refused_witness:
  "is_err (fst (fake_remove (RemoveRequest [example_resource])
     (snd (seed_volume ''gascan-v'' (Some example_id) GasCanOwned
       (snd (fake_remove (RemoveRequest [example_resource]) example_fake))))))"
proof -
  let ?t = "snd (fake_remove (RemoveRequest [example_resource]) example_fake)"
  have "fake_step\<^sup>*\<^sup>* ?t (snd (seed_volume ''gascan-v'' (Some example_id) GasCanOwned ?t))"
    unfolding seed_volume_def by (intro r_into_rtranclp step_seed_resource)
  from stale_proof_refused [OF example_fake_wf example_removable example_removed _ this example_removable]
  show ?thesis by simp
qed

lemma example_names_ok: "request_names_ok example_request"
  by (simp add: request_names_ok_def example_request_def example_id_def plain_name_valid plain_byte_def)

definition example_failing :: fake_state where
  "example_failing = fail_create_after_mutations 1 (fake_new fixture_capabilities)"

definition example_network :: runtime_resource where
  "example_network = discovered 0 (ResourceIdentity Network ''gascan-n'') (Some example_id) GasCanOwned"

lemma example_create_fails:
  "\<exists>f t. fake_create example_request example_failing = (Err f, t) \<and>
     failure_created f = [example_network] \<and> fk_failures t = {}"
proof -
  have "valid_resource_name ''gascan-n''" by (simp add: plain_name_valid plain_byte_def)
  then have id: "new_identity Network ''gascan-n'' = Ok (ResourceIdentity Network ''gascan-n'')" by simp
  have "created_ok example_request [example_network]"
    by (simp add: created_ok_def owned_by_def example_network_def discovered_def example_request_def
        topology_def allowed_network_def)
  note failure = fake_create_failure_created [OF this example_names_ok]
  have fields: "cr_id example_request = example_id"
    "om_sandbox_id (cr_ownership example_request) = example_id"
    "managed_name (cr_network example_request) = Some ''gascan-n''"
    by (simp_all add: example_request_def example_ownership_def)
  show ?thesis
    using failure [of "InjectedFailure ''create_after_mutation''"]
    by (simp add: fake_create_def example_failing_def fail_create_after_mutations_def fake_new_def
        create_preamble_def record_call_def fail_once_def st_map_err_def create_network_def
        insert_resource_def Let_def fail_after_create_mutation_def record_outcome_def id
        example_network_def fields)
qed

theorem create_evidence_exact_witness:
  "\<exists>f t. fake_create example_request example_failing = (Err f, t) \<and>
     failure_created f = [example_network] \<and>
     created_state example_request [example_network] example_failing t"
proof -
  obtain f t where ft: "fake_create example_request example_failing = (Err f, t)"
    "failure_created f = [example_network]"
    using example_create_fails by blast
  have "hm_get (fk_resources example_failing) (container_identity example_request) = None"
    by (simp add: example_failing_def fail_create_after_mutations_def fake_new_def)
  from create_evidence_exact [OF example_names_ok this] ft show ?thesis by auto
qed

theorem create_rollback_restores_witness:
  "\<exists>f t. fake_create example_request example_failing = (Err f, t) \<and>
     failure_created f = [example_network] \<and>
     hm_get (fk_resources (snd (fake_remove (RemoveRequest [example_network]) t))) = Map.empty"
proof -
  obtain f t where ft: "fake_create example_request example_failing = (Err f, t)"
    "failure_created f = [example_network]" "fk_failures t = {}"
    using example_create_fails by blast
  have wf: "fake_wf example_failing"
    using fake_wf_new [of fixture_capabilities] same_maps_evolves [OF arrangements(2)]
    by (simp add: example_failing_def evolves_def)
  have "fk_resources example_failing = []"
    by (simp add: example_failing_def fail_create_after_mutations_def fake_new_def)
  moreover have "remove_from_resources [example_network] = Ok (RemoveRequest [example_network])"
    by (simp add: remove_from_resources_def example_network_def discovered_def)
  moreover have "\<not> save_failed f t"
    using ft(2) by (auto simp: save_failed_def failure_from_source_def split: result.split)
  ultimately have "hm_get (fk_resources (snd (fake_remove (RemoveRequest [example_network]) t))) = Map.empty"
    using create_rollback_restores [OF wf example_names_ok _ ft(1)] ft(2,3)
    by (simp add: case_prod_beta)
  with ft show ?thesis by blast
qed

subsection \<open>A snapshot codec\<close>

text \<open>Snapshots are countable, so they can be written as strings and read back.\<close>

instance sandbox_id :: countable
  by countable_datatype

instance resource_kind :: countable
  by countable_datatype

instance resource_ownership :: countable
  by countable_datatype

instance container_state :: countable
  by countable_datatype

instance ip_addr :: countable
  by countable_datatype

instance ownership_metadata_ext :: (countable) countable
  by (rule countable_classI [of "\<lambda>m. to_nat (om_managed_by m, om_sandbox_id m, ownership_metadata.more m)"])
    simp

instance runtime_port_ext :: (countable) countable
  by (rule countable_classI [of "\<lambda>p. to_nat
      (rp_host_address p, rp_host_port p, rp_guest_port p, runtime_port.more p)"]) simp

instance runtime_sandbox_ext :: (countable) countable
  by (rule countable_classI [of "\<lambda>sb. to_nat
      (rs_id sb, rs_image sb, rs_state sb, rs_ownership sb, rs_ports sb, runtime_sandbox.more sb)"]) simp

instance fake_log_record_ext :: (countable) countable
  by (rule countable_classI [of "\<lambda>l. to_nat
      (fl_sandbox_id l, fl_timestamp_millis l, fl_bytes l, fake_log_record.more l)"]) simp

instance persisted_resource_ext :: (countable) countable
  by (rule countable_classI [of "\<lambda>p. to_nat
      (pr_kind p, pr_name p, pr_sandbox_id p, pr_ownership p, persisted_resource.more p)"]) simp

instance fake_snapshot_ext :: (countable) countable
  by (rule countable_classI [of "\<lambda>sn. to_nat
      (sn_sandboxes sn, sn_resources sn, sn_logs sn, fake_snapshot.more sn)"]) simp

definition example_persistence :: persistence where
  "example_persistence =
     \<lparr> pe_path = ''/state/fake.json'',
       pe_to_vec = (\<lambda>snap. Ok (replicate (to_nat snap) CHR ''0'')),
       pe_from_slice = (\<lambda>bytes. Ok (from_nat (length bytes))),
       pe_read_error = (\<lambda>_. None), pe_create_dir_error = (\<lambda>_. None),
       pe_write_error = (\<lambda>_ _. None), pe_rename_error = (\<lambda>_ _. None) \<rparr>"

text \<open>The same with a directory in which nothing can be renamed.\<close>

definition example_broken :: persistence where
  "example_broken = example_persistence \<lparr> pe_rename_error := (\<lambda>_ _. Some ''Permission denied'') \<rparr>"

lemma example_reads_back: "reads_back example_persistence"
  by (auto simp: reads_back_def example_persistence_def)

lemma example_path:
  "parent ''/state/fake.json'' = Some ''/state''"
  "with_extension ''/state/fake.json'' ''tmp'' = ''/state/fake.tmp''"
  by code_simp+

theorem snapshot_round_trip_witness:
  "\<exists>t u. persist_state (example_fake \<lparr> fk_persistence := Some example_persistence \<rparr>) = (Ok (), t) \<and>
     persistent fixture_capabilities example_persistence (fk_files t) = Ok u \<and>
     map_option unproved (hm_get (fk_resources u) example_volume) = Some (unproved example_resource)"
proof -
  let ?s = "example_fake \<lparr> fk_persistence := Some example_persistence \<rparr>"
  have wf: "fake_wf ?s" using example_fake_wf by (simp add: fake_wf_def)
  obtain t where t: "persist_state ?s = (Ok (), t)"
    by (simp add: persist_state_def replace_file_def example_persistence_def)
  have "try_from ''demo-0123456789ab'' = Returned (Ok (SandboxId ''demo-0123456789ab''))" by code_simp
  then have ids: "snapshot_readable (snapshot_of ?s)"
    by (simp add: snapshot_readable_def snapshot_ids_def snapshot_of_def hm_values_def
        example_fake_resources example_fake_fields example_resource_def discovered_def example_id_def)
  from snapshot_round_trip [OF wf _ t example_reads_back ids, of fixture_capabilities]
  obtain u where u: "persistent fixture_capabilities example_persistence (fk_files t) = Ok u"
    "map_option unproved \<circ> hm_get (fk_resources u) = map_option unproved \<circ> hm_get (fk_resources ?s)"
    by (auto simp: example_persistence_def)
  from fun_cong [OF u(2), of example_volume] u(1) t show ?thesis
    by (simp add: example_fake_resources)
qed

lemma failed_save_example:
  "\<exists>e t. persist_state (example_fake \<lparr> fk_persistence := Some example_broken \<rparr>) = (Err e, t) \<and>
     fk_files t ''/state/fake.tmp'' \<noteq> None \<and>
     map_ok (\<lambda>u. u \<lparr> fk_files := fk_files example_fake \<rparr>)
       (persistent fixture_capabilities example_broken (fk_files t)) =
     persistent fixture_capabilities example_broken (fk_files example_fake)"
proof -
  let ?s = "example_fake \<lparr> fk_persistence := Some example_broken \<rparr>"
  obtain e t where t: "persist_state ?s = (Err e, t)" "fk_files t ''/state/fake.tmp'' \<noteq> None"
    by (simp add: persist_state_def replace_file_def example_broken_def example_persistence_def example_path)
  have "with_extension (pe_path example_broken) ''tmp'' \<noteq> pe_path example_broken"
    by (simp add: example_broken_def example_persistence_def example_path)
  from failed_save_keeps_snapshot [OF _ t(1) this, of fixture_capabilities] t show ?thesis by auto
qed

text \<open>The exception of the account of a create occurs: a persistent backend that cannot save reports a
  failure without evidence although the container is there.\<close>

lemma unsaved_create_unreported:
  "\<exists>f t. fake_create example_request (fake_new fixture_capabilities \<lparr> fk_persistence := Some example_broken \<rparr>) =
       (Err f, t) \<and> failure_created f = [] \<and>
     hm_get (fk_resources t) (container_identity example_request) \<noteq> None"
proof -
  let ?rs = "[example_network, discovered (Suc 0) example_volume (Some example_id) GasCanOwned,
    discovered (Suc (Suc 0)) (container_identity example_request) (Some example_id) GasCanOwned]"
  have "validate_created_resources example_request ?rs True = Ok ()"
    using example_names_ok
    by (auto simp: validate_created_eq_Ok owned_by_def example_network_def discovered_def
        example_volume_def example_request_def topology_def allowed_network_def container_identity_def volume_identities_def)
  then have outcome: "new_outcome example_request ?rs = Ok (CreateOutcome ?rs)"
    by (simp add: new_outcome_def)
  have ids: "new_identity Network ''gascan-n'' = Ok (ResourceIdentity Network ''gascan-n'')"
    "new_identity Volume ''gascan-v'' = Ok example_volume"
    "new_identity Container (as_str example_id) = Ok (container_identity example_request)"
    by (simp_all add: plain_name_valid plain_byte_def example_volume_def container_identity_def
        example_request_def example_id_def)
  have fields: "cr_id example_request = example_id"
    "om_sandbox_id (cr_ownership example_request) = example_id"
    "managed_name (cr_network example_request) = Some ''gascan-n''"
    "map vol_name (cr_volumes example_request) = [''gascan-v'']"
    by (simp_all add: example_request_def example_ownership_def)
  then obtain v where v: "cr_volumes example_request = [v]" "vol_name v = ''gascan-v''" by auto
  have other: "example_volume \<noteq> ResourceIdentity Network ''gascan-n''" by (simp add: example_volume_def)
  show ?thesis
    using outcome
    by (simp add: fake_create_def fake_new_def
        create_preamble_def record_call_def fail_once_def st_map_err_def create_network_def
        insert_resource_def Let_def fail_after_create_mutation_def record_outcome_def
        finish_create_def insert_container_def fields ids example_network_def
        observed_created_ports_def v other persist_state_def replace_file_def example_path
        example_broken_def example_persistence_def failure_from_source_def)
qed

end
