(* ===== verification/Store.thy ===== *)
theory Store
  imports Sandbox_Id Btree_Map Sandbox_Spec "HOL-Library.Countable"
begin

text \<open>
  The durable store of the daemon (\<open>gascand/src/store.rs\<close> and its SQL migrations): the tables
  \<open>sandboxes\<close>, \<open>operations\<close> and \<open>operation_events\<close> with their raw
  TEXT and INTEGER columns, the constraints of the schema, and every operation of \<open>Store\<close> as a
  transaction.  A transaction whose body returns an error, or whose commit SQLite refuses
  (parameter \<open>fault\<close>), leaves the database as it was.  Parameters: the JSON serialiser
  \<open>codec\<close> (\<open>serde_json\<close>) and the clock, whose \<open>k\<close>-th reading within a
  call is \<open>clock k\<close>.
\<close>

section \<open>JSON values\<close>

datatype json =
    JNull
  | JBool bool
  | JNumber int
  | JString string
  | JArray "json list"
  | JObject "(string \<times> json) list"

record json_codec =
  js_print :: "json \<Rightarrow> string"
  js_parse :: "string \<Rightarrow> json option"

definition codec_ok :: "json_codec \<Rightarrow> bool" where
  "codec_ok codec \<longleftrightarrow> (\<forall>v. js_parse codec (js_print codec v) = Some v)"

definition as_object :: "json \<Rightarrow> (string \<times> json) list option" where
  "as_object v = (case v of JObject members \<Rightarrow> Some members | _ \<Rightarrow> None)"

definition is_boolean :: "json \<Rightarrow> bool" where
  "is_boolean v = (case v of JBool _ \<Rightarrow> True | _ \<Rightarrow> False)"

definition is_string :: "json \<Rightarrow> bool" where
  "is_string v = (case v of JString _ \<Rightarrow> True | _ \<Rightarrow> False)"

section \<open>States, records and errors\<close>

datatype desired_state = DesiredAbsent | DesiredRunning | DesiredStopped

datatype actual_state =
  ActualAbsent | ActualCreating | ActualRunning | ActualStopped | ActualDestroying

datatype operation_kind = OpCreate | OpApply | OpStart | OpStop | OpDestroy | OpReconcile

datatype operation_status = Pending | Completed | Failed

type_synonym operation_id = int

record resolution =
  res_version :: u32
  res_details :: json

record ssh_transport_policy =
  tp_enabled :: bool
  tp_host_port :: "u16 option"

definition transport_disabled :: ssh_transport_policy where
  "transport_disabled = \<lparr> tp_enabled = False, tp_host_port = None \<rparr>"

definition transport_enabled :: "u16 option \<Rightarrow> ssh_transport_policy" where
  "transport_enabled host_port = \<lparr> tp_enabled = True, tp_host_port = host_port \<rparr>"

record sandbox_record =
  sd_id :: sandbox_id
  sd_root :: string
  sd_desired :: desired_state
  sd_actual :: actual_state
  sd_setup :: "resolution option"
  sd_tool :: "resolution option"
  sd_image :: "resolution option"
  sd_storage :: "resolution option"
  sd_ssh :: "resolution option"
  sd_last_operation :: "operation_id option"
  sd_updated_at :: int

record ssh_doctor_record =
  dr_record :: sandbox_record
  dr_transport :: "ssh_transport_policy option"
  dr_operation_pending :: bool

record operation_record =
  op_id :: operation_id
  op_sandbox :: sandbox_id
  op_kind :: operation_kind
  op_status :: operation_status
  op_error_code :: "string option"
  op_error_details :: "json option"

record operation_event =
  ev_sequence :: int
  ev_operation :: operation_id
  ev_status :: operation_status
  ev_details :: "json option"
  ev_error_code :: "string option"
  ev_timestamp :: int

text \<open>\<open>StorePanicked\<close> stands for a call that does not return because
  \<open>SandboxId::try_from\<close> panics on a stored string.\<close>

datatype store_error =
    DatabaseError string
  | JsonError
  | StoredSandboxId sandbox_id_error
  | LockPoisoned
  | UnknownSchema
  | UnsupportedSchemaVersion int
  | DuplicateSandboxId sandbox_id string
  | DuplicateCanonicalRoot string sandbox_id
  | PendingOperationExists sandbox_id
  | SchemaMismatch string
  | InvalidTransition string string
  | OperationNotFound operation_id
  | SandboxNotFound sandbox_id
  | InvalidOperationId int
  | CorruptData string
  | InvalidSystemTime
  | InjectedOperationEventRead
  | StorePanicked

definition new_operation_id :: "int \<Rightarrow> (operation_id, store_error) result" where
  "new_operation_id v = (if v \<le> 0 then Err (InvalidOperationId v) else Ok v)"

section \<open>Enumerations as text columns\<close>

primrec desired_as_db :: "desired_state \<Rightarrow> string" where
  "desired_as_db DesiredAbsent = ''absent''"
| "desired_as_db DesiredRunning = ''running''"
| "desired_as_db DesiredStopped = ''stopped''"

definition desired_from_db :: "string \<Rightarrow> (desired_state, store_error) result" where
  "desired_from_db v =
     (if v = ''absent'' then Ok DesiredAbsent
      else if v = ''running'' then Ok DesiredRunning
      else if v = ''stopped'' then Ok DesiredStopped
      else Err (CorruptData (''invalid DesiredState value '' @ v)))"

primrec actual_as_db :: "actual_state \<Rightarrow> string" where
  "actual_as_db ActualAbsent = ''absent''"
| "actual_as_db ActualCreating = ''creating''"
| "actual_as_db ActualRunning = ''running''"
| "actual_as_db ActualStopped = ''stopped''"
| "actual_as_db ActualDestroying = ''destroying''"

definition actual_from_db :: "string \<Rightarrow> (actual_state, store_error) result" where
  "actual_from_db v =
     (if v = ''absent'' then Ok ActualAbsent
      else if v = ''creating'' then Ok ActualCreating
      else if v = ''running'' then Ok ActualRunning
      else if v = ''stopped'' then Ok ActualStopped
      else if v = ''destroying'' then Ok ActualDestroying
      else Err (CorruptData (''invalid ActualState value '' @ v)))"

primrec kind_as_db :: "operation_kind \<Rightarrow> string" where
  "kind_as_db OpCreate = ''create''"
| "kind_as_db OpApply = ''apply''"
| "kind_as_db OpStart = ''start''"
| "kind_as_db OpStop = ''stop''"
| "kind_as_db OpDestroy = ''destroy''"
| "kind_as_db OpReconcile = ''reconcile''"

definition kind_from_db :: "string \<Rightarrow> (operation_kind, store_error) result" where
  "kind_from_db v =
     (if v = ''create'' then Ok OpCreate
      else if v = ''apply'' then Ok OpApply
      else if v = ''start'' then Ok OpStart
      else if v = ''stop'' then Ok OpStop
      else if v = ''destroy'' then Ok OpDestroy
      else if v = ''reconcile'' then Ok OpReconcile
      else Err (CorruptData (''invalid OperationKind value '' @ v)))"

primrec status_as_db :: "operation_status \<Rightarrow> string" where
  "status_as_db Pending = ''pending''"
| "status_as_db Completed = ''completed''"
| "status_as_db Failed = ''failed''"

definition status_from_db :: "string \<Rightarrow> (operation_status, store_error) result" where
  "status_from_db v =
     (if v = ''pending'' then Ok Pending
      else if v = ''completed'' then Ok Completed
      else if v = ''failed'' then Ok Failed
      else Err (CorruptData (''invalid OperationStatus value '' @ v)))"

section \<open>Tables\<close>

type_synonym raw_resolution = "int option \<times> string option"

record sandbox_row =
  sr_id :: string
  sr_root :: string
  sr_desired :: string
  sr_actual :: string
  sr_setup :: raw_resolution
  sr_tools :: raw_resolution
  sr_image :: raw_resolution
  sr_storage :: raw_resolution
  sr_ssh :: raw_resolution
  sr_transport_enabled :: "int option"
  sr_transport_host_port :: "int option"
  sr_updated_at :: int

record operation_row =
  or_id :: int
  or_sandbox :: string
  or_kind :: string
  or_status :: string
  or_error_code :: "string option"
  or_error_details :: "string option"

record event_row =
  er_sequence :: int
  er_operation :: int
  er_status :: string
  er_details :: "string option"
  er_error_code :: "string option"
  er_timestamp :: int

text \<open>The two counters are the rows of \<open>sqlite_sequence\<close>: the last key handed out by
  each AUTOINCREMENT column.\<close>

record database =
  db_sandboxes :: "sandbox_row list"
  db_operations :: "operation_row list"
  db_events :: "event_row list"
  db_operation_sequence :: int
  db_event_sequence :: int

definition empty_database :: database where
  "empty_database = \<lparr> db_sandboxes = [], db_operations = [], db_events = [],
     db_operation_sequence = 0, db_event_sequence = 0 \<rparr>"

section \<open>Validation\<close>

definition validate_resolution_version :: "u32 \<Rightarrow> (unit, store_error) result" where
  "validate_resolution_version v =
     (if v = 0 then Err (CorruptData ''resolution version must be positive'') else Ok ())"

definition ssh_fields :: "string list" where
  "ssh_fields = [''enabled'', ''host_key_fingerprint'', ''client_key_fingerprint'']"

definition validate_ssh_resolution :: "resolution \<Rightarrow> (unit, store_error) result" where
  "validate_ssh_resolution r =
     and_then (validate_resolution_version (res_version r)) (\<lambda>_.
     if res_version r \<noteq> 1 then Ok ()
     else
       and_then (ok_or (CorruptData ''SSH resolution version 1 details must be an object'')
         (as_object (res_details r))) (\<lambda>details.
       let has = (\<lambda>k p. case bt_get details k of None \<Rightarrow> False | Some v \<Rightarrow> p v) in
       if length details \<noteq> length ssh_fields \<or> list_ex (\<lambda>(k, _). k \<notin> set ssh_fields) details then
         Err (CorruptData ''SSH resolution version 1 details contain unsupported fields'')
       else if \<not> has ''enabled'' is_boolean \<or> \<not> has ''host_key_fingerprint'' is_string \<or>
               \<not> has ''client_key_fingerprint'' is_string then
         Err (CorruptData ''SSH resolution version 1 details are missing required fields or have invalid types'')
       else Ok ()))"

definition validate_resolutions :: "sandbox_record \<Rightarrow> (unit, store_error) result" where
  "validate_resolutions sandbox =
     and_then
       (for_each_ok (\<lambda>r. case r of None \<Rightarrow> Ok () | Some r \<Rightarrow> validate_resolution_version (res_version r))
          [sd_setup sandbox, sd_tool sandbox, sd_image sandbox, sd_storage sandbox]) (\<lambda>_.
     case sd_ssh sandbox of None \<Rightarrow> Ok () | Some r \<Rightarrow> validate_ssh_resolution r)"

definition actual_transition :: "actual_state \<Rightarrow> actual_state \<Rightarrow> bool" where
  "actual_transition from to \<longleftrightarrow>
     from = to \<or>
     (from, to) \<in> {(ActualAbsent, ActualCreating), (ActualCreating, ActualRunning),
       (ActualCreating, ActualStopped), (ActualRunning, ActualStopped),
       (ActualRunning, ActualDestroying), (ActualStopped, ActualRunning),
       (ActualStopped, ActualDestroying), (ActualDestroying, ActualAbsent)}"

definition validate_actual_transition :: "actual_state \<Rightarrow> actual_state \<Rightarrow> (unit, store_error) result" where
  "validate_actual_transition from to =
     (if actual_transition from to then Ok ()
      else Err (InvalidTransition (actual_as_db from) (actual_as_db to)))"

definition validate_operation_transition ::
  "operation_status \<Rightarrow> operation_status \<Rightarrow> (unit, store_error) result" where
  "validate_operation_transition from to =
     (if from = Pending \<and> (to = Completed \<or> to = Failed) then Ok ()
      else Err (InvalidTransition (status_as_db from) (status_as_db to)))"

definition rollback_transition :: "operation_kind \<Rightarrow> actual_state \<Rightarrow> actual_state \<Rightarrow> bool" where
  "rollback_transition kind from to \<longleftrightarrow>
     (kind, from, to) \<in> {(OpCreate, ActualCreating, ActualAbsent),
       (OpDestroy, ActualDestroying, ActualRunning), (OpDestroy, ActualDestroying, ActualStopped)}"

definition validate_terminal_actual_transition ::
  "actual_state \<Rightarrow> actual_state \<Rightarrow> operation_kind \<Rightarrow> operation_status \<Rightarrow> (unit, store_error) result" where
  "validate_terminal_actual_transition from to kind status =
     (if status = Completed then validate_actual_transition from to
      else if rollback_transition kind from to then Ok ()
      else validate_actual_transition from to)"

section \<open>Encoding and decoding rows\<close>

definition encode_resolution :: "json_codec \<Rightarrow> resolution option \<Rightarrow> raw_resolution" where
  "encode_resolution codec r =
     (case r of
        None \<Rightarrow> (None, None)
      | Some r \<Rightarrow> (Some (uint (res_version r)), Some (js_print codec (res_details r))))"

definition parse_json :: "json_codec \<Rightarrow> string \<Rightarrow> (json, store_error) result" where
  "parse_json codec s = ok_or JsonError (js_parse codec s)"

definition get_u32 :: "int option \<Rightarrow> (u32 option, store_error) result" where
  "get_u32 v =
     (case v of
        None \<Rightarrow> Ok None
      | Some n \<Rightarrow> if 0 \<le> n \<and> n < 2 ^ 32 then Ok (Some (word_of_int n))
                  else Err (DatabaseError ''integer out of range''))"

definition decode_resolution ::
  "json_codec \<Rightarrow> u32 option \<times> string option \<Rightarrow> (resolution option, store_error) result" where
  "decode_resolution codec raw =
     (case raw of
        (None, None) \<Rightarrow> Ok None
      | (Some version, Some details) \<Rightarrow>
          if version > 0 then
            map_ok (\<lambda>v. Some \<lparr> res_version = version, res_details = v \<rparr>) (parse_json codec details)
          else Err (CorruptData ''incomplete or invalid resolution record'')
      | _ \<Rightarrow> Err (CorruptData ''incomplete or invalid resolution record''))"

definition stored_id :: "string \<Rightarrow> (sandbox_id, store_error) result" where
  "stored_id s =
     (case try_from s of
        Panicked \<Rightarrow> Err StorePanicked
      | Returned r \<Rightarrow> map_err StoredSandboxId r)"

definition decode_ssh_transport_policy ::
  "int option \<times> int option \<Rightarrow> (ssh_transport_policy option, store_error) result" where
  "decode_ssh_transport_policy raw =
     (case raw of
        (None, None) \<Rightarrow> Ok None
      | (Some enabled, host_port) \<Rightarrow>
          if enabled = 0 \<and> host_port = None then Ok (Some transport_disabled)
          else if enabled = 1 then
            (case host_port of
               None \<Rightarrow> Ok (Some (transport_enabled None))
             | Some port \<Rightarrow>
                 if 0 \<le> port \<and> port < 2 ^ 16 then Ok (Some (transport_enabled (Some (word_of_int port))))
                 else Err (CorruptData ''SSH transport host port is out of range''))
          else Err (CorruptData ''invalid SSH transport policy'')
      | _ \<Rightarrow> Err (CorruptData ''invalid SSH transport policy''))"

record raw_sandbox =
  raw_id :: string
  raw_root :: string
  raw_desired :: string
  raw_actual :: string
  raw_setup :: "u32 option \<times> string option"
  raw_tools :: "u32 option \<times> string option"
  raw_image :: "u32 option \<times> string option"
  raw_storage :: "u32 option \<times> string option"
  raw_ssh :: "u32 option \<times> string option"
  raw_last_operation :: "int option"
  raw_updated_at :: int

definition last_operation :: "database \<Rightarrow> string \<Rightarrow> int option" where
  "last_operation db i =
     (let ids = map or_id (filter (\<lambda>r. or_sandbox r = i) (db_operations db)) in
      if ids = [] then None else Some (Max (set ids)))"

definition get_resolution ::
  "raw_resolution \<Rightarrow> (u32 option \<times> string option, store_error) result" where
  "get_resolution raw = map_ok (\<lambda>v. (v, snd raw)) (get_u32 (fst raw))"

definition raw_sandbox_from_row :: "database \<Rightarrow> sandbox_row \<Rightarrow> (raw_sandbox, store_error) result" where
  "raw_sandbox_from_row db r =
     and_then (get_resolution (sr_setup r)) (\<lambda>setup'.
     and_then (get_resolution (sr_tools r)) (\<lambda>tools.
     and_then (get_resolution (sr_image r)) (\<lambda>img.
     and_then (get_resolution (sr_storage r)) (\<lambda>storage.
     and_then (get_resolution (sr_ssh r)) (\<lambda>ssh.
     Ok \<lparr> raw_id = sr_id r, raw_root = sr_root r, raw_desired = sr_desired r,
          raw_actual = sr_actual r, raw_setup = setup', raw_tools = tools, raw_image = img,
          raw_storage = storage, raw_ssh = ssh, raw_last_operation = last_operation db (sr_id r),
          raw_updated_at = sr_updated_at r \<rparr>)))))"

definition sandbox_try_from :: "json_codec \<Rightarrow> raw_sandbox \<Rightarrow> (sandbox_record, store_error) result" where
  "sandbox_try_from codec raw =
     and_then (stored_id (raw_id raw)) (\<lambda>i.
     and_then (desired_from_db (raw_desired raw)) (\<lambda>desired.
     and_then (actual_from_db (raw_actual raw)) (\<lambda>actual.
     and_then (decode_resolution codec (raw_setup raw)) (\<lambda>setup'.
     and_then (decode_resolution codec (raw_tools raw)) (\<lambda>tools.
     and_then (decode_resolution codec (raw_image raw)) (\<lambda>img.
     and_then (decode_resolution codec (raw_storage raw)) (\<lambda>storage.
     and_then (decode_resolution codec (raw_ssh raw)) (\<lambda>ssh.
     and_then (case raw_last_operation raw of
         None \<Rightarrow> Ok None | Some n \<Rightarrow> map_ok Some (new_operation_id n)) (\<lambda>last_op.
     Ok \<lparr> sd_id = i, sd_root = raw_root raw, sd_desired = desired, sd_actual = actual,
          sd_setup = setup', sd_tool = tools, sd_image = img, sd_storage = storage, sd_ssh = ssh,
          sd_last_operation = last_op, sd_updated_at = raw_updated_at raw \<rparr>)))))))))"

definition decode_sandbox ::
  "json_codec \<Rightarrow> database \<Rightarrow> sandbox_row \<Rightarrow> (sandbox_record, store_error) result" where
  "decode_sandbox codec db r = and_then (raw_sandbox_from_row db r) (sandbox_try_from codec)"

text \<open>Errors of a row mapper surface as conversion failures of the query.\<close>

definition to_sql_conversion_error :: "store_error \<Rightarrow> store_error" where
  "to_sql_conversion_error e =
     (case e of
        DatabaseError m \<Rightarrow> DatabaseError m
      | StorePanicked \<Rightarrow> StorePanicked
      | _ \<Rightarrow> DatabaseError ''conversion failure'')"

definition decode_operation ::
  "json_codec \<Rightarrow> operation_row \<Rightarrow> (operation_record, store_error) result" where
  "decode_operation codec r =
     and_then (new_operation_id (or_id r)) (\<lambda>i.
     and_then (stored_id (or_sandbox r)) (\<lambda>sandbox.
     and_then (kind_from_db (or_kind r)) (\<lambda>kind.
     and_then (status_from_db (or_status r)) (\<lambda>status.
     and_then (case or_error_details r of
         None \<Rightarrow> Ok None | Some s \<Rightarrow> map_ok Some (parse_json codec s)) (\<lambda>details.
     Ok \<lparr> op_id = i, op_sandbox = sandbox, op_kind = kind, op_status = status,
          op_error_code = or_error_code r, op_error_details = details \<rparr>)))))"

definition event_from_row ::
  "json_codec \<Rightarrow> event_row \<Rightarrow> (operation_event, store_error) result" where
  "event_from_row codec r =
     map_err to_sql_conversion_error
       (and_then (new_operation_id (er_operation r)) (\<lambda>operation.
        and_then (status_from_db (er_status r)) (\<lambda>status.
        and_then (case er_details r of
            None \<Rightarrow> Ok None | Some s \<Rightarrow> map_ok Some (parse_json codec s)) (\<lambda>details.
        Ok \<lparr> ev_sequence = er_sequence r, ev_operation = operation, ev_status = status,
             ev_details = details, ev_error_code = er_error_code r,
             ev_timestamp = er_timestamp r \<rparr>))))"

section \<open>Statements\<close>

type_synonym 'a body = "database \<Rightarrow> ('a \<times> database, store_error) result"

definition transaction ::
  "string option \<Rightarrow> ('s \<Rightarrow> ('a \<times> 's, store_error) result) \<Rightarrow> 's \<Rightarrow> ('a, store_error, 's) stateful" where
  "transaction fault body db =
     (case body db of
        Err e \<Rightarrow> (Err e, db)
      | Ok (x, db') \<Rightarrow>
          (case fault of None \<Rightarrow> (Ok x, db') | Some m \<Rightarrow> (Err (DatabaseError m), db)))"

type_synonym clock = "nat \<Rightarrow> int option"

definition current_time_millis :: "clock \<Rightarrow> nat \<Rightarrow> (int, store_error) result" where
  "current_time_millis clock k = ok_or InvalidSystemTime (clock k)"

definition load_sandbox ::
  "json_codec \<Rightarrow> database \<Rightarrow> string \<Rightarrow> (sandbox_record option, store_error) result" where
  "load_sandbox codec db i =
     (case find (\<lambda>r. sr_id r = i) (db_sandboxes db) of
        None \<Rightarrow> Ok None
      | Some r \<Rightarrow> map_ok Some (decode_sandbox codec db r))"

definition load_operation ::
  "json_codec \<Rightarrow> database \<Rightarrow> operation_id \<Rightarrow> (operation_record option, store_error) result" where
  "load_operation codec db i =
     (case find (\<lambda>r. or_id r = i) (db_operations db) of
        None \<Rightarrow> Ok None
      | Some r \<Rightarrow> map_ok Some (decode_operation codec r))"

definition update_sandboxes :: "string \<Rightarrow> (sandbox_row \<Rightarrow> sandbox_row) \<Rightarrow> database \<Rightarrow> database" where
  "update_sandboxes i f db =
     db \<lparr> db_sandboxes := map (\<lambda>r. if sr_id r = i then f r else r) (db_sandboxes db) \<rparr>"

definition has_sandbox :: "database \<Rightarrow> string \<Rightarrow> bool" where
  "has_sandbox db i \<longleftrightarrow> list_ex (\<lambda>r. sr_id r = i) (db_sandboxes db)"

definition set_columns :: "json_codec \<Rightarrow> sandbox_record \<Rightarrow> int \<Rightarrow> sandbox_row \<Rightarrow> sandbox_row" where
  "set_columns codec sandbox now r =
     r \<lparr> sr_desired := desired_as_db (sd_desired sandbox),
         sr_actual := actual_as_db (sd_actual sandbox),
         sr_setup := encode_resolution codec (sd_setup sandbox),
         sr_tools := encode_resolution codec (sd_tool sandbox),
         sr_image := encode_resolution codec (sd_image sandbox),
         sr_storage := encode_resolution codec (sd_storage sandbox),
         sr_ssh := encode_resolution codec (sd_ssh sandbox),
         sr_updated_at := now \<rparr>"

definition new_row :: "sandbox_record \<Rightarrow> sandbox_row" where
  "new_row sandbox =
     \<lparr> sr_id = as_str (sd_id sandbox), sr_root = sd_root sandbox, sr_desired = [], sr_actual = [],
       sr_setup = (None, None), sr_tools = (None, None), sr_image = (None, None),
       sr_storage = (None, None), sr_ssh = (None, None), sr_transport_enabled = None,
       sr_transport_host_port = None, sr_updated_at = 0 \<rparr>"

text \<open>\<open>INSERT .. ON CONFLICT(id) DO UPDATE\<close>, with the UNIQUE constraint on the root.\<close>

definition upsert_sandbox ::
  "json_codec \<Rightarrow> sandbox_record \<Rightarrow> int \<Rightarrow> database \<Rightarrow> (database, store_error) result" where
  "upsert_sandbox codec sandbox now db =
     (let i = as_str (sd_id sandbox) in
      if has_sandbox db i then Ok (update_sandboxes i (set_columns codec sandbox now) db)
      else if list_ex (\<lambda>r. sr_root r = sd_root sandbox) (db_sandboxes db) then
        Err (DatabaseError ''UNIQUE constraint failed: sandboxes.canonical_root'')
      else Ok (db \<lparr> db_sandboxes := db_sandboxes db @ [set_columns codec sandbox now (new_row sandbox)] \<rparr>))"

definition check_root_owner :: "sandbox_record \<Rightarrow> database \<Rightarrow> (unit, store_error) result" where
  "check_root_owner sandbox db =
     (case find (\<lambda>r. sr_root r = sd_root sandbox) (db_sandboxes db) of
        None \<Rightarrow> Ok ()
      | Some r \<Rightarrow>
          and_then (stored_id (sr_id r)) (\<lambda>existing_id.
          if existing_id \<noteq> sd_id sandbox then Err (DuplicateCanonicalRoot (sd_root sandbox) existing_id)
          else Ok ()))"

definition put_sandbox_in ::
  "json_codec \<Rightarrow> clock \<Rightarrow> nat \<Rightarrow> sandbox_record \<Rightarrow> database \<Rightarrow> (database, store_error) result" where
  "put_sandbox_in codec clock k sandbox db =
     and_then (load_sandbox codec db (as_str (sd_id sandbox))) (\<lambda>existing.
     and_then
       (case existing of
          None \<Rightarrow> Ok ()
        | Some existing \<Rightarrow>
            if \<not> path_eq (sd_root existing) (sd_root sandbox) then
              Err (DuplicateSandboxId (sd_id sandbox) (sd_root existing))
            else validate_actual_transition (sd_actual existing) (sd_actual sandbox)) (\<lambda>_.
     and_then (check_root_owner sandbox db) (\<lambda>_.
     and_then (current_time_millis clock k) (\<lambda>now.
     upsert_sandbox codec sandbox now db))))"

definition set_ssh_transport_policy_in ::
  "sandbox_id \<Rightarrow> ssh_transport_policy option \<Rightarrow> database \<Rightarrow> (database, store_error) result" where
  "set_ssh_transport_policy_in i policy db =
     (let (enabled, host_port) = (case policy of
          None \<Rightarrow> (None, None)
        | Some p \<Rightarrow> (Some (if tp_enabled p then 1 else 0), map_option uint (tp_host_port p)))
      in if \<not> has_sandbox db (as_str i) then Err (SandboxNotFound i)
         else if (case host_port of None \<Rightarrow> False | Some port \<Rightarrow> port < 1024 \<or> port > 65535) then
           Err (DatabaseError ''CHECK constraint failed: ssh_transport_host_port'')
         else Ok (update_sandboxes (as_str i)
           (\<lambda>r. r \<lparr> sr_transport_enabled := enabled, sr_transport_host_port := host_port \<rparr>) db))"

definition has_pending :: "database \<Rightarrow> string \<Rightarrow> bool" where
  "has_pending db i \<longleftrightarrow>
     list_ex (\<lambda>r. or_sandbox r = i \<and> or_status r = status_as_db Pending) (db_operations db)"

definition insert_operation ::
  "string \<Rightarrow> operation_kind \<Rightarrow> database \<Rightarrow> (int \<times> database, store_error) result" where
  "insert_operation i kind db =
     (let rowid = db_operation_sequence db + 1 in
      if \<not> has_sandbox db i then Err (DatabaseError ''FOREIGN KEY constraint failed'')
      else if has_pending db i then
        Err (DatabaseError ''UNIQUE constraint failed: operations.sandbox_id'')
      else
        Ok (rowid, db \<lparr> db_operations := db_operations db @
              [\<lparr> or_id = rowid, or_sandbox = i, or_kind = kind_as_db kind,
                 or_status = status_as_db Pending, or_error_code = None, or_error_details = None \<rparr>],
            db_operation_sequence := rowid \<rparr>))"

definition insert_event ::
  "operation_id \<Rightarrow> operation_status \<Rightarrow> string option \<Rightarrow> string option \<Rightarrow> int \<Rightarrow> database \<Rightarrow>
     (event_row \<times> database, store_error) result" where
  "insert_event i status details error_code now db =
     (let rowid = db_event_sequence db + 1;
          row = \<lparr> er_sequence = rowid, er_operation = i, er_status = status_as_db status,
                  er_details = details, er_error_code = error_code, er_timestamp = now \<rparr>
      in if \<not> list_ex (\<lambda>r. or_id r = i) (db_operations db) then
           Err (DatabaseError ''FOREIGN KEY constraint failed'')
         else Ok (row, db \<lparr> db_events := db_events db @ [row], db_event_sequence := rowid \<rparr>))"

section \<open>Operations\<close>

definition put_sandbox ::
  "json_codec \<Rightarrow> clock \<Rightarrow> string option \<Rightarrow> sandbox_record \<Rightarrow> database \<Rightarrow>
     (unit, store_error, database) stateful" where
  "put_sandbox codec clock fault sandbox db =
     (case validate_resolutions sandbox of
        Err e \<Rightarrow> (Err e, db)
      | Ok _ \<Rightarrow>
          transaction fault (\<lambda>db. map_ok (Pair ()) (put_sandbox_in codec clock 0 sandbox db)) db)"

definition put_sandbox_with_ssh_transport ::
  "json_codec \<Rightarrow> clock \<Rightarrow> string option \<Rightarrow> sandbox_record \<Rightarrow> ssh_transport_policy option \<Rightarrow>
     database \<Rightarrow> (unit, store_error, database) stateful" where
  "put_sandbox_with_ssh_transport codec clock fault sandbox policy db =
     (case validate_resolutions sandbox of
        Err e \<Rightarrow> (Err e, db)
      | Ok _ \<Rightarrow>
          transaction fault (\<lambda>db.
            and_then (put_sandbox_in codec clock 0 sandbox db) (\<lambda>db.
            map_ok (Pair ()) (set_ssh_transport_policy_in (sd_id sandbox) policy db))) db)"

definition get_sandbox ::
  "json_codec \<Rightarrow> sandbox_id \<Rightarrow> database \<Rightarrow> (sandbox_record option, store_error) result" where
  "get_sandbox codec i db = load_sandbox codec db (as_str i)"

definition ssh_transport_policy_of ::
  "sandbox_id \<Rightarrow> database \<Rightarrow> (ssh_transport_policy option, store_error) result" where
  "ssh_transport_policy_of i db =
     (case find (\<lambda>r. sr_id r = as_str i) (db_sandboxes db) of
        None \<Rightarrow> Ok None
      | Some r \<Rightarrow> decode_ssh_transport_policy (sr_transport_enabled r, sr_transport_host_port r))"

definition set_ssh_resolution ::
  "json_codec \<Rightarrow> clock \<Rightarrow> string option \<Rightarrow> sandbox_id \<Rightarrow> resolution option \<Rightarrow> database \<Rightarrow>
     (unit, store_error, database) stateful" where
  "set_ssh_resolution codec clock fault i resolution db =
     (case (case resolution of None \<Rightarrow> Ok () | Some r \<Rightarrow> validate_ssh_resolution r) of
        Err e \<Rightarrow> (Err e, db)
      | Ok _ \<Rightarrow>
          transaction fault (\<lambda>db.
            and_then (current_time_millis clock 0) (\<lambda>now.
            if \<not> has_sandbox db (as_str i) then Err (SandboxNotFound i)
            else Ok ((), update_sandboxes (as_str i)
              (\<lambda>r. r \<lparr> sr_ssh := encode_resolution codec resolution, sr_updated_at := now \<rparr>) db))) db)"

definition update_ssh_resolution ::
  "json_codec \<Rightarrow> clock \<Rightarrow> string option \<Rightarrow> sandbox_id \<Rightarrow> resolution \<Rightarrow> database \<Rightarrow>
     (unit, store_error, database) stateful" where
  "update_ssh_resolution codec clock fault i resolution db =
     set_ssh_resolution codec clock fault i (Some resolution) db"

definition list_sandboxes :: "json_codec \<Rightarrow> database \<Rightarrow> (sandbox_record list, store_error) result" where
  "list_sandboxes codec db =
     collect_ok (\<lambda>r. map_err to_sql_conversion_error (decode_sandbox codec db r))
       (sort_key sr_id (db_sandboxes db))"

definition doctor_record ::
  "database \<Rightarrow> sandbox_record \<Rightarrow> (ssh_doctor_record, store_error) result" where
  "doctor_record db record =
     (case find (\<lambda>r. sr_id r = as_str (sd_id record)) (db_sandboxes db) of
        None \<Rightarrow> Err (DatabaseError ''Query returned no rows'')
      | Some r \<Rightarrow>
          map_ok (\<lambda>transport. \<lparr> dr_record = record, dr_transport = transport,
              dr_operation_pending = has_pending db (as_str (sd_id record)) \<rparr>)
            (decode_ssh_transport_policy (sr_transport_enabled r, sr_transport_host_port r)))"

definition ssh_doctor_snapshot ::
  "json_codec \<Rightarrow> database \<Rightarrow> (ssh_doctor_record list, store_error) result" where
  "ssh_doctor_snapshot codec db =
     and_then (list_sandboxes codec db) (\<lambda>records. collect_ok (doctor_record db) records)"

definition begin_operation ::
  "json_codec \<Rightarrow> clock \<Rightarrow> string option \<Rightarrow> sandbox_record \<Rightarrow> operation_kind \<Rightarrow> database \<Rightarrow>
     (operation_record, store_error, database) stateful" where
  "begin_operation codec clock fault sandbox kind db =
     (case validate_resolutions sandbox of
        Err e \<Rightarrow> (Err e, db)
      | Ok _ \<Rightarrow>
          transaction fault (\<lambda>db.
            and_then (put_sandbox_in codec clock 0 sandbox db) (\<lambda>db.
            if has_pending db (as_str (sd_id sandbox)) then Err (PendingOperationExists (sd_id sandbox))
            else
              and_then (insert_operation (as_str (sd_id sandbox)) kind db) (\<lambda>(rowid, db).
              and_then (new_operation_id rowid) (\<lambda>i.
              and_then (current_time_millis clock 1) (\<lambda>now.
              and_then (insert_event i Pending None None now db) (\<lambda>(_, db).
              and_then (load_operation codec db i) (\<lambda>operation.
              map_ok (\<lambda>operation. (operation, db)) (ok_or (OperationNotFound i) operation)))))))) db)"

definition may_clear_ssh_trust :: "operation_kind \<Rightarrow> operation_status \<Rightarrow> actual_state \<Rightarrow> bool" where
  "may_clear_ssh_trust kind status actual \<longleftrightarrow>
     (kind, status, actual) \<in> {(OpDestroy, Completed, ActualAbsent), (OpCreate, Failed, ActualAbsent)}"

definition set_actual :: "actual_state \<Rightarrow> bool \<Rightarrow> int \<Rightarrow> sandbox_row \<Rightarrow> sandbox_row" where
  "set_actual actual clear now r =
     (let r = r \<lparr> sr_actual := actual_as_db actual, sr_updated_at := now \<rparr> in
      if clear then r \<lparr> sr_ssh := (None, None), sr_transport_enabled := None,
                       sr_transport_host_port := None \<rparr>
      else r)"

definition finish_row ::
  "operation_id \<Rightarrow> operation_status \<Rightarrow> string option \<Rightarrow> string option \<Rightarrow> database \<Rightarrow> database" where
  "finish_row i status error_code details db =
     db \<lparr> db_operations := map (\<lambda>r. if or_id r = i then
            r \<lparr> or_status := status_as_db status, or_error_code := error_code,
                or_error_details := details \<rparr> else r) (db_operations db) \<rparr>"

definition finish_operation_in ::
  "json_codec \<Rightarrow> clock \<Rightarrow> operation_id \<Rightarrow> actual_state \<Rightarrow> operation_status \<Rightarrow> string option \<Rightarrow>
     json option \<Rightarrow> bool \<Rightarrow> (operation_record \<times> operation_event) body" where
  "finish_operation_in codec clock i actual status error_code error_details clear db =
     and_then (load_operation codec db i) (\<lambda>operation.
     and_then (ok_or (OperationNotFound i) operation) (\<lambda>operation.
     and_then (validate_operation_transition (op_status operation) status) (\<lambda>_.
     and_then (ok_or (DatabaseError ''Query returned no rows'')
       (find (\<lambda>r. sr_id r = as_str (op_sandbox operation)) (db_sandboxes db))) (\<lambda>row.
     and_then (actual_from_db (sr_actual row)) (\<lambda>current.
     and_then (validate_terminal_actual_transition current actual (op_kind operation) status) (\<lambda>_.
     if clear \<and> \<not> may_clear_ssh_trust (op_kind operation) status actual then
       Err (InvalidTransition (kind_as_db (op_kind operation)) ''clear_ssh_trust'')
     else
       let details = map_option (js_print codec) error_details in
       and_then (current_time_millis clock 0) (\<lambda>now.
       let db = finish_row i status error_code details
             (update_sandboxes (as_str (op_sandbox operation)) (set_actual actual clear now) db) in
       and_then (current_time_millis clock 1) (\<lambda>now.
       and_then (insert_event i status details error_code now db) (\<lambda>(row, db).
       and_then (event_from_row codec row) (\<lambda>terminal.
       and_then (load_operation codec db i) (\<lambda>updated.
       map_ok (\<lambda>updated. ((updated, terminal), db)) (ok_or (OperationNotFound i) updated))))))))))))"

definition finish_operation ::
  "json_codec \<Rightarrow> clock \<Rightarrow> string option \<Rightarrow> operation_id \<Rightarrow> actual_state \<Rightarrow> operation_status \<Rightarrow>
     string option \<Rightarrow> json option \<Rightarrow> bool \<Rightarrow> database \<Rightarrow>
     (operation_record \<times> operation_event, store_error, database) stateful" where
  "finish_operation codec clock fault i actual status error_code error_details clear db =
     transaction fault
       (finish_operation_in codec clock i actual status error_code error_details clear) db"

definition complete_operation ::
  "json_codec \<Rightarrow> clock \<Rightarrow> string option \<Rightarrow> operation_id \<Rightarrow> actual_state \<Rightarrow> database \<Rightarrow>
     (operation_record \<times> operation_event, store_error, database) stateful" where
  "complete_operation codec clock fault i actual db =
     finish_operation codec clock fault i actual Completed None None False db"

definition complete_destroy_operation ::
  "json_codec \<Rightarrow> clock \<Rightarrow> string option \<Rightarrow> operation_id \<Rightarrow> database \<Rightarrow>
     (operation_record \<times> operation_event, store_error, database) stateful" where
  "complete_destroy_operation codec clock fault i db =
     finish_operation codec clock fault i ActualAbsent Completed None None True db"

definition fail_create_operation_clearing_ssh ::
  "json_codec \<Rightarrow> clock \<Rightarrow> string option \<Rightarrow> operation_id \<Rightarrow> string \<Rightarrow> json \<Rightarrow> database \<Rightarrow>
     (operation_record \<times> operation_event, store_error, database) stateful" where
  "fail_create_operation_clearing_ssh codec clock fault i error_code details db =
     finish_operation codec clock fault i ActualAbsent Failed (Some error_code) (Some details) True db"

definition fail_operation ::
  "json_codec \<Rightarrow> clock \<Rightarrow> string option \<Rightarrow> operation_id \<Rightarrow> actual_state \<Rightarrow> string \<Rightarrow> json \<Rightarrow>
     database \<Rightarrow> (operation_record \<times> operation_event, store_error, database) stateful" where
  "fail_operation codec clock fault i actual error_code details db =
     finish_operation codec clock fault i actual Failed (Some error_code) (Some details) False db"

definition pending_operations ::
  "json_codec \<Rightarrow> database \<Rightarrow> (operation_record list, store_error) result" where
  "pending_operations codec db =
     collect_ok (\<lambda>r. map_err to_sql_conversion_error (decode_operation codec r))
       (sort_key or_id (filter (\<lambda>r. or_status r = status_as_db Pending) (db_operations db)))"

definition operation_events ::
  "json_codec \<Rightarrow> operation_id \<Rightarrow> database \<Rightarrow> (operation_event list, store_error) result" where
  "operation_events codec i db =
     collect_ok (event_from_row codec)
       (sort_key er_sequence (filter (\<lambda>r. er_operation r = i) (db_events db)))"

definition append_operation_event ::
  "json_codec \<Rightarrow> clock \<Rightarrow> string option \<Rightarrow> operation_id \<Rightarrow> json \<Rightarrow> database \<Rightarrow>
     (operation_event, store_error, database) stateful" where
  "append_operation_event codec clock fault i details db =
     transaction fault (\<lambda>db.
       and_then (load_operation codec db i) (\<lambda>operation.
       and_then (ok_or (OperationNotFound i) operation) (\<lambda>operation.
       if op_status operation \<noteq> Pending then
         Err (InvalidTransition (status_as_db (op_status operation)) (status_as_db Pending))
       else
         and_then (current_time_millis clock 0) (\<lambda>now.
         and_then (insert_event i Pending (Some (js_print codec details)) None now db) (\<lambda>(row, db).
         Ok (\<lparr> ev_sequence = er_sequence row, ev_operation = i, ev_status = Pending,
                ev_details = Some details, ev_error_code = None,
                ev_timestamp = er_timestamp row \<rparr>, db)))))) db"

definition latest_operation ::
  "json_codec \<Rightarrow> database \<Rightarrow> (operation_record option, store_error) result" where
  "latest_operation codec db =
     (case sort_key (\<lambda>r. - or_id r) (db_operations db) of
        [] \<Rightarrow> Ok None
      | r # _ \<Rightarrow> map_ok Some (map_err to_sql_conversion_error (decode_operation codec r)))"

text \<open>\<open>operation_events\<close> behind the switch that makes the next read fail.\<close>

definition read_operation_events ::
  "json_codec \<Rightarrow> operation_id \<Rightarrow> database \<Rightarrow> bool \<Rightarrow> (operation_event list, store_error, bool) stateful" where
  "read_operation_events codec i db fail_next =
     (if fail_next then (Err InjectedOperationEventRead, False)
      else (operation_events codec i db, False))"

end
