(* ===== verification/Store_Correct.thy ===== *)
theory Store_Correct
  imports Store "HOL-Library.Sublist"
begin

text \<open>
  Correctness of the durable store: what is written is read back, the database invariant over every
  operation, the append-only audit trail of operations and the life cycle of a sandbox record.
\<close>

section \<open>Round trips of columns\<close>

lemma desired_round_trip [simp]: "desired_from_db (desired_as_db d) = Ok d"
  by (cases d) (simp_all add: desired_from_db_def)

lemma actual_round_trip [simp]: "actual_from_db (actual_as_db a) = Ok a"
  by (cases a) (simp_all add: actual_from_db_def)

lemma kind_round_trip [simp]: "kind_from_db (kind_as_db k) = Ok k"
  by (cases k) (simp_all add: kind_from_db_def)

lemma status_round_trip [simp]: "status_from_db (status_as_db s) = Ok s"
  by (cases s) (simp_all add: status_from_db_def)

lemma status_as_db_inject [simp]: "status_as_db s = status_as_db t \<longleftrightarrow> s = t"
  by (cases s; cases t) simp_all

declare status_as_db.simps [simp del] kind_as_db.simps [simp del]
  actual_as_db.simps [simp del] desired_as_db.simps [simp del]

lemma parse_print [simp]: "codec_ok codec \<Longrightarrow> parse_json codec (js_print codec v) = Ok v"
  by (simp add: parse_json_def codec_ok_def)

definition read_resolution :: "json_codec \<Rightarrow> raw_resolution \<Rightarrow> (resolution option, store_error) result" where
  "read_resolution codec raw = and_then (get_resolution raw) (decode_resolution codec)"

lemma read_absent [simp]:
  "read_resolution codec (None, None) = Ok None" "decode_ssh_transport_policy (None, None) = Ok None"
  by (simp_all add: read_resolution_def get_resolution_def get_u32_def decode_resolution_def
      decode_ssh_transport_policy_def)

lemma read_encode_resolution:
  assumes "codec_ok codec" "\<And>r. x = Some r \<Longrightarrow> res_version r \<noteq> 0"
  shows "read_resolution codec (encode_resolution codec x) = Ok x"
proof (cases x)
  case None
  then show ?thesis by (simp add: encode_resolution_def)
next
  case (Some r)
  have "uint (res_version r) < 2 ^ 32" using uint_lt2p [of "res_version r"] by simp
  moreover have "0 < res_version r" using assms(2) Some by (simp add: word_neq_0_conv)
  ultimately show ?thesis
    using assms(1) Some
    by (simp add: read_resolution_def get_resolution_def get_u32_def encode_resolution_def
        decode_resolution_def)
qed

lemma validate_resolutions_versions:
  assumes "validate_resolutions sb = Ok ()"
  shows "\<And>r. sd_setup sb = Some r \<Longrightarrow> res_version r \<noteq> 0"
    "\<And>r. sd_tool sb = Some r \<Longrightarrow> res_version r \<noteq> 0"
    "\<And>r. sd_image sb = Some r \<Longrightarrow> res_version r \<noteq> 0"
    "\<And>r. sd_storage sb = Some r \<Longrightarrow> res_version r \<noteq> 0"
    "\<And>r. sd_ssh sb = Some r \<Longrightarrow> res_version r \<noteq> 0"
  using assms
  by (auto simp: validate_resolutions_def validate_resolution_version_def validate_ssh_resolution_def
      result_simps split: if_splits)

text \<open>Decoding a row, field by field.\<close>

lemma decode_sandbox_Ok:
  "decode_sandbox codec db r = Ok sb \<longleftrightarrow>
     stored_id (sr_id r) = Ok (sd_id sb) \<and> sd_root sb = sr_root r \<and>
     desired_from_db (sr_desired r) = Ok (sd_desired sb) \<and>
     actual_from_db (sr_actual r) = Ok (sd_actual sb) \<and>
     read_resolution codec (sr_setup r) = Ok (sd_setup sb) \<and>
     read_resolution codec (sr_tools r) = Ok (sd_tool sb) \<and>
     read_resolution codec (sr_image r) = Ok (sd_image sb) \<and>
     read_resolution codec (sr_storage r) = Ok (sd_storage sb) \<and>
     read_resolution codec (sr_ssh r) = Ok (sd_ssh sb) \<and>
     sd_last_operation sb = last_operation db (sr_id r) \<and>
     (\<forall>n. last_operation db (sr_id r) = Some n \<longrightarrow> 0 < n) \<and>
     sd_updated_at sb = sr_updated_at r"
proof -
  have last: "(case l of None \<Rightarrow> Ok None | Some n \<Rightarrow> map_ok Some (new_operation_id n)) = Ok l' \<longleftrightarrow>
      l' = l \<and> (\<forall>n. l = Some n \<longrightarrow> 0 < n)" for l l'
    by (cases l) (auto simp: new_operation_id_def)
  show ?thesis
    by (cases sb) (auto simp: decode_sandbox_def raw_sandbox_from_row_def sandbox_try_from_def
        read_resolution_def result_simps last)
qed

section \<open>The database invariant\<close>

definition sandbox_row_ok :: "json_codec \<Rightarrow> sandbox_row \<Rightarrow> bool" where
  "sandbox_row_ok codec r \<longleftrightarrow>
     is_ok (stored_id (sr_id r)) \<and> is_ok (desired_from_db (sr_desired r)) \<and>
     is_ok (actual_from_db (sr_actual r)) \<and> is_ok (read_resolution codec (sr_setup r)) \<and>
     is_ok (read_resolution codec (sr_tools r)) \<and> is_ok (read_resolution codec (sr_image r)) \<and>
     is_ok (read_resolution codec (sr_storage r)) \<and> is_ok (read_resolution codec (sr_ssh r)) \<and>
     is_ok (decode_ssh_transport_policy (sr_transport_enabled r, sr_transport_host_port r))"

definition pending_row :: "operation_row \<Rightarrow> bool" where
  "pending_row r \<longleftrightarrow> or_status r = status_as_db Pending"

definition operation_row_ok :: "json_codec \<Rightarrow> database \<Rightarrow> operation_row \<Rightarrow> bool" where
  "operation_row_ok codec db r \<longleftrightarrow>
     is_ok (decode_operation codec r) \<and> or_id r \<le> db_operation_sequence db \<and>
     has_sandbox db (or_sandbox r)"

definition event_row_ok :: "json_codec \<Rightarrow> database \<Rightarrow> event_row \<Rightarrow> bool" where
  "event_row_ok codec db e \<longleftrightarrow>
     is_ok (event_from_row codec e) \<and> er_sequence e \<le> db_event_sequence db \<and>
     er_operation e \<in> or_id ` set (db_operations db)"

text \<open>The audit trail of one operation: it starts as pending, may report progress while pending,
  and a finished operation has exactly one further event, the last one, with its final status.\<close>

definition trail :: "database \<Rightarrow> operation_id \<Rightarrow> string list" where
  "trail db i = map er_status (filter (\<lambda>e. er_operation e = i) (db_events db))"

definition audited :: "database \<Rightarrow> operation_row \<Rightarrow> bool" where
  "audited db r \<longleftrightarrow>
     (\<exists>n. trail db (or_id r) =
        replicate (Suc n) (status_as_db Pending) @ (if pending_row r then [] else [or_status r]))"

definition db_wf :: "json_codec \<Rightarrow> database \<Rightarrow> bool" where
  "db_wf codec db \<longleftrightarrow>
     distinct (map sr_id (db_sandboxes db)) \<and> distinct (map sr_root (db_sandboxes db)) \<and>
     (\<forall>r\<in>set (db_sandboxes db). sandbox_row_ok codec r) \<and>
     distinct (map or_id (db_operations db)) \<and> 0 \<le> db_operation_sequence db \<and>
     (\<forall>r\<in>set (db_operations db). operation_row_ok codec db r \<and> audited db r) \<and>
     distinct (map or_sandbox (filter pending_row (db_operations db))) \<and>
     sorted_wrt (<) (map er_sequence (db_events db)) \<and>
     (\<forall>e\<in>set (db_events db). event_row_ok codec db e)"

lemma db_wf_empty: "db_wf codec empty_database"
  by (simp add: db_wf_def empty_database_def)

section \<open>Transactions\<close>

lemma transaction_Ok [simp]:
  "transaction fault body db = (Ok x, db') \<longleftrightarrow> fault = None \<and> body db = Ok (x, db')"
  by (auto simp: transaction_def split: result.split option.split prod.split)

lemma transaction_Err: "transaction fault body db = (Err e, db') \<Longrightarrow> db' = db"
  by (auto simp: transaction_def split: result.splits option.splits prod.splits)

text \<open>Whatever a committed body establishes between the databases before and after holds of the
  transaction when it holds of no change.\<close>

lemma transaction_step:
  assumes "R db db" and "\<And>x db'. body db = Ok (x, db') \<Longrightarrow> R db db'"
  shows "R db (snd (transaction fault body db))"
proof (cases "fst (transaction fault body db)")
  case (Ok x)
  then have "transaction fault body db = (Ok x, snd (transaction fault body db))"
    by (simp add: prod_eq_iff)
  with assms(2) show ?thesis unfolding transaction_Ok by blast
next
  case (Err e)
  then have "transaction fault body db = (Err e, snd (transaction fault body db))"
    by (simp add: prod_eq_iff)
  from transaction_Err [OF this] assms(1) show ?thesis by simp
qed

section \<open>Writing a sandbox record\<close>

lemma find_map_update:
  assumes "\<And>r. sr_id (f r) = sr_id r"
  shows "find (\<lambda>r. sr_id r = j) (map (\<lambda>r. if sr_id r = i then f r else r) rs) =
    map_option (\<lambda>r. if sr_id r = i then f r else r) (find (\<lambda>r. sr_id r = j) rs)"
  using assms by (induction rs) auto

lemma find_append: "find P (xs @ ys) = (case find P xs of None \<Rightarrow> find P ys | Some x \<Rightarrow> Some x)"
  by (induction xs) auto

lemma has_sandbox_iff: "has_sandbox db i \<longleftrightarrow> i \<in> sr_id ` set (db_sandboxes db)"
  by (auto simp: has_sandbox_def list_ex_iff)

lemma find_none_iff_id: "find (\<lambda>r. sr_id r = i) rs = None \<longleftrightarrow> i \<notin> sr_id ` set rs"
  by (auto simp: find_None_iff)

lemma set_columns_fields [simp]:
  "sr_id (set_columns codec sb now r) = sr_id r" "sr_root (set_columns codec sb now r) = sr_root r"
  "sr_transport_enabled (set_columns codec sb now r) = sr_transport_enabled r"
  "sr_transport_host_port (set_columns codec sb now r) = sr_transport_host_port r"
  "sr_updated_at (set_columns codec sb now r) = now"
  by (simp_all add: set_columns_def)

lemma new_row_fields [simp]:
  "sr_id (new_row sb) = as_str (sd_id sb)" "sr_root (new_row sb) = sd_root sb"
  "sr_transport_enabled (new_row sb) = None" "sr_transport_host_port (new_row sb) = None"
  by (simp_all add: new_row_def)

text \<open>What makes a record storable: an identity that reads back and valid resolutions.\<close>

definition storable :: "sandbox_record \<Rightarrow> bool" where
  "storable sb \<longleftrightarrow>
     stored_id (as_str (sd_id sb)) = Ok (sd_id sb) \<and> validate_resolutions sb = Ok ()"

lemma read_set_columns:
  assumes "codec_ok codec" "storable sb"
  shows "read_resolution codec (sr_setup (set_columns codec sb now r)) = Ok (sd_setup sb)"
    "read_resolution codec (sr_tools (set_columns codec sb now r)) = Ok (sd_tool sb)"
    "read_resolution codec (sr_image (set_columns codec sb now r)) = Ok (sd_image sb)"
    "read_resolution codec (sr_storage (set_columns codec sb now r)) = Ok (sd_storage sb)"
    "read_resolution codec (sr_ssh (set_columns codec sb now r)) = Ok (sd_ssh sb)"
    "desired_from_db (sr_desired (set_columns codec sb now r)) = Ok (sd_desired sb)"
    "actual_from_db (sr_actual (set_columns codec sb now r)) = Ok (sd_actual sb)"
  using assms validate_resolutions_versions [of sb]
  by (simp_all add: set_columns_def storable_def read_encode_resolution)

lemma set_columns_ok:
  assumes "codec_ok codec" "storable sb" "is_ok (stored_id (sr_id r))"
    "is_ok (decode_ssh_transport_policy (sr_transport_enabled r, sr_transport_host_port r))"
  shows "sandbox_row_ok codec (set_columns codec sb now r)"
  using assms read_set_columns [OF assms(1,2), of now r] by (simp add: sandbox_row_ok_def)

definition put_row :: "json_codec \<Rightarrow> sandbox_record \<Rightarrow> int \<Rightarrow> database \<Rightarrow> database" where
  "put_row codec sb now db =
     (if has_sandbox db (as_str (sd_id sb))
      then update_sandboxes (as_str (sd_id sb)) (set_columns codec sb now) db
      else db \<lparr> db_sandboxes := db_sandboxes db @ [set_columns codec sb now (new_row sb)] \<rparr>)"

lemma put_row_fields [simp]:
  "db_operations (put_row codec sb now db) = db_operations db"
  "db_events (put_row codec sb now db) = db_events db"
  "db_operation_sequence (put_row codec sb now db) = db_operation_sequence db"
  "db_event_sequence (put_row codec sb now db) = db_event_sequence db"
  by (simp_all add: put_row_def update_sandboxes_def)

lemma put_sandbox_in_Ok:
  assumes "put_sandbox_in codec clock k sb db = Ok db'"
  obtains now where "clock k = Some now" "db' = put_row codec sb now db"
    "has_sandbox db (as_str (sd_id sb)) \<or> sd_root sb \<notin> sr_root ` set (db_sandboxes db)"
    "\<And>r. find (\<lambda>r. sr_id r = as_str (sd_id sb)) (db_sandboxes db) = Some r \<Longrightarrow>
       \<exists>old. decode_sandbox codec db r = Ok old \<and> path_eq (sd_root old) (sd_root sb) \<and>
         actual_transition (sd_actual old) (sd_actual sb)"
proof -
  from assms obtain existing now where ex: "load_sandbox codec db (as_str (sd_id sb)) = Ok existing"
    "(case existing of None \<Rightarrow> Ok () | Some existing \<Rightarrow>
        if \<not> path_eq (sd_root existing) (sd_root sb) then
          Err (DuplicateSandboxId (sd_id sb) (sd_root existing))
        else validate_actual_transition (sd_actual existing) (sd_actual sb)) = Ok ()"
    "clock k = Some now" "upsert_sandbox codec sb now db = Ok db'"
    by (auto simp: put_sandbox_in_def result_simps current_time_millis_def)
  show thesis
  proof (rule that [OF ex(3)])
    show "db' = put_row codec sb now db"
      "has_sandbox db (as_str (sd_id sb)) \<or> sd_root sb \<notin> sr_root ` set (db_sandboxes db)"
      using ex(4) by (auto simp: upsert_sandbox_def put_row_def Let_def list_ex_iff split: if_splits)
    show "\<exists>old. decode_sandbox codec db r = Ok old \<and> path_eq (sd_root old) (sd_root sb) \<and>
         actual_transition (sd_actual old) (sd_actual sb)"
      if "find (\<lambda>r. sr_id r = as_str (sd_id sb)) (db_sandboxes db) = Some r" for r
      using ex(1,2) that
      by (auto simp: load_sandbox_def result_simps validate_actual_transition_def split: if_splits)
  qed
qed

lemma update_sandboxes_map:
  assumes "\<And>r. g (f r) = g r"
  shows "map g (db_sandboxes (update_sandboxes i f db)) = map g (db_sandboxes db)"
  using assms by (simp add: update_sandboxes_def)

lemma update_sandboxes_fields [simp]:
  "db_operations (update_sandboxes i f db) = db_operations db"
  "db_events (update_sandboxes i f db) = db_events db"
  "db_operation_sequence (update_sandboxes i f db) = db_operation_sequence db"
  "db_event_sequence (update_sandboxes i f db) = db_event_sequence db"
  by (simp_all add: update_sandboxes_def)

lemma put_row_ids:
  "sr_id ` set (db_sandboxes (put_row codec sb now db)) =
     insert (as_str (sd_id sb)) (sr_id ` set (db_sandboxes db))"
proof (cases "has_sandbox db (as_str (sd_id sb))")
  case True
  then show ?thesis
    using update_sandboxes_map [of sr_id "set_columns codec sb now" "as_str (sd_id sb)" db]
    by (simp add: put_row_def has_sandbox_iff insert_absorb flip: set_map)
qed (auto simp: put_row_def)

lemma has_sandbox_put_row: "has_sandbox db i \<Longrightarrow> has_sandbox (put_row codec sb now db) i"
  by (simp add: has_sandbox_iff put_row_ids)

lemma db_wf_rows:
  assumes "db_wf codec db" "db_operations db' = db_operations db" "db_events db' = db_events db"
    "db_operation_sequence db' = db_operation_sequence db" "db_event_sequence db' = db_event_sequence db"
    "distinct (map sr_id (db_sandboxes db'))" "distinct (map sr_root (db_sandboxes db'))"
    "\<forall>r\<in>set (db_sandboxes db'). sandbox_row_ok codec r"
    "sr_id ` set (db_sandboxes db) \<subseteq> sr_id ` set (db_sandboxes db')"
  shows "db_wf codec db'"
  using assms
  by (auto simp: db_wf_def operation_row_ok_def event_row_ok_def audited_def trail_def has_sandbox_iff)

lemma db_wf_update:
  assumes "db_wf codec db" "\<And>r. sr_id (f r) = sr_id r" "\<And>r. sr_root (f r) = sr_root r"
    "\<And>r. sandbox_row_ok codec r \<Longrightarrow> sandbox_row_ok codec (f r)"
  shows "db_wf codec (update_sandboxes i f db)"
proof (rule db_wf_rows [OF assms(1)])
  show "distinct (map sr_id (db_sandboxes (update_sandboxes i f db)))"
    "sr_id ` set (db_sandboxes db) \<subseteq> sr_id ` set (db_sandboxes (update_sandboxes i f db))"
    using assms(1) update_sandboxes_map [of sr_id f, OF assms(2)]
    by (auto simp: db_wf_def simp flip: set_map)
  show "distinct (map sr_root (db_sandboxes (update_sandboxes i f db)))"
    using assms(1) update_sandboxes_map [of sr_root f, OF assms(3)] by (simp add: db_wf_def)
  show "\<forall>r\<in>set (db_sandboxes (update_sandboxes i f db)). sandbox_row_ok codec r"
    using assms(1,4) by (auto simp: db_wf_def update_sandboxes_def)
qed simp_all

lemma db_wf_put_row:
  assumes "db_wf codec db" "codec_ok codec" "storable sb"
    "has_sandbox db (as_str (sd_id sb)) \<or> sd_root sb \<notin> sr_root ` set (db_sandboxes db)"
  shows "db_wf codec (put_row codec sb now db)"
proof (cases "has_sandbox db (as_str (sd_id sb))")
  case True
  then show ?thesis
    unfolding put_row_def
    by (auto intro!: db_wf_update set_columns_ok assms simp: sandbox_row_ok_def)
next
  case False
  have "sandbox_row_ok codec (set_columns codec sb now (new_row sb))"
    using assms(3) by (intro set_columns_ok assms) (auto simp: storable_def decode_ssh_transport_policy_def)
  with False assms(1,4) show ?thesis
    by (intro db_wf_rows [OF assms(1)]) (auto simp: put_row_def db_wf_def has_sandbox_iff)
qed

lemma put_row_find:
  "find (\<lambda>r. sr_id r = as_str (sd_id sb)) (db_sandboxes (put_row codec sb now db)) =
     Some (set_columns codec sb now
       (case find (\<lambda>r. sr_id r = as_str (sd_id sb)) (db_sandboxes db) of
          None \<Rightarrow> new_row sb | Some r \<Rightarrow> r))"
proof (cases "find (\<lambda>r. sr_id r = as_str (sd_id sb)) (db_sandboxes db)")
  case None
  then have none: "as_str (sd_id sb) \<notin> sr_id ` set (db_sandboxes db)" by (simp add: find_none_iff_id)
  then show ?thesis
    using None by (simp add: put_row_def has_sandbox_iff find_append)
next
  case (Some r)
  then have "sr_id r = as_str (sd_id sb)" "has_sandbox db (as_str (sd_id sb))"
    using find_member [OF Some] by (auto simp: has_sandbox_iff intro: rev_image_eqI)
  with Some show ?thesis
    by (simp add: put_row_def update_sandboxes_def find_map_update)
qed

section \<open>Operations and events\<close>

definition add_event :: "operation_id \<Rightarrow> operation_status \<Rightarrow> string option \<Rightarrow> string option \<Rightarrow> int \<Rightarrow> database \<Rightarrow> database" where
  "add_event i status details error_code now db =
     db \<lparr> db_events := db_events db @
            [\<lparr> er_sequence = db_event_sequence db + 1, er_operation = i,
               er_status = status_as_db status, er_details = details, er_error_code = error_code,
               er_timestamp = now \<rparr>],
          db_event_sequence := db_event_sequence db + 1 \<rparr>"

definition add_operation :: "string \<Rightarrow> operation_kind \<Rightarrow> database \<Rightarrow> database" where
  "add_operation i kind db =
     db \<lparr> db_operations := db_operations db @
            [\<lparr> or_id = db_operation_sequence db + 1, or_sandbox = i, or_kind = kind_as_db kind,
               or_status = status_as_db Pending, or_error_code = None, or_error_details = None \<rparr>],
          db_operation_sequence := db_operation_sequence db + 1 \<rparr>"

lemma add_event_fields [simp]:
  "db_sandboxes (add_event i st d c now db) = db_sandboxes db"
  "db_operations (add_event i st d c now db) = db_operations db"
  "db_operation_sequence (add_event i st d c now db) = db_operation_sequence db"
  "db_event_sequence (add_event i st d c now db) = db_event_sequence db + 1"
  by (simp_all add: add_event_def)

lemma add_operation_fields [simp]:
  "db_sandboxes (add_operation i kind db) = db_sandboxes db"
  "db_events (add_operation i kind db) = db_events db"
  "db_operation_sequence (add_operation i kind db) = db_operation_sequence db + 1"
  "db_event_sequence (add_operation i kind db) = db_event_sequence db"
  by (simp_all add: add_operation_def)

lemma finish_row_fields [simp]:
  "db_sandboxes (finish_row i st c d db) = db_sandboxes db"
  "db_events (finish_row i st c d db) = db_events db"
  "db_operation_sequence (finish_row i st c d db) = db_operation_sequence db"
  "db_event_sequence (finish_row i st c d db) = db_event_sequence db"
  "map or_id (db_operations (finish_row i st c d db)) = map or_id (db_operations db)"
  "map or_sandbox (db_operations (finish_row i st c d db)) = map or_sandbox (db_operations db)"
  by (simp_all add: finish_row_def)

lemma finish_row_ids [simp]:
  "or_id ` set (db_operations (finish_row i st c d db)) = or_id ` set (db_operations db)"
  unfolding set_map [symmetric] by simp

lemma trail_add_event:
  "trail (add_event i st d c now db) j = trail db j @ (if j = i then [status_as_db st] else [])"
  by (simp add: trail_def add_event_def)

lemma insert_event_Ok [simp]:
  "insert_event i st d c now db = Ok (row, db') \<longleftrightarrow>
     i \<in> or_id ` set (db_operations db) \<and> db' = add_event i st d c now db \<and>
     row = \<lparr> er_sequence = db_event_sequence db + 1, er_operation = i, er_status = status_as_db st,
             er_details = d, er_error_code = c, er_timestamp = now \<rparr>"
  by (auto simp: insert_event_def add_event_def Let_def list_ex_iff image_iff)

lemma insert_operation_Ok [simp]:
  "insert_operation i kind db = Ok (rowid, db') \<longleftrightarrow>
     has_sandbox db i \<and> \<not> has_pending db i \<and> rowid = db_operation_sequence db + 1 \<and>
     db' = add_operation i kind db"
  by (auto simp: insert_operation_def add_operation_def Let_def)

lemma has_pending_iff: "has_pending db i \<longleftrightarrow> (\<exists>r\<in>set (db_operations db). pending_row r \<and> or_sandbox r = i)"
  by (auto simp: has_pending_def list_ex_iff pending_row_def)

lemma decode_operation_Ok:
  "decode_operation codec r = Ok p \<longleftrightarrow>
     0 < or_id r \<and> op_id p = or_id r \<and> stored_id (or_sandbox r) = Ok (op_sandbox p) \<and>
     kind_from_db (or_kind r) = Ok (op_kind p) \<and> status_from_db (or_status r) = Ok (op_status p) \<and>
     op_error_code p = or_error_code r \<and>
     (case or_error_details r of None \<Rightarrow> Ok None | Some s \<Rightarrow> map_ok Some (parse_json codec s)) =
       Ok (op_error_details p)"
  by (cases p) (auto simp: decode_operation_def result_simps new_operation_id_def)

lemma status_from_db_Ok: "status_from_db v = Ok st \<longleftrightarrow> v = status_as_db st"
  by (cases st) (auto simp: status_from_db_def status_as_db.simps)

lemma is_okE: "is_ok r \<Longrightarrow> (\<And>x. r = Ok x \<Longrightarrow> P) \<Longrightarrow> P"
  by (cases r) auto

lemma event_ids_old:
  assumes "db_wf codec db" "e \<in> set (db_events db)"
  shows "er_operation e \<le> db_operation_sequence db"
  using assms by (auto simp: db_wf_def event_row_ok_def operation_row_ok_def)

lemma event_from_row_is_ok:
  assumes "codec_ok codec" "0 < i"
  shows "is_ok (event_from_row codec \<lparr> er_sequence = n, er_operation = i,
     er_status = status_as_db st, er_details = map_option (js_print codec) d, er_error_code = c,
     er_timestamp = now \<rparr>)"
  using assms by (cases d) (simp_all add: event_from_row_def new_operation_id_def)

lemma sorted_snoc_sequence:
  assumes "db_wf codec db"
  shows "sorted_wrt (<) (map er_sequence (db_events (add_event i st d c now db)))"
proof -
  have "\<forall>e\<in>set (db_events db). er_sequence e < db_event_sequence db + 1"
    using assms by (force simp: db_wf_def event_row_ok_def)
  then show ?thesis
    using assms by (auto simp: db_wf_def add_event_def sorted_wrt_append)
qed

lemma db_wf_begin:
  assumes wf: "db_wf codec db" and "codec_ok codec" "has_sandbox db i" "\<not> has_pending db i"
    "is_ok (stored_id i)"
  shows "db_wf codec (add_event (db_operation_sequence db + 1) Pending None None now (add_operation i kind db))"
    (is "db_wf codec ?db")
proof -
  let ?n = "db_operation_sequence db + 1"
  have fresh: "?n \<notin> or_id ` set (db_operations db)" and pos: "0 < ?n"
    using wf by (force simp: db_wf_def operation_row_ok_def)+
  have empty: "trail db ?n = []"
    using event_ids_old [OF wf] by (force simp: trail_def filter_empty_conv)
  have ids: "or_id ` set (db_operations ?db) = insert ?n (or_id ` set (db_operations db))"
    by (simp add: add_operation_def)
  have trails: "trail ?db j = trail db j @ (if j = ?n then [status_as_db Pending] else [])" for j
    by (simp add: trail_add_event) (simp add: trail_def)
  have "operation_row_ok codec ?db r \<and> audited ?db r" if "r \<in> set (db_operations ?db)" for r
  proof (cases "r \<in> set (db_operations db)")
    case True
    then have "or_id r \<noteq> ?n" using fresh by (metis imageI)
    moreover from True wf have "operation_row_ok codec db r" "audited db r" by (auto simp: db_wf_def)
    ultimately show ?thesis
      by (auto simp: operation_row_ok_def has_sandbox_iff audited_def trails)
  next
    case False
    with that have r: "r = \<lparr> or_id = ?n, or_sandbox = i, or_kind = kind_as_db kind,
      or_status = status_as_db Pending, or_error_code = None, or_error_details = None \<rparr>"
      by (simp add: add_operation_def)
    have "audited ?db r"
      by (simp add: audited_def trails r empty pending_row_def)
    moreover obtain j where "stored_id i = Ok j" using assms(5) by (rule is_okE)
    ultimately show ?thesis
      using assms(3) pos by (simp add: operation_row_ok_def r decode_operation_def new_operation_id_def
          has_sandbox_iff)
  qed
  moreover have "\<forall>e\<in>set (db_events ?db). event_row_ok codec ?db e"
    using wf event_from_row_is_ok [OF assms(2) pos, of _ Pending None] ids
    by (auto simp: db_wf_def event_row_ok_def add_event_def)
  moreover have "sorted_wrt (<) (map er_sequence (db_events ?db))"
    using sorted_snoc_sequence [OF wf] by (simp add: add_event_def)
  ultimately show ?thesis
    using wf fresh pos assms(4)
    by (auto simp: db_wf_def add_operation_def pending_row_def has_pending_iff)
qed

lemma db_wf_append_pending:
  assumes wf: "db_wf codec db" and "codec_ok codec" "r \<in> set (db_operations db)" "pending_row r"
  shows "db_wf codec (add_event (or_id r) Pending (map_option (js_print codec) d) c now db)"
    (is "db_wf codec ?db")
proof -
  have same: "q = r" if "q \<in> set (db_operations db)" "or_id q = or_id r" for q
    using wf assms(3) that by (auto simp: db_wf_def distinct_map inj_on_def)
  have "audited ?db q" if "q \<in> set (db_operations db)" for q
  proof -
    from wf that obtain n where n: "trail db (or_id q) =
        replicate (Suc n) (status_as_db Pending) @ (if pending_row q then [] else [or_status q])"
      by (auto simp: db_wf_def audited_def)
    show ?thesis
    proof (cases "or_id q = or_id r")
      case True
      with same that have "q = r" by blast
      then show ?thesis
        using n assms(4) unfolding audited_def trail_add_event
        by (intro exI [of _ "Suc n"]) (simp add: replicate_append_same)
    next
      case False
      then show ?thesis using n unfolding audited_def trail_add_event by auto
    qed
  qed
  moreover have "0 < or_id r"
    using wf assms(3) by (auto simp: db_wf_def operation_row_ok_def decode_operation_Ok elim!: is_okE)
  then have "\<forall>e\<in>set (db_events ?db). event_row_ok codec ?db e"
    using wf event_from_row_is_ok [OF assms(2)] assms(3)
    by (auto simp: db_wf_def event_row_ok_def add_event_def)
  moreover have "operation_row_ok codec ?db q \<longleftrightarrow> operation_row_ok codec db q" for q
    by (simp add: operation_row_ok_def has_sandbox_def)
  ultimately show ?thesis
    using wf sorted_snoc_sequence [OF wf] by (simp add: db_wf_def)
qed

definition finished ::
  "operation_id \<Rightarrow> operation_status \<Rightarrow> string option \<Rightarrow> string option \<Rightarrow> operation_row \<Rightarrow> operation_row" where
  "finished i status c d r =
     (if or_id r = i then r \<lparr> or_status := status_as_db status, or_error_code := c,
        or_error_details := d \<rparr> else r)"

lemma finish_row_operations: "db_operations (finish_row i st c d db) = map (finished i st c d) (db_operations db)"
  by (simp add: finish_row_def finished_def)

lemma finished_fields [simp]:
  "or_id (finished i st c d r) = or_id r" "or_sandbox (finished i st c d r) = or_sandbox r"
  by (simp_all add: finished_def)

lemma filter_finished_pending:
  assumes "st \<noteq> Pending"
  shows "filter pending_row (map (finished i st c d) rs) = filter (\<lambda>r. pending_row r \<and> or_id r \<noteq> i) rs"
  using assms by (induction rs) (auto simp: finished_def pending_row_def)

lemma db_wf_finish:
  assumes wf: "db_wf codec db" and "codec_ok codec" "r \<in> set (db_operations db)" "pending_row r"
    and "st \<noteq> Pending"
  shows "db_wf codec (add_event (or_id r) st (map_option (js_print codec) d) c now
    (finish_row (or_id r) st c (map_option (js_print codec) d) db))" (is "db_wf codec ?db")
proof -
  let ?f = "finished (or_id r) st c (map_option (js_print codec) d)"
  have same: "q = r" if "q \<in> set (db_operations db)" "or_id q = or_id r" for q
    using wf assms(3) that by (auto simp: db_wf_def distinct_map inj_on_def)
  have trails: "trail ?db j = trail db j @ (if j = or_id r then [status_as_db st] else [])" for j
    by (simp add: trail_add_event) (simp add: trail_def)
  have rows: "operation_row_ok codec ?db (?f q) \<and> audited ?db (?f q)" if q: "q \<in> set (db_operations db)" for q
  proof -
    have ok: "operation_row_ok codec db q" "audited db q" using wf q by (auto simp: db_wf_def)
    have "is_ok (decode_operation codec (?f q))"
      using ok(1) assms(2) by (cases d)
        (auto simp: operation_row_ok_def finished_def decode_operation_def new_operation_id_def
          elim!: is_okE simp: result_simps)
    moreover have "audited ?db (?f q)"
    proof (cases "or_id q = or_id r")
      case True
      with same q have "q = r" by blast
      with ok(2) assms(4) obtain n where "trail db (or_id r) = replicate (Suc n) (status_as_db Pending)"
        by (auto simp: audited_def)
      then show ?thesis
        using True assms(5) by (auto simp: audited_def trails finished_def pending_row_def)
    next
      case False
      then show ?thesis using ok(2) by (simp add: audited_def trails finished_def)
    qed
    ultimately show ?thesis using ok(1) by (simp add: operation_row_ok_def has_sandbox_def)
  qed
  have "0 < or_id r"
    using wf assms(3) by (auto simp: db_wf_def operation_row_ok_def decode_operation_Ok elim!: is_okE)
  then have "\<forall>e\<in>set (db_events ?db). event_row_ok codec ?db e"
    using wf event_from_row_is_ok [OF assms(2)] assms(3)
    by (auto simp: db_wf_def event_row_ok_def add_event_def)
  moreover have "sorted_wrt (<) (map er_sequence (db_events ?db))"
    using sorted_snoc_sequence [OF wf] by (simp add: add_event_def)
  moreover have "distinct (map or_sandbox (filter (\<lambda>q. pending_row q \<and> or_id q \<noteq> or_id r) (db_operations db)))"
  proof -
    have "distinct (map or_sandbox (filter (\<lambda>q. or_id q \<noteq> or_id r) (filter pending_row (db_operations db))))"
      by (rule distinct_map_filter) (use wf in \<open>simp add: db_wf_def\<close>)
    then show ?thesis by simp
  qed
  ultimately show ?thesis
    using wf rows by (simp add: db_wf_def finish_row_operations filter_finished_pending [OF assms(5)]
        comp_def)
qed

section \<open>What a committed transaction did\<close>

lemma load_operation_Some:
  "load_operation codec db i = Ok (Some p) \<longleftrightarrow>
     (\<exists>r. find (\<lambda>r. or_id r = i) (db_operations db) = Some r \<and> decode_operation codec r = Ok p)"
  by (auto simp: load_operation_def result_simps split: option.splits)

lemma ok_or_Ok: "ok_or e x = Ok y \<longleftrightarrow> x = Some y"
  by (cases x) auto

lemma begin_operation_Ok:
  assumes "begin_operation codec clock fault sb kind db = (Ok p, db')"
  obtains now now' where "validate_resolutions sb = Ok ()" "put_sandbox_in codec clock 0 sb db = Ok (put_row codec sb now db)"
    "clock 0 = Some now" "clock 1 = Some now'" "\<not> has_pending db (as_str (sd_id sb))"
    "db' = add_event (db_operation_sequence db + 1) Pending None None now'
       (add_operation (as_str (sd_id sb)) kind (put_row codec sb now db))"
    "load_operation codec db' (db_operation_sequence db + 1) = Ok (Some p)"
proof -
  from assms obtain db1 now' where b: "validate_resolutions sb = Ok ()"
    "put_sandbox_in codec clock 0 sb db = Ok db1" "\<not> has_pending db1 (as_str (sd_id sb))"
    "clock 1 = Some now'"
    "db' = add_event (db_operation_sequence db1 + 1) Pending None None now'
       (add_operation (as_str (sd_id sb)) kind db1)"
    "load_operation codec db' (db_operation_sequence db1 + 1) = Ok (Some p)"
    by (auto simp: begin_operation_def result_simps current_time_millis_def new_operation_id_def
        ok_or_Ok split: result.splits if_splits)
  obtain now where now: "clock 0 = Some now" "db1 = put_row codec sb now db"
    using b(2) by (rule put_sandbox_in_Ok)
  show thesis
    using that [of now now'] b now by (simp add: has_pending_def)
qed

lemma finish_operation_in_Ok:
  assumes "finish_operation_in codec clock i actual status error_code error_details clear db = Ok (x, db')"
  obtains p row current now now' where "load_operation codec db i = Ok (Some p)" "op_status p = Pending"
    "status = Completed \<or> status = Failed"
    "find (\<lambda>r. sr_id r = as_str (op_sandbox p)) (db_sandboxes db) = Some row"
    "actual_from_db (sr_actual row) = Ok current"
    "actual_transition current actual \<or> status = Failed \<and> rollback_transition (op_kind p) current actual"
    "clear \<longrightarrow> may_clear_ssh_trust (op_kind p) status actual"
    "clock 0 = Some now" "clock 1 = Some now'"
    "db' = add_event i status (map_option (js_print codec) error_details) error_code now'
       (finish_row i status error_code (map_option (js_print codec) error_details)
         (update_sandboxes (as_str (op_sandbox p)) (set_actual actual clear now) db))"
  using assms
  by (auto simp: finish_operation_in_def result_simps current_time_millis_def ok_or_Ok Let_def
      validate_operation_transition_def validate_terminal_actual_transition_def
      validate_actual_transition_def split: if_splits)

section \<open>Steps of the store\<close>

text \<open>Every call that may change the database.  Records written have the identity of a
  \<open>SandboxId\<close>, and policies are made by the two constructors of
  \<open>SshTransportPolicy\<close>.\<close>

definition policy_ok :: "ssh_transport_policy option \<Rightarrow> bool" where
  "policy_ok policy \<longleftrightarrow>
     (\<forall>p. policy = Some p \<longrightarrow> p = transport_disabled \<or> (\<exists>port. p = transport_enabled port))"

inductive store_step :: "json_codec \<Rightarrow> database \<Rightarrow> database \<Rightarrow> bool" for codec where
  step_put: "stored_id (as_str (sd_id sb)) = Ok (sd_id sb) \<Longrightarrow>
     store_step codec db (snd (put_sandbox codec clock fault sb db))"
| step_put_ssh: "stored_id (as_str (sd_id sb)) = Ok (sd_id sb) \<Longrightarrow> policy_ok policy \<Longrightarrow>
     store_step codec db (snd (put_sandbox_with_ssh_transport codec clock fault sb policy db))"
| step_ssh: "store_step codec db (snd (set_ssh_resolution codec clock fault i resolution db))"
| step_begin: "stored_id (as_str (sd_id sb)) = Ok (sd_id sb) \<Longrightarrow>
     store_step codec db (snd (begin_operation codec clock fault sb kind db))"
| step_append: "store_step codec db (snd (append_operation_event codec clock fault i details db))"
| step_finish: "store_step codec db
     (snd (finish_operation codec clock fault i actual status error_code details clear db))"

lemma db_wf_put_in:
  assumes "db_wf codec db" "codec_ok codec" "storable sb" "put_sandbox_in codec clock k sb db = Ok db'"
  shows "db_wf codec db'"
  using assms(4) by (rule put_sandbox_in_Ok) (auto intro: db_wf_put_row assms)

lemma db_wf_put:
  assumes "db_wf codec db" "codec_ok codec" "stored_id (as_str (sd_id sb)) = Ok (sd_id sb)"
  shows "db_wf codec (snd (put_sandbox codec clock fault sb db))"
proof (cases "validate_resolutions sb")
  case (Ok u)
  with assms(3) have "storable sb" by (simp add: storable_def)
  then have "db_wf codec (snd (transaction fault (\<lambda>db. map_ok (Pair ()) (put_sandbox_in codec clock 0 sb db)) db))"
    using db_wf_put_in [OF assms(1,2)]
    by (intro transaction_step [where R = "\<lambda>_. db_wf codec"]) (auto simp: assms(1) result_simps)
  then show ?thesis by (simp add: put_sandbox_def Ok)
qed (simp add: put_sandbox_def assms(1))

lemma transport_row_ok:
  assumes "sandbox_row_ok codec r" "\<And>n. port = Some n \<Longrightarrow> 1024 \<le> n \<and> n \<le> 65535"
    "(enabled, port) = (None, None) \<or> enabled = Some 1 \<or> enabled = Some 0 \<and> port = None"
  shows "sandbox_row_ok codec (r \<lparr> sr_transport_enabled := enabled, sr_transport_host_port := port \<rparr>)"
proof -
  have "is_ok (decode_ssh_transport_policy (enabled, port))"
    using assms(2) [of "the port"] assms(3) by (cases port) (auto simp: decode_ssh_transport_policy_def)
  with assms(1) show ?thesis by (simp add: sandbox_row_ok_def)
qed

lemma db_wf_set_transport:
  assumes "db_wf codec db" "policy_ok policy" "set_ssh_transport_policy_in i policy db = Ok db'"
  shows "db_wf codec db'"
proof -
  obtain enabled port :: "int option" where ep: "(case policy of None \<Rightarrow> (None, None)
      | Some p \<Rightarrow> (Some (if tp_enabled p then 1 else 0), map_option uint (tp_host_port p))) = (enabled, port)"
    by fastforce
  then have "(enabled, port) = (None, None) \<or> enabled = Some 1 \<or> enabled = Some 0 \<and> port = None"
    using assms(2) by (cases policy)
      (auto simp: policy_ok_def transport_disabled_def transport_enabled_def)
  moreover from assms(3) ep have
    db': "db' = update_sandboxes (as_str i)
       (\<lambda>r. r \<lparr> sr_transport_enabled := enabled, sr_transport_host_port := port \<rparr>) db"
    and "\<And>n. port = Some n \<Longrightarrow> 1024 \<le> n \<and> n \<le> 65535"
    by (auto simp: set_ssh_transport_policy_in_def split: if_splits)
  ultimately show ?thesis
    unfolding db' by (intro db_wf_update assms(1) transport_row_ok) auto
qed

lemma db_wf_put_ssh:
  assumes "db_wf codec db" "codec_ok codec" "stored_id (as_str (sd_id sb)) = Ok (sd_id sb)" "policy_ok policy"
  shows "db_wf codec (snd (put_sandbox_with_ssh_transport codec clock fault sb policy db))"
proof (cases "validate_resolutions sb")
  case (Ok u)
  with assms(3) have "storable sb" by (simp add: storable_def)
  then have "db_wf codec (snd (transaction fault (\<lambda>db.
      and_then (put_sandbox_in codec clock 0 sb db) (\<lambda>db.
      map_ok (Pair ()) (set_ssh_transport_policy_in (sd_id sb) policy db))) db))"
    by (intro transaction_step [where R = "\<lambda>_. db_wf codec"])
      (auto simp: assms(1) result_simps
        intro: db_wf_set_transport [OF db_wf_put_in [OF assms(1,2)] assms(4)])
  then show ?thesis by (simp add: put_sandbox_with_ssh_transport_def Ok)
qed (simp add: put_sandbox_with_ssh_transport_def assms(1))

lemma db_wf_set_ssh:
  assumes "db_wf codec db" "codec_ok codec"
  shows "db_wf codec (snd (set_ssh_resolution codec clock fault i resolution db))"
proof (cases "case resolution of None \<Rightarrow> Ok () | Some r \<Rightarrow> validate_ssh_resolution r")
  case (Ok u)
  then have "\<And>r. resolution = Some r \<Longrightarrow> res_version r \<noteq> 0"
    by (auto simp: validate_ssh_resolution_def validate_resolution_version_def result_simps split: if_splits)
  then have "read_resolution codec (encode_resolution codec resolution) = Ok resolution"
    by (intro read_encode_resolution assms(2))
  then have "sandbox_row_ok codec r \<Longrightarrow>
      sandbox_row_ok codec (r \<lparr> sr_ssh := encode_resolution codec resolution, sr_updated_at := now \<rparr>)" for r now
    by (simp add: sandbox_row_ok_def)
  then show ?thesis
    unfolding set_ssh_resolution_def Ok result.case
    by (intro transaction_step [where R = "\<lambda>_. db_wf codec"])
      (auto simp: assms(1) result_simps split: if_splits intro!: db_wf_update)
qed (simp add: set_ssh_resolution_def assms(1))

lemma db_wf_begin_operation:
  assumes "db_wf codec db" "codec_ok codec" "stored_id (as_str (sd_id sb)) = Ok (sd_id sb)"
  shows "db_wf codec (snd (begin_operation codec clock fault sb kind db))"
proof (cases "fst (begin_operation codec clock fault sb kind db)")
  case (Ok p)
  define db' where "db' = snd (begin_operation codec clock fault sb kind db)"
  have "begin_operation codec clock fault sb kind db = (Ok p, db')"
    using Ok by (simp add: db'_def prod_eq_iff)
  then show ?thesis
    unfolding db'_def [symmetric]
  proof (rule begin_operation_Ok)
    fix now now'
    assume b: "validate_resolutions sb = Ok ()" "put_sandbox_in codec clock 0 sb db = Ok (put_row codec sb now db)"
      "\<not> has_pending db (as_str (sd_id sb))"
      "db' = add_event (db_operation_sequence db + 1) Pending None None now'
         (add_operation (as_str (sd_id sb)) kind (put_row codec sb now db))"
    have "storable sb" using assms(3) b(1) by (simp add: storable_def)
    then have "db_wf codec (put_row codec sb now db)" using db_wf_put_in [OF assms(1,2) _ b(2)] by simp
    from db_wf_begin [OF this assms(2), of "as_str (sd_id sb)"] b(3) assms(3)
    show "db_wf codec db'"
      by (simp add: b(4) has_pending_def has_sandbox_iff put_row_ids)
  qed
next
  case (Err e)
  then have "snd (begin_operation codec clock fault sb kind db) = db"
    by (auto simp: begin_operation_def transaction_def split: result.splits option.splits prod.splits)
  with assms(1) show ?thesis by simp
qed

lemma find_operation_row:
  assumes "load_operation codec db i = Ok (Some p)"
  obtains r where "r \<in> set (db_operations db)" "or_id r = i" "decode_operation codec r = Ok p"
  using assms unfolding load_operation_Some by (auto dest: find_member)

lemma pending_decoded: "decode_operation codec r = Ok p \<Longrightarrow> pending_row r \<longleftrightarrow> op_status p = Pending"
  by (auto simp: decode_operation_Ok pending_row_def status_from_db_Ok)

lemma db_wf_append_event:
  assumes "db_wf codec db" "codec_ok codec"
  shows "db_wf codec (snd (append_operation_event codec clock fault i details db))"
  unfolding append_operation_event_def
proof (rule transaction_step [where R = "\<lambda>_. db_wf codec"])
  fix x db'
  assume "and_then (load_operation codec db i) (\<lambda>operation.
       and_then (ok_or (OperationNotFound i) operation) (\<lambda>operation.
       if op_status operation \<noteq> Pending then
         Err (InvalidTransition (status_as_db (op_status operation)) (status_as_db Pending))
       else
         and_then (current_time_millis clock 0) (\<lambda>now.
         and_then (insert_event i Pending (Some (js_print codec details)) None now db) (\<lambda>(row, db).
         Ok (\<lparr> ev_sequence = er_sequence row, ev_operation = i, ev_status = Pending,
                ev_details = Some details, ev_error_code = None,
                ev_timestamp = er_timestamp row \<rparr>, db))))) = Ok (x, db')"
  then obtain p now where p: "load_operation codec db i = Ok (Some p)" "op_status p = Pending"
    "db' = add_event i Pending (Some (js_print codec details)) None now db"
    by (auto simp: result_simps ok_or_Ok split: if_splits)
  obtain r where "r \<in> set (db_operations db)" "or_id r = i" "decode_operation codec r = Ok p"
    using p(1) by (rule find_operation_row)
  with p(2,3) show "db_wf codec db'"
    using db_wf_append_pending [OF assms, of r "Some details" None now] by (simp add: pending_decoded)
qed (rule assms)

lemma set_actual_row_ok: "sandbox_row_ok codec r \<Longrightarrow> sandbox_row_ok codec (set_actual actual clear now r)"
  by (simp add: sandbox_row_ok_def set_actual_def Let_def)

lemma set_actual_fields [simp]:
  "sr_id (set_actual actual clear now r) = sr_id r" "sr_root (set_actual actual clear now r) = sr_root r"
  "sr_actual (set_actual actual clear now r) = actual_as_db actual"
  by (simp_all add: set_actual_def Let_def)

lemma db_wf_finish_operation:
  assumes "db_wf codec db" "codec_ok codec"
  shows "db_wf codec (snd (finish_operation codec clock fault i actual status error_code details clear db))"
  unfolding finish_operation_def
proof (rule transaction_step [where R = "\<lambda>_. db_wf codec"])
  fix x db'
  assume "finish_operation_in codec clock i actual status error_code details clear db = Ok (x, db')"
  then show "db_wf codec db'"
  proof (rule finish_operation_in_Ok)
    fix p :: operation_record and row :: sandbox_row and current now now'
    assume p: "load_operation codec db i = Ok (Some p)" "op_status p = Pending"
      "status = Completed \<or> status = Failed"
      "db' = add_event i status (map_option (js_print codec) details) error_code now'
       (finish_row i status error_code (map_option (js_print codec) details)
         (update_sandboxes (as_str (op_sandbox p)) (set_actual actual clear now) db))"
    let ?db = "update_sandboxes (as_str (op_sandbox p)) (set_actual actual clear now) db"
    have "db_wf codec ?db" by (intro db_wf_update assms(1) set_actual_row_ok) simp_all
    moreover obtain r where "r \<in> set (db_operations db)" "or_id r = i" "decode_operation codec r = Ok p"
      using p(1) by (rule find_operation_row)
    ultimately show "db_wf codec db'"
      using db_wf_finish [of codec ?db r status details error_code now'] p(2-4) assms(2)
      by (auto simp: pending_decoded)
  qed
qed (rule assms)

lemma store_step_wf:
  assumes "store_step codec db db'" "codec_ok codec" "db_wf codec db"
  shows "db_wf codec db'"
  using assms
  by (induction rule: store_step.induct)
    (simp_all add: db_wf_put db_wf_put_ssh db_wf_set_ssh db_wf_begin_operation db_wf_append_event
      db_wf_finish_operation)

text \<open>C14. The database invariant.  Every database that calls of the store produce from the empty
  one satisfies it: identities and roots are unique and every row decodes, no sandbox has two
  pending operations, every operation and event refers to an existing row, event numbers increase,
  and the audit trail of an operation is pending events followed, exactly when the operation is
  finished, by one event with its final status.\<close>

theorem store_invariant:
  assumes "codec_ok codec" and "(store_step codec)\<^sup>*\<^sup>* empty_database db"
  shows "db_wf codec db"
  using assms(2) by induction (auto simp: db_wf_empty intro: store_step_wf assms(1))

section \<open>The abstract store\<close>

text \<open>What the service relies on: the recorded state of every sandbox and the operation that is
  in progress on it.\<close>

record abs_store =
  as_actual :: "string \<rightharpoonup> actual_state"
  as_pending :: "string \<rightharpoonup> operation_kind"

definition actual_of :: "database \<Rightarrow> string \<Rightarrow> actual_state option" where
  "actual_of db i =
     Option.bind (find (\<lambda>r. sr_id r = i) (db_sandboxes db)) (\<lambda>r. ok (actual_from_db (sr_actual r)))"

definition pending_of :: "database \<Rightarrow> string \<Rightarrow> operation_kind option" where
  "pending_of db i =
     Option.bind (find (\<lambda>r. or_sandbox r = i) (filter pending_row (db_operations db)))
       (\<lambda>r. ok (kind_from_db (or_kind r)))"

definition abstraction :: "database \<Rightarrow> abs_store" where
  "abstraction db = \<lparr> as_actual = actual_of db, as_pending = pending_of db \<rparr>"

definition may_become :: "abs_store \<Rightarrow> string \<Rightarrow> actual_state \<Rightarrow> bool" where
  "may_become s i a \<longleftrightarrow> (\<forall>old. as_actual s i = Some old \<longrightarrow> actual_transition old a)"

inductive abs_step :: "abs_store \<Rightarrow> abs_store \<Rightarrow> bool" where
  abs_keep: "abs_step s s"
| abs_put: "may_become s i a \<Longrightarrow> abs_step s (s \<lparr> as_actual := (as_actual s)(i \<mapsto> a) \<rparr>)"
| abs_begin: "may_become s i a \<Longrightarrow> as_pending s i = None \<Longrightarrow>
     abs_step s (s \<lparr> as_actual := (as_actual s)(i \<mapsto> a), as_pending := (as_pending s)(i \<mapsto> kind) \<rparr>)"
| abs_finish: "as_pending s i = Some kind \<Longrightarrow> as_actual s i = Some old \<Longrightarrow>
     actual_transition old a \<or> rollback_transition kind old a \<Longrightarrow>
     abs_step s (s \<lparr> as_actual := (as_actual s)(i \<mapsto> a), as_pending := (as_pending s)(i := None) \<rparr>)"

lemma put_row_find_other:
  assumes "i \<noteq> as_str (sd_id sb)"
  shows "find (\<lambda>r. sr_id r = i) (db_sandboxes (put_row codec sb now db)) =
    find (\<lambda>r. sr_id r = i) (db_sandboxes db)"
proof -
  have "find (\<lambda>r. sr_id r = i) (map (\<lambda>r. if sr_id r = as_str (sd_id sb) then set_columns codec sb now r else r) rs) =
      find (\<lambda>r. sr_id r = i) rs" for rs
    using assms by (induction rs) auto
  then show ?thesis
    using assms by (auto simp: put_row_def update_sandboxes_def find_append split: option.split)
qed

lemma actual_of_put_row:
  "actual_of (put_row codec sb now db) = (actual_of db)(as_str (sd_id sb) \<mapsto> sd_actual sb)"
proof
  fix i
  show "actual_of (put_row codec sb now db) i = ((actual_of db)(as_str (sd_id sb) \<mapsto> sd_actual sb)) i"
  proof (cases "i = as_str (sd_id sb)")
    case True
    then show ?thesis by (simp add: actual_of_def put_row_find set_columns_def)
  next
    case False
    then show ?thesis by (simp add: actual_of_def put_row_find_other)
  qed
qed

lemma actual_of_update:
  assumes "\<And>r. sr_id (f r) = sr_id r" "\<And>r. actual_from_db (sr_actual (f r)) = Ok a"
    "has_sandbox db i"
  shows "actual_of (update_sandboxes i f db) = (actual_of db)(i \<mapsto> a)"
proof
  fix j
  show "actual_of (update_sandboxes i f db) j = ((actual_of db)(i \<mapsto> a)) j"
  proof (cases "find (\<lambda>r. sr_id r = j) (db_sandboxes db)")
    case None
    with assms(3) have "j \<noteq> i" by (auto simp: find_none_iff_id has_sandbox_iff)
    then show ?thesis
      by (simp add: actual_of_def update_sandboxes_def find_map_update [OF assms(1)] None)
  next
    case (Some r)
    with find_member [OF Some] assms(2) show ?thesis
      by (simp add: actual_of_def update_sandboxes_def find_map_update [OF assms(1)])
  qed
qed

lemma actual_of_update_same:
  assumes "\<And>r. sr_id (f r) = sr_id r" "\<And>r. sr_actual (f r) = sr_actual r"
  shows "actual_of (update_sandboxes i f db) = actual_of db"
  by (simp add: fun_eq_iff actual_of_def update_sandboxes_def find_map_update [OF assms(1)]
      option.map_comp assms(2) bind_map_option comp_def if_distrib cong: if_cong)

lemma actual_of_cong: "db_sandboxes db = db_sandboxes db' \<Longrightarrow> actual_of db = actual_of db'"
  by (simp add: fun_eq_iff actual_of_def)

lemma pending_of_cong: "db_operations db = db_operations db' \<Longrightarrow> pending_of db = pending_of db'"
  by (simp add: fun_eq_iff pending_of_def)

lemma find_distinct: "distinct (map f xs) \<Longrightarrow> x \<in> set xs \<Longrightarrow> find (\<lambda>y. f y = f x) xs = Some x"
  by (induction xs) (auto simp: image_iff)

lemma find_filter_irrelevant: "(\<forall>x\<in>set xs. P x \<longrightarrow> R x) \<Longrightarrow> find P (filter R xs) = find P xs"
  by (induction xs) auto

lemma pending_find:
  assumes "db_wf codec db" "r \<in> set (db_operations db)" "pending_row r"
  shows "find (\<lambda>q. or_sandbox q = or_sandbox r) (filter pending_row (db_operations db)) = Some r"
  using assms by (intro find_distinct) (auto simp: db_wf_def)

lemma pending_of_decoded:
  assumes "db_wf codec db" "r \<in> set (db_operations db)" "pending_row r" "decode_operation codec r = Ok p"
  shows "pending_of db (or_sandbox r) = Some (op_kind p)"
  using assms(4) by (simp add: pending_of_def pending_find [OF assms(1-3)] decode_operation_Ok)

lemma operation_decodes:
  assumes "db_wf codec db" "r \<in> set (db_operations db)"
  obtains p where "decode_operation codec r = Ok p"
proof -
  have "is_ok (decode_operation codec r)" using assms by (simp add: db_wf_def operation_row_ok_def)
  then show thesis using that by (rule is_okE)
qed

lemma pending_of_None:
  assumes "db_wf codec db"
  shows "pending_of db i = None \<longleftrightarrow> \<not> has_pending db i"
proof (cases "has_pending db i")
  case True
  then obtain r where r: "r \<in> set (db_operations db)" "pending_row r" "or_sandbox r = i"
    by (auto simp: has_pending_iff)
  obtain p where "decode_operation codec r = Ok p" using assms r(1) by (rule operation_decodes)
  with pending_of_decoded [OF assms r(1,2)] r(3) True show ?thesis by simp
next
  case False
  then have "find (\<lambda>r. or_sandbox r = i) (filter pending_row (db_operations db)) = None"
    by (auto simp: find_None_iff has_pending_iff)
  with False show ?thesis by (simp add: pending_of_def)
qed

lemma pending_of_add_operation:
  assumes "\<not> has_pending db i"
  shows "pending_of (add_operation i kind db) = (pending_of db)(i \<mapsto> kind)"
proof -
  have "find (\<lambda>r. or_sandbox r = i) (filter pending_row (db_operations db)) = None"
    using assms by (auto simp: find_None_iff has_pending_iff)
  then show ?thesis
    by (auto simp: fun_eq_iff pending_of_def add_operation_def find_append pending_row_def
        split: option.split)
qed

lemma pending_of_finish_row:
  assumes wf: "db_wf codec db" and r: "r \<in> set (db_operations db)" "pending_row r" and "st \<noteq> Pending"
  shows "pending_of (finish_row (or_id r) st c d db) = (pending_of db)(or_sandbox r := None)"
proof
  fix j
  have rows: "filter pending_row (db_operations (finish_row (or_id r) st c d db)) =
      filter (\<lambda>q. or_id q \<noteq> or_id r) (filter pending_row (db_operations db))"
    by (simp add: finish_row_operations filter_finished_pending [OF assms(4)] conj_commute)
  have same: "q = r" if "q \<in> set (db_operations db)" "or_id q = or_id r" for q
    using wf r(1) that by (auto simp: db_wf_def distinct_map inj_on_def)
  show "pending_of (finish_row (or_id r) st c d db) j = ((pending_of db)(or_sandbox r := None)) j"
  proof (cases "j = or_sandbox r")
    case True
    have "q = r" if "q \<in> set (filter pending_row (db_operations db))" "or_sandbox q = or_sandbox r" for q
      using wf r that by (auto simp: db_wf_def distinct_map inj_on_def)
    then have "find (\<lambda>q. or_sandbox q = j) (filter (\<lambda>q. or_id q \<noteq> or_id r) (filter pending_row (db_operations db))) = None"
      using True by (auto simp: find_None_iff)
    then show ?thesis using True by (simp only: pending_of_def rows) simp
  next
    case False
    then have "find (\<lambda>q. or_sandbox q = j) (filter (\<lambda>q. or_id q \<noteq> or_id r) (filter pending_row (db_operations db))) =
        find (\<lambda>q. or_sandbox q = j) (filter pending_row (db_operations db))"
      using same by (intro find_filter_irrelevant) auto
    then have "pending_of (finish_row (or_id r) st c d db) j = pending_of db j"
      by (simp only: pending_of_def rows)
    then show ?thesis using False by simp
  qed
qed

lemma stored_id_as_str: "stored_id s = Ok i \<Longrightarrow> as_str i = s"
  by (auto simp: stored_id_def try_from_def result_simps split: outcome.splits)

lemma put_in_may_become:
  assumes "put_sandbox_in codec clock k sb db = Ok db'"
  shows "may_become (abstraction db) (as_str (sd_id sb)) (sd_actual sb)"
  using assms
proof (rule put_sandbox_in_Ok)
  assume "\<And>r. find (\<lambda>r. sr_id r = as_str (sd_id sb)) (db_sandboxes db) = Some r \<Longrightarrow>
       \<exists>old. decode_sandbox codec db r = Ok old \<and> path_eq (sd_root old) (sd_root sb) \<and>
         actual_transition (sd_actual old) (sd_actual sb)"
  then show ?thesis
    by (fastforce simp: may_become_def abstraction_def actual_of_def bind_eq_Some_conv decode_sandbox_Ok)
qed

lemma abs_put_in:
  assumes "put_sandbox_in codec clock k sb db = Ok db'"
  shows "abstraction db' = (abstraction db) \<lparr> as_actual := (as_actual (abstraction db))(as_str (sd_id sb) \<mapsto> sd_actual sb) \<rparr>"
  using assms
  by (rule put_sandbox_in_Ok) (auto simp: abstraction_def actual_of_put_row intro: pending_of_cong)

lemma begin_refines:
  assumes "db_wf codec db" "codec_ok codec" "stored_id (as_str (sd_id sb)) = Ok (sd_id sb)"
  shows "abs_step (abstraction db) (abstraction (snd (begin_operation codec clock fault sb kind db)))"
proof (cases "fst (begin_operation codec clock fault sb kind db)")
  case (Ok p)
  define db' where "db' = snd (begin_operation codec clock fault sb kind db)"
  let ?i = "as_str (sd_id sb)"
  have "begin_operation codec clock fault sb kind db = (Ok p, db')"
    using Ok by (simp add: db'_def prod_eq_iff)
  then show ?thesis
    unfolding db'_def [symmetric]
  proof (rule begin_operation_Ok)
    fix now now'
    assume b: "put_sandbox_in codec clock 0 sb db = Ok (put_row codec sb now db)"
      "\<not> has_pending db ?i"
      "db' = add_event (db_operation_sequence db + 1) Pending None None now'
         (add_operation ?i kind (put_row codec sb now db))"
    have np: "\<not> has_pending (put_row codec sb now db) ?i" using b(2) by (simp add: has_pending_def)
    have "actual_of db' = actual_of (put_row codec sb now db)" unfolding b(3) by (rule actual_of_cong) simp
    moreover have "pending_of db' = pending_of (add_operation ?i kind (put_row codec sb now db))"
      unfolding b(3) by (rule pending_of_cong) simp
    moreover have "pending_of (put_row codec sb now db) = pending_of db" by (rule pending_of_cong) simp
    ultimately have "abstraction db' = (abstraction db) \<lparr> as_actual := (as_actual (abstraction db))(?i \<mapsto> sd_actual sb),
        as_pending := (as_pending (abstraction db))(?i \<mapsto> kind) \<rparr>"
      by (simp add: abstraction_def actual_of_put_row pending_of_add_operation [OF np])
    moreover have "as_pending (abstraction db) ?i = None"
      using b(2) pending_of_None [OF assms(1)] by (simp add: abstraction_def)
    ultimately show "abs_step (abstraction db) (abstraction db')"
      using put_in_may_become [OF b(1)] by (simp add: abs_begin)
  qed
next
  case (Err e)
  then have "snd (begin_operation codec clock fault sb kind db) = db"
    by (auto simp: begin_operation_def transaction_def split: result.splits option.splits prod.splits)
  then show ?thesis by (simp add: abs_keep)
qed

text \<open>What finishing an operation does to the abstract database.\<close>

lemma finish_abstraction:
  assumes "db_wf codec db" "codec_ok codec"
    and finish: "finish_operation_in codec clock i actual status error_code details clear db = Ok (x, db')"
  obtains p current where "load_operation codec db i = Ok (Some p)"
    "abstraction db' = (abstraction db) \<lparr>
       as_actual := (as_actual (abstraction db))(as_str (op_sandbox p) \<mapsto> actual),
       as_pending := (as_pending (abstraction db))(as_str (op_sandbox p) := None) \<rparr>"
    "as_pending (abstraction db) (as_str (op_sandbox p)) = Some (op_kind p)"
    "as_actual (abstraction db) (as_str (op_sandbox p)) = Some current"
    "actual_transition current actual \<or> status = Failed \<and> rollback_transition (op_kind p) current actual"
    "status = Completed \<or> status = Failed"
  using finish
proof (rule finish_operation_in_Ok)
  fix p :: operation_record and row :: sandbox_row and current now now'
  let ?s = "as_str (op_sandbox p)"
  let ?db = "update_sandboxes ?s (set_actual actual clear now) db"
  assume p: "load_operation codec db i = Ok (Some p)" "op_status p = Pending"
    "status = Completed \<or> status = Failed"
    "find (\<lambda>r. sr_id r = ?s) (db_sandboxes db) = Some row"
    "actual_from_db (sr_actual row) = Ok current"
    "actual_transition current actual \<or> status = Failed \<and> rollback_transition (op_kind p) current actual"
    "db' = add_event i status (map_option (js_print codec) details) error_code now'
       (finish_row i status error_code (map_option (js_print codec) details) ?db)"
  obtain r where r: "r \<in> set (db_operations db)" "or_id r = i" "decode_operation codec r = Ok p"
    using p(1) by (rule find_operation_row)
  have pend: "pending_row r" using pending_decoded [OF r(3)] p(2) by simp
  have sand: "or_sandbox r = ?s"
    using r(3) by (auto simp: decode_operation_Ok dest: stored_id_as_str)
  have "has_sandbox db ?s" using find_member [OF p(4)] by (auto simp: has_sandbox_iff intro: rev_image_eqI)
  then have "actual_of ?db = (actual_of db)(?s \<mapsto> actual)"
    by (intro actual_of_update) simp_all
  moreover have "actual_of db' = actual_of ?db" unfolding p(7) by (rule actual_of_cong) simp
  moreover have "pending_of db' = pending_of (finish_row i status error_code (map_option (js_print codec) details) db)"
    unfolding p(7) by (rule pending_of_cong) (simp add: finish_row_def)
  moreover have "\<dots> = (pending_of db)(?s := None)"
    using pending_of_finish_row [OF assms(1) r(1) pend, of status] p(3) r(2) sand by auto
  ultimately have "abstraction db' = (abstraction db) \<lparr> as_actual := (as_actual (abstraction db))(?s \<mapsto> actual),
      as_pending := (as_pending (abstraction db))(?s := None) \<rparr>"
    by (simp add: abstraction_def)
  moreover have "as_pending (abstraction db) ?s = Some (op_kind p)"
    using pending_of_decoded [OF assms(1) r(1) pend r(3)] sand by (simp add: abstraction_def)
  moreover have "as_actual (abstraction db) ?s = Some current" using p(4,5) by (simp add: abstraction_def actual_of_def)
  ultimately show thesis using that p(1,3,6) by blast
qed

lemma finish_refines:
  assumes "db_wf codec db" "codec_ok codec"
  shows "abs_step (abstraction db)
    (abstraction (snd (finish_operation codec clock fault i actual status error_code details clear db)))"
  unfolding finish_operation_def
proof (rule transaction_step [where R = "\<lambda>_ db'. abs_step (abstraction db) (abstraction db')"])
  fix x db'
  assume "finish_operation_in codec clock i actual status error_code details clear db = Ok (x, db')"
  then show "abs_step (abstraction db) (abstraction db')"
    by (rule finish_abstraction [OF assms]) (auto intro: abs_finish)
qed (rule abs_keep)

lemma put_refines:
  shows "abs_step (abstraction db) (abstraction (snd (put_sandbox codec clock fault sb db)))"
proof (cases "validate_resolutions sb")
  case (Ok u)
  show ?thesis
    unfolding put_sandbox_def Ok result.case
    by (intro transaction_step [where R = "\<lambda>_ db'. abs_step (abstraction db) (abstraction db')"])
      (auto simp: abs_keep result_simps abs_put_in put_in_may_become intro!: abs_put)
qed (simp add: put_sandbox_def abs_keep)

lemma set_transport_abs: "set_ssh_transport_policy_in i policy db = Ok db' \<Longrightarrow> abstraction db' = abstraction db"
  by (auto simp: set_ssh_transport_policy_in_def abstraction_def actual_of_update_same
      intro: pending_of_cong split: if_splits prod.splits)

lemma put_ssh_refines:
  "abs_step (abstraction db) (abstraction (snd (put_sandbox_with_ssh_transport codec clock fault sb policy db)))"
proof (cases "validate_resolutions sb")
  case (Ok u)
  show ?thesis
    unfolding put_sandbox_with_ssh_transport_def Ok result.case
    by (intro transaction_step [where R = "\<lambda>_ db'. abs_step (abstraction db) (abstraction db')"])
      (auto simp: abs_keep result_simps abs_put_in put_in_may_become set_transport_abs intro!: abs_put)
qed (simp add: put_sandbox_with_ssh_transport_def abs_keep)

lemma set_ssh_refines:
  "abs_step (abstraction db) (abstraction (snd (set_ssh_resolution codec clock fault i resolution db)))"
proof (cases "case resolution of None \<Rightarrow> Ok () | Some r \<Rightarrow> validate_ssh_resolution r")
  case (Ok u)
  have "abstraction (update_sandboxes j (\<lambda>r. r \<lparr> sr_ssh := encode_resolution codec resolution, sr_updated_at := now \<rparr>) db) = abstraction db" for j now
    by (simp add: abstraction_def actual_of_update_same) (rule pending_of_cong, simp)
  then have "abs_step (abstraction db)
      (abstraction (update_sandboxes j (\<lambda>r. r \<lparr> sr_ssh := encode_resolution codec resolution, sr_updated_at := now \<rparr>) db))" for j now
    by (simp only: abs_keep)
  then show ?thesis
    unfolding set_ssh_resolution_def Ok result.case
    by (intro transaction_step [where R = "\<lambda>_ db'. abs_step (abstraction db) (abstraction db')"])
      (auto simp: abs_keep result_simps split: if_splits)
qed (simp add: set_ssh_resolution_def abs_keep)

lemma append_refines:
  "abs_step (abstraction db) (abstraction (snd (append_operation_event codec clock fault i details db)))"
proof -
  have "abstraction (add_event j st d c now db) = abstraction db" for j st d c now
    by (simp add: abstraction_def actual_of_cong [of "add_event j st d c now db" db]
        pending_of_cong [of "add_event j st d c now db" db])
  then show ?thesis
    unfolding append_operation_event_def
    by (intro transaction_step [where R = "\<lambda>_ db'. abs_step (abstraction db) (abstraction db')"])
      (auto simp: abs_keep result_simps split: if_splits)
qed

text \<open>C3. The database refines the abstract store.  Seen as the recorded state of each sandbox and
  its operation in progress, every call of the store either changes nothing or makes one abstract
  step: a record is written along an allowed transition, an operation begins where none is in
  progress, or the operation in progress ends along an allowed transition or a rollback of its kind.\<close>

theorem store_refines:
  assumes "store_step codec db db'" and "codec_ok codec" and "db_wf codec db"
  shows "abs_step (abstraction db) (abstraction db')"
  using assms
  by (induction rule: store_step.induct)
    (simp_all add: put_refines put_ssh_refines set_ssh_refines begin_refines append_refines finish_refines)

section \<open>History\<close>

definition keeps_operations :: "operation_row list \<Rightarrow> operation_row list \<Rightarrow> bool" where
  "keeps_operations old new \<longleftrightarrow>
     (\<forall>r\<in>set old. \<exists>q\<in>set new.
        or_id q = or_id r \<and> or_sandbox q = or_sandbox r \<and> or_kind q = or_kind r \<and>
        (pending_row r \<or> q = r))"

definition history_kept :: "database \<Rightarrow> database \<Rightarrow> bool" where
  "history_kept db db' \<longleftrightarrow>
     prefix (db_events db) (db_events db') \<and> keeps_operations (db_operations db) (db_operations db')"

lemma keeps_refl: "keeps_operations rs rs"
  by (auto simp: keeps_operations_def)

lemma keeps_trans: "keeps_operations a b \<Longrightarrow> keeps_operations b c \<Longrightarrow> keeps_operations a c"
  unfolding keeps_operations_def by metis

interpretation hist: stepwise history_kept
  by unfold_locales (auto simp: history_kept_def keeps_refl intro: prefix_order.trans keeps_trans)

lemma history_same:
  "db_events db' = db_events db \<Longrightarrow> db_operations db' = db_operations db \<Longrightarrow> history_kept db db'"
  by (simp add: history_kept_def keeps_refl)

lemma history_add_event: "history_kept db (add_event i st d c now db)"
  by (simp add: history_kept_def add_event_def keeps_refl)

lemma history_add_operation: "history_kept db (add_operation i kind db)"
  by (auto simp: history_kept_def add_operation_def keeps_operations_def)

lemma history_finish_row:
  assumes "r \<in> set (db_operations db)" "pending_row r" "distinct (map or_id (db_operations db))"
  shows "history_kept db (finish_row (or_id r) st c d db)"
proof -
  have "q = r" if "q \<in> set (db_operations db)" "or_id q = or_id r" for q
    using assms that by (auto simp: distinct_map inj_on_def)
  then have "pending_row q \<or> finished (or_id r) st c d q = q" if "q \<in> set (db_operations db)" for q
    using that assms(2) by (auto simp: finished_def)
  moreover have "or_kind (finished (or_id r) st c d q) = or_kind q" for q by (simp add: finished_def)
  ultimately show ?thesis
    by (simp add: history_kept_def keeps_operations_def finish_row_operations) blast
qed

lemma put_in_history: "put_sandbox_in codec clock k sb db = Ok db' \<Longrightarrow> history_kept db db'"
  by (erule put_sandbox_in_Ok) (simp add: history_same)

lemma put_history: "history_kept db (snd (put_sandbox codec clock fault sb db))"
proof (cases "validate_resolutions sb")
  case (Ok u)
  show ?thesis
    unfolding put_sandbox_def Ok result.case
    by (intro transaction_step [where R = history_kept])
      (auto simp: hist.step_refl result_simps put_in_history)
qed (simp add: put_sandbox_def hist.step_refl)

lemma set_transport_history: "set_ssh_transport_policy_in i policy db = Ok db' \<Longrightarrow> history_kept db db'"
  by (auto simp: set_ssh_transport_policy_in_def intro!: history_same split: if_splits prod.splits)

lemma put_ssh_history: "history_kept db (snd (put_sandbox_with_ssh_transport codec clock fault sb policy db))"
proof (cases "validate_resolutions sb")
  case (Ok u)
  show ?thesis
    unfolding put_sandbox_with_ssh_transport_def Ok result.case
    by (intro transaction_step [where R = history_kept])
      (auto simp: hist.step_refl result_simps
        intro: hist.step_trans [OF put_in_history set_transport_history])
qed (simp add: put_sandbox_with_ssh_transport_def hist.step_refl)

lemma set_ssh_history: "history_kept db (snd (set_ssh_resolution codec clock fault i resolution db))"
proof (cases "case resolution of None \<Rightarrow> Ok () | Some r \<Rightarrow> validate_ssh_resolution r")
  case (Ok u)
  show ?thesis
    unfolding set_ssh_resolution_def Ok result.case
    by (rule transaction_step [where R = history_kept])
      (auto simp: hist.step_refl result_simps split: if_splits intro: history_same)
qed (simp add: set_ssh_resolution_def hist.step_refl)

lemma append_history: "history_kept db (snd (append_operation_event codec clock fault i details db))"
  unfolding append_operation_event_def
  by (intro transaction_step [where R = history_kept])
    (auto simp: hist.step_refl result_simps history_add_event split: if_splits)

lemma begin_history: "history_kept db (snd (begin_operation codec clock fault sb kind db))"
proof (cases "fst (begin_operation codec clock fault sb kind db)")
  case (Ok p)
  define db' where "db' = snd (begin_operation codec clock fault sb kind db)"
  have "begin_operation codec clock fault sb kind db = (Ok p, db')"
    using Ok by (simp add: db'_def prod_eq_iff)
  then show ?thesis
    unfolding db'_def [symmetric]
    by (rule begin_operation_Ok)
      (auto intro: hist.step_trans [OF put_in_history]
        hist.step_trans [OF history_add_operation history_add_event])
next
  case (Err e)
  then have "snd (begin_operation codec clock fault sb kind db) = db"
    by (auto simp: begin_operation_def transaction_def split: result.splits option.splits prod.splits)
  then show ?thesis by (simp add: hist.step_refl)
qed

lemma finish_history:
  assumes "db_wf codec db"
  shows "history_kept db (snd (finish_operation codec clock fault i actual status error_code details clear db))"
  unfolding finish_operation_def
proof (rule transaction_step [where R = history_kept])
  fix x db'
  assume "finish_operation_in codec clock i actual status error_code details clear db = Ok (x, db')"
  then show "history_kept db db'"
  proof (rule finish_operation_in_Ok)
    fix p :: operation_record and now now'
    let ?db = "update_sandboxes (as_str (op_sandbox p)) (set_actual actual clear now) db"
    assume p: "load_operation codec db i = Ok (Some p)" "op_status p = Pending"
      "db' = add_event i status (map_option (js_print codec) details) error_code now'
         (finish_row i status error_code (map_option (js_print codec) details) ?db)"
    obtain r where r: "r \<in> set (db_operations db)" "or_id r = i" "decode_operation codec r = Ok p"
      using p(1) by (rule find_operation_row)
    have "history_kept db ?db" by (rule history_same) simp_all
    moreover have "history_kept ?db (finish_row i status error_code (map_option (js_print codec) details) ?db)"
      using history_finish_row [of r ?db] r pending_decoded [OF r(3)] p(2) assms by (simp add: db_wf_def)
    ultimately show "history_kept db db'"
      unfolding p(3) using history_add_event hist.step_trans by blast
  qed
qed (rule hist.step_refl)

lemma store_step_history:
  assumes "store_step codec db db'" "db_wf codec db"
  shows "history_kept db db'"
  using assms
  by (induction rule: store_step.induct)
    (simp_all add: put_history put_ssh_history set_ssh_history begin_history append_history finish_history)

text \<open>C20. History is append-only.  Over any sequence of calls the events recorded before stay, in
  place and unchanged, as a prefix of the events afterwards; an operation is never forgotten and
  keeps its sandbox and kind, and a finished operation never changes again.\<close>

theorem history_append_only:
  assumes "codec_ok codec" and "db_wf codec db" and "(store_step codec)\<^sup>*\<^sup>* db db'"
  shows "history_kept db db'"
proof -
  from assms(3) have "history_kept db db' \<and> db_wf codec db'"
  proof induction
    case base
    then show ?case using assms(2) by (simp add: hist.step_refl)
  next
    case (step y z)
    then show ?case
      using store_step_history store_step_wf [OF _ assms(1)] hist.step_trans by blast
  qed
  then show ?thesis ..
qed

section \<open>Reading back what was written\<close>

lemma last_operation_positive:
  assumes "db_wf codec db" "last_operation db i = Some n"
  shows "0 < n"
proof -
  let ?ids = "map or_id (filter (\<lambda>r. or_sandbox r = i) (db_operations db))"
  have "n = Max (set ?ids)" "?ids \<noteq> []"
    using assms(2) by (auto simp: last_operation_def Let_def split: if_splits)
  then have "n \<in> set ?ids" by (simp del: set_map set_filter)
  then obtain r where "r \<in> set (db_operations db)" "n = or_id r" by auto
  moreover from operation_decodes [OF assms(1) this(1)] have "0 < or_id r"
    by (auto simp: decode_operation_Ok)
  ultimately show ?thesis by simp
qed

lemma last_operation_cong: "db_operations db = db_operations db' \<Longrightarrow> last_operation db i = last_operation db' i"
  by (simp add: last_operation_def)

definition stored_root :: "database \<Rightarrow> sandbox_record \<Rightarrow> string" where
  "stored_root db sb =
     (case find (\<lambda>r. sr_id r = as_str (sd_id sb)) (db_sandboxes db) of
        None \<Rightarrow> sd_root sb | Some r \<Rightarrow> sr_root r)"

lemma put_row_read_back:
  assumes "db_wf codec db" "codec_ok codec" "storable sb"
  shows "get_sandbox codec (sd_id sb) (put_row codec sb now db) =
    Ok (Some (sb \<lparr> sd_root := stored_root db sb,
      sd_last_operation := last_operation db (as_str (sd_id sb)), sd_updated_at := now \<rparr>))"
proof -
  let ?r = "case find (\<lambda>r. sr_id r = as_str (sd_id sb)) (db_sandboxes db) of None \<Rightarrow> new_row sb | Some r \<Rightarrow> r"
  have id: "sr_id ?r = as_str (sd_id sb)" by (auto split: option.split dest: find_member)
  have root: "sr_root ?r = stored_root db sb" by (simp add: stored_root_def split: option.split)
  have last: "last_operation (put_row codec sb now db) i = last_operation db i" for i
    by (rule last_operation_cong) simp
  have "decode_sandbox codec (put_row codec sb now db) (set_columns codec sb now ?r) =
      Ok (sb \<lparr> sd_root := stored_root db sb,
        sd_last_operation := last_operation db (as_str (sd_id sb)), sd_updated_at := now \<rparr>)"
    using assms(3) last_operation_positive [OF assms(1)]
    by (simp add: decode_sandbox_Ok read_set_columns [OF assms(2,3)] id root last storable_def)
  then show ?thesis
    by (simp add: get_sandbox_def load_sandbox_def put_row_find)
qed

text \<open>C24. What is written is read back.  After a successful \<open>put_sandbox\<close> the record is found
  under its identity exactly as given, except that the identity keeps the root it was first stored
  with, and the last operation and the time of the update are those of the database.\<close>

theorem put_sandbox_read_back:
  assumes "db_wf codec db" and "codec_ok codec"
    and "stored_id (as_str (sd_id sb)) = Ok (sd_id sb)"
    and "put_sandbox codec clock fault sb db = (Ok (), db')"
  shows "\<exists>now. clock 0 = Some now \<and>
    get_sandbox codec (sd_id sb) db' =
      Ok (Some (sb \<lparr> sd_root := stored_root db sb,
        sd_last_operation := last_operation db (as_str (sd_id sb)), sd_updated_at := now \<rparr>)) \<and>
    path_eq (stored_root db sb) (sd_root sb)"
proof -
  have v: "validate_resolutions sb = Ok ()" and p: "put_sandbox_in codec clock 0 sb db = Ok db'"
    using assms(4) by (auto simp: put_sandbox_def result_simps split: result.splits)
  have st: "storable sb" using v assms(3) by (simp add: storable_def)
  from p show ?thesis
  proof (rule put_sandbox_in_Ok)
    fix now
    assume n: "clock 0 = Some now" "db' = put_row codec sb now db"
      "\<And>r. find (\<lambda>r. sr_id r = as_str (sd_id sb)) (db_sandboxes db) = Some r \<Longrightarrow>
       \<exists>old. decode_sandbox codec db r = Ok old \<and> path_eq (sd_root old) (sd_root sb) \<and>
         actual_transition (sd_actual old) (sd_actual sb)"
    have "path_eq (stored_root db sb) (sd_root sb)"
      using n(3) by (cases "find (\<lambda>r. sr_id r = as_str (sd_id sb)) (db_sandboxes db)")
        (auto simp: stored_root_def decode_sandbox_Ok path_eq_def)
    with n put_row_read_back [OF assms(1,2) st, of now] show ?thesis by auto
  qed
qed

section \<open>Exactly when operations begin and end\<close>

definition begun :: "sandbox_record \<Rightarrow> operation_kind \<Rightarrow> database \<Rightarrow> operation_record" where
  "begun sb kind db =
     \<lparr> op_id = db_operation_sequence db + 1, op_sandbox = sd_id sb, op_kind = kind,
       op_status = Pending, op_error_code = None, op_error_details = None \<rparr>"

lemma load_begun:
  assumes "db_wf codec db" "stored_id (as_str (sd_id sb)) = Ok (sd_id sb)"
  shows "load_operation codec (add_event n st d c now (add_operation (as_str (sd_id sb)) kind db))
    (db_operation_sequence db + 1) = Ok (Some (begun sb kind db))"
proof -
  have "find (\<lambda>r. or_id r = db_operation_sequence db + 1) (db_operations db) = None"
    using assms(1) by (force simp: find_None_iff db_wf_def operation_row_ok_def)
  moreover have "0 \<le> db_operation_sequence db" using assms(1) by (simp add: db_wf_def)
  ultimately show ?thesis
    using assms(2) by (simp add: load_operation_def add_operation_def find_append decode_operation_def
        new_operation_id_def begun_def)
qed

lemma begin_operation_eq:
  assumes "db_wf codec db" and "codec_ok codec" and "storable sb"
    and "clock 0 = Some now" and "clock 1 = Some now'"
  shows "begin_operation codec clock None sb kind db =
    (case put_sandbox_in codec clock 0 sb db of
       Err e \<Rightarrow> (Err e, db)
     | Ok db1 \<Rightarrow>
         if has_pending db (as_str (sd_id sb)) then (Err (PendingOperationExists (sd_id sb)), db)
         else (Ok (begun sb kind db),
           add_event (db_operation_sequence db + 1) Pending None None now'
             (add_operation (as_str (sd_id sb)) kind db1)))"
proof (cases "put_sandbox_in codec clock 0 sb db")
  case (Err e)
  then show ?thesis using assms(3) by (simp add: begin_operation_def transaction_def storable_def)
next
  case (Ok db1)
  have db1: "db1 = put_row codec sb now db"
    using Ok by (rule put_sandbox_in_Ok) (simp add: assms(4))
  have same: "has_pending db1 i = has_pending db i" "db_operation_sequence db1 = db_operation_sequence db"
    "begun sb kind db1 = begun sb kind db" for i
    by (simp_all add: db1 has_pending_def begun_def)
  show ?thesis
  proof (cases "has_pending db (as_str (sd_id sb))")
    case True
    then show ?thesis
      using assms(3) Ok by (simp add: begin_operation_def transaction_def storable_def same)
  next
    case False
    have id: "stored_id (as_str (sd_id sb)) = Ok (sd_id sb)" using assms(3) by (simp add: storable_def)
    have ins: "insert_operation (as_str (sd_id sb)) kind db1 =
        Ok (db_operation_sequence db + 1, add_operation (as_str (sd_id sb)) kind db1)"
      using False by (simp add: same) (simp add: db1 has_sandbox_iff put_row_ids)
    have new: "new_operation_id (db_operation_sequence db + 1) = Ok (db_operation_sequence db + 1)"
      using assms(1) by (simp add: db_wf_def new_operation_id_def)
    have event: "insert_event (db_operation_sequence db + 1) Pending None None now'
        (add_operation (as_str (sd_id sb)) kind db1) =
      Ok (\<lparr> er_sequence = db_event_sequence db1 + 1, er_operation = db_operation_sequence db + 1,
            er_status = status_as_db Pending, er_details = None, er_error_code = None, er_timestamp = now' \<rparr>,
          add_event (db_operation_sequence db + 1) Pending None None now'
            (add_operation (as_str (sd_id sb)) kind db1))"
      by (simp add: same) (simp add: add_operation_def same)
    have "db_wf codec db1" using db_wf_put_in [OF assms(1-3) Ok] .
    note load = load_begun [OF this id, of _ Pending None None now' kind, unfolded same]
    show ?thesis
      using assms(3,5) False
      by (simp add: begin_operation_def transaction_def storable_def same current_time_millis_def
          Ok ins new event load)
  qed
qed

text \<open>C21. \<open>begin_operation\<close>, call by call.  For a storable record and a readable clock it
  fails exactly when writing the record fails or the sandbox has an operation in progress, and
  otherwise returns a fresh pending operation and records it with its first event; the foreign key
  and the uniqueness constraints of the schema are never what stops it.\<close>

theorem begin_operation_exact:
  assumes "db_wf codec db" and "codec_ok codec" and "storable sb"
    and "clock 0 = Some now" and "clock 1 = Some now'"
  shows "begin_operation codec clock None sb kind db =
    (case put_sandbox_in codec clock 0 sb db of
       Err e \<Rightarrow> (Err e, db)
     | Ok db1 \<Rightarrow>
         if has_pending db (as_str (sd_id sb)) then (Err (PendingOperationExists (sd_id sb)), db)
         else (Ok (begun sb kind db),
           add_event (db_operation_sequence db + 1) Pending None None now'
             (add_operation (as_str (sd_id sb)) kind db1)))"
  using assms by (rule begin_operation_eq)

lemma ok_Some [simp]: "ok x = Some y \<longleftrightarrow> x = Ok y"
  by (cases x) auto

lemma actual_of_Some:
  "actual_of db i = Some a \<longleftrightarrow>
     (\<exists>r. find (\<lambda>r. sr_id r = i) (db_sandboxes db) = Some r \<and> actual_from_db (sr_actual r) = Ok a)"
  by (auto simp: actual_of_def bind_eq_Some_conv)

lemma load_finished:
  assumes "load_operation codec db i = Ok (Some p)" "codec_ok codec"
  shows "load_operation codec (add_event n st' d' c' now
      (finish_row i st c (map_option (js_print codec) d) (update_sandboxes j f db))) i =
    Ok (Some (p \<lparr> op_status := st, op_error_code := c, op_error_details := d \<rparr>))"
proof -
  from assms(1) obtain r where r: "find (\<lambda>r. or_id r = i) (db_operations db) = Some r"
    "decode_operation codec r = Ok p" unfolding load_operation_Some by blast
  have "find (\<lambda>r. or_id r = i) (map (finished i st c e) rs) = map_option (finished i st c e) (find (\<lambda>r. or_id r = i) rs)"
    for rs e by (induction rs) auto
  then have "find (\<lambda>r. or_id r = i) (db_operations (add_event n st' d' c' now
      (finish_row i st c (map_option (js_print codec) d) (update_sandboxes j f db)))) =
    Some (finished i st c (map_option (js_print codec) d) r)"
    using r(1) by (simp add: finish_row_operations)
  moreover have "decode_operation codec (finished i st c (map_option (js_print codec) d) r) =
      Ok (p \<lparr> op_status := st, op_error_code := c, op_error_details := d \<rparr>)"
    using r(2) find_member [OF r(1)] assms(2) by (cases d) (auto simp: decode_operation_Ok finished_def)
  ultimately show ?thesis by (simp add: load_operation_def)
qed

text \<open>When an operation may end, and the database after it did.\<close>

definition may_finish ::
  "json_codec \<Rightarrow> database \<Rightarrow> operation_id \<Rightarrow> actual_state \<Rightarrow> operation_status \<Rightarrow> bool \<Rightarrow> bool" where
  "may_finish codec db i actual status clear \<longleftrightarrow>
     (\<exists>p a. load_operation codec db i = Ok (Some p) \<and> op_status p = Pending \<and> status \<noteq> Pending \<and>
        actual_of db (as_str (op_sandbox p)) = Some a \<and>
        (actual_transition a actual \<or> status = Failed \<and> rollback_transition (op_kind p) a actual) \<and>
        (clear \<longrightarrow> may_clear_ssh_trust (op_kind p) status actual))"

lemma finish_in_may_finish:
  assumes "finish_operation_in codec clock i actual status error_code error_details clear db = Ok (x, db')"
  shows "may_finish codec db i actual status clear"
  using assms by (rule finish_operation_in_Ok) (auto simp: may_finish_def actual_of_Some)

lemma finish_in_eq:
  assumes "codec_ok codec" "clock 0 = Some now" "clock 1 = Some now'"
    and p: "load_operation codec db i = Ok (Some p)" "op_status p = Pending" "status \<noteq> Pending"
    and a: "actual_of db (as_str (op_sandbox p)) = Some a"
    and t: "actual_transition a actual \<or> status = Failed \<and> rollback_transition (op_kind p) a actual"
    and c: "clear \<longrightarrow> may_clear_ssh_trust (op_kind p) status actual"
  shows "finish_operation_in codec clock i actual status error_code error_details clear db =
    Ok ((p \<lparr> op_status := status, op_error_code := error_code, op_error_details := error_details \<rparr>,
         \<lparr> ev_sequence = db_event_sequence db + 1, ev_operation = i, ev_status = status,
           ev_details = error_details, ev_error_code = error_code, ev_timestamp = now' \<rparr>),
      add_event i status (map_option (js_print codec) error_details) error_code now'
       (finish_row i status error_code (map_option (js_print codec) error_details)
         (update_sandboxes (as_str (op_sandbox p)) (set_actual actual clear now) db)))"
    (is "_ = Ok (_, add_event i status ?d error_code now' ?db)")
proof -
  obtain row where row: "find (\<lambda>r. sr_id r = as_str (op_sandbox p)) (db_sandboxes db) = Some row"
    "actual_from_db (sr_actual row) = Ok a" using a by (auto simp: actual_of_Some)
  obtain r where r: "r \<in> set (db_operations db)" "or_id r = i" "decode_operation codec r = Ok p"
    using p(1) by (rule find_operation_row)
  have st: "validate_operation_transition (op_status p) status = Ok ()"
    using p(2,3) by (cases status) (simp_all add: validate_operation_transition_def)
  have tr: "validate_terminal_actual_transition a actual (op_kind p) status = Ok ()"
    using t by (auto simp: validate_terminal_actual_transition_def validate_actual_transition_def)
  have ids: "i \<in> or_id ` set (db_operations ?db)" using r by auto
  have insert: "insert_event i status ?d error_code now' ?db =
      Ok (\<lparr> er_sequence = db_event_sequence db + 1, er_operation = i, er_status = status_as_db status,
            er_details = ?d, er_error_code = error_code, er_timestamp = now' \<rparr>,
          add_event i status ?d error_code now' ?db)"
    using ids by simp
  have "0 < i" using r by (simp add: decode_operation_Ok)
  then have event: "event_from_row codec \<lparr> er_sequence = db_event_sequence db + 1, er_operation = i,
      er_status = status_as_db status, er_details = ?d, er_error_code = error_code, er_timestamp = now' \<rparr> =
    Ok \<lparr> ev_sequence = db_event_sequence db + 1, ev_operation = i, ev_status = status,
         ev_details = error_details, ev_error_code = error_code, ev_timestamp = now' \<rparr>"
    using assms(1) by (cases error_details) (simp_all add: event_from_row_def new_operation_id_def)
  show ?thesis
    using c assms(2,3)
    by (simp add: finish_operation_in_def p(1) st [unfolded p(2)] p(2) row tr insert event Let_def
        current_time_millis_def load_finished [OF p(1) assms(1)])
qed

text \<open>C13. An operation ends exactly once and only along an allowed transition.  With a readable
  clock, \<open>finish_operation\<close> succeeds exactly when the operation exists and is pending, the
  final status is terminal, the recorded state of its sandbox may become the new one (or a failed
  create or destroy rolls back), and SSH trust is cleared only where it may be; the operation then
  reads back with its final status and the sandbox has its new state, and otherwise nothing
  changes.\<close>

theorem finish_operation_exact:
  assumes "db_wf codec db" and "codec_ok codec" and "clock 0 = Some now" and "clock 1 = Some now'"
  shows "case finish_operation codec clock None i actual status error_code error_details clear db of
      (Ok (p, e), db') \<Rightarrow>
        may_finish codec db i actual status clear \<and>
        load_operation codec db' i = Ok (Some p) \<and> op_status p = status \<and>
        ev_operation e = i \<and> ev_status e = status \<and>
        actual_of db' (as_str (op_sandbox p)) = Some actual
    | (Err _, db') \<Rightarrow> \<not> may_finish codec db i actual status clear \<and> db' = db"
proof (cases "may_finish codec db i actual status clear")
  case False
  then obtain e where "finish_operation_in codec clock i actual status error_code error_details clear db = Err e"
    using finish_in_may_finish by (metis result.exhaust surj_pair)
  with False show ?thesis by (simp add: finish_operation_def transaction_def)
next
  case True
  then obtain p a where
    p: "load_operation codec db i = Ok (Some p)" "op_status p = Pending" "status \<noteq> Pending"
      "actual_of db (as_str (op_sandbox p)) = Some a"
      "actual_transition a actual \<or> status = Failed \<and> rollback_transition (op_kind p) a actual"
      "clear \<longrightarrow> may_clear_ssh_trust (op_kind p) status actual"
    unfolding may_finish_def by blast
  let ?db = "update_sandboxes (as_str (op_sandbox p)) (set_actual actual clear now) db"
  have "has_sandbox db (as_str (op_sandbox p))"
    using p(4) by (auto simp: actual_of_Some has_sandbox_iff dest!: find_member intro: rev_image_eqI)
  then have "actual_of ?db (as_str (op_sandbox p)) = Some actual"
    using actual_of_update [of "set_actual actual clear now" actual] by simp
  then have "actual_of (add_event i status d c n (finish_row i status c d ?db)) (as_str (op_sandbox p)) = Some actual"
    for d c n using actual_of_cong [of "add_event i status d c n (finish_row i status c d ?db)" ?db] by simp
  then show ?thesis
    using True by (simp add: finish_operation_def transaction_def finish_in_eq [OF assms(2-4) p]
        load_finished [OF p(1) assms(2)])
qed

section \<open>Examples\<close>

instance json :: countable
  by countable_datatype

definition example_codec :: json_codec where
  "example_codec =
     \<lparr> js_print = (\<lambda>v. replicate (to_nat v) CHR ''0''), js_parse = (\<lambda>s. Some (from_nat (length s))) \<rparr>"

lemma example_codec_ok: "codec_ok example_codec"
  by (simp add: codec_ok_def example_codec_def)

definition example_record :: sandbox_record where
  "example_record =
     \<lparr> sd_id = SandboxId ''demo-0123456789ab'', sd_root = ''/work'', sd_desired = DesiredRunning,
       sd_actual = ActualCreating, sd_setup = None, sd_tool = None, sd_image = None,
       sd_storage = None, sd_ssh = None, sd_last_operation = None, sd_updated_at = 0 \<rparr>"

abbreviation example_clock :: clock where
  "example_clock \<equiv> \<lambda>k. Some 7"

lemma example_stored_id: "stored_id (as_str (sd_id example_record)) = Ok (sd_id example_record)"
  by code_simp

lemma example_storable: "storable example_record"
  unfolding storable_def
  by (simp add: example_stored_id) (simp add: example_record_def validate_resolutions_def)

lemma example_put_in:
  "put_sandbox_in example_codec example_clock k example_record empty_database =
     Ok (put_row example_codec example_record 7 empty_database)"
  by (simp add: put_sandbox_in_def load_sandbox_def check_root_owner_def upsert_sandbox_def Let_def
      put_row_def has_sandbox_def current_time_millis_def empty_database_def)

lemma example_fields:
  "\<not> has_pending empty_database i" "db_operation_sequence empty_database = 0"
  "as_str (sd_id example_record) = ''demo-0123456789ab''"
  by (simp_all add: has_pending_def empty_database_def example_record_def)

definition example_db :: database where
  "example_db = snd (begin_operation example_codec example_clock None example_record OpCreate empty_database)"

theorem begin_operation_exact_witness:
  "begin_operation example_codec example_clock None example_record OpCreate empty_database =
     (Ok (begun example_record OpCreate empty_database),
      add_event 1 Pending None None 7 (add_operation ''demo-0123456789ab'' OpCreate
        (put_row example_codec example_record 7 empty_database)))"
  using begin_operation_exact [OF db_wf_empty example_codec_ok example_storable, of example_clock 7 7 OpCreate]
  by (simp add: example_put_in example_fields)

lemma example_step: "store_step example_codec empty_database example_db"
  unfolding example_db_def by (rule step_begin) (rule example_stored_id)

theorem store_invariant_witness: "db_wf example_codec example_db"
  using store_invariant [OF example_codec_ok r_into_rtranclp, OF example_step] .

theorem store_refines_witness:
  "abs_step (abstraction empty_database) (abstraction example_db)"
  using store_refines [OF example_step example_codec_ok db_wf_empty] .

lemma example_db_wf: "db_wf example_codec example_db"
  using store_step_wf [OF example_step example_codec_ok db_wf_empty] .

theorem history_append_only_witness:
  "history_kept example_db (snd (append_operation_event example_codec example_clock None 1 JNull example_db))"
  using history_append_only [OF example_codec_ok example_db_wf r_into_rtranclp, OF step_append] .

theorem put_sandbox_read_back_witness:
  "\<exists>db' sb. put_sandbox example_codec example_clock None example_record empty_database = (Ok (), db') \<and>
     get_sandbox example_codec (sd_id example_record) db' = Ok (Some sb) \<and>
     sd_actual sb = ActualCreating \<and> sd_updated_at sb = 7"
proof -
  have put: "put_sandbox example_codec example_clock None example_record empty_database =
      (Ok (), put_row example_codec example_record 7 empty_database)"
    using example_storable by (simp add: put_sandbox_def storable_def example_put_in)
  from put_sandbox_read_back [OF db_wf_empty example_codec_ok example_stored_id put]
  obtain sb where "get_sandbox example_codec (sd_id example_record)
      (put_row example_codec example_record 7 empty_database) = Ok (Some sb)"
    "sd_actual sb = sd_actual example_record" "sd_updated_at sb = 7" by auto
  with put show ?thesis by (auto simp: example_record_def)
qed

lemma example_begun: "load_operation example_codec example_db 1 = Ok (Some (begun example_record OpCreate empty_database))"
proof -
  have "begin_operation example_codec example_clock None example_record OpCreate empty_database =
      (Ok (begun example_record OpCreate empty_database), example_db)"
    using begin_operation_eq [OF db_wf_empty example_codec_ok example_storable, of example_clock 7 7 OpCreate]
    by (simp add: example_db_def example_put_in example_fields)
  then show ?thesis
    by (rule begin_operation_Ok) (simp add: example_fields)
qed

theorem finish_operation_exact_witness:
  "is_ok (fst (finish_operation example_codec example_clock None 1 ActualRunning Completed None None False example_db)) \<and>
   is_err (fst (finish_operation example_codec example_clock None 1 ActualDestroying Failed None None False example_db))"
proof -
  let ?fin = "\<lambda>actual status. finish_operation example_codec example_clock None 1 actual status None None False example_db"
  have sand: "op_sandbox (begun example_record OpCreate empty_database) = sd_id example_record"
    by (simp add: begun_def)
  have "actual_of example_db (as_str (sd_id example_record)) = Some ActualCreating"
  proof -
    have eq: "example_db = add_event 1 Pending None None 7 (add_operation (as_str (sd_id example_record)) OpCreate
        (put_row example_codec example_record 7 empty_database))"
      using begin_operation_eq [OF db_wf_empty example_codec_ok example_storable, of example_clock 7 7 OpCreate]
      by (simp add: example_db_def example_put_in example_fields)
    have "db_sandboxes example_db = db_sandboxes (put_row example_codec example_record 7 empty_database)"
      unfolding eq by simp
    then have "actual_of example_db = actual_of (put_row example_codec example_record 7 empty_database)"
      by (rule actual_of_cong)
    then show ?thesis by (simp add: actual_of_put_row) (simp add: example_record_def)
  qed
  then have may: "may_finish example_codec example_db 1 actual status False \<longleftrightarrow> status \<noteq> Pending \<and>
      (actual_transition ActualCreating actual \<or> status = Failed \<and> rollback_transition OpCreate ActualCreating actual)"
    for actual status
    by (simp add: may_finish_def example_begun sand) (auto simp: begun_def)
  have run: "may_finish example_codec example_db 1 ActualRunning Completed False"
    and destroy: "\<not> may_finish example_codec example_db 1 ActualDestroying Failed False"
    by (simp_all add: may actual_transition_def rollback_transition_def)
  from finish_operation_exact [OF example_db_wf example_codec_ok, of example_clock 7 7 1 ActualRunning Completed False None None]
  have "is_ok (fst (?fin ActualRunning Completed))"
    using run by (cases "?fin ActualRunning Completed"; cases "fst (?fin ActualRunning Completed)") auto
  moreover from finish_operation_exact [OF example_db_wf example_codec_ok, of example_clock 7 7 1 ActualDestroying Failed False None None]
  have "is_err (fst (?fin ActualDestroying Failed))"
    using destroy by (cases "?fin ActualDestroying Failed"; cases "fst (?fin ActualDestroying Failed)") auto
  ultimately show ?thesis ..
qed

end
