(* ===== verification/Schema.thy ===== *)
theory Schema
  imports Store "HOL-Library.Product_Lexorder"
begin

text \<open>
  Opening the database (\<open>Store::open\<close> and \<open>initialize_schema\<close> in
  \<open>gascand/src/store.rs\<close>) and the SQL migrations.  A database is its catalog
  (\<open>sqlite_master\<close> and what the pragmas \<open>table_info\<close>,
  \<open>foreign_key_list\<close>, \<open>index_list\<close> and \<open>index_info\<close> report) with
  the rows of its tables; a migration is the list of its SQL statements.

  Parameters (record \<open>engine\<close>): how SQLite rewrites the stored text of a table when a
  column is added, which trigger texts abort an UPDATE, the reading of \<open>unixepoch()\<close>, and
  whether a commit is refused.
\<close>

section \<open>Databases\<close>

datatype cell = NullCell | IntegerCell int | TextCell string

type_synonym sql_row = "(string \<times> cell) list"

type_synonym column = "string \<times> string \<times> int \<times> int"

type_synonym foreign_key = "string \<times> string \<times> string \<times> string \<times> string \<times> string"

record master_row =
  ma_type :: string
  ma_name :: string
  ma_table :: string
  ma_sql :: "string option"

record index_info =
  ix_name :: string
  ix_unique :: bool
  ix_partial :: bool
  ix_columns :: "string list"

record sqlite =
  sq_master :: "master_row list"
  sq_columns :: "string \<Rightarrow> column list"
  sq_foreign_keys :: "string \<Rightarrow> foreign_key list"
  sq_indexes :: "string \<Rightarrow> index_info list"
  sq_rows :: "string \<Rightarrow> sql_row list"
  sq_user_version :: int

record engine =
  en_alter :: "string \<Rightarrow> column \<Rightarrow> string"
  en_aborts_update :: "string \<Rightarrow> string option"
  en_now :: int
  en_fault :: "string option"

section \<open>Statements of the migrations\<close>

datatype sql_statement =
    CreateTable string "column list" "foreign_key list" "index_info list" bool string
  | CreateIndex string index_info string
  | CreateTrigger string string string
  | AddColumn string column cell
  | InsertInto string sql_row
  | Update string string cell "(string \<times> cell) option"

definition table_exists :: "string \<Rightarrow> sqlite \<Rightarrow> bool" where
  "table_exists t db \<longleftrightarrow> list_ex (\<lambda>m. ma_type m = ''table'' \<and> ma_name m = t) (sq_master db)"

definition name_taken :: "string \<Rightarrow> sqlite \<Rightarrow> bool" where
  "name_taken n db \<longleftrightarrow> list_ex (\<lambda>m. ma_name m = n) (sq_master db)"

definition sequence_table :: master_row where
  "sequence_table =
     \<lparr> ma_type = ''table'', ma_name = ''sqlite_sequence'', ma_table = ''sqlite_sequence'',
       ma_sql = Some ''CREATE TABLE sqlite_sequence(name,seq)'' \<rparr>"

definition create_table ::
  "string \<Rightarrow> column list \<Rightarrow> foreign_key list \<Rightarrow> index_info list \<Rightarrow> bool \<Rightarrow> string \<Rightarrow> sqlite \<Rightarrow> sqlite" where
  "create_table t cs fks ixs autoincrement text db =
     db \<lparr> sq_master := sq_master db @
            \<lparr> ma_type = ''table'', ma_name = t, ma_table = t, ma_sql = Some text \<rparr> #
            map (\<lambda>ix. \<lparr> ma_type = ''index'', ma_name = ix_name ix, ma_table = t, ma_sql = None \<rparr>) ixs @
            (if autoincrement \<and> \<not> table_exists ''sqlite_sequence'' db then [sequence_table] else []),
          sq_columns := (sq_columns db)(t := cs),
          sq_foreign_keys := (sq_foreign_keys db)(t := fks),
          sq_indexes := (sq_indexes db)(t := ixs),
          sq_rows := (sq_rows db)(t := []) \<rparr>"

definition alter_master :: "engine \<Rightarrow> string \<Rightarrow> column \<Rightarrow> master_row \<Rightarrow> master_row" where
  "alter_master en t c m =
     (if ma_type m = ''table'' \<and> ma_name m = t
      then m \<lparr> ma_sql := map_option (\<lambda>text. en_alter en text c) (ma_sql m) \<rparr> else m)"

definition add_column :: "engine \<Rightarrow> string \<Rightarrow> column \<Rightarrow> cell \<Rightarrow> sqlite \<Rightarrow> sqlite" where
  "add_column en t c d db =
     db \<lparr> sq_master := map (alter_master en t c) (sq_master db),
          sq_columns := (sq_columns db)(t := sq_columns db t @ [c]),
          sq_rows := (sq_rows db)(t := map (\<lambda>r. r @ [(fst c, d)]) (sq_rows db t)) \<rparr>"

definition row_matches :: "(string \<times> cell) option \<Rightarrow> sql_row \<Rightarrow> bool" where
  "row_matches cond r \<longleftrightarrow> (case cond of None \<Rightarrow> True | Some (c, v) \<Rightarrow> map_of r c = Some v)"

definition set_cell :: "string \<Rightarrow> cell \<Rightarrow> sql_row \<Rightarrow> sql_row" where
  "set_cell c v = map (\<lambda>(c', v'). if c' = c then (c', v) else (c', v'))"

definition update_rows :: "string \<Rightarrow> string \<Rightarrow> cell \<Rightarrow> (string \<times> cell) option \<Rightarrow> sqlite \<Rightarrow> sqlite" where
  "update_rows t c v cond db =
     db \<lparr> sq_rows := (sq_rows db)(t :=
       map (\<lambda>r. if row_matches cond r then set_cell c v r else r) (sq_rows db t)) \<rparr>"

text \<open>The message of the first trigger on the table that aborts an UPDATE.\<close>

definition update_trigger :: "engine \<Rightarrow> string \<Rightarrow> sqlite \<Rightarrow> string option" where
  "update_trigger en t db =
     (case List.map_filter (\<lambda>m. if ma_type m = ''trigger'' \<and> ma_table m = t
         then Option.bind (ma_sql m) (en_aborts_update en) else None) (sq_master db) of
        [] \<Rightarrow> None | msg # _ \<Rightarrow> Some msg)"

fun execute :: "engine \<Rightarrow> sql_statement \<Rightarrow> sqlite \<Rightarrow> (sqlite, store_error) result" where
  "execute en (CreateTable t cs fks ixs autoincrement text) db =
     (if name_taken t db then Err (DatabaseError (''table '' @ t @ '' already exists''))
      else Ok (create_table t cs fks ixs autoincrement text db))"
| "execute en (CreateIndex t ix text) db =
     (if \<not> table_exists t db then Err (DatabaseError (''no such table: '' @ t))
      else if name_taken (ix_name ix) db then Err (DatabaseError (''index '' @ ix_name ix @ '' already exists''))
      else Ok (db \<lparr> sq_master := sq_master db @
                     [\<lparr> ma_type = ''index'', ma_name = ix_name ix, ma_table = t, ma_sql = Some text \<rparr>],
                   sq_indexes := (sq_indexes db)(t := ix # sq_indexes db t) \<rparr>))"
| "execute en (CreateTrigger n t text) db =
     (if \<not> table_exists t db then Err (DatabaseError (''no such table: '' @ t))
      else if name_taken n db then Err (DatabaseError (''trigger '' @ n @ '' already exists''))
      else Ok (db \<lparr> sq_master := sq_master db @
                     [\<lparr> ma_type = ''trigger'', ma_name = n, ma_table = t, ma_sql = Some text \<rparr>] \<rparr>))"
| "execute en (AddColumn t c d) db =
     (if \<not> table_exists t db then Err (DatabaseError (''no such table: '' @ t))
      else if fst c \<in> fst ` set (sq_columns db t) then
        Err (DatabaseError (''duplicate column name: '' @ fst c))
      else Ok (add_column en t c d db))"
| "execute en (InsertInto t r) db =
     (if \<not> table_exists t db then Err (DatabaseError (''no such table: '' @ t))
      else Ok (db \<lparr> sq_rows := (sq_rows db)(t := sq_rows db t @ [r]) \<rparr>))"
| "execute en (Update t c v cond) db =
     (if \<not> table_exists t db then Err (DatabaseError (''no such table: '' @ t))
      else case (list_ex (row_matches cond) (sq_rows db t), update_trigger en t db) of
             (True, Some msg) \<Rightarrow> Err (DatabaseError msg)
           | _ \<Rightarrow> Ok (update_rows t c v cond db))"

definition execute_batch :: "engine \<Rightarrow> sql_statement list \<Rightarrow> sqlite \<Rightarrow> (sqlite, store_error) result" where
  "execute_batch en = fold_ok (execute en)"

section \<open>The migrations\<close>

definition sql_lines :: "string list \<Rightarrow> string" where
  "sql_lines ls = concat (map (\<lambda>l. l @ [CHR 0x0A]) (butlast ls)) @ last ls"

definition autoindex :: "string \<Rightarrow> string list \<Rightarrow> index_info" where
  "autoindex n cs = \<lparr> ix_name = n, ix_unique = True, ix_partial = False, ix_columns = cs \<rparr>"

definition quoted :: "string \<Rightarrow> string" where
  "quoted s = CHR 0x27 # s @ [CHR 0x27]"

definition append_only_trigger :: "string \<Rightarrow> string \<Rightarrow> sql_statement" where
  "append_only_trigger n event =
     CreateTrigger n ''operation_events''
       (sql_lines
          [''CREATE TRIGGER '' @ n,
           ''BEFORE '' @ event @ '' ON operation_events'',
           ''BEGIN'',
           ''    SELECT RAISE(ABORT, '' @ quoted ''operation events are append-only'' @ '');'',
           ''END''])"

definition INITIAL_MIGRATION :: "sql_statement list" where
  "INITIAL_MIGRATION =
     [CreateTable ''schema_version''
        [(''singleton'', ''INTEGER'', 1, 1), (''version'', ''INTEGER'', 1, 0)] [] [] False
        (sql_lines
           [''CREATE TABLE schema_version ('',
            ''    singleton INTEGER NOT NULL PRIMARY KEY CHECK (singleton = 1),'',
            ''    version INTEGER NOT NULL'',
            '')'']),
      InsertInto ''schema_version'' [(''singleton'', IntegerCell 1), (''version'', IntegerCell 1)],
      CreateTable ''sandboxes''
        [(''id'', ''TEXT'', 1, 1),
         (''canonical_root'', ''TEXT'', 1, 0),
         (''desired_state'', ''TEXT'', 1, 0),
         (''actual_state'', ''TEXT'', 1, 0),
         (''setup_resolution_version'', ''INTEGER'', 0, 0),
         (''setup_resolution_details'', ''TEXT'', 0, 0),
         (''tool_resolution_version'', ''INTEGER'', 0, 0),
         (''tool_resolution_details'', ''TEXT'', 0, 0),
         (''image_resolution_version'', ''INTEGER'', 0, 0),
         (''image_resolution_details'', ''TEXT'', 0, 0)]
        []
        [autoindex ''sqlite_autoindex_sandboxes_2'' [''canonical_root''],
         autoindex ''sqlite_autoindex_sandboxes_1'' [''id'']]
        False
        (sql_lines
           [''CREATE TABLE sandboxes ('',
            ''    id TEXT NOT NULL PRIMARY KEY,'',
            ''    canonical_root TEXT NOT NULL UNIQUE,'',
            ''    desired_state TEXT NOT NULL,'',
            ''    actual_state TEXT NOT NULL,'',
            ''    setup_resolution_version INTEGER,'',
            ''    setup_resolution_details TEXT,'',
            ''    tool_resolution_version INTEGER,'',
            ''    tool_resolution_details TEXT,'',
            ''    image_resolution_version INTEGER,'',
            ''    image_resolution_details TEXT'',
            '')'']),
      CreateTable ''operations''
        [(''id'', ''INTEGER'', 0, 1),
         (''sandbox_id'', ''TEXT'', 1, 0),
         (''kind'', ''TEXT'', 1, 0),
         (''status'', ''TEXT'', 1, 0),
         (''error_code'', ''TEXT'', 0, 0),
         (''error_details'', ''TEXT'', 0, 0)]
        [(''sandboxes'', ''sandbox_id'', ''id'', ''NO ACTION'', ''NO ACTION'', ''NONE'')]
        [] True
        (sql_lines
           [''CREATE TABLE operations ('',
            ''    id INTEGER PRIMARY KEY AUTOINCREMENT,'',
            ''    sandbox_id TEXT NOT NULL REFERENCES sandboxes(id),'',
            ''    kind TEXT NOT NULL,'',
            ''    status TEXT NOT NULL,'',
            ''    error_code TEXT,'',
            ''    error_details TEXT'',
            '')'']),
      CreateTable ''operation_events''
        [(''sequence'', ''INTEGER'', 0, 1),
         (''operation_id'', ''INTEGER'', 1, 0),
         (''status'', ''TEXT'', 1, 0),
         (''details'', ''TEXT'', 0, 0)]
        [(''operations'', ''operation_id'', ''id'', ''NO ACTION'', ''NO ACTION'', ''NONE'')]
        [] True
        (sql_lines
           [''CREATE TABLE operation_events ('',
            ''    sequence INTEGER PRIMARY KEY AUTOINCREMENT,'',
            ''    operation_id INTEGER NOT NULL REFERENCES operations(id),'',
            ''    status TEXT NOT NULL,'',
            ''    details TEXT'',
            '')'']),
      CreateIndex ''operations''
        \<lparr> ix_name = ''one_pending_operation_per_sandbox'', ix_unique = True, ix_partial = True,
          ix_columns = [''sandbox_id''] \<rparr>
        (sql_lines
           [''CREATE UNIQUE INDEX one_pending_operation_per_sandbox'',
            ''ON operations(sandbox_id)'',
            ''WHERE status = '' @ quoted ''pending'']),
      append_only_trigger ''operation_events_no_update'' ''UPDATE'',
      append_only_trigger ''operation_events_no_delete'' ''DELETE'']"

definition DURABLE_METADATA_MIGRATION :: "engine \<Rightarrow> sql_statement list" where
  "DURABLE_METADATA_MIGRATION en =
     [AddColumn ''sandboxes'' (''updated_at_millis'', ''INTEGER'', 1, 0) (IntegerCell 0),
      Update ''sandboxes'' ''updated_at_millis'' (IntegerCell (en_now en)) None,
      AddColumn ''operation_events'' (''error_code'', ''TEXT'', 0, 0) NullCell,
      AddColumn ''operation_events'' (''timestamp_millis'', ''INTEGER'', 1, 0) (IntegerCell 0),
      Update ''operation_events'' ''timestamp_millis'' (IntegerCell (en_now en)) None,
      Update ''schema_version'' ''version'' (IntegerCell 2) (Some (''singleton'', IntegerCell 1))]"

definition STORAGE_RESOLUTION_MIGRATION :: "sql_statement list" where
  "STORAGE_RESOLUTION_MIGRATION =
     [AddColumn ''sandboxes'' (''storage_resolution_version'', ''INTEGER'', 0, 0) NullCell,
      AddColumn ''sandboxes'' (''storage_resolution_details'', ''TEXT'', 0, 0) NullCell,
      Update ''schema_version'' ''version'' (IntegerCell 3) (Some (''singleton'', IntegerCell 1))]"

definition SSH_RESOLUTION_MIGRATION :: "sql_statement list" where
  "SSH_RESOLUTION_MIGRATION =
     [AddColumn ''sandboxes'' (''ssh_resolution_version'', ''INTEGER'', 0, 0) NullCell,
      AddColumn ''sandboxes'' (''ssh_resolution_details'', ''TEXT'', 0, 0) NullCell,
      Update ''schema_version'' ''version'' (IntegerCell 4) (Some (''singleton'', IntegerCell 1))]"

definition SSH_TRANSPORT_POLICY_MIGRATION :: "sql_statement list" where
  "SSH_TRANSPORT_POLICY_MIGRATION =
     [AddColumn ''sandboxes'' (''ssh_transport_enabled'', ''INTEGER'', 0, 0) NullCell,
      AddColumn ''sandboxes'' (''ssh_transport_host_port'', ''INTEGER'', 0, 0) NullCell,
      Update ''schema_version'' ''version'' (IntegerCell 5) (Some (''singleton'', IntegerCell 1))]"

section \<open>Text of a definition\<close>

text \<open>\<open>str::split_whitespace\<close>, over the characters of a UTF-8 string.\<close>

fun split_whitespace_from :: "string \<Rightarrow> string \<Rightarrow> string list" where
  "split_whitespace_from w [] = (if w = [] then [] else [w])"
| "split_whitespace_from w (c # cs) =
     (let n = utf8_tail (byte c) in
      if is_whitespace (utf8_code_point (byte c) (take n cs))
      then (if w = [] then [] else [w]) @ split_whitespace_from [] (drop n cs)
      else split_whitespace_from (w @ c # take n cs) (drop n cs))"

definition split_whitespace :: "string \<Rightarrow> string list" where
  "split_whitespace s = split_whitespace_from [] s"

fun join_words :: "string \<Rightarrow> string list \<Rightarrow> string" where
  "join_words sep [] = []"
| "join_words sep [w] = w"
| "join_words sep (w # ws) = w @ sep @ join_words sep ws"

definition normalize_sql :: "string \<Rightarrow> string" where
  "normalize_sql sql = map to_ascii_lowercase (join_words '' '' (split_whitespace sql))"

section \<open>Validation\<close>

definition schema_mismatch :: "string \<Rightarrow> ('a, store_error) result" where
  "schema_mismatch m = Err (SchemaMismatch m)"

definition validate_table_columns :: "sqlite \<Rightarrow> string \<Rightarrow> column list \<Rightarrow> (unit, store_error) result" where
  "validate_table_columns db t expected =
     (if sq_columns db t = expected then Ok ()
      else schema_mismatch (''table '' @ t @ '' has unexpected columns''))"

definition validate_foreign_keys :: "sqlite \<Rightarrow> string \<Rightarrow> foreign_key list \<Rightarrow> (unit, store_error) result" where
  "validate_foreign_keys db t expected =
     (if sq_foreign_keys db t = expected then Ok ()
      else schema_mismatch (''table '' @ t @ '' has an unexpected foreign key set''))"

text \<open>\<open>SELECT sql FROM sqlite_master WHERE type = ?1 AND name = ?2\<close>\<close>

definition master_sql :: "sqlite \<Rightarrow> string \<Rightarrow> string \<Rightarrow> string option option" where
  "master_sql db ty n = map_option ma_sql (find (\<lambda>m. ma_type m = ty \<and> ma_name m = n) (sq_master db))"

definition query_definition :: "sqlite \<Rightarrow> string \<Rightarrow> string \<Rightarrow> (string, store_error) result" where
  "query_definition db ty n =
     (case master_sql db ty n of
        None \<Rightarrow> schema_mismatch ''Query returned no rows''
      | Some None \<Rightarrow> schema_mismatch ''Invalid column type Null''
      | Some (Some text) \<Rightarrow> Ok text)"

definition pending_index_sql :: string where
  "pending_index_sql =
     ''create unique index one_pending_operation_per_sandbox on operations(sandbox_id) where status = '' @
     quoted ''pending''"

fun matching_index ::
  "sqlite \<Rightarrow> string list \<Rightarrow> string option \<Rightarrow> index_info list \<Rightarrow> (bool, store_error) result" where
  "matching_index db columns required [] = Ok False"
| "matching_index db columns required (ix # ixs) =
     (if \<not> ix_unique ix \<or> (case required of None \<Rightarrow> False | Some n \<Rightarrow> n \<noteq> ix_name ix) then
        matching_index db columns required ixs
      else if (required \<noteq> None) \<noteq> ix_partial ix then matching_index db columns required ixs
      else if ix_columns ix = columns then
        (case required of
           None \<Rightarrow> Ok True
         | Some n \<Rightarrow>
             and_then (query_definition db ''index'' n) (\<lambda>definition'.
             if normalize_sql definition' \<noteq> pending_index_sql then
               matching_index db columns required ixs
             else Ok True))
      else matching_index db columns required ixs)"

definition validate_unique_index ::
  "sqlite \<Rightarrow> string \<Rightarrow> string list \<Rightarrow> string option \<Rightarrow> (unit, store_error) result" where
  "validate_unique_index db t columns required =
     and_then (matching_index db columns required (sq_indexes db t)) (\<lambda>found.
     if found then Ok ()
     else schema_mismatch (''table '' @ t @ '' is missing a required unique index''))"

definition schema_version_sql :: string where
  "schema_version_sql =
     ''create table schema_version ( singleton integer not null primary key check (singleton = 1), version integer not null )''"

definition validate_schema_version_constraint :: "sqlite \<Rightarrow> (unit, store_error) result" where
  "validate_schema_version_constraint db =
     and_then (query_definition db ''table'' ''schema_version'') (\<lambda>definition'.
     if normalize_sql definition' = schema_version_sql then Ok ()
     else schema_mismatch ''schema_version must enforce its singleton row'')"

definition trigger_sql :: "string \<Rightarrow> string \<Rightarrow> string" where
  "trigger_sql n action =
     ''create trigger '' @ n @ '' '' @ action @ '' on operation_events begin select raise(abort, '' @
     quoted ''operation events are append-only'' @ ''); end''"

definition validate_trigger :: "sqlite \<Rightarrow> string \<Rightarrow> string \<Rightarrow> (unit, store_error) result" where
  "validate_trigger db n action =
     (case master_sql db ''trigger'' n of
        Some (Some text) \<Rightarrow>
          if normalize_sql text = trigger_sql n action then Ok ()
          else schema_mismatch (''missing or malformed trigger '' @ n)
      | Some None \<Rightarrow> schema_mismatch ''Invalid column type Null''
      | None \<Rightarrow> schema_mismatch (''missing or malformed trigger '' @ n))"

definition unexpected_schema_object :: "master_row \<Rightarrow> ('a, store_error) result" where
  "unexpected_schema_object m =
     schema_mismatch (''unexpected SQLite-owned schema object '' @ ma_type m @ '' '' @ ma_name m)"

definition USER_OBJECTS :: "(string \<times> string \<times> string) list" where
  "USER_OBJECTS =
     [(''table'', ''schema_version'', ''schema_version''),
      (''table'', ''sandboxes'', ''sandboxes''),
      (''table'', ''operations'', ''operations''),
      (''table'', ''operation_events'', ''operation_events''),
      (''index'', ''one_pending_operation_per_sandbox'', ''operations''),
      (''trigger'', ''operation_events_no_update'', ''operation_events''),
      (''trigger'', ''operation_events_no_delete'', ''operation_events'')]"

definition valid_sequence_table :: "master_row \<Rightarrow> bool" where
  "valid_sequence_table m \<longleftrightarrow>
     ma_type m = ''table'' \<and> ma_table m = ''sqlite_sequence'' \<and>
     (case ma_sql m of
        None \<Rightarrow> False
      | Some definition' \<Rightarrow> normalize_sql definition' = ''create table sqlite_sequence(name,seq)'')"

definition expected_autoindex :: "master_row \<Rightarrow> bool" where
  "expected_autoindex m \<longleftrightarrow>
     ma_name m \<in> {''sqlite_autoindex_sandboxes_1'', ''sqlite_autoindex_sandboxes_2''} \<and>
     ma_table m = ''sandboxes''"

fun user_objects ::
  "master_row list \<Rightarrow> (string \<times> string \<times> string) list \<Rightarrow>
     ((string \<times> string \<times> string) list, store_error) result" where
  "user_objects [] acc = Ok acc"
| "user_objects (m # ms) acc =
     (if ma_name m = ''sqlite_sequence'' then
        if \<not> valid_sequence_table m then unexpected_schema_object m else user_objects ms acc
      else if prefix ''sqlite_'' (ma_name m) then
        if ma_type m \<noteq> ''index'' \<or> ma_sql m \<noteq> None \<or> \<not> expected_autoindex m
        then unexpected_schema_object m else user_objects ms acc
      else user_objects ms (acc @ [(ma_type m, ma_name m, ma_table m)]))"

definition validate_schema_inventory :: "sqlite \<Rightarrow> (unit, store_error) result" where
  "validate_schema_inventory db =
     and_then (user_objects (sort_key (\<lambda>m. (ma_type m, ma_name m)) (sq_master db)) []) (\<lambda>objects.
     if sort objects = sort USER_OBJECTS then Ok ()
     else schema_mismatch ''sqlite_master contains unexpected or missing user objects'')"

definition validate_operations_and_constraints :: "sqlite \<Rightarrow> (unit, store_error) result" where
  "validate_operations_and_constraints db =
     and_then (validate_table_columns db ''operations''
       [(''id'', ''INTEGER'', 0, 1),
        (''sandbox_id'', ''TEXT'', 1, 0),
        (''kind'', ''TEXT'', 1, 0),
        (''status'', ''TEXT'', 1, 0),
        (''error_code'', ''TEXT'', 0, 0),
        (''error_details'', ''TEXT'', 0, 0)]) (\<lambda>_.
     and_then (validate_foreign_keys db ''sandboxes'' []) (\<lambda>_.
     and_then (validate_foreign_keys db ''operations''
       [(''sandboxes'', ''sandbox_id'', ''id'', ''NO ACTION'', ''NO ACTION'', ''NONE'')]) (\<lambda>_.
     and_then (validate_foreign_keys db ''operation_events''
       [(''operations'', ''operation_id'', ''id'', ''NO ACTION'', ''NO ACTION'', ''NONE'')]) (\<lambda>_.
     and_then (validate_unique_index db ''sandboxes'' [''canonical_root''] None) (\<lambda>_.
     and_then (validate_unique_index db ''operations'' [''sandbox_id'']
       (Some ''one_pending_operation_per_sandbox'')) (\<lambda>_.
     and_then (validate_trigger db ''operation_events_no_update'' ''before update'') (\<lambda>_.
     validate_trigger db ''operation_events_no_delete'' ''before delete'')))))))"

definition v1_sandbox_columns :: "column list" where
  "v1_sandbox_columns =
     [(''id'', ''TEXT'', 1, 1),
      (''canonical_root'', ''TEXT'', 1, 0),
      (''desired_state'', ''TEXT'', 1, 0),
      (''actual_state'', ''TEXT'', 1, 0),
      (''setup_resolution_version'', ''INTEGER'', 0, 0),
      (''setup_resolution_details'', ''TEXT'', 0, 0),
      (''tool_resolution_version'', ''INTEGER'', 0, 0),
      (''tool_resolution_details'', ''TEXT'', 0, 0),
      (''image_resolution_version'', ''INTEGER'', 0, 0),
      (''image_resolution_details'', ''TEXT'', 0, 0)]"

definition v2_sandbox_columns :: "column list" where
  "v2_sandbox_columns = v1_sandbox_columns @ [(''updated_at_millis'', ''INTEGER'', 1, 0)]"

definition v3_sandbox_columns :: "column list" where
  "v3_sandbox_columns = v2_sandbox_columns @
     [(''storage_resolution_version'', ''INTEGER'', 0, 0), (''storage_resolution_details'', ''TEXT'', 0, 0)]"

definition v4_sandbox_columns :: "column list" where
  "v4_sandbox_columns = v3_sandbox_columns @
     [(''ssh_resolution_version'', ''INTEGER'', 0, 0), (''ssh_resolution_details'', ''TEXT'', 0, 0)]"

definition v5_sandbox_columns :: "column list" where
  "v5_sandbox_columns = v4_sandbox_columns @
     [(''ssh_transport_enabled'', ''INTEGER'', 0, 0), (''ssh_transport_host_port'', ''INTEGER'', 0, 0)]"

definition v1_event_columns :: "column list" where
  "v1_event_columns =
     [(''sequence'', ''INTEGER'', 0, 1),
      (''operation_id'', ''INTEGER'', 1, 0),
      (''status'', ''TEXT'', 1, 0),
      (''details'', ''TEXT'', 0, 0)]"

definition v2_event_columns :: "column list" where
  "v2_event_columns = v1_event_columns @
     [(''error_code'', ''TEXT'', 0, 0), (''timestamp_millis'', ''INTEGER'', 1, 0)]"

definition validate_v1_schema :: "sqlite \<Rightarrow> (unit, store_error) result" where
  "validate_v1_schema db =
     and_then (validate_schema_inventory db) (\<lambda>_.
     and_then (validate_table_columns db ''sandboxes'' v1_sandbox_columns) (\<lambda>_.
     and_then (validate_table_columns db ''operation_events'' v1_event_columns) (\<lambda>_.
     validate_operations_and_constraints db)))"

definition validate_v2_schema :: "sqlite \<Rightarrow> (unit, store_error) result" where
  "validate_v2_schema db =
     and_then (validate_schema_inventory db) (\<lambda>_.
     and_then (validate_table_columns db ''sandboxes'' v2_sandbox_columns) (\<lambda>_.
     and_then (validate_table_columns db ''operation_events'' v2_event_columns) (\<lambda>_.
     validate_operations_and_constraints db)))"

definition validate_v3_schema :: "sqlite \<Rightarrow> (unit, store_error) result" where
  "validate_v3_schema db =
     and_then (validate_schema_inventory db) (\<lambda>_.
     and_then (validate_table_columns db ''sandboxes'' v3_sandbox_columns) (\<lambda>_.
     and_then (validate_table_columns db ''operation_events'' v2_event_columns) (\<lambda>_.
     validate_operations_and_constraints db)))"

definition validate_v4_schema :: "sqlite \<Rightarrow> (unit, store_error) result" where
  "validate_v4_schema db =
     and_then (validate_schema_inventory db) (\<lambda>_.
     and_then (validate_table_columns db ''sandboxes'' v4_sandbox_columns) (\<lambda>_.
     and_then (validate_table_columns db ''operation_events'' v2_event_columns) (\<lambda>_.
     validate_operations_and_constraints db)))"

definition validate_v5_schema :: "sqlite \<Rightarrow> (unit, store_error) result" where
  "validate_v5_schema db =
     and_then (validate_schema_inventory db) (\<lambda>_.
     and_then (validate_table_columns db ''sandboxes'' v5_sandbox_columns) (\<lambda>_.
     and_then (validate_table_columns db ''operation_events'' v2_event_columns) (\<lambda>_.
     validate_operations_and_constraints db)))"

section \<open>Opening the database\<close>

definition get_i64 :: "cell option \<Rightarrow> (int, store_error) result" where
  "get_i64 c =
     (case c of
        Some (IntegerCell n) \<Rightarrow> Ok n
      | _ \<Rightarrow> schema_mismatch ''Invalid column type'')"

definition read_version :: "sqlite \<Rightarrow> (int, store_error) result" where
  "read_version db =
     and_then (validate_table_columns db ''schema_version''
       [(''singleton'', ''INTEGER'', 1, 1), (''version'', ''INTEGER'', 1, 0)]) (\<lambda>_.
     and_then (validate_schema_version_constraint db) (\<lambda>_.
     case sq_rows db ''schema_version'' of
       [r] \<Rightarrow>
         and_then (get_i64 (map_of r ''singleton'')) (\<lambda>singleton.
         and_then (get_i64 (map_of r ''version'')) (\<lambda>version.
         if singleton \<noteq> 1 then schema_mismatch ''schema_version singleton must equal 1''
         else Ok version))
     | _ \<Rightarrow> schema_mismatch ''schema_version must contain exactly one row''))"

definition migrate ::
  "engine \<Rightarrow> sql_statement list list \<Rightarrow> sqlite \<Rightarrow> (unit, store_error, sqlite) stateful" where
  "migrate en batches db =
     st_then (transaction (en_fault en) (\<lambda>db. map_ok (Pair ()) (fold_ok (execute_batch en) batches db)) db)
       (\<lambda>_ db. (validate_v5_schema db, db))"

definition open_versioned :: "engine \<Rightarrow> sqlite \<Rightarrow> (unit, store_error, sqlite) stateful" where
  "open_versioned en db =
     (case read_version db of
        Err e \<Rightarrow> (Err e, db)
      | Ok version \<Rightarrow>
          if version = 1 then
            st_then (validate_v1_schema db, db) (\<lambda>_. migrate en
              [DURABLE_METADATA_MIGRATION en, STORAGE_RESOLUTION_MIGRATION, SSH_RESOLUTION_MIGRATION,
               SSH_TRANSPORT_POLICY_MIGRATION])
          else if version = 2 then
            st_then (validate_v2_schema db, db) (\<lambda>_. migrate en
              [STORAGE_RESOLUTION_MIGRATION, SSH_RESOLUTION_MIGRATION, SSH_TRANSPORT_POLICY_MIGRATION])
          else if version = 3 then
            st_then (validate_v3_schema db, db) (\<lambda>_. migrate en
              [SSH_RESOLUTION_MIGRATION, SSH_TRANSPORT_POLICY_MIGRATION])
          else if version = 4 then
            st_then (validate_v4_schema db, db) (\<lambda>_. migrate en [SSH_TRANSPORT_POLICY_MIGRATION])
          else if version = 5 then (validate_v5_schema db, db)
          else (Err (UnsupportedSchemaVersion version), db))"

definition has_schema :: "sqlite \<Rightarrow> bool" where
  "has_schema db = table_exists ''schema_version'' db"

text \<open>\<open>name LIKE 'sqlite_%'\<close>: case is ignored and the underscore stands for any character.\<close>

definition like_sqlite :: "string \<Rightarrow> bool" where
  "like_sqlite n \<longleftrightarrow> map to_ascii_lowercase (take 6 n) = ''sqlite'' \<and> length n > 6"

definition create_schema :: "engine \<Rightarrow> sqlite \<Rightarrow> (unit, store_error, sqlite) stateful" where
  "create_schema en db =
     (if \<not> list_all (\<lambda>m. like_sqlite (ma_name m)) (sq_master db) \<or> sq_user_version db \<noteq> 0 then
        (Err UnknownSchema, db)
      else
        migrate en
          [INITIAL_MIGRATION, DURABLE_METADATA_MIGRATION en, STORAGE_RESOLUTION_MIGRATION,
           SSH_RESOLUTION_MIGRATION, SSH_TRANSPORT_POLICY_MIGRATION] db)"

text \<open>Between the first look at the catalog and the write lock another process may change the
  database; \<open>others\<close> lists those changes, one per attempt.\<close>

fun initialize_schema ::
  "engine \<Rightarrow> (sqlite \<Rightarrow> sqlite) list \<Rightarrow> sqlite \<Rightarrow> (unit, store_error, sqlite) stateful" where
  "initialize_schema en [] db =
     (if has_schema db then open_versioned en db else create_schema en db)"
| "initialize_schema en (other # others) db =
     (if has_schema db then open_versioned en db
      else if has_schema (other db) then
        (case en_fault en of
           Some m \<Rightarrow> (Err (DatabaseError m), other db)
         | None \<Rightarrow> initialize_schema en others (other db))
      else create_schema en (other db))"

text \<open>\<open>open_with_flags\<close>: \<open>connected\<close> is the outcome of opening the connection
  and setting its pragmas.\<close>

definition open_with_flags ::
  "(unit, string) result \<Rightarrow> engine \<Rightarrow> (sqlite \<Rightarrow> sqlite) list \<Rightarrow> sqlite \<Rightarrow>
     (unit, store_error, sqlite) stateful" where
  "open_with_flags connected en others db =
     st_then (map_err DatabaseError connected, db) (\<lambda>_. initialize_schema en others)"

end
