(* ===== verification/Schema_Correct.thy ===== *)
theory Schema_Correct
  imports Schema
begin

text \<open>
  Opening a database: a fresh one gets the current schema, and one of an earlier version is
  migrated without losing a row, except that a version 1 database with a recorded event cannot
  be opened, because the migration to version 2 updates the events and the trigger of version 1
  forbids it.
\<close>

section \<open>What a migration keeps of the catalog\<close>

definition altered_tables :: "string set" where
  "altered_tables = {''sandboxes'', ''operation_events''}"

definition altered :: "master_row \<Rightarrow> bool" where
  "altered m \<longleftrightarrow> ma_type m = ''table'' \<and> ma_name m \<in> altered_tables"

lemma altered_tables_simps [simp]:
  "''sandboxes'' \<in> altered_tables" "''operation_events'' \<in> altered_tables"
  "''operations'' \<notin> altered_tables" "''schema_version'' \<notin> altered_tables"
  by (simp_all add: altered_tables_def)

definition master_kept :: "(master_row \<Rightarrow> master_row) \<Rightarrow> bool" where
  "master_kept f \<longleftrightarrow>
     (\<forall>m. ma_type (f m) = ma_type m \<and> ma_name (f m) = ma_name m \<and> ma_table (f m) = ma_table m \<and>
        (\<not> altered m \<longrightarrow> ma_sql (f m) = ma_sql m))"

definition catalog_kept :: "sqlite \<Rightarrow> sqlite \<Rightarrow> bool" where
  "catalog_kept db db' \<longleftrightarrow>
     sq_foreign_keys db' = sq_foreign_keys db \<and> sq_indexes db' = sq_indexes db \<and>
     (\<forall>t. t \<notin> altered_tables \<longrightarrow> sq_columns db' t = sq_columns db t) \<and>
     (\<exists>f. master_kept f \<and> sq_master db' = map f (sq_master db))"

lemma master_keptD:
  assumes "master_kept f"
  shows "ma_type (f m) = ma_type m" "ma_name (f m) = ma_name m" "ma_table (f m) = ma_table m"
    "altered (f m) = altered m" "\<not> altered m \<Longrightarrow> ma_sql (f m) = ma_sql m"
  using assms by (simp_all add: master_kept_def altered_def)

lemma master_kept_comp: "master_kept f \<Longrightarrow> master_kept g \<Longrightarrow> master_kept (g \<circ> f)"
  by (simp add: master_kept_def altered_def)

interpretation cat: stepwise catalog_kept
proof
  show "catalog_kept db db" for db
    unfolding catalog_kept_def by (auto intro!: exI [of _ id] simp: master_kept_def)
  show "catalog_kept db db''" if "catalog_kept db db'" "catalog_kept db' db''" for db db' db''
  proof -
    from that obtain f g where "master_kept f" "sq_master db' = map f (sq_master db)"
      "master_kept g" "sq_master db'' = map g (sq_master db')"
      unfolding catalog_kept_def by blast
    then have "master_kept (g \<circ> f) \<and> sq_master db'' = map (g \<circ> f) (sq_master db)"
      by (simp add: master_kept_comp)
    with that show ?thesis unfolding catalog_kept_def by metis
  qed
qed

lemma catalog_kept_add_column:
  "t \<in> altered_tables \<Longrightarrow> catalog_kept db (add_column en t c d db)"
  unfolding catalog_kept_def
  by (auto simp: add_column_def master_kept_def alter_master_def
      altered_def intro!: exI [of _ "alter_master en t c"])

lemma catalog_kept_update: "catalog_kept db (update_rows t c v cond db)"
  unfolding catalog_kept_def
  by (auto simp: update_rows_def master_kept_def intro!: exI [of _ id])

text \<open>What the validators read is kept.\<close>

lemma sort_key_map: "sort_key f (map g xs) = map g (sort_key (f \<circ> g) xs)"
proof (induction xs)
  case (Cons x xs)
  have "insort_key f (g y) (map g ys) = map g (insort_key (f \<circ> g) y ys)" for y ys
    by (induction ys) auto
  with Cons show ?case by (simp add: comp_def)
qed simp

lemma user_objects_map:
  assumes "master_kept f"
  shows "user_objects (map f ms) acc = user_objects ms acc"
proof (induction ms arbitrary: acc)
  case (Cons m ms)
  show ?case
  proof (cases "ma_name m \<in> altered_tables")
    case True
    then have "ma_name m \<noteq> ''sqlite_sequence'' \<and> \<not> prefix ''sqlite_'' (ma_name m)"
      by (auto simp: altered_tables_def)
    with Cons show ?thesis by (simp add: master_keptD [OF assms])
  next
    case False
    then have "\<not> altered m" by (simp add: altered_def)
    then have "f m = m" by (intro master_row.equality) (simp_all add: master_keptD [OF assms])
    with Cons show ?thesis by simp
  qed
qed simp

lemma find_map_kept:
  assumes "master_kept f"
  shows "find (\<lambda>m. ma_type m = ty \<and> ma_name m = n) (map f ms) =
    map_option f (find (\<lambda>m. ma_type m = ty \<and> ma_name m = n) ms)"
  by (induction ms) (simp_all add: master_keptD [OF assms])

lemma kept_inventory:
  assumes "catalog_kept db db'"
  shows "validate_schema_inventory db' = validate_schema_inventory db"
proof -
  from assms obtain f where f: "master_kept f" "sq_master db' = map f (sq_master db)"
    unfolding catalog_kept_def by blast
  have "(\<lambda>m. (ma_type m, ma_name m)) \<circ> f = (\<lambda>m. (ma_type m, ma_name m))"
    by (simp add: fun_eq_iff master_keptD [OF f(1)])
  with f show ?thesis by (simp add: validate_schema_inventory_def sort_key_map user_objects_map)
qed

lemma kept_master_sql:
  assumes "catalog_kept db db'" "\<not> (ty = ''table'' \<and> n \<in> altered_tables)"
  shows "master_sql db' ty n = master_sql db ty n"
proof -
  from assms obtain f where f: "master_kept f" "sq_master db' = map f (sq_master db)"
    unfolding catalog_kept_def by blast
  have "ma_sql (f m) = ma_sql m"
    if "find (\<lambda>m. ma_type m = ty \<and> ma_name m = n) (sq_master db) = Some m" for m
    using find_member [OF that] assms(2) by (intro master_keptD(5) [OF f(1)]) (auto simp: altered_def)
  then show ?thesis
    unfolding master_sql_def f(2) find_map_kept [OF f(1)]
    by (cases "find (\<lambda>m. ma_type m = ty \<and> ma_name m = n) (sq_master db)") simp_all
qed

lemma kept_definition:
  assumes "catalog_kept db db'" "\<not> (ty = ''table'' \<and> n \<in> altered_tables)"
  shows "query_definition db' ty n = query_definition db ty n"
  unfolding query_definition_def kept_master_sql [OF assms] ..

lemma kept_matching_index:
  assumes "catalog_kept db db'"
  shows "matching_index db' cs required ixs = matching_index db cs required ixs"
  by (induction ixs)
    (auto simp: kept_definition [OF assms] split: option.splits intro!: arg_cong2 [of _ _ _ _ and_then])

lemma kept_constraints:
  assumes "catalog_kept db db'"
  shows "validate_operations_and_constraints db' = validate_operations_and_constraints db"
proof -
  have "validate_trigger db' n action = validate_trigger db n action" for n action
    by (simp add: validate_trigger_def kept_master_sql [OF assms])
  moreover have "validate_unique_index db' t cs required = validate_unique_index db t cs required" for t cs required
    using assms by (simp add: validate_unique_index_def kept_matching_index [OF assms]) (simp add: catalog_kept_def)
  moreover have "validate_foreign_keys db' t = validate_foreign_keys db t" for t
    using assms by (simp add: validate_foreign_keys_def catalog_kept_def fun_eq_iff)
  moreover have "validate_table_columns db' ''operations'' = validate_table_columns db ''operations''"
    using assms by (simp add: validate_table_columns_def catalog_kept_def fun_eq_iff)
  ultimately show ?thesis by (simp only: validate_operations_and_constraints_def)
qed

lemma kept_table_exists:
  assumes "catalog_kept db db'"
  shows "table_exists t db' = table_exists t db"
proof -
  from assms obtain f where f: "master_kept f" "sq_master db' = map f (sq_master db)"
    unfolding catalog_kept_def by blast
  show ?thesis by (simp add: table_exists_def list_ex_iff f(2) master_keptD [OF f(1)])
qed

section \<open>What a valid catalog holds\<close>

lemma user_objects_Ok:
  assumes "user_objects ms acc = Ok objs" "m \<in> set ms"
  shows "(ma_type m, ma_name m, ma_table m) \<in> set objs \<or>
    ma_type m = ''table'' \<and> ma_table m = ''sqlite_sequence'' \<or> ma_type m = ''index''"
proof -
  have acc: "set acc \<subseteq> set objs" if "user_objects ms acc = Ok objs" for ms acc
    using that by (induction ms arbitrary: acc)
      (fastforce simp: unexpected_schema_object_def schema_mismatch_def split: if_splits)+
  from assms show ?thesis
    by (induction ms arbitrary: acc)
      (auto simp: unexpected_schema_object_def schema_mismatch_def valid_sequence_table_def
        dest: acc split: if_splits)
qed

lemma user_objects_found:
  assumes "user_objects ms acc = Ok objs" "x \<in> set objs"
  shows "x \<in> set acc \<or> (\<exists>m\<in>set ms. x = (ma_type m, ma_name m, ma_table m))"
  using assms by (induction ms arbitrary: acc)
    (fastforce simp: unexpected_schema_object_def schema_mismatch_def split: if_splits)+

lemma inventory_objects:
  assumes "validate_schema_inventory db = Ok ()"
  obtains objs where
    "user_objects (sort_key (\<lambda>m. (ma_type m, ma_name m)) (sq_master db)) [] = Ok objs"
    "set objs = set USER_OBJECTS"
proof -
  from assms obtain objs where
    objs: "user_objects (sort_key (\<lambda>m. (ma_type m, ma_name m)) (sq_master db)) [] = Ok objs"
    and "(if sort objs = sort USER_OBJECTS then Ok ()
      else schema_mismatch ''sqlite_master contains unexpected or missing user objects'') = Ok ()"
    unfolding validate_schema_inventory_def and_then_eq_Ok by blast
  then have "sort objs = sort USER_OBJECTS" by (simp add: schema_mismatch_def split: if_splits)
  then have "set objs = set USER_OBJECTS" by (metis set_sort)
  with objs show thesis by (rule that)
qed

lemma inventory_table:
  assumes "validate_schema_inventory db = Ok ()" "(''table'', t, t) \<in> set USER_OBJECTS"
  shows "table_exists t db"
proof -
  from assms(1) obtain objs where
    "user_objects (sort_key (\<lambda>m. (ma_type m, ma_name m)) (sq_master db)) [] = Ok objs"
    "set objs = set USER_OBJECTS" by (rule inventory_objects)
  from user_objects_found [OF this(1)] this(2) assms(2)
  show ?thesis by (fastforce simp: table_exists_def list_ex_iff)
qed

lemma inventory_no_trigger:
  assumes "validate_schema_inventory db = Ok ()" "t \<noteq> ''operation_events''"
  shows "update_trigger en t db = None"
proof -
  from assms(1) obtain objs where objs:
    "user_objects (sort_key (\<lambda>m. (ma_type m, ma_name m)) (sq_master db)) [] = Ok objs"
    "set objs = set USER_OBJECTS" by (rule inventory_objects)
  have "\<not> (ma_type m = ''trigger'' \<and> ma_table m = t)" if "m \<in> set (sq_master db)" for m
    using user_objects_Ok [OF objs(1), of m] that assms(2) by (auto simp: objs(2) USER_OBJECTS_def)
  then have "List.map_filter (\<lambda>m. if ma_type m = ''trigger'' \<and> ma_table m = t
      then Option.bind (ma_sql m) (en_aborts_update en) else None) (sq_master db) = []"
    by (auto simp: List.map_filter_def filter_empty_conv)
  then show ?thesis by (simp add: update_trigger_def)
qed

section \<open>A database of a given version\<close>

definition shape :: "column list \<Rightarrow> column list \<Rightarrow> int \<Rightarrow> sqlite \<Rightarrow> bool" where
  "shape cs es v db \<longleftrightarrow>
     read_version db = Ok v \<and> validate_schema_inventory db = Ok () \<and>
     sq_columns db ''sandboxes'' = cs \<and> sq_columns db ''operation_events'' = es \<and>
     validate_operations_and_constraints db = Ok ()"

definition valid_at :: "int \<Rightarrow> sqlite \<Rightarrow> bool" where
  "valid_at v db \<longleftrightarrow>
     read_version db = Ok v \<and>
     (v = 1 \<and> validate_v1_schema db = Ok () \<or> v = 2 \<and> validate_v2_schema db = Ok () \<or>
      v = 3 \<and> validate_v3_schema db = Ok () \<or> v = 4 \<and> validate_v4_schema db = Ok () \<or>
      v = 5 \<and> validate_v5_schema db = Ok ())"

lemma validate_columns_Ok: "validate_table_columns db t cs = Ok () \<longleftrightarrow> sq_columns db t = cs"
  by (simp add: validate_table_columns_def schema_mismatch_def)

lemmas validate_defs = validate_v1_schema_def validate_v2_schema_def validate_v3_schema_def
  validate_v4_schema_def validate_v5_schema_def

lemma validators_Ok:
  "validate_v1_schema db = Ok () \<longleftrightarrow> validate_schema_inventory db = Ok () \<and>
     sq_columns db ''sandboxes'' = v1_sandbox_columns \<and> sq_columns db ''operation_events'' = v1_event_columns \<and>
     validate_operations_and_constraints db = Ok ()"
  "validate_v2_schema db = Ok () \<longleftrightarrow> validate_schema_inventory db = Ok () \<and>
     sq_columns db ''sandboxes'' = v2_sandbox_columns \<and> sq_columns db ''operation_events'' = v2_event_columns \<and>
     validate_operations_and_constraints db = Ok ()"
  "validate_v3_schema db = Ok () \<longleftrightarrow> validate_schema_inventory db = Ok () \<and>
     sq_columns db ''sandboxes'' = v3_sandbox_columns \<and> sq_columns db ''operation_events'' = v2_event_columns \<and>
     validate_operations_and_constraints db = Ok ()"
  "validate_v4_schema db = Ok () \<longleftrightarrow> validate_schema_inventory db = Ok () \<and>
     sq_columns db ''sandboxes'' = v4_sandbox_columns \<and> sq_columns db ''operation_events'' = v2_event_columns \<and>
     validate_operations_and_constraints db = Ok ()"
  "validate_v5_schema db = Ok () \<longleftrightarrow> validate_schema_inventory db = Ok () \<and>
     sq_columns db ''sandboxes'' = v5_sandbox_columns \<and> sq_columns db ''operation_events'' = v2_event_columns \<and>
     validate_operations_and_constraints db = Ok ()"
  by (simp_all add: validate_defs and_then_eq_Ok validate_columns_Ok)

definition sandbox_columns :: "int \<Rightarrow> column list" where
  "sandbox_columns v =
     (if v = 1 then v1_sandbox_columns else if v = 2 then v2_sandbox_columns
      else if v = 3 then v3_sandbox_columns else if v = 4 then v4_sandbox_columns else v5_sandbox_columns)"

definition event_columns :: "int \<Rightarrow> column list" where
  "event_columns v = (if v = 1 then v1_event_columns else v2_event_columns)"

lemma valid_at_shape:
  "valid_at v db \<longleftrightarrow> v \<in> {1..5} \<and> shape (sandbox_columns v) (event_columns v) v db"
proof -
  consider "v = 1" | "v = 2" | "v = 3" | "v = 4" | "v = 5" | "v < 1 \<or> 5 < v" by linarith
  then show ?thesis
    unfolding valid_at_def shape_def validators_Ok sandbox_columns_def event_columns_def
    by cases auto
qed

section \<open>The rows\<close>

text \<open>Every row has the columns of its table.\<close>

definition rows_wf :: "sqlite \<Rightarrow> bool" where
  "rows_wf db \<longleftrightarrow>
     (\<forall>t\<in>altered_tables. \<forall>r\<in>set (sq_rows db t). map fst r = map fst (sq_columns db t))"

text \<open>Every row is still there, with the values it had; it may have new columns.\<close>

definition rows_kept :: "sqlite \<Rightarrow> sqlite \<Rightarrow> bool" where
  "rows_kept db db' \<longleftrightarrow>
     (\<forall>t. t \<noteq> ''schema_version'' \<longrightarrow> list_all2 prefix (sq_rows db t) (sq_rows db' t))"

lemma rows_kept_refl: "rows_kept db db"
  by (simp add: rows_kept_def list.rel_refl)

lemma rows_wf_add_column:
  "rows_wf db \<Longrightarrow> rows_wf (add_column en t c d db)"
  by (auto simp: rows_wf_def add_column_def)

lemma map_fst_set_cell: "map fst (set_cell c v r) = map fst r"
  by (induction r) (auto simp: set_cell_def)

lemma rows_wf_update: "rows_wf db \<Longrightarrow> rows_wf (update_rows t c v cond db)"
  by (auto simp: rows_wf_def update_rows_def map_fst_set_cell)

lemma rows_kept_add_column:
  assumes "rows_kept db0 db"
  shows "rows_kept db0 (add_column en t c d db)"
proof -
  have "list_all2 prefix xs (map (\<lambda>r. r @ [e]) ys)" if "list_all2 prefix xs ys" for xs ys :: "sql_row list" and e
    using that by (auto simp: list_all2_conv_all_nth)
  with assms show ?thesis by (simp add: rows_kept_def add_column_def)
qed

lemma set_cell_other: "c \<notin> fst ` set r \<Longrightarrow> set_cell c v r = r"
  by (induction r) (auto simp: set_cell_def)

lemma set_cell_append: "set_cell c v (r @ s) = set_cell c v r @ set_cell c v s"
  by (simp add: set_cell_def)

lemma rows_kept_update:
  assumes "rows_kept db0 db"
    and "t \<noteq> ''schema_version'' \<Longrightarrow> \<forall>r\<in>set (sq_rows db0 t). c \<notin> fst ` set r"
  shows "rows_kept db0 (update_rows t c v cond db)"
proof -
  let ?u = "\<lambda>r. if row_matches cond r then set_cell c v r else r"
  have upd: "prefix r (set_cell c v r')" if "prefix r r'" "c \<notin> fst ` set r" for r r'
    using that by (auto elim!: prefixE simp: set_cell_append set_cell_other)
  have "list_all2 prefix xs (map ?u ys)"
    if "list_all2 prefix xs ys" "\<forall>r\<in>set xs. c \<notin> fst ` set r" for xs ys
    using that by (auto simp: list_all2_conv_all_nth intro!: upd)
  with assms show ?thesis by (simp add: rows_kept_def update_rows_def)
qed

section \<open>Steps of a migration\<close>

definition upgraded :: "sqlite \<Rightarrow> column list \<Rightarrow> column list \<Rightarrow> int \<Rightarrow> sqlite \<Rightarrow> bool" where
  "upgraded db0 cs es v db \<longleftrightarrow> shape cs es v db \<and> rows_wf db \<and> rows_kept db0 db \<and>
     length (sq_rows db ''operation_events'') = length (sq_rows db0 ''operation_events'')"

lemma read_version_cong:
  assumes "catalog_kept db db'" "sq_rows db' ''schema_version'' = sq_rows db ''schema_version''"
  shows "read_version db' = read_version db"
proof -
  have "validate_schema_version_constraint db' = validate_schema_version_constraint db"
    by (simp add: validate_schema_version_constraint_def kept_definition [OF assms(1)])
  moreover have "validate_table_columns db' ''schema_version'' = validate_table_columns db ''schema_version''"
    using assms(1) by (simp add: validate_table_columns_def catalog_kept_def fun_eq_iff)
  ultimately show ?thesis by (simp only: read_version_def assms(2))
qed

lemma shape_kept:
  assumes "shape cs es v db" "catalog_kept db db'"
    "sq_rows db' ''schema_version'' = sq_rows db ''schema_version''"
  shows "shape (sq_columns db' ''sandboxes'') (sq_columns db' ''operation_events'') v db'"
  using assms unfolding shape_def
  by (simp add: read_version_cong kept_inventory kept_constraints)

lemma shape_tables:
  assumes "shape cs es v db" "t \<in> {''sandboxes'', ''operation_events'', ''schema_version''}"
  shows "table_exists t db"
  using assms by (auto simp: shape_def USER_OBJECTS_def intro!: inventory_table)

lemma upgraded_add_column:
  assumes "upgraded db0 cs es v db" "t \<in> altered_tables"
  shows "upgraded db0 (if t = ''sandboxes'' then cs @ [c] else cs)
    (if t = ''operation_events'' then es @ [c] else es) v (add_column en t c d db)"
proof -
  let ?db = "add_column en t c d db"
  have rows: "sq_rows ?db ''schema_version'' = sq_rows db ''schema_version''"
    "length (sq_rows ?db u) = length (sq_rows db u)" for u
    using assms(2) by (auto simp: add_column_def)
  have cols: "sq_columns ?db u = (if t = u then sq_columns db u @ [c] else sq_columns db u)" for u
    by (simp add: add_column_def)
  have shape: "shape cs es v db" using assms(1) by (simp add: upgraded_def)
  have "shape (sq_columns ?db ''sandboxes'') (sq_columns ?db ''operation_events'') v ?db"
    by (rule shape_kept [OF shape catalog_kept_add_column [OF assms(2)] rows(1)])
  moreover have "sq_columns db ''sandboxes'' = cs" "sq_columns db ''operation_events'' = es"
    using shape by (simp_all add: shape_def)
  ultimately show ?thesis
    using assms by (simp only: upgraded_def rows_wf_add_column rows_kept_add_column rows cols)
qed

lemma add_sandbox_column:
  assumes "upgraded db0 cs es v db" "fst c \<notin> fst ` set cs"
  shows "\<exists>db'. execute en (AddColumn ''sandboxes'' c d) db = Ok db' \<and> upgraded db0 (cs @ [c]) es v db'"
proof -
  have shape: "shape cs es v db" using assms(1) by (simp add: upgraded_def)
  then have "execute en (AddColumn ''sandboxes'' c d) db = Ok (add_column en ''sandboxes'' c d db)"
    using shape_tables [OF shape, of "''sandboxes''"] assms(2) by (simp add: shape_def)
  with upgraded_add_column [OF assms(1) altered_tables_simps(1)] show ?thesis by simp
qed

lemma add_event_column:
  assumes "upgraded db0 cs es v db" "fst c \<notin> fst ` set es"
  shows "\<exists>db'. execute en (AddColumn ''operation_events'' c d) db = Ok db' \<and> upgraded db0 cs (es @ [c]) v db'"
proof -
  have shape: "shape cs es v db" using assms(1) by (simp add: upgraded_def)
  then have "execute en (AddColumn ''operation_events'' c d) db = Ok (add_column en ''operation_events'' c d db)"
    using shape_tables [OF shape, of "''operation_events''"] assms(2) by (simp add: shape_def)
  with upgraded_add_column [OF assms(1) altered_tables_simps(2)] show ?thesis by simp
qed

lemma upgraded_update:
  assumes "upgraded db0 cs es v db" "t \<noteq> ''schema_version''"
    "\<forall>r\<in>set (sq_rows db0 t). c \<notin> fst ` set r"
  shows "upgraded db0 cs es v (update_rows t c w cond db)"
proof -
  let ?db = "update_rows t c w cond db"
  have rows: "sq_rows ?db ''schema_version'' = sq_rows db ''schema_version''"
    "length (sq_rows ?db u) = length (sq_rows db u)" "sq_columns ?db = sq_columns db" for u
    using assms(2) by (auto simp: update_rows_def)
  have shape: "shape cs es v db" using assms(1) by (simp add: upgraded_def)
  from shape_kept [OF shape catalog_kept_update rows(1)] have "shape cs es v ?db"
    using shape by (simp add: rows shape_def [of cs es v db])
  with assms show ?thesis by (simp add: upgraded_def rows_wf_update rows_kept_update rows)
qed

text \<open>Setting the version.\<close>

abbreviation set_version :: "int \<Rightarrow> sqlite \<Rightarrow> sqlite" where
  "set_version w \<equiv> update_rows ''schema_version'' ''version'' (IntegerCell w) (Some (''singleton'', IntegerCell 1))"

lemma map_of_set_cell: "map_of (set_cell c v r) k = (if k = c then map_option (\<lambda>_. v) (map_of r k) else map_of r k)"
  by (induction r) (auto simp: set_cell_def)

lemma get_i64_Ok: "get_i64 c = Ok n \<longleftrightarrow> c = Some (IntegerCell n)"
  by (auto simp: get_i64_def schema_mismatch_def split: option.splits cell.splits)

definition version_row :: "sqlite \<Rightarrow> int \<Rightarrow> bool" where
  "version_row db v \<longleftrightarrow> (\<exists>r. sq_rows db ''schema_version'' = [r] \<and>
     map_of r ''singleton'' = Some (IntegerCell 1) \<and> map_of r ''version'' = Some (IntegerCell v))"

lemma read_version_Ok:
  "read_version db = Ok v \<longleftrightarrow>
     validate_table_columns db ''schema_version'' [(''singleton'', ''INTEGER'', 1, 1), (''version'', ''INTEGER'', 1, 0)] = Ok () \<and>
     validate_schema_version_constraint db = Ok () \<and> version_row db v"
  by (auto simp: read_version_def version_row_def and_then_eq_Ok get_i64_Ok schema_mismatch_def
      split: list.splits if_splits)

lemma read_version_set:
  assumes "read_version db = Ok v"
  shows "read_version (set_version w db) = Ok w"
proof -
  have kept: "catalog_kept db (set_version w db)" by (rule catalog_kept_update)
  have "version_row (set_version w db) w"
    using assms by (auto simp: read_version_Ok version_row_def update_rows_def row_matches_def map_of_set_cell)
  moreover have "validate_schema_version_constraint (set_version w db) = validate_schema_version_constraint db"
    by (simp add: validate_schema_version_constraint_def kept_definition [OF kept])
  ultimately show ?thesis
    using assms by (simp add: read_version_Ok validate_columns_Ok) (simp add: update_rows_def)
qed

lemma set_schema_version:
  assumes "upgraded db0 cs es v db"
  shows "\<exists>db'. execute en (Update ''schema_version'' ''version'' (IntegerCell w) (Some (''singleton'', IntegerCell 1))) db =
    Ok db' \<and> upgraded db0 cs es w db'"
proof -
  have shape: "shape cs es v db" using assms by (simp add: upgraded_def)
  then have "update_trigger en ''schema_version'' db = None"
    by (intro inventory_no_trigger) (simp_all add: shape_def)
  with shape_tables [OF shape, of "''schema_version''"]
  have run: "execute en (Update ''schema_version'' ''version'' (IntegerCell w) (Some (''singleton'', IntegerCell 1))) db =
      Ok (set_version w db)" by (simp split: bool.splits)
  have kept: "catalog_kept db (set_version w db)" by (rule catalog_kept_update)
  have same: "sq_columns (set_version w db) = sq_columns db"
    "sq_rows (set_version w db) ''operation_events'' = sq_rows db ''operation_events''"
    by (simp_all add: update_rows_def)
  have "shape cs es w (set_version w db)"
    using shape by (simp add: shape_def read_version_set kept_inventory [OF kept] kept_constraints [OF kept] same)
  moreover have "rows_kept db0 (set_version w db)"
    using assms by (intro rows_kept_update) (simp_all add: upgraded_def)
  ultimately show ?thesis using assms run by (simp add: upgraded_def rows_wf_update same)
qed

lemma stamp_sandboxes:
  assumes "upgraded db0 cs es v db" "\<forall>r\<in>set (sq_rows db0 ''sandboxes''). c \<notin> fst ` set r"
  shows "\<exists>db'. execute en (Update ''sandboxes'' c w None) db = Ok db' \<and> upgraded db0 cs es v db'"
proof -
  have shape: "shape cs es v db" using assms by (simp add: upgraded_def)
  then have "update_trigger en ''sandboxes'' db = None"
    by (intro inventory_no_trigger) (simp_all add: shape_def)
  with shape_tables [OF shape, of "''sandboxes''"]
  have "execute en (Update ''sandboxes'' c w None) db = Ok (update_rows ''sandboxes'' c w None db)"
    by (simp split: bool.splits)
  with upgraded_update [OF assms(1) _ assms(2)] show ?thesis by simp
qed

lemma stamp_no_events:
  assumes "upgraded db0 cs es v db" "sq_rows db0 ''operation_events'' = []"
  shows "\<exists>db'. execute en (Update ''operation_events'' c w None) db = Ok db' \<and> upgraded db0 cs es v db'"
proof -
  have shape: "shape cs es v db" and none: "sq_rows db ''operation_events'' = []"
    using assms by (simp_all add: upgraded_def)
  from shape_tables [OF shape, of "''operation_events''"] none
  have "execute en (Update ''operation_events'' c w None) db = Ok (update_rows ''operation_events'' c w None db)"
    by (simp split: bool.splits)
  with upgraded_update [OF assms(1)] assms(2) show ?thesis by simp
qed

text \<open>A batch runs to its end when every statement does.\<close>

definition runs :: "engine \<Rightarrow> sql_statement list \<Rightarrow> (sqlite \<Rightarrow> bool) \<Rightarrow> sqlite \<Rightarrow> bool" where
  "runs en stmts Q db \<longleftrightarrow> (\<exists>db'. execute_batch en stmts db = Ok db' \<and> Q db')"

lemma runs_Nil: "Q db \<Longrightarrow> runs en [] Q db"
  by (simp add: runs_def execute_batch_def)

lemma runs_Cons:
  assumes "\<exists>db'. execute en stmt db = Ok db' \<and> P db'" "\<And>db'. P db' \<Longrightarrow> runs en stmts Q db'"
  shows "runs en (stmt # stmts) Q db"
  using assms by (force simp: runs_def execute_batch_def)

lemma runs_append:
  assumes "runs en as P db" "\<And>db'. P db' \<Longrightarrow> runs en bs Q db'"
  shows "runs en (as @ bs) Q db"
  using assms by (fastforce simp: runs_def execute_batch_def fold_ok_append)

lemma two_columns:
  assumes "upgraded db0 cs es v db" "fst c \<notin> fst ` set cs" "fst d \<notin> fst ` set (cs @ [c])"
  shows "runs en
    [AddColumn ''sandboxes'' c x, AddColumn ''sandboxes'' d y,
     Update ''schema_version'' ''version'' (IntegerCell w) (Some (''singleton'', IntegerCell 1))]
    (upgraded db0 (cs @ [c, d]) es w) db"
proof (rule runs_Cons [OF add_sandbox_column [OF assms(1,2)]],
    rule runs_Cons [OF add_sandbox_column [OF _ assms(3)]], assumption,
    rule runs_Cons [OF set_schema_version], assumption, rule runs_Nil)
  show "upgraded db0 (cs @ [c, d]) es w db'" if "upgraded db0 ((cs @ [c]) @ [d]) es w db'" for db'
    using that by simp
qed

lemmas columns_defs = v5_sandbox_columns_def v4_sandbox_columns_def v3_sandbox_columns_def
  v2_sandbox_columns_def v1_sandbox_columns_def v2_event_columns_def v1_event_columns_def

lemma storage_migration:
  assumes "upgraded db0 v2_sandbox_columns es v db"
  shows "runs en STORAGE_RESOLUTION_MIGRATION (upgraded db0 v3_sandbox_columns es 3) db"
  unfolding STORAGE_RESOLUTION_MIGRATION_def v3_sandbox_columns_def
  by (rule two_columns [OF assms]) (simp_all add: columns_defs)

lemma ssh_migration:
  assumes "upgraded db0 v3_sandbox_columns es v db"
  shows "runs en SSH_RESOLUTION_MIGRATION (upgraded db0 v4_sandbox_columns es 4) db"
  unfolding SSH_RESOLUTION_MIGRATION_def v4_sandbox_columns_def
  by (rule two_columns [OF assms]) (simp_all add: columns_defs)

lemma transport_migration:
  assumes "upgraded db0 v4_sandbox_columns es v db"
  shows "runs en SSH_TRANSPORT_POLICY_MIGRATION (upgraded db0 v5_sandbox_columns es 5) db"
  unfolding SSH_TRANSPORT_POLICY_MIGRATION_def v5_sandbox_columns_def
  by (rule two_columns [OF assms]) (simp_all add: columns_defs)

text \<open>The migration to version 2 up to the statement that stamps the events.\<close>

lemma durable_prefix:
  assumes "upgraded db0 v1_sandbox_columns v1_event_columns v db"
    "\<forall>r\<in>set (sq_rows db0 ''sandboxes''). ''updated_at_millis'' \<notin> fst ` set r"
  shows "runs en (take 4 (DURABLE_METADATA_MIGRATION en))
    (upgraded db0 v2_sandbox_columns v2_event_columns v) db"
proof -
  let ?c = "(''updated_at_millis'', ''INTEGER'', 1, 0) :: column"
  have c: "fst ?c \<notin> fst ` set v1_sandbox_columns" by (simp add: columns_defs)
  have e: "fst (''error_code'', ''TEXT'', 0::int, 0::int) \<notin> fst ` set v1_event_columns"
    "fst (''timestamp_millis'', ''INTEGER'', 1::int, 0::int) \<notin>
      fst ` set (v1_event_columns @ [(''error_code'', ''TEXT'', 0, 0)])" by (simp_all add: columns_defs)
  show ?thesis
  proof (simp add: DURABLE_METADATA_MIGRATION_def, rule runs_Cons [OF add_sandbox_column [OF assms(1) c]],
      rule runs_Cons [OF stamp_sandboxes [OF _ assms(2)]], assumption,
      rule runs_Cons [OF add_event_column [OF _ e(1)]], assumption,
      rule runs_Cons [OF add_event_column [OF _ e(2)]], assumption, rule runs_Nil)
    show "upgraded db0 v2_sandbox_columns v2_event_columns v db'"
      if "upgraded db0 (v1_sandbox_columns @ [?c])
        ((v1_event_columns @ [(''error_code'', ''TEXT'', 0, 0)]) @ [(''timestamp_millis'', ''INTEGER'', 1, 0)]) v db'" for db'
      using that by (simp add: v2_sandbox_columns_def v2_event_columns_def)
  qed
qed

lemma durable_split:
  "DURABLE_METADATA_MIGRATION en = take 4 (DURABLE_METADATA_MIGRATION en) @
     [Update ''operation_events'' ''timestamp_millis'' (IntegerCell (en_now en)) None,
      Update ''schema_version'' ''version'' (IntegerCell 2) (Some (''singleton'', IntegerCell 1))]"
  by (simp add: DURABLE_METADATA_MIGRATION_def)

lemma durable_migration:
  assumes "upgraded db0 v1_sandbox_columns v1_event_columns v db"
    "\<forall>r\<in>set (sq_rows db0 ''sandboxes''). ''updated_at_millis'' \<notin> fst ` set r"
    "sq_rows db0 ''operation_events'' = []"
  shows "runs en (DURABLE_METADATA_MIGRATION en) (upgraded db0 v2_sandbox_columns v2_event_columns 2) db"
  by (subst durable_split, rule runs_append [OF durable_prefix [OF assms(1,2)]],
      rule runs_Cons [OF stamp_no_events [OF _ assms(3)]], assumption,
      rule runs_Cons [OF set_schema_version], assumption, rule runs_Nil)

text \<open>What is assumed of SQLite: a trigger with the text of \<open>operation_events_no_update\<close>
  aborts an UPDATE.\<close>

definition triggers_abort :: "engine \<Rightarrow> bool" where
  "triggers_abort en \<longleftrightarrow>
     (\<forall>text. normalize_sql text = trigger_sql ''operation_events_no_update'' ''before update'' \<longrightarrow>
        en_aborts_update en text \<noteq> None)"

lemma events_trigger:
  assumes "shape cs es v db" "triggers_abort en"
  shows "\<exists>msg. update_trigger en ''operation_events'' db = Some msg"
proof -
  have "validate_trigger db ''operation_events_no_update'' ''before update'' = Ok ()"
    using assms(1) by (simp add: shape_def validate_operations_and_constraints_def and_then_eq_Ok)
  then obtain m sql where m: "m \<in> set (sq_master db)" "ma_type m = ''trigger''"
    "ma_name m = ''operation_events_no_update''" "ma_sql m = Some sql"
    and "normalize_sql sql = trigger_sql ''operation_events_no_update'' ''before update''"
    by (auto simp: validate_trigger_def master_sql_def schema_mismatch_def
        split: option.splits if_splits dest: find_member)
  then have abort: "en_aborts_update en sql \<noteq> None" using assms(2) by (simp add: triggers_abort_def)
  have "validate_schema_inventory db = Ok ()" using assms(1) by (simp add: shape_def)
  then obtain objs where objs:
    "user_objects (sort_key (\<lambda>m. (ma_type m, ma_name m)) (sq_master db)) [] = Ok objs"
    "set objs = set USER_OBJECTS" by (rule inventory_objects)
  from user_objects_Ok [OF objs(1), of m] m have "ma_table m = ''operation_events''"
    by (auto simp: objs(2) USER_OBJECTS_def)
  with m abort have "List.map_filter (\<lambda>m. if ma_type m = ''trigger'' \<and> ma_table m = ''operation_events''
      then Option.bind (ma_sql m) (en_aborts_update en) else None) (sq_master db) \<noteq> []"
    by (force simp: List.map_filter_def filter_empty_conv)
  then show ?thesis by (auto simp: update_trigger_def split: list.splits)
qed

lemma durable_fails:
  assumes "upgraded db0 v1_sandbox_columns v1_event_columns v db"
    "\<forall>r\<in>set (sq_rows db0 ''sandboxes''). ''updated_at_millis'' \<notin> fst ` set r"
    "sq_rows db0 ''operation_events'' \<noteq> []" "triggers_abort en"
  shows "\<exists>msg. execute_batch en (DURABLE_METADATA_MIGRATION en) db = Err (DatabaseError msg)"
proof -
  from durable_prefix [OF assms(1,2)] obtain db' where
    db': "execute_batch en (take 4 (DURABLE_METADATA_MIGRATION en)) db = Ok db'"
      "upgraded db0 v2_sandbox_columns v2_event_columns v db'" unfolding runs_def by blast
  then have shape: "shape v2_sandbox_columns v2_event_columns v db'"
    and some: "sq_rows db' ''operation_events'' \<noteq> []" using assms(3) by (auto simp: upgraded_def)
  then have "list_ex (row_matches None) (sq_rows db' ''operation_events'')"
    by (cases "sq_rows db' ''operation_events''") (simp_all add: row_matches_def)
  with events_trigger [OF shape assms(4)] shape_tables [OF shape, of "''operation_events''"]
  obtain msg where "execute en (Update ''operation_events'' ''timestamp_millis'' (IntegerCell (en_now en)) None) db' =
      Err (DatabaseError msg)" by auto
  with db'(1) show ?thesis
    by (subst durable_split) (simp add: execute_batch_def fold_ok_append)
qed

section \<open>Opening\<close>

lemma batches: "fold_ok (execute_batch en) bs db = execute_batch en (concat bs) db"
proof (induction bs arbitrary: db)
  case (Cons b bs)
  then show ?case
    by (cases "execute_batch en b db") (simp_all add: execute_batch_def fold_ok_append)
qed (simp add: execute_batch_def)

lemma migrate_ok:
  assumes "runs en (concat bs) (upgraded db0 v5_sandbox_columns v2_event_columns 5) db" "en_fault en = None"
  shows "\<exists>db'. migrate en bs db = (Ok (), db') \<and> upgraded db0 v5_sandbox_columns v2_event_columns 5 db'"
proof -
  from assms(1) obtain db' where db': "execute_batch en (concat bs) db = Ok db'"
    "upgraded db0 v5_sandbox_columns v2_event_columns 5 db'" unfolding runs_def by blast
  then have "validate_v5_schema db' = Ok ()" by (simp add: upgraded_def shape_def validators_Ok)
  with db' assms(2) show ?thesis by (simp add: migrate_def transaction_def batches)
qed

lemma migrate_refused:
  "runs en (concat bs) Q db \<Longrightarrow> en_fault en = Some msg \<Longrightarrow> migrate en bs db = (Err (DatabaseError msg), db)"
  by (auto simp: runs_def migrate_def transaction_def batches)

lemma migrate_fails:
  assumes "execute_batch en b db = Err e"
  shows "migrate en (b # bs) db = (Err e, db)"
  using assms by (simp add: migrate_def transaction_def)

lemma valid_has_schema:
  assumes "valid_at v db"
  shows "has_schema db" "initialize_schema en others db = open_versioned en db"
proof -
  show "has_schema db"
    using assms shape_tables [of _ _ _ db "''schema_version''"]
    by (auto simp: has_schema_def valid_at_shape)
  then show "initialize_schema en others db = open_versioned en db" by (cases others) simp_all
qed

lemma reopen:
  assumes "shape v5_sandbox_columns v2_event_columns 5 db"
  shows "valid_at 5 db" "initialize_schema en others db = (Ok (), db)"
proof -
  show "valid_at 5 db"
    using assms by (simp add: valid_at_shape sandbox_columns_def event_columns_def)
  then show "initialize_schema en others db = (Ok (), db)"
    using valid_has_schema(2) [of 5 db] by (simp add: open_versioned_def valid_at_def)
qed

lemma unstamped_rows:
  assumes "shape v1_sandbox_columns es v db" "rows_wf db"
  shows "\<forall>r\<in>set (sq_rows db ''sandboxes''). ''updated_at_millis'' \<notin> fst ` set r"
proof
  fix r assume "r \<in> set (sq_rows db ''sandboxes'')"
  with assms(2) have "map fst r = map fst (sq_columns db ''sandboxes'')"
    unfolding rows_wf_def using altered_tables_simps(1) by blast
  also have "sq_columns db ''sandboxes'' = v1_sandbox_columns" using assms(1) by (simp add: shape_def)
  finally have "map fst r = map fst v1_sandbox_columns" .
  then have "fst ` set r = set (map fst v1_sandbox_columns)" by (metis set_map)
  then show "''updated_at_millis'' \<notin> fst ` set r" by (simp add: v1_sandbox_columns_def)
qed

lemma migrations_from:
  shows "upgraded db0 v4_sandbox_columns v2_event_columns v db \<Longrightarrow>
      runs en SSH_TRANSPORT_POLICY_MIGRATION (upgraded db0 v5_sandbox_columns v2_event_columns 5) db"
    and "upgraded db0 v3_sandbox_columns v2_event_columns v db \<Longrightarrow>
      runs en (SSH_RESOLUTION_MIGRATION @ SSH_TRANSPORT_POLICY_MIGRATION)
        (upgraded db0 v5_sandbox_columns v2_event_columns 5) db"
    and "upgraded db0 v2_sandbox_columns v2_event_columns v db \<Longrightarrow>
      runs en (STORAGE_RESOLUTION_MIGRATION @ SSH_RESOLUTION_MIGRATION @ SSH_TRANSPORT_POLICY_MIGRATION)
        (upgraded db0 v5_sandbox_columns v2_event_columns 5) db"
    and "upgraded db0 v1_sandbox_columns v1_event_columns v db0 \<Longrightarrow> sq_rows db0 ''operation_events'' = [] \<Longrightarrow>
      runs en (DURABLE_METADATA_MIGRATION en @ STORAGE_RESOLUTION_MIGRATION @
        SSH_RESOLUTION_MIGRATION @ SSH_TRANSPORT_POLICY_MIGRATION)
        (upgraded db0 v5_sandbox_columns v2_event_columns 5) db0"
proof -
  show from4: "runs en SSH_TRANSPORT_POLICY_MIGRATION (upgraded db0 v5_sandbox_columns v2_event_columns 5) db"
    if "upgraded db0 v4_sandbox_columns v2_event_columns v db" for v db
    using that by (rule transport_migration)
  show from3: "runs en (SSH_RESOLUTION_MIGRATION @ SSH_TRANSPORT_POLICY_MIGRATION)
      (upgraded db0 v5_sandbox_columns v2_event_columns 5) db"
    if "upgraded db0 v3_sandbox_columns v2_event_columns v db" for v db
    using that by (rule runs_append [OF ssh_migration from4])
  show from2: "runs en (STORAGE_RESOLUTION_MIGRATION @ SSH_RESOLUTION_MIGRATION @ SSH_TRANSPORT_POLICY_MIGRATION)
      (upgraded db0 v5_sandbox_columns v2_event_columns 5) db"
    if "upgraded db0 v2_sandbox_columns v2_event_columns v db" for v db
    using that by (rule runs_append [OF storage_migration from3])
  assume first: "upgraded db0 v1_sandbox_columns v1_event_columns v db0" and "sq_rows db0 ''operation_events'' = []"
  moreover from first have "\<forall>r\<in>set (sq_rows db0 ''sandboxes''). ''updated_at_millis'' \<notin> fst ` set r"
    unfolding upgraded_def using unstamped_rows by blast
  ultimately show "runs en (DURABLE_METADATA_MIGRATION en @ STORAGE_RESOLUTION_MIGRATION @
      SSH_RESOLUTION_MIGRATION @ SSH_TRANSPORT_POLICY_MIGRATION)
      (upgraded db0 v5_sandbox_columns v2_event_columns 5) db0"
    by (intro runs_append [OF durable_migration from2])
qed

lemma upgrade_from:
  assumes "valid_at v db" "rows_wf db" "en_fault en = None" "v \<noteq> 1 \<or> sq_rows db ''operation_events'' = []"
  shows "\<exists>db'. open_versioned en db = (Ok (), db') \<and> upgraded db v5_sandbox_columns v2_event_columns 5 db'"
proof -
  have start: "upgraded db (sandbox_columns v) (event_columns v) v db"
    using assms(1,2) by (simp add: upgraded_def valid_at_shape rows_kept_refl)
  from assms(1) consider "v = 1" | "v = 2" | "v = 3" | "v = 4" | "v = 5" by (auto simp: valid_at_def)
  then show ?thesis
    using assms(1,3,4) start
    by cases (simp_all add: open_versioned_def valid_at_def sandbox_columns_def event_columns_def
        migrate_ok migrations_from)
qed

text \<open>C17. Opening a database whose schema is valid at version \<open>v\<close> (1 to 5) succeeds, leaves
  a valid version 5 schema with every row of the other tables kept, and opening it again changes
  nothing; except that a version 1 database with a recorded operation event is refused and left
  as it was.\<close>

theorem upgrade_exact:
  assumes "valid_at v db" and "rows_wf db" and "en_fault en = None" and "triggers_abort en"
  shows "if v = 1 \<and> sq_rows db ''operation_events'' \<noteq> [] then
      \<exists>msg. initialize_schema en others db = (Err (DatabaseError msg), db)
    else
      \<exists>db'. initialize_schema en others db = (Ok (), db') \<and> valid_at 5 db' \<and> rows_kept db db' \<and>
        initialize_schema en others db' = (Ok (), db')"
proof (cases "v = 1 \<and> sq_rows db ''operation_events'' \<noteq> []")
  case True
  then have first: "upgraded db v1_sandbox_columns v1_event_columns 1 db"
    using assms by (simp add: upgraded_def valid_at_shape rows_kept_refl sandbox_columns_def event_columns_def)
  then have "\<forall>r\<in>set (sq_rows db ''sandboxes''). ''updated_at_millis'' \<notin> fst ` set r"
    unfolding upgraded_def using unstamped_rows by blast
  from durable_fails [OF first this _ assms(4)] True obtain msg where
    "execute_batch en (DURABLE_METADATA_MIGRATION en) db = Err (DatabaseError msg)" by blast
  with assms(1) True have "initialize_schema en others db = (Err (DatabaseError msg), db)"
    unfolding valid_has_schema(2) [OF assms(1)]
    by (simp add: open_versioned_def valid_at_def migrate_fails)
  with True show ?thesis by auto
next
  case False
  then obtain db' where "open_versioned en db = (Ok (), db')"
    and up: "upgraded db v5_sandbox_columns v2_event_columns 5 db'"
    using upgrade_from [OF assms(1-3)] by blast
  moreover from up have "shape v5_sandbox_columns v2_event_columns 5 db'" by (simp add: upgraded_def)
  ultimately show ?thesis
    unfolding if_not_P [OF False] valid_has_schema(2) [OF assms(1)]
    using reopen up by (auto simp: upgraded_def)
qed

section \<open>A fresh database\<close>

definition empty_sqlite :: sqlite where
  "empty_sqlite =
     \<lparr> sq_master = [], sq_columns = (\<lambda>_. []), sq_foreign_keys = (\<lambda>_. []), sq_indexes = (\<lambda>_. []),
       sq_rows = (\<lambda>_. []), sq_user_version = 0 \<rparr>"

definition example_engine :: engine where
  "example_engine =
     \<lparr> en_alter = (\<lambda>text c. text), en_aborts_update = (\<lambda>text.
         if normalize_sql text = trigger_sql ''operation_events_no_update'' ''before update''
         then Some ''operation events are append-only'' else None),
       en_now = 7000, en_fault = None \<rparr>"

text \<open>The database right after the first migration.\<close>

definition initial_db :: sqlite where
  "initial_db = (case execute_batch example_engine INITIAL_MIGRATION empty_sqlite of Ok db \<Rightarrow> db | Err _ \<Rightarrow> empty_sqlite)"

text \<open>Creating tables, indexes and triggers and inserting rows does not depend on the engine.\<close>

fun engine_free :: "sql_statement \<Rightarrow> bool" where
  "engine_free (AddColumn t c d) \<longleftrightarrow> False"
| "engine_free (Update t c v cond) \<longleftrightarrow> False"
| "engine_free _ \<longleftrightarrow> True"

lemma execute_batch_engine_free:
  assumes "list_all engine_free stmts"
  shows "execute_batch en stmts db = execute_batch en' stmts db"
proof -
  have "execute en s d = execute en' s d" if "engine_free s" for s d
    using that by (cases s) simp_all
  with assms have "fold_ok (execute en) stmts db = fold_ok (execute en') stmts db"
    by (induction stmts arbitrary: db) (auto intro!: arg_cong2 [of _ _ _ _ and_then])
  then show ?thesis by (simp add: execute_batch_def)
qed

lemma initial_runs: "execute_batch en INITIAL_MIGRATION empty_sqlite = Ok initial_db"
proof -
  have "execute_batch en INITIAL_MIGRATION empty_sqlite = execute_batch example_engine INITIAL_MIGRATION empty_sqlite"
    by (rule execute_batch_engine_free) (simp add: INITIAL_MIGRATION_def append_only_trigger_def)
  moreover have "is_ok (execute_batch example_engine INITIAL_MIGRATION empty_sqlite)"
    by code_simp
  ultimately show ?thesis by (auto simp: initial_db_def is_ok_iff)
qed

lemma initial_shape: "shape v1_sandbox_columns v1_event_columns 1 initial_db"
proof -
  have "validate_table_columns initial_db ''sandboxes'' v1_sandbox_columns = Ok ()"
    "validate_table_columns initial_db ''operation_events'' v1_event_columns = Ok ()"
    "read_version initial_db = Ok 1"
    by code_simp+
  moreover have "validate_schema_inventory initial_db = Ok ()"
    by code_simp
  moreover have "validate_operations_and_constraints initial_db = Ok ()"
    by code_simp
  ultimately show ?thesis by (simp add: shape_def validate_columns_Ok)
qed

lemma initial_rows:
  "sq_rows initial_db ''sandboxes'' = []" "sq_rows initial_db ''operations'' = []"
  "sq_rows initial_db ''operation_events'' = []"
  by code_simp+

lemma initial_upgraded: "upgraded initial_db v1_sandbox_columns v1_event_columns 1 initial_db"
  by (simp add: upgraded_def initial_shape rows_kept_refl rows_wf_def altered_tables_def initial_rows)

lemma create_runs:
  "runs en (concat [INITIAL_MIGRATION, DURABLE_METADATA_MIGRATION en, STORAGE_RESOLUTION_MIGRATION,
     SSH_RESOLUTION_MIGRATION, SSH_TRANSPORT_POLICY_MIGRATION])
     (upgraded initial_db v5_sandbox_columns v2_event_columns 5) empty_sqlite"
  using migrations_from(4) [OF initial_upgraded initial_rows(3)]
  by (simp add: runs_append [where P = "\<lambda>db. db = initial_db"] runs_def [of _ INITIAL_MIGRATION] initial_runs)

lemma empty_has_no_schema: "\<not> has_schema empty_sqlite"
  by (simp add: has_schema_def table_exists_def empty_sqlite_def)

lemma create_schema_empty:
  "create_schema en empty_sqlite =
     migrate en [INITIAL_MIGRATION, DURABLE_METADATA_MIGRATION en, STORAGE_RESOLUTION_MIGRATION,
       SSH_RESOLUTION_MIGRATION, SSH_TRANSPORT_POLICY_MIGRATION] empty_sqlite"
  by (simp add: create_schema_def empty_sqlite_def)

text \<open>Opening a new, empty database creates a valid version 5 schema with empty tables, also
  when another process creates it first between the look at the catalog and the write lock; a
  commit that SQLite refuses leaves the database empty.\<close>

lemma fresh_open:
  "case en_fault en of
     None \<Rightarrow>
       (\<exists>db'. initialize_schema en [] empty_sqlite = (Ok (), db') \<and> valid_at 5 db' \<and>
          sq_rows db' ''sandboxes'' = [] \<and> sq_rows db' ''operations'' = [] \<and>
          sq_rows db' ''operation_events'' = [] \<and>
          initialize_schema en [\<lambda>db. snd (initialize_schema en [] db)] empty_sqlite = (Ok (), db'))
   | Some msg \<Rightarrow> initialize_schema en [] empty_sqlite = (Err (DatabaseError msg), empty_sqlite)"
proof (cases "en_fault en")
  case None
  with migrate_ok [OF create_runs] obtain db' where
    created: "initialize_schema en [] empty_sqlite = (Ok (), db')"
      and up: "upgraded initial_db v5_sandbox_columns v2_event_columns 5 db'"
    by (auto simp: empty_has_no_schema create_schema_empty)
  then have shape: "shape v5_sandbox_columns v2_event_columns 5 db'" by (simp add: upgraded_def)
  have empty: "sq_rows db' t = []" if "t \<noteq> ''schema_version''" "sq_rows initial_db t = []" for t
    using up that by (auto simp: upgraded_def rows_kept_def)
  have "has_schema db'" using valid_has_schema(1) [OF reopen(1) [OF shape]] .
  then have "initialize_schema en [\<lambda>db. snd (initialize_schema en [] db)] empty_sqlite =
      initialize_schema en [] db'"
    using created None by (simp add: empty_has_no_schema del: initialize_schema.simps(1))
  with None created show ?thesis
    by (simp add: reopen [OF shape] empty initial_rows del: initialize_schema.simps)
next
  case (Some msg)
  from migrate_refused [OF create_runs this] Some show ?thesis
    by (simp add: empty_has_no_schema create_schema_empty)
qed

text \<open>A version 1 database with one event, as left by the first release.\<close>

definition example_v1_db :: sqlite where
  "example_v1_db = initial_db \<lparr> sq_rows := (sq_rows initial_db)(''operation_events'' :=
     [[(''sequence'', IntegerCell 1), (''operation_id'', IntegerCell 1), (''status'', TextCell ''pending''),
       (''details'', NullCell)]]) \<rparr>"

lemma example_v1_valid: "valid_at 1 example_v1_db" "rows_wf example_v1_db"
proof -
  have "catalog_kept initial_db example_v1_db"
    unfolding catalog_kept_def by (auto simp: example_v1_db_def master_kept_def intro!: exI [of _ id])
  from shape_kept [OF initial_shape this] show "valid_at 1 example_v1_db"
    using initial_shape
    by (simp add: valid_at_shape sandbox_columns_def event_columns_def example_v1_db_def shape_def)
  show "rows_wf example_v1_db"
    using initial_shape
    by (simp add: rows_wf_def altered_tables_def example_v1_db_def initial_rows shape_def v1_event_columns_def)
qed

lemma example_engine_ok: "triggers_abort example_engine" "en_fault example_engine = None"
  by (simp_all add: triggers_abort_def example_engine_def)

theorem upgrade_exact_witness:
  "(\<exists>msg. initialize_schema example_engine [] example_v1_db = (Err (DatabaseError msg), example_v1_db)) \<and>
   (\<exists>db'. initialize_schema example_engine [] initial_db = (Ok (), db') \<and> valid_at 5 db')"
proof -
  have "sq_rows example_v1_db ''operation_events'' \<noteq> []" by (simp add: example_v1_db_def)
  moreover have "valid_at 1 initial_db" "rows_wf initial_db"
    using initial_upgraded by (simp_all add: upgraded_def valid_at_shape sandbox_columns_def event_columns_def)
  ultimately show ?thesis
    using upgrade_exact [OF example_v1_valid example_engine_ok(2,1), of "[]"]
      upgrade_exact [OF _ _ example_engine_ok(2,1), of 1 initial_db "[]"]
    by (auto simp: initial_rows simp del: initialize_schema.simps)
qed

end
