(* ===== verification/Ssh_State.thy ===== *)
theory Ssh_State
  imports Rust_Text Sandbox_Id
begin

unbundle bit_operations_syntax

text \<open>
  The managed SSH directory (\<open>gascand/src/ssh.rs\<close>): its paths, the diagnostics of
  \<open>ssh-keygen\<close>, the errors, and \<open>StateDirectory\<close>, the checked access to the files of
  one directory.  The system calls are the parameter \<open>posix\<close>, a record of operations on the
  state of the file system; what is relied on of them is stated where it is used.
\<close>

section \<open>Constants and data\<close>

definition DIRECTORY_MODE :: u16 where "DIRECTORY_MODE = 0x1C0"
definition PRIVATE_MODE :: u16 where "PRIVATE_MODE = 0x180"
definition PUBLIC_MODE :: u16 where "PUBLIC_MODE = 0x1A4"
definition MAX_MANAGED_FILE_BYTES :: nat where "MAX_MANAGED_FILE_BYTES = 1024 * 1024"

definition maximum_managed_file_bytes :: nat where
  "maximum_managed_file_bytes = MAX_MANAGED_FILE_BYTES"

record active_ssh =
  ac_host :: string
  ac_port :: u16
  ac_alias :: string
  ac_host_key_fingerprint :: string
  ac_client_key_fingerprint :: string

record managed_ssh_host =
  mh_active :: active_ssh
  mh_host_public_key :: string

record ssh_paths =
  pa_config_home :: string
  pa_gascan_directory :: string
  pa_directory :: string
  pa_private_key :: string
  pa_public_key :: string
  pa_known_hosts :: string
  pa_config :: string
  pa_expected_uid :: u32

section \<open>Diagnostics of ssh-keygen\<close>

datatype keygen_outcome = ExitCode int | KilledBy int | NoStatus

text \<open>The decimal text of a signed number.\<close>

definition show_int :: "int \<Rightarrow> string" where
  "show_int n = (if n < 0 then ''-'' @ show_nat (nat (- n)) else show_nat (nat n))"

primrec show_outcome :: "keygen_outcome \<Rightarrow> string" where
  "show_outcome (ExitCode code) = ''exit status '' @ show_int code"
| "show_outcome (KilledBy signal) = ''killed by signal '' @ show_int signal"
| "show_outcome NoStatus = ''no exit status''"

definition MAX_KEYGEN_MESSAGE_CHARS :: nat where "MAX_KEYGEN_MESSAGE_CHARS = 200"

datatype keygen_message = KeygenMessage (message_text: string)

definition is_printable :: "nat \<Rightarrow> bool" where
  "is_printable c \<longleftrightarrow> 32 \<le> c \<and> c \<le> 126"

text \<open>The loop over the characters: the line so far, whether a space is pending, and whether it
  was cut.  Only printable ASCII characters reach the line, so their code points are its bytes.\<close>

fun squeeze :: "nat list \<Rightarrow> string \<Rightarrow> bool \<Rightarrow> string \<times> bool" where
  "squeeze [] line pending = (line, False)"
| "squeeze (c # cs) line pending =
     (if \<not> is_printable c \<or> c = 32 then squeeze cs line (line \<noteq> [])
      else if length line \<ge> MAX_KEYGEN_MESSAGE_CHARS then (line, True)
      else squeeze cs (line @ (if pending then '' '' else []) @ [char_of c]) False)"

definition redact_one :: "string \<Rightarrow> string \<Rightarrow> string" where
  "redact_one decoded secret = (if secret \<noteq> [] then str_replace secret ''<path>'' decoded else decoded)"

definition redacted :: "string \<Rightarrow> string list \<Rightarrow> keygen_message" where
  "redacted stderr sensitive =
     (let (line, truncated) = squeeze (chars (foldl redact_one (from_utf8_lossy stderr) sensitive)) [] False
      in KeygenMessage (if truncated then line @ [CHR 0xE2, CHR 0x80, CHR 0xA6] else line))"

datatype mapped_descriptor = NoDescriptor | Intact | Replaced | Closed

primrec show_descriptor :: "mapped_descriptor \<Rightarrow> string" where
  "show_descriptor NoDescriptor = ''no mapped descriptor''"
| "show_descriptor Intact = ''parent descriptor intact''"
| "show_descriptor Replaced = ''parent descriptor replaced''"
| "show_descriptor Closed = ''parent descriptor closed''"

record keygen_rejection =
  kr_outcome :: keygen_outcome
  kr_message :: keygen_message
  kr_descriptor :: mapped_descriptor

definition show_rejection :: "keygen_rejection \<Rightarrow> string" where
  "show_rejection r =
     (if message_text (kr_message r) = []
      then show_outcome (kr_outcome r) @ '', no diagnostic output''
      else show_outcome (kr_outcome r) @ '': '' @ message_text (kr_message r)) @
     (if kr_descriptor r \<noteq> NoDescriptor then '' ['' @ show_descriptor (kr_descriptor r) @ '']'' else [])"

section \<open>Errors\<close>

datatype errno = NOENT | LOOP | OtherErrno string

datatype ssh_error =
    SshInvalidState string
  | SshIo string errno
  | KeygenTimeout
  | KeygenOutput
  | KeygenRejected keygen_rejection

datatype diagnostic_kind = DiagMissing | DiagInconsistent | DiagUnsafe | DiagInternal

record 'e ssh_diagnostic =
  dg_kind :: diagnostic_kind
  dg_path :: string
  dg_source :: 'e

definition new_diagnostic :: "diagnostic_kind \<Rightarrow> string \<Rightarrow> 'e \<Rightarrow> 'e ssh_diagnostic" where
  "new_diagnostic kind path source = \<lparr> dg_kind = kind, dg_path = path, dg_source = source \<rparr>"

definition map_source :: "('e \<Rightarrow> 'f) \<Rightarrow> 'e ssh_diagnostic \<Rightarrow> 'f ssh_diagnostic" where
  "map_source f d = new_diagnostic (dg_kind d) (dg_path d) (f (dg_source d))"

definition inspected_directory_error :: "string \<Rightarrow> ssh_error \<Rightarrow> ssh_error ssh_diagnostic" where
  "inspected_directory_error path source =
     new_diagnostic (case source of SshInvalidState _ \<Rightarrow> DiagUnsafe | _ \<Rightarrow> DiagInternal) path source"

primrec inspected_open_file_error_kind :: "errno \<Rightarrow> diagnostic_kind" where
  "inspected_open_file_error_kind NOENT = DiagMissing"
| "inspected_open_file_error_kind LOOP = DiagUnsafe"
| "inspected_open_file_error_kind (OtherErrno _) = DiagInternal"

section \<open>Paths\<close>

definition from_environment_with_uid :: "string option \<Rightarrow> u32 \<Rightarrow> (ssh_paths, ssh_error) result" where
  "from_environment_with_uid home uid =
     and_then (ok_or (SshInvalidState ''HOME is required for managed SSH configuration'') home) (\<lambda>home.
     let config_home = path_join home ''.config'' in
     if \<not> is_absolute config_home then Err (SshInvalidState ''SSH configuration home must be absolute'')
     else if \<not> utf8_valid config_home then Err (SshInvalidState ''managed SSH path is not valid UTF-8'')
     else if CHR ''$'' \<in> set config_home then
       Err (SshInvalidState ''SSH configuration path contains OpenSSH expansion'')
     else
       let gascan_directory = path_join config_home ''gascan'';
           directory = path_join gascan_directory ''ssh''
       in Ok \<lparr> pa_config_home = config_home, pa_gascan_directory = gascan_directory,
               pa_directory = directory, pa_private_key = path_join directory ''identity_ed25519'',
               pa_public_key = path_join directory ''identity_ed25519.pub'',
               pa_known_hosts = path_join directory ''known_hosts'',
               pa_config = path_join directory ''config'', pa_expected_uid = uid \<rparr>)"

section \<open>System calls\<close>

datatype file_type = RegularFile | DirectoryFile | OtherFile

text \<open>The part of a file's status that is inspected: \<open>fs_mode\<close> is the mode without the
  bits of the file type.\<close>

record file_stat =
  fs_type :: file_type
  fs_mode :: u16
  fs_uid :: u32
  fs_nlink :: nat
  fs_dev :: u64
  fs_ino :: u64

type_synonym fd = nat

record 'd posix =
  px_open_root :: "'d \<Rightarrow> (fd, errno, 'd) stateful"
  px_openat_dir :: "fd \<Rightarrow> string \<Rightarrow> 'd \<Rightarrow> (fd, errno, 'd) stateful"
  px_mkdirat :: "fd \<Rightarrow> string \<Rightarrow> u16 \<Rightarrow> 'd \<Rightarrow> (unit, errno, 'd) stateful"
  px_fchmod :: "fd \<Rightarrow> u16 \<Rightarrow> 'd \<Rightarrow> (unit, errno, 'd) stateful"
  px_fstat :: "fd \<Rightarrow> 'd \<Rightarrow> (file_stat, errno, 'd) stateful"
  px_flock :: "fd \<Rightarrow> 'd \<Rightarrow> (unit, errno, 'd) stateful"
  px_statat :: "fd \<Rightarrow> string \<Rightarrow> 'd \<Rightarrow> (file_stat, errno, 'd) stateful"
  px_openat :: "fd \<Rightarrow> string \<Rightarrow> 'd \<Rightarrow> (fd, errno, 'd) stateful"
  px_read :: "fd \<Rightarrow> nat \<Rightarrow> 'd \<Rightarrow> (string, errno, 'd) stateful"
  px_read_dir :: "fd \<Rightarrow> 'd \<Rightarrow> ((string, errno) result list, errno, 'd) stateful"
  px_create :: "fd \<Rightarrow> string \<Rightarrow> u16 \<Rightarrow> 'd \<Rightarrow> (fd, errno, 'd) stateful"
  px_write :: "fd \<Rightarrow> string \<Rightarrow> 'd \<Rightarrow> (unit, errno, 'd) stateful"
  px_fsync :: "fd \<Rightarrow> 'd \<Rightarrow> (unit, errno, 'd) stateful"
  px_renameat_new :: "fd \<Rightarrow> string \<Rightarrow> string \<Rightarrow> 'd \<Rightarrow> (unit, errno, 'd) stateful"
  px_renameat :: "fd \<Rightarrow> string \<Rightarrow> string \<Rightarrow> 'd \<Rightarrow> (unit, errno, 'd) stateful"
  px_unlinkat :: "fd \<Rightarrow> string \<Rightarrow> 'd \<Rightarrow> (unit, errno, 'd) stateful"
  px_random_name :: "'d \<Rightarrow> (string, errno, 'd) stateful"

definition io :: "string \<Rightarrow> ('a, errno, 'd) stateful \<Rightarrow> ('a, ssh_error, 'd) stateful" where
  "io action r = st_map_err (SshIo action) r"

section \<open>Checks on files\<close>

type_synonym file_identity = "u64 \<times> u64"

definition identity_from_stat :: "file_stat \<Rightarrow> file_identity" where
  "identity_from_stat st = (fs_dev st, fs_ino st)"

definition validate_regular_identity_stat :: "file_stat \<Rightarrow> u32 \<Rightarrow> (unit, ssh_error) result" where
  "validate_regular_identity_stat st uid =
     (if fs_type st \<noteq> RegularFile then Err (SshInvalidState ''managed SSH path is not a regular file'')
      else if fs_uid st \<noteq> uid then Err (SshInvalidState ''managed SSH file has foreign ownership'')
      else if fs_nlink st \<noteq> 1 then Err (SshInvalidState ''managed SSH file has multiple hard links'')
      else Ok ())"

definition validate_regular_stat :: "file_stat \<Rightarrow> u32 \<Rightarrow> u16 \<Rightarrow> (unit, ssh_error) result" where
  "validate_regular_stat st uid required_mode =
     and_then (validate_regular_identity_stat st uid) (\<lambda>_.
     if fs_mode st \<noteq> required_mode then Err (SshInvalidState ''managed SSH file mode is unsafe'')
     else Ok ())"

definition validate_path_ancestor ::
  "'d posix \<Rightarrow> fd \<Rightarrow> 'd \<Rightarrow> (unit, ssh_error, 'd) stateful" where
  "validate_path_ancestor P directory d =
     st_then (io ''inspect SSH configuration ancestor'' (px_fstat P directory d)) (\<lambda>st d.
     if fs_type st \<noteq> DirectoryFile \<or> (fs_mode st AND 0x12 \<noteq> 0 \<and> fs_mode st AND 0x200 = 0)
     then (Err (SshInvalidState ''SSH configuration ancestor mode is unsafe''), d)
     else (Ok (), d))"

definition random_staging_name :: "'d posix \<Rightarrow> 'd \<Rightarrow> (string, ssh_error, 'd) stateful" where
  "random_staging_name P d =
     st_then (io ''create managed SSH staging name'' (px_random_name P d)) (\<lambda>name d. (Ok (''.'' @ name), d))"

section \<open>Opening the directory\<close>

definition create_config_home ::
  "'d posix \<Rightarrow> fd \<Rightarrow> string \<Rightarrow> 'd \<Rightarrow> (fd, ssh_error, 'd) stateful" where
  "create_config_home P directory name d =
     st_then (io ''create SSH configuration home'' (px_mkdirat P directory name DIRECTORY_MODE d)) (\<lambda>_ d.
     st_then (io ''open new SSH configuration home'' (px_openat_dir P directory name d)) (\<lambda>new d.
     st_then (io ''secure SSH configuration home'' (px_fchmod P new DIRECTORY_MODE d)) (\<lambda>_ d.
     (Ok new, d))))"

fun walk_config_home ::
  "'d posix \<Rightarrow> component list \<Rightarrow> fd \<Rightarrow> bool \<Rightarrow> 'd \<Rightarrow> (fd \<times> bool, ssh_error, 'd) stateful" where
  "walk_config_home P [] directory created d = (Ok (directory, created), d)"
| "walk_config_home P (Normal name # rest) directory created d =
     (case px_openat_dir P directory name d of
        (Ok next, d) \<Rightarrow>
          st_then (validate_path_ancestor P next d) (\<lambda>_ d. walk_config_home P rest next created d)
      | (Err e, d) \<Rightarrow>
          if rest = [] \<and> e = NOENT then
            st_then (create_config_home P directory name d) (\<lambda>next d.
            st_then (validate_path_ancestor P next d) (\<lambda>_ d. walk_config_home P rest next True d))
          else (Err (SshIo ''open SSH configuration ancestor'' e), d))"
| "walk_config_home P (c # rest) directory created d =
     (Err (SshInvalidState ''SSH configuration path contains a non-normal component''), d)"

definition open_config_home ::
  "'d posix \<Rightarrow> string \<Rightarrow> u32 \<Rightarrow> 'd \<Rightarrow> (fd, ssh_error, 'd) stateful" where
  "open_config_home P path uid d =
     (case (is_absolute path, components path) of
        (True, RootDir # rest) \<Rightarrow>
          st_then (io ''open filesystem root'' (px_open_root P d)) (\<lambda>root d.
          st_then (walk_config_home P rest root False d) (\<lambda>(directory, created) d.
          st_then (io ''inspect SSH configuration home'' (px_fstat P directory d)) (\<lambda>st d.
          if fs_type st \<noteq> DirectoryFile \<or> fs_uid st \<noteq> uid \<or> (\<not> created \<and> fs_mode st AND 0x12 \<noteq> 0) \<or>
             (created \<and> fs_mode st \<noteq> DIRECTORY_MODE)
          then (Err (SshInvalidState ''SSH configuration home ownership or mode is unsafe''), d)
          else (Ok directory, d))))
      | _ \<Rightarrow> (Err (SshInvalidState ''SSH configuration home must be absolute''), d))"

fun walk_existing ::
  "'d posix \<Rightarrow> component list \<Rightarrow> fd \<Rightarrow> 'd \<Rightarrow> (fd option, ssh_error, 'd) stateful" where
  "walk_existing P [] directory d = (Ok (Some directory), d)"
| "walk_existing P (Normal name # rest) directory d =
     (case px_openat_dir P directory name d of
        (Ok next, d) \<Rightarrow> st_then (validate_path_ancestor P next d) (\<lambda>_ d. walk_existing P rest next d)
      | (Err e, d) \<Rightarrow>
          if e = NOENT then (Ok None, d) else (Err (SshIo ''open SSH configuration ancestor'' e), d))"
| "walk_existing P (c # rest) directory d =
     (Err (SshInvalidState ''SSH configuration path contains a non-normal component''), d)"

definition open_existing_config_home ::
  "'d posix \<Rightarrow> string \<Rightarrow> u32 \<Rightarrow> 'd \<Rightarrow> (fd option, ssh_error, 'd) stateful" where
  "open_existing_config_home P path uid d =
     (case (is_absolute path, components path) of
        (True, RootDir # rest) \<Rightarrow>
          st_then (io ''open filesystem root'' (px_open_root P d)) (\<lambda>root d.
          st_then (walk_existing P rest root d) (\<lambda>directory d.
          case directory of
            None \<Rightarrow> (Ok None, d)
          | Some directory \<Rightarrow>
              st_then (io ''inspect SSH configuration home'' (px_fstat P directory d)) (\<lambda>st d.
              if fs_type st \<noteq> DirectoryFile \<or> fs_uid st \<noteq> uid \<or> fs_mode st AND 0x12 \<noteq> 0
              then (Err (SshInvalidState ''SSH configuration home ownership or mode is unsafe''), d)
              else (Ok (Some directory), d))))
      | _ \<Rightarrow> (Err (SshInvalidState ''SSH configuration home must be absolute''), d))"

definition check_managed_directory ::
  "'d posix \<Rightarrow> fd \<Rightarrow> u32 \<Rightarrow> 'd \<Rightarrow> (unit, ssh_error, 'd) stateful" where
  "check_managed_directory P directory uid d =
     st_then (io ''inspect managed SSH directory'' (px_fstat P directory d)) (\<lambda>st d.
     if fs_type st \<noteq> DirectoryFile \<or> fs_uid st \<noteq> uid \<or> fs_mode st \<noteq> DIRECTORY_MODE
     then (Err (SshInvalidState ''managed SSH directory ownership or mode is unsafe''), d)
     else (Ok (), d))"

definition open_managed_directory ::
  "'d posix \<Rightarrow> fd \<Rightarrow> string \<Rightarrow> u32 \<Rightarrow> 'd \<Rightarrow> (fd, ssh_error, 'd) stateful" where
  "open_managed_directory P parent_fd name uid d =
     st_then
       (case px_openat_dir P parent_fd name d of
          (Ok directory, d) \<Rightarrow> (Ok directory, d)
        | (Err e, d) \<Rightarrow>
            if e = NOENT then
              st_then (io ''create managed SSH directory'' (px_mkdirat P parent_fd name DIRECTORY_MODE d)) (\<lambda>_ d.
              st_then (io ''open new managed SSH directory'' (px_openat_dir P parent_fd name d)) (\<lambda>directory d.
              st_then (io ''secure managed SSH directory'' (px_fchmod P directory DIRECTORY_MODE d)) (\<lambda>_ d.
              (Ok directory, d))))
            else (Err (SshIo ''open managed SSH directory'' e), d))
       (\<lambda>directory d. st_then (check_managed_directory P directory uid d) (\<lambda>_ d. (Ok directory, d)))"

definition open_existing_managed_directory ::
  "'d posix \<Rightarrow> fd \<Rightarrow> string \<Rightarrow> u32 \<Rightarrow> 'd \<Rightarrow> (fd option, ssh_error, 'd) stateful" where
  "open_existing_managed_directory P parent_fd name uid d =
     (case px_openat_dir P parent_fd name d of
        (Ok directory, d) \<Rightarrow>
          st_then (check_managed_directory P directory uid d) (\<lambda>_ d. (Ok (Some directory), d))
      | (Err e, d) \<Rightarrow>
          if e = NOENT then (Ok None, d) else (Err (SshIo ''open managed SSH directory'' e), d))"

section \<open>The state directory\<close>

record state_directory =
  dir_fd :: fd
  dir_expected_uid :: u32
  dir_path :: string

definition lock_directory ::
  "'d posix \<Rightarrow> ssh_paths \<Rightarrow> fd \<Rightarrow> 'd \<Rightarrow> (state_directory, ssh_error ssh_diagnostic, 'd) stateful" where
  "lock_directory P paths fd d =
     st_then (st_map_err (\<lambda>e. new_diagnostic DiagInternal (pa_directory paths)
         (SshIo ''lock managed SSH directory'' e)) (px_flock P fd d)) (\<lambda>_ d.
     (Ok \<lparr> dir_fd = fd, dir_expected_uid = pa_expected_uid paths, dir_path = pa_directory paths \<rparr>, d))"

definition open_inspected ::
  "'d posix \<Rightarrow> ssh_paths \<Rightarrow> 'd \<Rightarrow> (state_directory, ssh_error ssh_diagnostic, 'd) stateful" where
  "open_inspected P paths d =
     st_then (st_map_err (inspected_directory_error (pa_config_home paths))
       (open_config_home P (pa_config_home paths) (pa_expected_uid paths) d)) (\<lambda>config_home d.
     st_then (st_map_err (inspected_directory_error (pa_gascan_directory paths))
       (open_managed_directory P config_home ''gascan'' (pa_expected_uid paths) d)) (\<lambda>gascan d.
     st_then (st_map_err (inspected_directory_error (pa_directory paths))
       (open_managed_directory P gascan ''ssh'' (pa_expected_uid paths) d)) (\<lambda>fd d.
     lock_directory P paths fd d)))"

definition open_state_directory ::
  "'d posix \<Rightarrow> ssh_paths \<Rightarrow> 'd \<Rightarrow> (state_directory, ssh_error, 'd) stateful" where
  "open_state_directory P paths d = st_map_err dg_source (open_inspected P paths d)"

definition open_existing_inspected ::
  "'d posix \<Rightarrow> ssh_paths \<Rightarrow> 'd \<Rightarrow> (state_directory option, ssh_error ssh_diagnostic, 'd) stateful" where
  "open_existing_inspected P paths d =
     st_then (st_map_err (inspected_directory_error (pa_config_home paths))
       (open_existing_config_home P (pa_config_home paths) (pa_expected_uid paths) d)) (\<lambda>config_home d.
     case config_home of
       None \<Rightarrow> (Ok None, d)
     | Some config_home \<Rightarrow>
         st_then (st_map_err (inspected_directory_error (pa_gascan_directory paths))
           (open_existing_managed_directory P config_home ''gascan'' (pa_expected_uid paths) d)) (\<lambda>gascan d.
         case gascan of
           None \<Rightarrow> (Ok None, d)
         | Some gascan \<Rightarrow>
             st_then (st_map_err (inspected_directory_error (pa_directory paths))
               (open_existing_managed_directory P gascan ''ssh'' (pa_expected_uid paths) d)) (\<lambda>fd d.
             case fd of
               None \<Rightarrow> (Ok None, d)
             | Some fd \<Rightarrow> st_then (lock_directory P paths fd d) (\<lambda>dir d. (Ok (Some dir), d)))))"

definition metadata_inspected ::
  "'d posix \<Rightarrow> state_directory \<Rightarrow> string \<Rightarrow> u16 \<Rightarrow> 'd \<Rightarrow>
     (file_identity option, ssh_error ssh_diagnostic, 'd) stateful" where
  "metadata_inspected P dir name required_mode d =
     (let path = path_join (dir_path dir) name in
      case px_statat P (dir_fd dir) name d of
        (Err e, d) \<Rightarrow>
          if e = NOENT then (Ok None, d)
          else (Err (new_diagnostic DiagInternal path (SshIo ''inspect managed SSH file'' e)), d)
      | (Ok st, d) \<Rightarrow>
          (case validate_regular_stat st (dir_expected_uid dir) required_mode of
             Err e \<Rightarrow> (Err (new_diagnostic DiagUnsafe path e), d)
           | Ok _ \<Rightarrow> (Ok (Some (identity_from_stat st)), d)))"

definition metadata ::
  "'d posix \<Rightarrow> state_directory \<Rightarrow> string \<Rightarrow> u16 \<Rightarrow> 'd \<Rightarrow> (file_identity option, ssh_error, 'd) stateful" where
  "metadata P dir name required_mode d = st_map_err dg_source (metadata_inspected P dir name required_mode d)"

definition open_file_inspected ::
  "'d posix \<Rightarrow> state_directory \<Rightarrow> string \<Rightarrow> u16 \<Rightarrow> 'd \<Rightarrow>
     (fd \<times> file_identity, ssh_error ssh_diagnostic, 'd) stateful" where
  "open_file_inspected P dir name required_mode d =
     (let path = path_join (dir_path dir) name in
      st_then (st_map_err (\<lambda>e. new_diagnostic (inspected_open_file_error_kind e) path
          (SshIo ''open managed SSH file'' e)) (px_openat P (dir_fd dir) name d)) (\<lambda>fd d.
      st_then (st_map_err (\<lambda>e. new_diagnostic DiagInternal path
          (SshIo ''inspect open managed SSH file'' e)) (px_fstat P fd d)) (\<lambda>st d.
      case validate_regular_stat st (dir_expected_uid dir) required_mode of
        Err e \<Rightarrow> (Err (new_diagnostic DiagUnsafe path e), d)
      | Ok _ \<Rightarrow> (Ok (fd, identity_from_stat st), d))))"

definition open_file ::
  "'d posix \<Rightarrow> state_directory \<Rightarrow> string \<Rightarrow> u16 \<Rightarrow> 'd \<Rightarrow> (fd \<times> file_identity, ssh_error, 'd) stateful" where
  "open_file P dir name required_mode d = st_map_err dg_source (open_file_inspected P dir name required_mode d)"

definition read_file_inspected ::
  "'d posix \<Rightarrow> state_directory \<Rightarrow> string \<Rightarrow> u16 \<Rightarrow> nat \<Rightarrow> 'd \<Rightarrow>
     (string \<times> file_identity, ssh_error ssh_diagnostic, 'd) stateful" where
  "read_file_inspected P dir name required_mode maximum d =
     (let path = path_join (dir_path dir) name in
      st_then (metadata_inspected P dir name required_mode d) (\<lambda>expected d.
      case expected of
        None \<Rightarrow> (Err (new_diagnostic DiagMissing path (SshIo ''open managed SSH file'' (OtherErrno ''entity not found''))), d)
      | Some expected \<Rightarrow>
          st_then (open_file_inspected P dir name required_mode d) (\<lambda>(fd, identity) d.
          if identity \<noteq> expected then
            (Err (new_diagnostic DiagUnsafe path
               (SshInvalidState ''managed SSH file changed during validation'')), d)
          else
            st_then (st_map_err (\<lambda>e. new_diagnostic DiagInternal path (SshIo ''read managed SSH file'' e))
              (px_read P fd (maximum + 1) d)) (\<lambda>bytes d.
            if length bytes > maximum then
              (Err (new_diagnostic DiagInconsistent path (SshInvalidState ''managed SSH file is too large'')), d)
            else (Ok (bytes, identity), d)))))"

definition read_file ::
  "'d posix \<Rightarrow> state_directory \<Rightarrow> string \<Rightarrow> u16 \<Rightarrow> nat \<Rightarrow> 'd \<Rightarrow>
     (string \<times> file_identity, ssh_error, 'd) stateful" where
  "read_file P dir name required_mode maximum d =
     st_map_err dg_source (read_file_inspected P dir name required_mode maximum d)"

text \<open>Reading the directory delivers one entry after the other, each of which may be an error.\<close>

definition read_directory ::
  "'d posix \<Rightarrow> state_directory \<Rightarrow> 'd \<Rightarrow> ((string, ssh_error ssh_diagnostic) result list, ssh_error ssh_diagnostic, 'd) stateful" where
  "read_directory P dir d =
     (let failed = (\<lambda>e. new_diagnostic DiagInternal (dir_path dir) (SshIo ''read managed SSH directory'' e)) in
      st_then (st_map_err failed (px_read_dir P (dir_fd dir) d)) (\<lambda>entries d.
      (Ok (map (map_err failed) entries), d)))"

definition is_entry :: "string \<Rightarrow> bool" where
  "is_entry name \<longleftrightarrow> name \<notin> {''.'', ''..''}"

definition entry_names ::
  "'d posix \<Rightarrow> state_directory \<Rightarrow> 'd \<Rightarrow> (string list, ssh_error ssh_diagnostic, 'd) stateful" where
  "entry_names P dir d =
     st_then (read_directory P dir d) (\<lambda>entries d.
     (map_ok (filter is_entry) (collect_ok (\<lambda>entry. entry) entries), d))"

fun any_entry :: "(string, 'e) result list \<Rightarrow> (bool, 'e) result" where
  "any_entry [] = Ok False"
| "any_entry (Err e # rest) = Err e"
| "any_entry (Ok name # rest) = (if is_entry name then Ok True else any_entry rest)"

definition has_entries_inspected ::
  "'d posix \<Rightarrow> state_directory \<Rightarrow> 'd \<Rightarrow> (bool, ssh_error ssh_diagnostic, 'd) stateful" where
  "has_entries_inspected P dir d =
     st_then (read_directory P dir d) (\<lambda>entries d. (any_entry entries, d))"

definition create_staging ::
  "'d posix \<Rightarrow> state_directory \<Rightarrow> string \<Rightarrow> u16 \<Rightarrow> 'd \<Rightarrow> (fd, ssh_error, 'd) stateful" where
  "create_staging P dir name mode d =
     st_then (io ''create managed SSH staging file'' (px_create P (dir_fd dir) name mode d)) (\<lambda>fd d.
     st_then (io ''set managed SSH staging mode'' (px_fchmod P fd mode d)) (\<lambda>_ d.
     st_then (io ''inspect managed SSH staging file'' (px_fstat P fd d)) (\<lambda>st d.
     case validate_regular_stat st (dir_expected_uid dir) mode of
       Err e \<Rightarrow> (Err e, d)
     | Ok _ \<Rightarrow> (Ok fd, d))))"

definition harden_staging ::
  "'d posix \<Rightarrow> state_directory \<Rightarrow> string \<Rightarrow> u16 \<Rightarrow> 'd \<Rightarrow> (unit, ssh_error, 'd) stateful" where
  "harden_staging P dir name mode d =
     st_then (io ''open generated SSH staging file'' (px_openat P (dir_fd dir) name d)) (\<lambda>fd d.
     st_then (io ''inspect generated SSH staging file'' (px_fstat P fd d)) (\<lambda>st d.
     case validate_regular_identity_stat st (dir_expected_uid dir) of
       Err e \<Rightarrow> (Err e, d)
     | Ok _ \<Rightarrow>
         st_then (io ''set generated SSH staging mode'' (px_fchmod P fd mode d)) (\<lambda>_ d.
         st_then (io ''reinspect generated SSH staging file'' (px_fstat P fd d)) (\<lambda>st d.
         (validate_regular_stat st (dir_expected_uid dir) mode, d)))))"

definition rename_new ::
  "'d posix \<Rightarrow> state_directory \<Rightarrow> string \<Rightarrow> string \<Rightarrow> 'd \<Rightarrow> (unit, ssh_error, 'd) stateful" where
  "rename_new P dir source target d =
     io ''publish new managed SSH file'' (px_renameat_new P (dir_fd dir) source target d)"

definition rename_replace ::
  "'d posix \<Rightarrow> state_directory \<Rightarrow> string \<Rightarrow> string \<Rightarrow> 'd \<Rightarrow> (unit, ssh_error, 'd) stateful" where
  "rename_replace P dir source target d =
     io ''replace managed SSH file'' (px_renameat P (dir_fd dir) source target d)"

definition rename_back ::
  "'d posix \<Rightarrow> state_directory \<Rightarrow> string \<Rightarrow> string \<Rightarrow> 'd \<Rightarrow> (unit, ssh_error, 'd) stateful" where
  "rename_back P dir source target d =
     io ''roll back managed SSH publication'' (px_renameat_new P (dir_fd dir) source target d)"

definition remove_entry :: "'d posix \<Rightarrow> state_directory \<Rightarrow> string \<Rightarrow> 'd \<Rightarrow> 'd" where
  "remove_entry P dir name d = snd (px_unlinkat P (dir_fd dir) name d)"

definition remove_checked ::
  "'d posix \<Rightarrow> state_directory \<Rightarrow> string \<Rightarrow> 'd \<Rightarrow> (unit, ssh_error, 'd) stateful" where
  "remove_checked P dir name d = io ''remove managed SSH file'' (px_unlinkat P (dir_fd dir) name d)"

definition remove_identity_checked ::
  "'d posix \<Rightarrow> state_directory \<Rightarrow> string \<Rightarrow> file_identity \<Rightarrow> u16 \<Rightarrow> 'd \<Rightarrow>
     (unit, ssh_error ssh_diagnostic, 'd) stateful" where
  "remove_identity_checked P dir name expected required_mode d =
     (let path = path_join (dir_path dir) name;
          changed = new_diagnostic DiagUnsafe path (SshInvalidState ''managed SSH file changed before removal'')
      in
      st_then (open_file_inspected P dir name required_mode d) (\<lambda>(_, opened) d.
      if opened \<noteq> expected then (Err changed, d)
      else
        st_then (metadata_inspected P dir name required_mode d) (\<lambda>current d.
        if current \<noteq> Some expected then (Err changed, d)
        else st_map_err (\<lambda>e. new_diagnostic DiagInternal path
               (SshIo ''remove obsolete managed known-hosts generation'' e)) (px_unlinkat P (dir_fd dir) name d))))"

definition sync_directory :: "'d posix \<Rightarrow> state_directory \<Rightarrow> 'd \<Rightarrow> (unit, ssh_error, 'd) stateful" where
  "sync_directory P dir d = io ''sync managed SSH directory'' (px_fsync P (dir_fd dir) d)"

definition inspect_managed_ssh_artifacts ::
  "'d posix \<Rightarrow> ssh_paths \<Rightarrow> 'd \<Rightarrow> (bool, ssh_error ssh_diagnostic, 'd) stateful" where
  "inspect_managed_ssh_artifacts P paths d =
     st_then (open_existing_inspected P paths d) (\<lambda>dir d.
     case dir of None \<Rightarrow> (Ok False, d) | Some dir \<Rightarrow> has_entries_inspected P dir d)"

section \<open>The message of ssh-keygen\<close>

text \<open>The whole message on one line: its words, the maximal runs of printable characters other than
  the space, separated by single spaces.\<close>

definition visible :: "nat \<Rightarrow> char" where
  "visible c = (if 33 \<le> c \<and> c \<le> 126 then char_of c else CHR '' '')"

definition one_line :: "nat list \<Rightarrow> string" where
  "one_line cs = join_with CHR '' '' (filter (\<lambda>w. w \<noteq> []) (split_on CHR '' '' (map visible cs)))"

text \<open>The loop without its limit.\<close>

fun gather :: "nat list \<Rightarrow> string \<Rightarrow> bool \<Rightarrow> string" where
  "gather [] line pending = line"
| "gather (c # cs) line pending =
     (if \<not> is_printable c \<or> c = 32 then gather cs line (line \<noteq> [])
      else gather cs (line @ (if pending then '' '' else []) @ [char_of c]) False)"

lemma visible_space: "visible c = CHR '' '' \<longleftrightarrow> \<not> is_printable c \<or> c = 32"
proof -
  have "char_of c \<noteq> CHR '' ''" if "33 \<le> c" "c \<le> 126"
  proof
    assume "char_of c = CHR '' ''"
    then have "byte (char_of c) = byte CHR '' ''" by simp
    with that show False by simp
  qed
  then show ?thesis by (auto simp: visible_def is_printable_def)
qed

lemma visible_printable: "is_printable c \<Longrightarrow> c \<noteq> 32 \<Longrightarrow> visible c = char_of c"
  by (simp add: visible_def is_printable_def)

lemma join_words: "join_with c (w # ws) = w @ concat (map (Cons c) ws)"
  by (induction ws arbitrary: w) (simp_all add: join_with_Cons)

lemma gather_words:
  "line \<noteq> [] \<Longrightarrow> gather cs line False =
     line @ hd (split_on CHR '' '' (map visible cs)) @
     concat (map (Cons CHR '' '') (filter (\<lambda>w. w \<noteq> []) (tl (split_on CHR '' '' (map visible cs)))))"
  "line \<noteq> [] \<Longrightarrow> gather cs line True =
     line @ concat (map (Cons CHR '' '') (filter (\<lambda>w. w \<noteq> []) (split_on CHR '' '' (map visible cs))))"
proof (induction cs arbitrary: line)
  case (Cons c cs)
  obtain p ps where sp: "split_on CHR '' '' (map visible cs) = p # ps"
    by (cases "split_on CHR '' '' (map visible cs)") simp_all
  { case 1 with Cons.IH [of line] Cons.IH(1) [of "line @ [char_of c]"] show ?case
      by (simp add: sp visible_space visible_printable) }
  { case 2 with Cons.IH [of line] Cons.IH(1) [of "line @ '' '' @ [char_of c]"] show ?case
      by (simp add: sp visible_space visible_printable) }
qed simp_all

lemma gather_one_line: "gather cs [] False = one_line cs"
proof (induction cs)
  case (Cons c cs)
  obtain p ps where sp: "split_on CHR '' '' (map visible cs) = p # ps"
    by (cases "split_on CHR '' '' (map visible cs)") simp_all
  show ?case
  proof (cases "visible c = CHR '' ''")
    case True
    with Cons show ?thesis by (simp add: one_line_def visible_space)
  next
    case False
    then have "is_printable c" "c \<noteq> 32" "char_of c \<noteq> CHR '' ''"
      using visible_space [of c] visible_printable [of c] by auto
    then show ?thesis
      using gather_words(1) [of "[char_of c]" cs]
      by (simp add: one_line_def visible_printable sp join_words)
  qed
qed (simp add: one_line_def)

lemma gather_prefix: "\<exists>rest. gather cs line pending = line @ rest"
proof (induction cs arbitrary: line pending)
  case (Cons c cs)
  show ?case
    using Cons.IH [of line "line \<noteq> []"] Cons.IH [of "line @ (if pending then '' '' else []) @ [char_of c]" False]
    by auto
qed simp

text \<open>What the loop keeps of its line: printable, ended by a visible character, and of length 201
  only by a space in the last but one place.\<close>

definition kept_line :: "string \<Rightarrow> bool" where
  "kept_line line \<longleftrightarrow>
     list_all (\<lambda>c. 32 \<le> byte c \<and> byte c \<le> 126) line \<and> (line \<noteq> [] \<longrightarrow> last line \<noteq> CHR '' '') \<and>
     (length line \<le> 200 \<or> length line = 201 \<and> line ! 199 = CHR '' '')"

lemma kept_line_extend:
  assumes "kept_line line" "length line < 200" "is_printable c" "c \<noteq> 32"
  shows "kept_line (line @ (if pending then '' '' else []) @ [char_of c])"
proof -
  have "char_of c \<noteq> CHR '' ''"
    using assms(3,4) visible_space [of c] visible_printable [of c] by simp
  moreover have "byte (char_of c) = c" using assms(3) by (simp add: is_printable_def)
  moreover have "(line @ '' '' @ [char_of c]) ! 199 = CHR '' ''" if "length line = 199"
    using that by (simp add: nth_append)
  ultimately show ?thesis
    using assms by (cases "length line = 199") (auto simp: kept_line_def is_printable_def)
qed

lemma squeeze_kept:
  "kept_line line \<Longrightarrow> squeeze cs line pending = (out, truncated) \<Longrightarrow>
     kept_line out \<and>
     (if truncated then 200 \<le> length out \<and> (\<exists>rest. rest \<noteq> [] \<and> gather cs line pending = out @ rest)
      else out = gather cs line pending)"
proof (induction cs arbitrary: line pending)
  case (Cons c cs)
  let ?line = "line @ (if pending then '' '' else []) @ [char_of c]"
  show ?case
  proof (cases "\<not> is_printable c \<or> c = 32")
    case True
    with Cons.IH [of line "line \<noteq> []"] Cons.prems show ?thesis by simp
  next
    case printable: False
    show ?thesis
    proof (cases "length line < 200")
      case True
      with printable Cons.prems(1) have "kept_line ?line" by (intro kept_line_extend) simp_all
      with Cons.IH [of ?line False] Cons.prems(2) printable True show ?thesis
        by (simp add: MAX_KEYGEN_MESSAGE_CHARS_def)
    next
      case False
      have "\<exists>rest. rest \<noteq> [] \<and> gather cs ?line False = line @ rest"
        using gather_prefix [of cs ?line False] by auto
      with False printable Cons.prems show ?thesis
        by (auto simp: MAX_KEYGEN_MESSAGE_CHARS_def)
    qed
  qed
qed simp

lemma squeeze_copies:
  assumes "list_all (\<lambda>c. 33 \<le> byte c \<and> byte c \<le> 126) xs" "length line + length xs \<le> MAX_KEYGEN_MESSAGE_CHARS"
  shows "squeeze (map byte xs @ cs) line False = squeeze cs (line @ xs) False"
  using assms
  by (induction xs arbitrary: line) (auto simp: is_printable_def)

text \<open>C39. The diagnostic of \<open>ssh-keygen\<close> that travels with an error is one printable line, cut with
  an ellipsis exactly when it is too long.  Let the full line be the words of the redacted text,
  separated by single spaces.  At most 200 characters of it are kept, or 201 when the 200th is a
  space; a line that is not longer than that is returned as it is, and from a longer one that many
  characters are returned, followed by an ellipsis.  So the bound is one above the documented limit of
  200 characters, and it is attained: a space that is pending when the line has 199 characters is
  added together with the character after it.\<close>

theorem redacted_bounded:
  "(let full = one_line (chars (foldl redact_one (from_utf8_lossy stderr) sensitive));
        kept = (if 199 < length full \<and> full ! 199 = CHR '' '' then 201 else 200)
    in list_all (\<lambda>c. 32 \<le> byte c \<and> byte c \<le> 126) (take kept full) \<and>
       message_text (redacted stderr sensitive) =
         (if length full \<le> kept then full else take kept full @ [CHR 0xE2, CHR 0x80, CHR 0xA6])) \<and>
   message_text (redacted (replicate 199 CHR ''x'' @ '' y'') []) = replicate 199 CHR ''x'' @ '' y''"
proof
  let ?cs = "chars (foldl redact_one (from_utf8_lossy stderr) sensitive)"
  obtain line truncated where sq: "squeeze ?cs [] False = (line, truncated)" by fastforce
  have "kept_line []" by (simp add: kept_line_def)
  note kept = squeeze_kept [OF this sq, unfolded gather_one_line]
  show "let full = one_line ?cs; kept = (if 199 < length full \<and> full ! 199 = CHR '' '' then 201 else 200)
    in list_all (\<lambda>c. 32 \<le> byte c \<and> byte c \<le> 126) (take kept full) \<and>
       message_text (redacted stderr sensitive) =
         (if length full \<le> kept then full else take kept full @ [CHR 0xE2, CHR 0x80, CHR 0xA6])"
  proof (cases truncated)
    case False
    then show ?thesis
      using kept by (auto simp: redacted_def sq kept_line_def Let_def)
  next
    case True
    with kept obtain rest where rest: "200 \<le> length line" "rest \<noteq> []" "one_line ?cs = line @ rest" by auto
    then have at: "one_line ?cs ! 199 = line ! 199" by (simp add: nth_append)
    have "line ! 199 = last line" if "length line = 200"
      using that by (simp add: last_conv_nth flip: length_greater_0_conv)
    then have "length line = (if one_line ?cs ! 199 = CHR '' '' then 201 else 200)"
      using kept rest(1) by (auto simp: kept_line_def at)
    then show ?thesis
      using True kept rest by (auto simp: redacted_def sq kept_line_def Let_def split: if_splits)
  qed
  let ?x = "replicate 199 CHR ''x''"
  have ascii: "list_all is_ascii_byte (?x @ '' y'')" by (simp add: ascii_simps list_all_iff)
  have "squeeze (chars (?x @ '' y'')) [] False = squeeze [32, 121] ?x False"
    using squeeze_copies [of ?x "[]" "[32, 121]"]
    by (simp add: chars_ascii [OF ascii] MAX_KEYGEN_MESSAGE_CHARS_def list_all_iff)
  also have "\<dots> = (?x @ '' y'', False)"
    using char_of_char [of "CHR ''y''"]
    by (simp add: is_printable_def MAX_KEYGEN_MESSAGE_CHARS_def)
  finally show "message_text (redacted (?x @ '' y'') []) = ?x @ '' y''"
    by (simp add: redacted_def from_utf8_lossy_valid [OF utf8_valid_ascii [OF ascii]])
qed

end
