(* ===== verification/Ssh_Identity.thy ===== *)
theory Ssh_Identity
  imports Ssh_State
begin

text \<open>
  The managed client identity (\<open>gascand/src/ssh/identity.rs\<close>): parsing of public keys, the
  bounded run of \<open>ssh-keygen\<close>, and loading, checking and generating the key pair.
  Parameters: the Base64 codec and SHA-256 (\<open>ssh_codec\<close>), and the child process
  (\<open>keygen\<close>), which may change the files of the directory.
\<close>

definition PRIVATE_KEY_NAME :: string where "PRIVATE_KEY_NAME = ''identity_ed25519''"
definition PUBLIC_KEY_NAME :: string where "PUBLIC_KEY_NAME = ''identity_ed25519.pub''"
definition MAX_SUBPROCESS_OUTPUT :: nat where "MAX_SUBPROCESS_OUTPUT = 16 * 1024"

record ssh_codec =
  sc_decode :: "string \<Rightarrow> string option"
  sc_encode_no_pad :: "string \<Rightarrow> string"
  sc_sha256 :: "string \<Rightarrow> string"

record host_identity =
  hi_private_key :: string
  hi_public_key :: string
  hi_fingerprint :: string

record parsed_public_key =
  pk_normalized :: string
  pk_fingerprint :: string

section \<open>Public keys\<close>

definition ED25519_BLOB_PREFIX :: string where
  "ED25519_BLOB_PREFIX =
     [CHR 0x00, CHR 0x00, CHR 0x00, CHR 0x0B] @ ''ssh-ed25519'' @ [CHR 0x00, CHR 0x00, CHR 0x00, CHR 0x20]"

definition malformed_key :: ssh_error where
  "malformed_key = SshInvalidState ''managed SSH public key is malformed''"

definition validate_ed25519_blob :: "string \<Rightarrow> (unit, ssh_error) result" where
  "validate_ed25519_blob blob =
     (if length blob \<noteq> 4 + length ''ssh-ed25519'' + 4 + 32 \<or> \<not> prefix ED25519_BLOB_PREFIX blob
      then Err malformed_key else Ok ())"

definition is_line_end :: "char \<Rightarrow> bool" where
  "is_line_end c \<longleftrightarrow> c = CHR 0x0D \<or> c = CHR 0x0A"

definition trim_line_ends :: "string \<Rightarrow> string" where
  "trim_line_ends s = rev (dropWhile is_line_end (rev s))"

definition parse_public_key :: "ssh_codec \<Rightarrow> string \<Rightarrow> (parsed_public_key, ssh_error) result" where
  "parse_public_key sc bytes =
     (if bytes = [] \<or> length bytes > MAX_SUBPROCESS_OUTPUT \<or> CHR 0x00 \<in> set bytes then Err malformed_key
      else if \<not> utf8_valid bytes then Err malformed_key
      else
        let trimmed = trim_line_ends bytes in
        if trimmed = [] \<or> list_ex is_line_end trimmed then Err malformed_key
        else
          (case split_ascii_whitespace trimmed of
             [] \<Rightarrow> Err (SshInvalidState ''managed SSH key is not Ed25519'')
           | kind # others \<Rightarrow>
               if kind \<noteq> ''ssh-ed25519'' then Err (SshInvalidState ''managed SSH key is not Ed25519'')
               else
                 and_then (ok_or malformed_key (case others of [] \<Rightarrow> None | f # _ \<Rightarrow> Some f)) (\<lambda>encoded.
                 and_then (ok_or malformed_key (sc_decode sc encoded)) (\<lambda>blob.
                 and_then (validate_ed25519_blob blob) (\<lambda>_.
                 Ok \<lparr> pk_normalized = ''ssh-ed25519 '' @ encoded,
                      pk_fingerprint = ''SHA256:'' @ sc_encode_no_pad sc (sc_sha256 sc blob) \<rparr>)))))"

section \<open>Running ssh-keygen\<close>

text \<open>How the child ended: it could not be started, waiting for it or reading from it failed, the
  time limit passed, or it finished with a status and its output, of which one byte more than the
  bound is read.  \<open>kg_observe\<close> is what the parent sees of the mapped descriptor when the child
  has been started.\<close>

datatype child_result =
    SpawnFailed errno
  | WaitFailed errno
  | TimedOut
  | Finished "int option" "int option" string string

record 'd keygen =
  kg_run :: "string list \<Rightarrow> 'd \<Rightarrow> child_result \<times> 'd"
  kg_observe :: "'d \<Rightarrow> mapped_descriptor"

definition keygen_outcome_of :: "int option \<Rightarrow> int option \<Rightarrow> keygen_outcome" where
  "keygen_outcome_of code signal =
     (case (code, signal) of
        (Some code, _) \<Rightarrow> ExitCode code
      | (None, Some signal) \<Rightarrow> KilledBy signal
      | (None, None) \<Rightarrow> NoStatus)"

definition read_bounded :: "string \<Rightarrow> string" where
  "read_bounded output = take (MAX_SUBPROCESS_OUTPUT + 1) output"

definition run_keygen ::
  "'d keygen \<Rightarrow> string list \<Rightarrow> string list \<Rightarrow> bool \<Rightarrow> 'd \<Rightarrow> (string, ssh_error, 'd) stateful" where
  "run_keygen kg args sensitive watched d0 =
     (case kg_run kg args d0 of
        (SpawnFailed e, d) \<Rightarrow> (Err (SshIo ''start bounded ssh-keygen'' e), d)
      | (WaitFailed e, d) \<Rightarrow> (Err (SshIo ''run bounded ssh-keygen'' e), d)
      | (TimedOut, d) \<Rightarrow> (Err KeygenTimeout, d)
      | (Finished code signal out err, d) \<Rightarrow>
          if length (read_bounded out) > MAX_SUBPROCESS_OUTPUT \<or> length (read_bounded err) > MAX_SUBPROCESS_OUTPUT
          then (Err KeygenOutput, d)
          else if code \<noteq> Some 0 then
            (Err (KeygenRejected
               \<lparr> kr_outcome = keygen_outcome_of code signal,
                 kr_message = redacted (read_bounded err) sensitive,
                 kr_descriptor = (if watched then kg_observe kg d0 else NoDescriptor) \<rparr>), d)
          else (Ok (read_bounded out), d))"

section \<open>The key pair\<close>

definition require_unchanged ::
  "'d posix \<Rightarrow> state_directory \<Rightarrow> string \<Rightarrow> u16 \<Rightarrow> file_identity \<Rightarrow> 'd \<Rightarrow> (unit, ssh_error, 'd) stateful" where
  "require_unchanged P dir name mode expected d =
     st_then (metadata P dir name mode d) (\<lambda>current d.
     if current \<noteq> Some expected then (Err (SshInvalidState ''managed SSH file changed during validation''), d)
     else (Ok (), d))"

text \<open>The descriptor of the private key is duplicated by \<open>dup\<close>; the child reads it through
  \<open>/dev/fd\<close>.\<close>

record 'd descriptors =
  ds_dup :: "fd \<Rightarrow> 'd \<Rightarrow> (fd, errno, 'd) stateful"
  ds_map :: "fd \<Rightarrow> 'd \<Rightarrow> (unit, errno, 'd) stateful"

definition derive_public_key ::
  "'d posix \<Rightarrow> 'd descriptors \<Rightarrow> 'd keygen \<Rightarrow> fd \<Rightarrow> 'd \<Rightarrow> (string, ssh_error, 'd) stateful" where
  "derive_public_key P ds kg private_file d =
     st_then (io ''duplicate managed SSH private descriptor'' (ds_dup ds private_file d)) (\<lambda>inherited d.
     st_then (io ''configure managed SSH private descriptor mapping'' (ds_map ds inherited d)) (\<lambda>_ d.
     st_then (io ''inspect managed SSH private descriptor'' (px_fstat P private_file d)) (\<lambda>_ d.
     run_keygen kg [''-y'', ''-f'', ''/dev/fd/'' @ show_nat inherited] [] True d)))"

definition validate_pair ::
  "'d posix \<Rightarrow> 'd descriptors \<Rightarrow> 'd keygen \<Rightarrow> ssh_codec \<Rightarrow> state_directory \<Rightarrow> string \<Rightarrow> string \<Rightarrow> 'd \<Rightarrow>
     (parsed_public_key, ssh_error, 'd) stateful" where
  "validate_pair P ds kg sc dir private_name public_name d =
     st_then (open_file P dir private_name PRIVATE_MODE d) (\<lambda>(private_file, private_identity) d.
     st_then (read_file P dir public_name PUBLIC_MODE
        (min maximum_managed_file_bytes MAX_SUBPROCESS_OUTPUT) d) (\<lambda>(public_bytes, public_identity) d.
     case parse_public_key sc public_bytes of
       Err e \<Rightarrow> (Err e, d)
     | Ok stored_public \<Rightarrow>
         st_then (derive_public_key P ds kg private_file d) (\<lambda>derived d.
         case parse_public_key sc derived of
           Err e \<Rightarrow> (Err e, d)
         | Ok derived_public \<Rightarrow>
             if pk_normalized stored_public \<noteq> pk_normalized derived_public then
               (Err (SshInvalidState ''managed SSH private and public keys do not match''), d)
             else
               st_then (require_unchanged P dir private_name PRIVATE_MODE private_identity d) (\<lambda>_ d.
               st_then (require_unchanged P dir public_name PUBLIC_MODE public_identity d) (\<lambda>_ d.
               (Ok stored_public, d))))))"

definition load_existing ::
  "'d posix \<Rightarrow> 'd descriptors \<Rightarrow> 'd keygen \<Rightarrow> ssh_codec \<Rightarrow> state_directory \<Rightarrow> ssh_paths \<Rightarrow> 'd \<Rightarrow>
     (host_identity, ssh_error, 'd) stateful" where
  "load_existing P ds kg sc dir paths d =
     st_then (validate_pair P ds kg sc dir PRIVATE_KEY_NAME PUBLIC_KEY_NAME d) (\<lambda>parsed d.
     (Ok \<lparr> hi_private_key = pa_private_key paths, hi_public_key = pk_normalized parsed,
           hi_fingerprint = pk_fingerprint parsed \<rparr>, d))"

text \<open>The body of \<open>generate\<close> behind the guard that removes the two staged names unless it was
  disarmed by the last step.  \<open>resolve\<close> is the path under which the child sees a staged
  name.\<close>

definition generate_staged ::
  "'d posix \<Rightarrow> 'd descriptors \<Rightarrow> 'd keygen \<Rightarrow> ssh_codec \<Rightarrow> (string \<Rightarrow> (string, ssh_error) result) \<Rightarrow>
     state_directory \<Rightarrow> string \<Rightarrow> string \<Rightarrow> 'd \<Rightarrow> (unit, ssh_error, 'd) stateful" where
  "generate_staged P ds kg sc resolve dir private_stage public_stage d =
     (case resolve private_stage of
        Err e \<Rightarrow> (Err e, d)
      | Ok output_path \<Rightarrow>
          st_then (run_keygen kg
             [''-q'', ''-t'', ''ed25519'', ''-N'', [], ''-C'', ''gascan-managed'', ''-f'', output_path]
             [from_utf8_lossy output_path] False d) (\<lambda>output d.
          if output \<noteq> [] then (Err KeygenOutput, d)
          else
            st_then (harden_staging P dir private_stage PRIVATE_MODE d) (\<lambda>_ d.
            st_then (harden_staging P dir public_stage PUBLIC_MODE d) (\<lambda>_ d.
            st_then (validate_pair P ds kg sc dir private_stage public_stage d) (\<lambda>_ d.
            st_then (rename_new P dir private_stage PRIVATE_KEY_NAME d) (\<lambda>_ d.
            case rename_new P dir public_stage PUBLIC_KEY_NAME d of
              (Err e, d) \<Rightarrow>
                (case rename_back P dir PRIVATE_KEY_NAME private_stage d of
                   (Ok _, d) \<Rightarrow> (Err e, d)
                 | (Err _, d) \<Rightarrow>
                     (Err (SshInvalidState ''managed SSH identity publication could not be rolled back''), d))
            | (Ok _, d) \<Rightarrow> sync_directory P dir d))))))"

definition generate ::
  "'d posix \<Rightarrow> 'd descriptors \<Rightarrow> 'd keygen \<Rightarrow> ssh_codec \<Rightarrow> (string \<Rightarrow> (string, ssh_error) result) \<Rightarrow>
     state_directory \<Rightarrow> 'd \<Rightarrow> (unit, ssh_error, 'd) stateful" where
  "generate P ds kg sc resolve dir d =
     st_then (random_staging_name P d) (\<lambda>private_stage d.
     let public_stage = private_stage @ ''.pub'' in
     case generate_staged P ds kg sc resolve dir private_stage public_stage d of
       (Ok _, d) \<Rightarrow> (Ok (), d)
     | (Err e, d) \<Rightarrow> (Err e, remove_entry P dir public_stage (remove_entry P dir private_stage d)))"

record 'd ssh_host =
  ho_posix :: "'d posix"
  ho_descriptors :: "'d descriptors"
  ho_keygen :: "'d keygen"
  ho_codec :: ssh_codec
  ho_resolve :: "string \<Rightarrow> (string, ssh_error) result"
  ho_worker :: "'d \<Rightarrow> (unit, errno, 'd) stateful"

definition load_pair ::
  "'d ssh_host \<Rightarrow> state_directory \<Rightarrow> ssh_paths \<Rightarrow> 'd \<Rightarrow> (host_identity, ssh_error, 'd) stateful" where
  "load_pair H dir paths d =
     load_existing (ho_posix H) (ho_descriptors H) (ho_keygen H) (ho_codec H) dir paths d"

definition ensure_host_identity ::
  "'d ssh_host \<Rightarrow> ssh_paths \<Rightarrow> 'd \<Rightarrow> (host_identity, ssh_error, 'd) stateful" where
  "ensure_host_identity H paths d =
     st_then (open_state_directory (ho_posix H) paths d) (\<lambda>dir d.
     st_then (metadata (ho_posix H) dir PRIVATE_KEY_NAME PRIVATE_MODE d) (\<lambda>private d.
     st_then (metadata (ho_posix H) dir PUBLIC_KEY_NAME PUBLIC_MODE d) (\<lambda>public d.
     case (private, public) of
       (Some _, Some _) \<Rightarrow> load_pair H dir paths d
     | (None, None) \<Rightarrow>
         st_then (generate (ho_posix H) (ho_descriptors H) (ho_keygen H) (ho_codec H) (ho_resolve H) dir d)
           (\<lambda>_ d. load_pair H dir paths d)
     | _ \<Rightarrow> (Err (SshInvalidState ''managed SSH identity is incomplete''), d))))"

definition load_host_identity ::
  "'d ssh_host \<Rightarrow> ssh_paths \<Rightarrow> 'd \<Rightarrow> (host_identity, ssh_error, 'd) stateful" where
  "load_host_identity H paths d =
     st_then (open_state_directory (ho_posix H) paths d) (\<lambda>dir d.
     st_then (metadata (ho_posix H) dir PRIVATE_KEY_NAME PRIVATE_MODE d) (\<lambda>private d.
     st_then (metadata (ho_posix H) dir PUBLIC_KEY_NAME PUBLIC_MODE d) (\<lambda>public d.
     case (private, public) of
       (Some _, Some _) \<Rightarrow> load_pair H dir paths d
     | (None, None) \<Rightarrow> (Err (SshInvalidState ''managed SSH identity is missing''), d)
     | _ \<Rightarrow> (Err (SshInvalidState ''managed SSH identity is incomplete''), d))))"

definition incomplete_identity :: "string \<Rightarrow> ssh_error ssh_diagnostic" where
  "incomplete_identity path =
     new_diagnostic DiagMissing path (SshInvalidState ''managed SSH identity is incomplete'')"

definition inspect_host_identity_if_present ::
  "'d ssh_host \<Rightarrow> ssh_paths \<Rightarrow> 'd \<Rightarrow> (host_identity option, ssh_error ssh_diagnostic, 'd) stateful" where
  "inspect_host_identity_if_present H paths d =
     st_then (open_existing_inspected (ho_posix H) paths d) (\<lambda>dir d.
     case dir of
       None \<Rightarrow> (Ok None, d)
     | Some dir \<Rightarrow>
         st_then (metadata_inspected (ho_posix H) dir PRIVATE_KEY_NAME PRIVATE_MODE d) (\<lambda>private d.
         st_then (metadata_inspected (ho_posix H) dir PUBLIC_KEY_NAME PUBLIC_MODE d) (\<lambda>public d.
         case (private, public) of
           (Some _, Some _) \<Rightarrow>
             (case load_pair H dir paths d of
                (Ok identity, d) \<Rightarrow> (Ok (Some identity), d)
              | (Err e, d) \<Rightarrow>
                  (Err (new_diagnostic (case e of SshIo _ _ \<Rightarrow> DiagInternal | _ \<Rightarrow> DiagInconsistent)
                     (pa_public_key paths) e), d))
         | (None, None) \<Rightarrow> (Ok None, d)
         | (None, Some _) \<Rightarrow> (Err (incomplete_identity (pa_private_key paths)), d)
         | (Some _, None) \<Rightarrow> (Err (incomplete_identity (pa_public_key paths)), d))))"

definition open_revalidated_identity_async ::
  "'d ssh_host \<Rightarrow> ssh_paths \<Rightarrow> host_identity \<Rightarrow> 'd \<Rightarrow> (state_directory, ssh_error, 'd) stateful" where
  "open_revalidated_identity_async H paths identity d =
     (if \<not> path_eq (hi_private_key identity) (pa_private_key paths) then
        (Err (SshInvalidState ''SSH config identity is outside managed state''), d)
      else
        st_then (open_state_directory (ho_posix H) paths d) (\<lambda>dir d.
        st_then (validate_pair (ho_posix H) (ho_descriptors H) (ho_keygen H) (ho_codec H) dir
           PRIVATE_KEY_NAME PUBLIC_KEY_NAME d) (\<lambda>parsed d.
        if pk_normalized parsed \<noteq> hi_public_key identity \<or> pk_fingerprint parsed \<noteq> hi_fingerprint identity
        then (Err (SshInvalidState ''managed SSH identity changed after validation''), d)
        else (Ok dir, d))))"

text \<open>The synchronous variant runs the asynchronous one on a worker thread, whose runtime may fail
  to start; a panic of the worker is not modelled.\<close>

definition open_revalidated_identity ::
  "'d ssh_host \<Rightarrow> ssh_paths \<Rightarrow> host_identity \<Rightarrow> 'd \<Rightarrow> (state_directory, ssh_error, 'd) stateful" where
  "open_revalidated_identity H paths identity d =
     st_then (io ''start SSH identity validation worker'' (ho_worker H d)) (\<lambda>_ d.
     open_revalidated_identity_async H paths identity d)"

section \<open>Parsing is canonical\<close>

lemma parse_public_key_Ok:
  assumes "parse_public_key sc bytes = Ok k"
  obtains encoded blob where "pk_normalized k = ''ssh-ed25519 '' @ encoded" "sc_decode sc encoded = Some blob"
    "validate_ed25519_blob blob = Ok ()"
    "pk_fingerprint k = ''SHA256:'' @ sc_encode_no_pad sc (sc_sha256 sc blob)"
    "\<exists>kind rest. split_ascii_whitespace (trim_line_ends bytes) = kind # encoded # rest"
  using assms
  by (auto simp: parse_public_key_def Let_def result_simps split: if_splits list.splits)

end
