(* ===== verification/Ssh_Config.thy ===== *)
theory Ssh_Config
  imports Ssh_Identity
begin

text \<open>
  The OpenSSH files of the managed directory (\<open>gascand/src/ssh/config.rs\<close>): validation and
  rendering of the hosts, the known-hosts generations named after their contents, the atomic
  replacement of the configuration with its restoration after a failure, and the cleanup of old
  generations.  The hooks that the tests pass to the replacement are the parameters
  \<open>before\<close> and \<open>at\<close>.
\<close>

definition CONFIG_NAME :: string where "CONFIG_NAME = ''config''"
definition KNOWN_HOSTS_PREFIX :: string where "KNOWN_HOSTS_PREFIX = ''known_hosts.''"

datatype ssh_config_commit_error =
    Unpublished ssh_error
  | PublishedButUncertain ssh_error ssh_error

datatype ssh_config_commit_fault = AfterRename | AfterRenameAndRestore

record prepared_ssh_files =
  pf_generation :: string
  pf_known_hosts :: string
  pf_config :: string

record generation_cleanup =
  gc_removed :: nat
  gc_stale :: nat
  gc_unsafe_entries :: nat

definition no_cleanup :: generation_cleanup where
  "no_cleanup = \<lparr> gc_removed = 0, gc_stale = 0, gc_unsafe_entries = 0 \<rparr>"

record generation_inspection =
  gi_cleanup :: generation_cleanup
  gi_unsafe_entry :: "ssh_error ssh_diagnostic option"

section \<open>Validation\<close>

definition LOCAL_ADDRESS :: string where "LOCAL_ADDRESS = ''127.0.0.1''"

definition validate_alias :: "string \<Rightarrow> (unit, ssh_error) result" where
  "validate_alias alias =
     (case strip_prefix ''gascan-'' alias of
        None \<Rightarrow> Err (SshInvalidState ''managed SSH alias is invalid'')
      | Some suffix' \<Rightarrow>
          if suffix' = [] \<or> length alias > 128 \<or>
             \<not> list_all (\<lambda>c. is_ascii_lowercase c \<or> is_ascii_digit c \<or> c = CHR ''-'') suffix' \<or>
             starts_with_char CHR ''-'' suffix' \<or> ends_with_char CHR ''-'' suffix' \<or>
             str_contains ''--'' suffix'
          then Err (SshInvalidState ''managed SSH alias is invalid'') else Ok ())"

definition validate_identity_metadata ::
  "ssh_codec \<Rightarrow> ssh_paths \<Rightarrow> host_identity \<Rightarrow> (unit, ssh_error) result" where
  "validate_identity_metadata sc paths identity =
     (if \<not> path_eq (hi_private_key identity) (pa_private_key paths) then
        Err (SshInvalidState ''SSH config identity is outside managed state'')
      else
        and_then (parse_public_key sc (hi_public_key identity)) (\<lambda>parsed.
        if pk_normalized parsed \<noteq> hi_public_key identity \<or> pk_fingerprint parsed \<noteq> hi_fingerprint identity
        then Err (SshInvalidState ''SSH config identity metadata is inconsistent'') else Ok ()))"

definition validate_host ::
  "ssh_codec \<Rightarrow> host_identity \<Rightarrow> managed_ssh_host \<Rightarrow> (string, ssh_error) result" where
  "validate_host sc identity host =
     and_then (validate_alias (ac_alias (mh_active host))) (\<lambda>_.
     if ac_host (mh_active host) \<noteq> LOCAL_ADDRESS \<or> ac_port (mh_active host) = 0 then
       Err (SshInvalidState ''managed SSH endpoint must be IPv4 loopback with a nonzero port'')
     else if ac_client_key_fingerprint (mh_active host) \<noteq> hi_fingerprint identity then
       Err (SshInvalidState ''managed SSH client fingerprint is inconsistent'')
     else
       and_then (parse_public_key sc (mh_host_public_key host)) (\<lambda>parsed.
       if pk_fingerprint parsed \<noteq> ac_host_key_fingerprint (mh_active host) then
         Err (SshInvalidState ''managed SSH host fingerprint is inconsistent'')
       else Ok (pk_normalized parsed)))"

type_synonym validated_host = "managed_ssh_host \<times> string"

definition host_alias :: "validated_host \<Rightarrow> string" where
  "host_alias v = ac_alias (mh_active (fst v))"

definition validate_hosts ::
  "ssh_codec \<Rightarrow> host_identity \<Rightarrow> managed_ssh_host list \<Rightarrow> (validated_host list, ssh_error) result" where
  "validate_hosts sc identity hosts =
     and_then (collect_ok (\<lambda>host. map_ok (Pair host) (validate_host sc identity host)) hosts) (\<lambda>validated.
     let validated = sort_key host_alias validated in
     if list_ex (\<lambda>(a, b). host_alias a = host_alias b) (zip validated (tl validated)) then
       Err (SshInvalidState ''managed SSH aliases are not unique'')
     else Ok validated)"

section \<open>Rendering\<close>

definition path_byte_safe :: "char \<Rightarrow> bool" where
  "path_byte_safe c \<longleftrightarrow> is_ascii_alphanumeric c \<or> c \<in> {CHR ''/'', CHR ''.'', CHR ''_'', CHR ''-'', CHR '':''}"

definition is_ascii_control :: "char \<Rightarrow> bool" where
  "is_ascii_control c \<longleftrightarrow> byte c < 32 \<or> byte c = 127"

definition openssh_path :: "string \<Rightarrow> (string, ssh_error) result" where
  "openssh_path path =
     (if list_ex (\<lambda>c. is_ascii_control c \<or> c = CHR ''$'') path then
        Err (SshInvalidState ''managed SSH path cannot be represented in OpenSSH config'')
      else if list_all path_byte_safe path then Ok path
      else
        let escaped = str_replace ''%'' ''%%''
              (str_replace [CHR 0x22] [CHR 0x5C, CHR 0x22] (str_replace [CHR 0x5C] [CHR 0x5C, CHR 0x5C] path))
        in Ok ([CHR 0x22] @ escaped @ [CHR 0x22]))"

abbreviation newline :: string where "newline \<equiv> [CHR 0x0A]"

definition render_host :: "string \<Rightarrow> string \<Rightarrow> validated_host \<Rightarrow> string" where
  "render_host identity_path known_hosts_path v =
     (let active = mh_active (fst v) in
      newline @ ''Host '' @ ac_alias active @ newline @
      ''    HostName 127.0.0.1'' @ newline @
      ''    Port '' @ show_nat (unat (ac_port active)) @ newline @
      ''    User workspace'' @ newline @
      ''    IdentityFile '' @ identity_path @ newline @
      ''    IdentitiesOnly yes'' @ newline @
      ''    HostKeyAlias '' @ ac_alias active @ newline @
      ''    UserKnownHostsFile '' @ known_hosts_path @ newline @
      ''    StrictHostKeyChecking yes'' @ newline @
      ''    ForwardAgent no'' @ newline)"

definition render_config ::
  "host_identity \<Rightarrow> validated_host list \<Rightarrow> string \<Rightarrow> (string, ssh_error) result" where
  "render_config identity hosts known_hosts_path =
     and_then (openssh_path (hi_private_key identity)) (\<lambda>identity_path.
     and_then (openssh_path known_hosts_path) (\<lambda>known_hosts_path.
     Ok (''# Generated by Gas Can. Do not edit.'' @ newline @
         concat (map (render_host identity_path known_hosts_path) hosts))))"

definition render_record :: "string \<Rightarrow> nat \<Rightarrow> string \<Rightarrow> string" where
  "render_record alias port public_key = alias @ '',[127.0.0.1]:'' @ show_nat port @ '' '' @ public_key"

definition render_known_hosts :: "validated_host list \<Rightarrow> string" where
  "render_known_hosts hosts =
     concat (map (\<lambda>v. render_record (host_alias v) (unat (ac_port (mh_active (fst v)))) (snd v) @ newline) hosts)"

definition HEX :: string where "HEX = ''0123456789abcdef''"

definition hex_byte :: "char \<Rightarrow> string" where
  "hex_byte c = [HEX ! (byte c div 16), HEX ! (byte c mod 16)]"

definition generation_name :: "ssh_codec \<Rightarrow> string \<Rightarrow> string" where
  "generation_name sc contents = KNOWN_HOSTS_PREFIX @ concat (map hex_byte (sc_sha256 sc contents))"

definition valid_generation_name :: "string \<Rightarrow> bool" where
  "valid_generation_name name =
     (case strip_prefix KNOWN_HOSTS_PREFIX name of
        None \<Rightarrow> False
      | Some digest \<Rightarrow> length digest = 64 \<and> list_all is_lower_hex digest)"

text \<open>\<open>Path::file_name\<close>: the last component when it is a normal one.\<close>

definition file_name :: "string \<Rightarrow> string option" where
  "file_name path =
     (if components path = [] then None
      else case last (components path) of Normal name \<Rightarrow> Some name | _ \<Rightarrow> None)"

definition validate_generation_path :: "ssh_paths \<Rightarrow> string \<Rightarrow> (unit, ssh_error) result" where
  "validate_generation_path paths path =
     (case file_name path of
        None \<Rightarrow> Err (SshInvalidState ''managed known-hosts generation is invalid'')
      | Some name \<Rightarrow>
          if \<not> (case Utf8_Path.parent path of None \<Rightarrow> False | Some p \<Rightarrow> path_eq p (pa_directory paths)) \<or>
             \<not> valid_generation_name name
          then Err (SshInvalidState ''managed known-hosts generation is invalid'') else Ok ())"

definition validate_generation_reference ::
  "ssh_paths \<Rightarrow> prepared_ssh_files \<Rightarrow> (unit, ssh_error) result" where
  "validate_generation_reference paths prepared =
     (if \<not> path_eq (pf_known_hosts prepared) (path_join (pa_directory paths) (pf_generation prepared)) then
        Err (SshInvalidState ''prepared known-hosts generation is outside managed state'')
      else validate_generation_path paths (pf_known_hosts prepared))"

section \<open>Generations\<close>

text \<open>A file that is written, flushed and synchronised.\<close>

definition write_staged ::
  "'d posix \<Rightarrow> string \<Rightarrow> string \<Rightarrow> fd \<Rightarrow> string \<Rightarrow> 'd \<Rightarrow> (unit, ssh_error, 'd) stateful" where
  "write_staged P write_action sync_action fd contents d =
     st_then (io write_action (px_write P fd contents d)) (\<lambda>_ d.
     io sync_action (px_fsync P fd d))"

text \<open>The guard of a staged file: it is removed when the steps fail before the guard is disarmed,
  which the steps report with their result.\<close>

definition with_staging ::
  "'d posix \<Rightarrow> state_directory \<Rightarrow> string \<Rightarrow> ('d \<Rightarrow> ('a, 'e, 'd) stateful) \<Rightarrow> 'd \<Rightarrow> ('a, 'e, 'd) stateful" where
  "with_staging P dir staging steps d =
     (case steps d of
        (Ok x, d) \<Rightarrow> (Ok x, d)
      | (Err e, d) \<Rightarrow> (Err e, remove_entry P dir staging d))"

definition publish_generation ::
  "'d posix \<Rightarrow> state_directory \<Rightarrow> string \<Rightarrow> string \<Rightarrow> string \<Rightarrow> 'd \<Rightarrow> (unit, ssh_error, 'd) stateful" where
  "publish_generation P dir generation contents staging d =
     st_then (create_staging P dir staging PUBLIC_MODE d) (\<lambda>fd d.
     st_then (write_staged P ''write known-hosts generation'' ''sync known-hosts generation'' fd contents d) (\<lambda>_ d.
     st_then (rename_new P dir staging generation d) (\<lambda>_ d.
     sync_directory P dir d)))"

definition ensure_generation ::
  "'d posix \<Rightarrow> state_directory \<Rightarrow> string \<Rightarrow> string \<Rightarrow> 'd \<Rightarrow> (unit, ssh_error, 'd) stateful" where
  "ensure_generation P dir generation contents d =
     (if length contents > maximum_managed_file_bytes then
        (Err (SshInvalidState ''generated managed SSH file is too large''), d)
      else
        st_then (metadata P dir generation PUBLIC_MODE d) (\<lambda>existing d.
        if existing \<noteq> None then
          st_then (read_file P dir generation PUBLIC_MODE maximum_managed_file_bytes d) (\<lambda>(bytes, _) d.
          if bytes \<noteq> contents then
            (Err (SshInvalidState ''managed known-hosts generation contents are inconsistent''), d)
          else (Ok (), d))
        else
          st_then (random_staging_name P d) (\<lambda>staging d.
          st_then (with_staging P dir staging (publish_generation P dir generation contents staging) d) (\<lambda>_ d.
          st_then (read_file P dir generation PUBLIC_MODE maximum_managed_file_bytes d) (\<lambda>(published, _) d.
          if published \<noteq> contents then
            (Err (SshInvalidState ''managed known-hosts generation changed during publication''), d)
          else (Ok (), d))))))"

definition read_verified_generation ::
  "ssh_codec \<Rightarrow> 'd posix \<Rightarrow> state_directory \<Rightarrow> string \<Rightarrow> 'd \<Rightarrow> (string, ssh_error, 'd) stateful" where
  "read_verified_generation sc P dir generation d =
     st_then (read_file P dir generation PUBLIC_MODE maximum_managed_file_bytes d) (\<lambda>(contents, _) d.
     if generation_name sc contents \<noteq> generation then
       (Err (SshInvalidState ''managed known-hosts generation failed verification''), d)
     else (Ok contents, d))"

definition verify_generation ::
  "ssh_codec \<Rightarrow> 'd posix \<Rightarrow> state_directory \<Rightarrow> string \<Rightarrow> 'd \<Rightarrow> (unit, ssh_error, 'd) stateful" where
  "verify_generation sc P dir generation d =
     st_then (read_verified_generation sc P dir generation d) (\<lambda>_ d. (Ok (), d))"

definition invalid_contents :: ssh_error where
  "invalid_contents = SshInvalidState ''managed known-hosts generation contents are invalid''"

text \<open>The checks on one record: its alias, port and normalized key.\<close>

definition verify_record :: "ssh_codec \<Rightarrow> string \<Rightarrow> (string \<times> u16 \<times> string, ssh_error) result" where
  "verify_record sc line =
     (case split_ascii_whitespace line of
        [host_pattern, algorithm, encoded] \<Rightarrow>
          (case split_once '','' host_pattern of
             None \<Rightarrow> Err invalid_contents
           | Some (alias, endpoint) \<Rightarrow>
               and_then (validate_alias alias) (\<lambda>_.
               case strip_prefix ''[127.0.0.1]:'' endpoint of
                 None \<Rightarrow> Err invalid_contents
               | Some port_text \<Rightarrow>
                   and_then (map_err (\<lambda>_. invalid_contents) (parse_unsigned port_text)) (\<lambda>port :: u16.
                   if port = 0 \<or> show_nat (unat port) \<noteq> port_text then Err invalid_contents
                   else
                     and_then (parse_public_key sc (algorithm @ '' '' @ encoded)) (\<lambda>parsed.
                     if line \<noteq> render_record alias (unat port) (pk_normalized parsed) then Err invalid_contents
                     else Ok (alias, port, pk_normalized parsed)))))
      | _ \<Rightarrow> Err invalid_contents)"

fun verify_records ::
  "ssh_codec \<Rightarrow> (string \<times> u16 \<times> string \<Rightarrow> bool) \<Rightarrow> string list \<Rightarrow> string list \<Rightarrow> u16 list \<Rightarrow> nat \<Rightarrow>
     (nat, ssh_error) result" where
  "verify_records sc target [] aliases endpoints n = Ok n"
| "verify_records sc target (line # rest) aliases endpoints n =
     and_then (verify_record sc line) (\<lambda>(alias, port, key).
     if alias \<in> set aliases \<or> port \<in> set endpoints then Err invalid_contents
     else verify_records sc target rest (alias # aliases) (port # endpoints)
            (if target (alias, port, key) then n + 1 else n))"

definition verify_host_generation_record ::
  "ssh_codec \<Rightarrow> string \<Rightarrow> managed_ssh_host \<Rightarrow> string \<Rightarrow> (unit, ssh_error) result" where
  "verify_host_generation_record sc contents host normalized =
     (if \<not> utf8_valid contents then Err invalid_contents
      else
        and_then (verify_records sc
           (\<lambda>(alias, port, key). alias = ac_alias (mh_active host) \<and> port = ac_port (mh_active host) \<and> key = normalized)
           (filter (\<lambda>line. line \<noteq> []) (lines contents)) [] [] 0) (\<lambda>n.
        if n \<noteq> 1 then Err (SshInvalidState ''managed known-hosts generation does not match endpoint'')
        else Ok ()))"

text \<open>The loop over the entries of the directory.  It stops at the first internal error; entries
  that are not safe are counted and skipped.\<close>

definition note_unsafe ::
  "ssh_error ssh_diagnostic \<Rightarrow> generation_inspection \<Rightarrow> generation_inspection" where
  "note_unsafe diagnostic g =
     g \<lparr> gi_cleanup := (gi_cleanup g) \<lparr> gc_unsafe_entries := gc_unsafe_entries (gi_cleanup g) + 1 \<rparr>,
         gi_unsafe_entry := (case gi_unsafe_entry g of None \<Rightarrow> Some diagnostic | Some e \<Rightarrow> Some e) \<rparr>"

definition unsafe_name :: "state_directory \<Rightarrow> string \<Rightarrow> ssh_error ssh_diagnostic" where
  "unsafe_name dir name =
     new_diagnostic DiagUnsafe (if utf8_valid name then path_join (dir_path dir) name else dir_path dir)
       (SshInvalidState ''managed known-hosts generation name is unsafe'')"

fun inspect_entries ::
  "'d posix \<Rightarrow> state_directory \<Rightarrow> string list \<Rightarrow> bool \<Rightarrow> string list \<Rightarrow> generation_inspection \<Rightarrow> 'd \<Rightarrow>
     (generation_inspection \<times> ssh_error ssh_diagnostic option) \<times> 'd" where
  "inspect_entries P dir retained remove [] g d = ((g, None), d)"
| "inspect_entries P dir retained remove (name # names) g d =
     (if \<not> prefix KNOWN_HOSTS_PREFIX name then inspect_entries P dir retained remove names g d
      else if \<not> (utf8_valid name \<and> valid_generation_name name) then
        inspect_entries P dir retained remove names (note_unsafe (unsafe_name dir name) g) d
      else
        (case metadata_inspected P dir name PUBLIC_MODE d of
           (Ok None, d) \<Rightarrow> inspect_entries P dir retained remove names g d
         | (Err diagnostic, d) \<Rightarrow>
             if dg_kind diagnostic = DiagUnsafe then
               inspect_entries P dir retained remove names (note_unsafe diagnostic g) d
             else ((g, Some diagnostic), d)
         | (Ok (Some identity), d) \<Rightarrow>
             if name \<in> set retained then inspect_entries P dir retained remove names g d
             else if \<not> remove then
               inspect_entries P dir retained remove names
                 (g \<lparr> gi_cleanup := (gi_cleanup g) \<lparr> gc_stale := gc_stale (gi_cleanup g) + 1 \<rparr> \<rparr>) d
             else
               (case remove_identity_checked P dir name identity PUBLIC_MODE d of
                  (Ok _, d) \<Rightarrow>
                    inspect_entries P dir retained remove names
                      (g \<lparr> gi_cleanup := (gi_cleanup g) \<lparr> gc_removed := gc_removed (gi_cleanup g) + 1 \<rparr> \<rparr>) d
                | (Err diagnostic, d) \<Rightarrow>
                    if dg_kind diagnostic = DiagUnsafe then
                      inspect_entries P dir retained remove names (note_unsafe diagnostic g) d
                    else ((g, Some diagnostic), d))))"

definition inspect_known_hosts_generations_in ::
  "'d posix \<Rightarrow> state_directory \<Rightarrow> string list \<Rightarrow> bool \<Rightarrow> 'd \<Rightarrow>
     (generation_inspection, ssh_error ssh_diagnostic, 'd) stateful" where
  "inspect_known_hosts_generations_in P dir retained remove d =
     st_then (entry_names P dir d) (\<lambda>names d.
     case inspect_entries P dir retained remove names \<lparr> gi_cleanup = no_cleanup, gi_unsafe_entry = None \<rparr> d of
       ((g, failure), d) \<Rightarrow>
         st_then
           (if gc_removed (gi_cleanup g) > 0 then
              st_map_err (new_diagnostic DiagInternal (dir_path dir)) (sync_directory P dir d)
            else (Ok (), d))
           (\<lambda>_ d. case failure of Some e \<Rightarrow> (Err e, d) | None \<Rightarrow> (Ok g, d)))"

definition prune_known_hosts_generations ::
  "'d posix \<Rightarrow> ssh_paths \<Rightarrow> string list \<Rightarrow> 'd \<Rightarrow> (generation_cleanup, ssh_error, 'd) stateful" where
  "prune_known_hosts_generations P paths retained d =
     st_then (open_state_directory P paths d) (\<lambda>dir d.
     st_then (st_map_err dg_source (inspect_known_hosts_generations_in P dir retained True d)) (\<lambda>g d.
     (Ok (gi_cleanup g), d)))"

section \<open>Atomic replacement\<close>

datatype atomic_replace_point =
    AfterRenameBeforeDirectorySync
  | AfterDirectorySyncBeforeMetadata
  | BeforeRestore
  | BeforeGenerationCleanup

type_synonym at_point = "atomic_replace_point \<Rightarrow> (unit, ssh_error) result"

text \<open>A check that reads and may refuse, in the middle of the steps.\<close>

definition check_point :: "(unit, ssh_error) result \<Rightarrow> 'd \<Rightarrow> (unit, ssh_error, 'd) stateful" where
  "check_point r d = (r, d)"

definition require_some :: "string \<Rightarrow> 'a option \<Rightarrow> 'd \<Rightarrow> ('a, ssh_error, 'd) stateful" where
  "require_some reason x d = (ok_or (SshInvalidState reason) x, d)"

definition restore_contents ::
  "'d posix \<Rightarrow> state_directory \<Rightarrow> string \<Rightarrow> file_identity \<Rightarrow> string \<Rightarrow> string \<Rightarrow> 'd \<Rightarrow>
     (file_identity, ssh_error, 'd) stateful" where
  "restore_contents P dir target replacement previous staging d =
     st_then (create_staging P dir staging PUBLIC_MODE d) (\<lambda>fd d.
     st_then (write_staged P ''write SSH restoration staging file'' ''sync SSH restoration staging file''
        fd previous d) (\<lambda>_ d.
     st_then (metadata P dir staging PUBLIC_MODE d) (\<lambda>restored d.
     st_then (require_some ''SSH restoration staging file disappeared'' restored d) (\<lambda>restored d.
     st_then (metadata P dir target PUBLIC_MODE d) (\<lambda>current d.
     if current \<noteq> Some replacement then
       (Err (SshInvalidState ''managed SSH target changed before restoration''), d)
     else st_then (rename_replace P dir staging target d) (\<lambda>_ d. (Ok restored, d)))))))"

definition restore_previous ::
  "'d posix \<Rightarrow> state_directory \<Rightarrow> string \<Rightarrow> file_identity \<Rightarrow> string option \<Rightarrow> at_point \<Rightarrow> 'd \<Rightarrow>
     (unit, ssh_error, 'd) stateful" where
  "restore_previous P dir target replacement previous at d =
     st_then (check_point (at BeforeRestore) d) (\<lambda>_ d.
     case previous of
       Some previous \<Rightarrow>
         st_then (random_staging_name P d) (\<lambda>staging d.
         st_then (with_staging P dir staging (restore_contents P dir target replacement previous staging) d)
           (\<lambda>restored_identity d.
         st_then (sync_directory P dir d) (\<lambda>_ d.
         st_then (read_file P dir target PUBLIC_MODE maximum_managed_file_bytes d) (\<lambda>(restored, identity) d.
         if identity \<noteq> restored_identity \<or> restored \<noteq> previous then
           (Err (SshInvalidState ''managed SSH config restoration could not be verified''), d)
         else (Ok (), d)))))
     | None \<Rightarrow>
         st_then (metadata P dir target PUBLIC_MODE d) (\<lambda>current d.
         if current \<noteq> Some replacement then
           (Err (SshInvalidState ''managed SSH target changed before restoration''), d)
         else
           st_then (remove_checked P dir target d) (\<lambda>_ d.
           st_then (sync_directory P dir d) (\<lambda>_ d.
           st_then (metadata P dir target PUBLIC_MODE d) (\<lambda>current d.
           if current \<noteq> None then
             (Err (SshInvalidState ''managed SSH config removal could not be verified''), d)
           else (Ok (), d))))))"

text \<open>The contents of the target before the replacement, with the identity it had.\<close>

definition previous_contents ::
  "'d posix \<Rightarrow> state_directory \<Rightarrow> string \<Rightarrow> 'd \<Rightarrow>
     (file_identity option \<times> string option, ssh_error, 'd) stateful" where
  "previous_contents P dir target d =
     st_then (metadata P dir target PUBLIC_MODE d) (\<lambda>previous_identity d.
     if previous_identity = None then (Ok (None, None), d)
     else
       st_then (read_file P dir target PUBLIC_MODE maximum_managed_file_bytes d) (\<lambda>(contents, identity) d.
       if Some identity \<noteq> previous_identity then
         (Err (SshInvalidState ''managed SSH target changed during replacement''), d)
       else (Ok (previous_identity, Some contents), d)))"

text \<open>The steps up to and including the rename, behind the guard of the staged file; the result is
  the identity of the replacement.\<close>

definition stage_and_rename ::
  "'d posix \<Rightarrow> state_directory \<Rightarrow> string \<Rightarrow> string \<Rightarrow> (unit, ssh_error) result \<Rightarrow> file_identity option \<Rightarrow>
     string \<Rightarrow> 'd \<Rightarrow> (file_identity, ssh_error, 'd) stateful" where
  "stage_and_rename P dir target contents before previous_identity staging d =
     st_then (create_staging P dir staging PUBLIC_MODE d) (\<lambda>fd d.
     st_then (write_staged P ''write managed SSH staging file'' ''sync managed SSH staging file'' fd contents d) (\<lambda>_ d.
     st_then (metadata P dir staging PUBLIC_MODE d) (\<lambda>replacement d.
     st_then (require_some ''managed SSH staging file disappeared before publication'' replacement d) (\<lambda>replacement d.
     st_then (check_point before d) (\<lambda>_ d.
     st_then (metadata P dir target PUBLIC_MODE d) (\<lambda>current d.
     if current \<noteq> previous_identity then
       (Err (SshInvalidState ''managed SSH target changed during replacement''), d)
     else
       st_then (case previous_identity of
            None \<Rightarrow> rename_new P dir staging target d
          | Some _ \<Rightarrow> rename_replace P dir staging target d) (\<lambda>_ d. (Ok replacement, d))))))))"

definition confirm_published ::
  "'d posix \<Rightarrow> state_directory \<Rightarrow> string \<Rightarrow> at_point \<Rightarrow> 'd \<Rightarrow> (unit, ssh_error, 'd) stateful" where
  "confirm_published P dir target at d =
     st_then (check_point (at AfterRenameBeforeDirectorySync) d) (\<lambda>_ d.
     st_then (sync_directory P dir d) (\<lambda>_ d.
     st_then (check_point (at AfterDirectorySyncBeforeMetadata) d) (\<lambda>_ d.
     st_then (metadata P dir target PUBLIC_MODE d) (\<lambda>current d.
     st_then (require_some ''managed SSH file disappeared after replacement'' current d) (\<lambda>_ d.
     (Ok (), d))))))"

definition atomic_replace_with_faults ::
  "'d posix \<Rightarrow> state_directory \<Rightarrow> string \<Rightarrow> string \<Rightarrow> (unit, ssh_error) result \<Rightarrow> at_point \<Rightarrow> 'd \<Rightarrow>
     (unit, ssh_config_commit_error, 'd) stateful" where
  "atomic_replace_with_faults P dir target contents before at d =
     (if length contents > maximum_managed_file_bytes then
        (Err (Unpublished (SshInvalidState ''generated managed SSH file is too large'')), d)
      else
        st_then (st_map_err Unpublished (previous_contents P dir target d)) (\<lambda>(previous_identity, previous) d.
        st_then (st_map_err Unpublished (random_staging_name P d)) (\<lambda>staging d.
        st_then (st_map_err Unpublished (with_staging P dir staging
           (stage_and_rename P dir target contents before previous_identity staging) d)) (\<lambda>replacement d.
        case confirm_published P dir target at d of
          (Ok _, d) \<Rightarrow> (Ok (), d)
        | (Err e, d) \<Rightarrow>
            (case restore_previous P dir target replacement previous at d of
               (Ok _, d) \<Rightarrow> (Err (Unpublished e), d)
             | (Err restoration, d) \<Rightarrow> (Err (PublishedButUncertain e restoration), d))))))"

section \<open>Publication\<close>

definition prepare_openssh_files ::
  "'d ssh_host \<Rightarrow> ssh_paths \<Rightarrow> host_identity \<Rightarrow> managed_ssh_host list \<Rightarrow> 'd \<Rightarrow>
     (prepared_ssh_files, ssh_error, 'd) stateful" where
  "prepare_openssh_files H paths identity hosts d =
     (let sc = ho_codec H in
      case and_then (validate_identity_metadata sc paths identity) (\<lambda>_.
           and_then (validate_hosts sc identity hosts) (\<lambda>validated.
           let known_hosts = render_known_hosts validated;
               generation = generation_name sc known_hosts;
               known_hosts_path = path_join (pa_directory paths) generation
           in map_ok (\<lambda>config. (known_hosts, generation, known_hosts_path, config))
                (render_config identity validated known_hosts_path))) of
        Err e \<Rightarrow> (Err e, d)
      | Ok (known_hosts, generation, known_hosts_path, config) \<Rightarrow>
          st_then (open_revalidated_identity H paths identity d) (\<lambda>dir d.
          st_then (ensure_generation (ho_posix H) dir generation known_hosts d) (\<lambda>_ d.
          (Ok \<lparr> pf_generation = generation, pf_known_hosts = known_hosts_path, pf_config = config \<rparr>, d))))"

definition commit_openssh_files_with_points ::
  "'d ssh_host \<Rightarrow> ssh_paths \<Rightarrow> prepared_ssh_files \<Rightarrow> (unit, ssh_error) result \<Rightarrow> at_point \<Rightarrow> 'd \<Rightarrow>
     (unit, ssh_config_commit_error, 'd) stateful" where
  "commit_openssh_files_with_points H paths prepared before at d =
     (case validate_generation_reference paths prepared of
        Err e \<Rightarrow> (Err (Unpublished e), d)
      | Ok _ \<Rightarrow>
          st_then (st_map_err Unpublished (open_state_directory (ho_posix H) paths d)) (\<lambda>dir d.
          st_then (st_map_err Unpublished (verify_generation (ho_codec H) (ho_posix H) dir (pf_generation prepared) d)) (\<lambda>_ d.
          st_then (atomic_replace_with_faults (ho_posix H) dir CONFIG_NAME (pf_config prepared) before at d) (\<lambda>_ d.
          case at BeforeGenerationCleanup of
            Err _ \<Rightarrow> (Ok (), d)
          | Ok _ \<Rightarrow> (Ok (), snd (inspect_known_hosts_generations_in (ho_posix H) dir [pf_generation prepared] True d))))))"

definition fault_points :: "ssh_config_commit_fault option \<Rightarrow> at_point" where
  "fault_points fault point =
     (if point = AfterRenameBeforeDirectorySync \<and> fault \<in> {Some AfterRename, Some AfterRenameAndRestore} then
        Err (SshInvalidState ''injected post-rename config publication failure'')
      else if point = BeforeRestore \<and> fault = Some AfterRenameAndRestore then
        Err (SshInvalidState ''injected config publication restoration failure'')
      else Ok ())"

definition commit_openssh_files_with_fault ::
  "'d ssh_host \<Rightarrow> ssh_paths \<Rightarrow> prepared_ssh_files \<Rightarrow> ssh_config_commit_fault option \<Rightarrow> 'd \<Rightarrow>
     (unit, ssh_config_commit_error, 'd) stateful" where
  "commit_openssh_files_with_fault H paths prepared fault d =
     commit_openssh_files_with_points H paths prepared (Ok ()) (fault_points fault) d"

definition commit_openssh_files ::
  "'d ssh_host \<Rightarrow> ssh_paths \<Rightarrow> prepared_ssh_files \<Rightarrow> 'd \<Rightarrow> (unit, ssh_config_commit_error, 'd) stateful" where
  "commit_openssh_files H paths prepared d = commit_openssh_files_with_fault H paths prepared None d"

definition commit_openssh_files_with_cleanup_fault ::
  "'d ssh_host \<Rightarrow> ssh_paths \<Rightarrow> prepared_ssh_files \<Rightarrow> 'd \<Rightarrow> (unit, ssh_config_commit_error, 'd) stateful" where
  "commit_openssh_files_with_cleanup_fault H paths prepared d =
     commit_openssh_files_with_points H paths prepared (Ok ())
       (\<lambda>point. if point = BeforeGenerationCleanup
          then Err (SshInvalidState ''injected known-hosts generation cleanup failure'') else Ok ()) d"

definition publish_openssh_files ::
  "'d ssh_host \<Rightarrow> ssh_paths \<Rightarrow> host_identity \<Rightarrow> managed_ssh_host list \<Rightarrow> 'd \<Rightarrow>
     (unit, ssh_config_commit_error, 'd) stateful" where
  "publish_openssh_files H paths identity hosts d =
     st_then (st_map_err Unpublished (prepare_openssh_files H paths identity hosts d)) (\<lambda>prepared d.
     commit_openssh_files H paths prepared d)"

definition readiness_ssh_args ::
  "'d ssh_host \<Rightarrow> ssh_paths \<Rightarrow> host_identity \<Rightarrow> managed_ssh_host \<Rightarrow> string \<Rightarrow> 'd \<Rightarrow>
     (string list, ssh_error, 'd) stateful" where
  "readiness_ssh_args H paths identity host known_hosts d =
     (case and_then (validate_identity_metadata (ho_codec H) paths identity) (\<lambda>_.
           and_then (validate_host (ho_codec H) identity host) (\<lambda>normalized.
           map_ok (\<lambda>_. normalized) (validate_generation_path paths known_hosts))) of
        Err e \<Rightarrow> (Err e, d)
      | Ok normalized \<Rightarrow>
          st_then (open_revalidated_identity_async H paths identity d) (\<lambda>dir d.
          st_then (require_some ''managed known-hosts generation is invalid'' (file_name known_hosts) d) (\<lambda>generation d.
          st_then (read_verified_generation (ho_codec H) (ho_posix H) dir generation d) (\<lambda>contents d.
          st_then (verify_host_generation_record (ho_codec H) contents host normalized, d) (\<lambda>_ d.
          st_then (openssh_path (hi_private_key identity), d) (\<lambda>identity_path d.
          st_then (openssh_path known_hosts, d) (\<lambda>known_hosts_path d.
          (Ok [''-F'', ''/dev/null'', ''-o'', ''HostName=127.0.0.1'',
               ''-o'', ''Port='' @ show_nat (unat (ac_port (mh_active host))), ''-o'', ''User=workspace'',
               ''-o'', ''IdentityFile='' @ identity_path,
               ''-o'', ''HostKeyAlias='' @ ac_alias (mh_active host),
               ''-o'', ''UserKnownHostsFile='' @ known_hosts_path,
               ''-o'', ''StrictHostKeyChecking=yes'', ''-o'', ''IdentitiesOnly=yes'', ''-o'', ''BatchMode=yes'',
               ''-o'', ''ForwardAgent=no'', ''-o'', ''ClearAllForwardings=yes'', ''127.0.0.1'', ''/usr/bin/true''],
           d))))))))"

end
