(* ===== verification/Service_Values.thy ===== *)
theory Service_Values
  imports Policy Provision Store Ssh_Config
begin

text \<open>
  The pure part of \<open>gascand/src/service.rs\<close>: its errors and the details recorded with a
  failed operation, the capture of guest output, storage capacities, image and SSH evidence, and
  the reading of the stored resolutions and of the tool inventory.  Parameters: \<open>display\<close>
  (the text that the derive macro of \<open>thiserror\<close> generates for an error), the SHA-256
  digest, and the outcome of \<open>serde_json::from_slice\<close> on the inventory.
\<close>

section \<open>Reading JSON\<close>

definition json_get :: "string \<Rightarrow> json \<Rightarrow> json option" where
  "json_get k v = (case v of JObject entries \<Rightarrow> map_of entries k | _ \<Rightarrow> None)"

definition json_str :: "json \<Rightarrow> string option" where
  "json_str v = (case v of JString s \<Rightarrow> Some s | _ \<Rightarrow> None)"

definition json_bool :: "json \<Rightarrow> bool option" where
  "json_bool v = (case v of JBool b \<Rightarrow> Some b | _ \<Rightarrow> None)"

definition json_u64 :: "json \<Rightarrow> u64 option" where
  "json_u64 v = (case v of JNumber n \<Rightarrow> if 0 \<le> n \<and> n < 2 ^ 64 then Some (word_of_int n) else None | _ \<Rightarrow> None)"

definition json_get_str :: "string \<Rightarrow> json \<Rightarrow> string option" where
  "json_get_str k v = Option.bind (json_get k v) json_str"

lemma json_get_object [simp]: "json_get k (JObject fs) = map_of fs k"
  by (simp add: json_get_def)

lemma json_u64_number [simp]: "json_u64 (JNumber (uint (w :: u64))) = Some w"
  using uint_bounded [of w] by (simp add: json_u64_def)

lemma json_str_string [simp]: "json_str (JString s) = Some s"
  by (simp add: json_str_def)

section \<open>Constants\<close>

definition SAFE_MISE_WORKDIR :: string where
  "SAFE_MISE_WORKDIR = ''/home/workspace/.config/gascan/mise-workdir''"

definition STORAGE_LAYOUT_VERSION :: u32 where "STORAGE_LAYOUT_VERSION = 2"

section \<open>Captured output\<close>

record bounded_tail =
  bt_bytes :: string
  bt_limit :: nat

definition tail_new :: "nat \<Rightarrow> bounded_tail" where
  "tail_new limit = \<lparr> bt_bytes = [], bt_limit = limit \<rparr>"

definition tail_extend :: "bounded_tail \<Rightarrow> string \<Rightarrow> bounded_tail" where
  "tail_extend t bytes =
     (if bt_limit t = 0 then t \<lparr> bt_bytes := [] \<rparr>
      else if length bytes \<ge> bt_limit t then
        t \<lparr> bt_bytes := drop (length bytes - bt_limit t) bytes \<rparr>
      else
        let overflow = length (bt_bytes t) + length bytes - bt_limit t;
            kept = (if overflow > 0 then drop overflow (bt_bytes t) else bt_bytes t)
        in t \<lparr> bt_bytes := kept @ bytes \<rparr>)"

definition into_bytes :: "bounded_tail \<Rightarrow> string" where
  "into_bytes t = bt_bytes t"

text \<open>The last \<open>n\<close> elements of a list.\<close>

definition suffix_of :: "nat \<Rightarrow> 'a list \<Rightarrow> 'a list" where
  "suffix_of n xs = drop (length xs - n) xs"

lemma suffix_of_length: "length (suffix_of n xs) = min n (length xs)"
  by (simp add: suffix_of_def)

lemma tail_extend_exact:
  assumes "bt_bytes t = suffix_of (bt_limit t) xs"
  shows "bt_bytes (tail_extend t ys) = suffix_of (bt_limit t) (xs @ ys)"
    and "bt_limit (tail_extend t ys) = bt_limit t"
  using assms
  by (auto simp: tail_extend_def suffix_of_def Let_def intro!: arg_cong2 [where f = drop])

lemma tail_foldl:
  assumes "bt_bytes t = suffix_of (bt_limit t) xs"
  shows "bt_bytes (foldl tail_extend t chunks) = suffix_of (bt_limit t) (xs @ concat chunks)"
  using assms
proof (induction chunks arbitrary: t xs)
  case (Cons c cs)
  from Cons.IH [OF tail_extend_exact(1) [OF Cons.prems, of c, folded tail_extend_exact(2) [OF Cons.prems, of c]]]
  show ?case by (simp add: tail_extend_exact(2) [OF Cons.prems])
qed simp

text \<open>C38. The output tail kept of a guest command is exactly the last \<open>limit\<close> bytes of
  everything that was written, in whatever chunks it arrived, and never longer than the
  limit.\<close>

theorem bounded_tail_exact:
  "into_bytes (foldl tail_extend (tail_new limit) chunks) =
     drop (length (concat chunks) - limit) (concat chunks) \<and>
   length (into_bytes (foldl tail_extend (tail_new limit) chunks)) = min limit (length (concat chunks))"
proof -
  have "bt_bytes (tail_new limit) = suffix_of (bt_limit (tail_new limit)) []"
    by (simp add: tail_new_def suffix_of_def)
  from tail_foldl [OF this, of chunks]
  have "into_bytes (foldl tail_extend (tail_new limit) chunks) = suffix_of limit (concat chunks)"
    by (simp add: into_bytes_def) (simp add: tail_new_def)
  then show ?thesis by (simp add: suffix_of_length) (simp add: suffix_of_def)
qed

section \<open>Images\<close>

record image_state =
  is_recorded :: "string option"
  is_running :: string
  is_approved :: string

definition change_required :: "image_state \<Rightarrow> bool" where
  "change_required st \<longleftrightarrow>
     \<not> (case is_recorded st of None \<Rightarrow> False | Some recorded \<Rightarrow> same_immutable_image recorded (is_approved st)) \<or>
     \<not> same_immutable_image (is_running st) (is_approved st)"

definition stored_image :: "sandbox_record \<Rightarrow> string option" where
  "stored_image r =
     Option.bind (sd_image r) (\<lambda>resolution.
     if res_version resolution \<noteq> 1 then None
     else Option.bind (json_get ''digest'' (res_details resolution)) (\<lambda>v.
          Option.bind (json_str v) (\<lambda>s. if immutable_image_reference s then Some s else None)))"

definition image_state_of ::
  "sandbox_record option \<Rightarrow> string \<Rightarrow> string \<Rightarrow> (image_state, runtime_error) result" where
  "image_state_of record' running approved =
     (if \<not> immutable_image_reference running then
        Err (InvalidOutput ''runtime image inspection'' ''running workspace image is not digest-qualified'')
      else if \<not> immutable_image_reference approved then
        Err (InvalidOutput ''workspace image policy'' ''approved workspace image is not digest-qualified'')
      else Ok \<lparr> is_recorded = Option.bind record' stored_image, is_running = running, is_approved = approved \<rparr>)"

section \<open>Errors\<close>

record storage_capacity_change =
  ch_volume :: string
  ch_recorded_bytes :: "u64 option"
  ch_requested_bytes :: u64

datatype service_error =
    StoreFailure store_error
  | RuntimeFailure runtime_error
  | CreateFailed create_failure
  | PolicyFailure policy_error
  | SandboxFailure sandbox_error
  | ManifestFailure manifest_error
  | Missing sandbox_id
  | Ownership sandbox_id
  | StorageLayoutRequiresRecreate "u32 option"
  | StorageChangeRequiresRecreate "storage_capacity_change list"
  | ImageUpgradeRequired string string string
  | StorageInvariant string
  | ProvisionFailed string
  | ProvisionCommandFailed provision_step string int int string
  | SetupChanged
  | SetupCommandFailed string int int string
  | SetupChangedStopUnconfirmed
  | SetupCommandFailedStopUnconfirmed string int int string
  | ServiceLockPoisoned
  | EventStreamUnavailable
  | DatabaseWorker string
  | FingerprintFailed string
  | IncompleteDestroy sandbox_id
  | SshPortUnavailable string
  | SshHostKeyMismatch string
  | SshNotReady "string option" string
  | SshConfigUnsafe ssh_error
  | SshConfigUpdateFailed ssh_error
  | SshConfigPublicationUncertain ssh_config_commit_error
  | SshPublicationUncertain service_error
  | RollbackFailed service_error runtime_error
  | ImageRollbackFailed service_error service_error
  | FailureReporting service_error service_error

definition ssh_not_ready :: "string \<Rightarrow> service_error" where
  "ssh_not_ready detail = SshNotReady None detail"

primrec service_error_code :: "service_error \<Rightarrow> string" where
  "service_error_code (RuntimeFailure e) = runtime_error_code e"
| "service_error_code (CreateFailed f) = runtime_error_code (failure_source f)"
| "service_error_code (PolicyFailure e) = policy_error_code e"
| "service_error_code (Missing _) = ''not_found''"
| "service_error_code (Ownership _) = ''ownership_mismatch''"
| "service_error_code (StorageLayoutRequiresRecreate _) = ''storage_layout_requires_recreate''"
| "service_error_code (StorageChangeRequiresRecreate _) = ''storage_change_requires_recreate''"
| "service_error_code (ImageUpgradeRequired _ _ _) = ''image_upgrade_required''"
| "service_error_code (StorageInvariant _) = ''storage_invariant_failed''"
| "service_error_code (ProvisionFailed _) = ''provision_failed''"
| "service_error_code (ProvisionCommandFailed _ _ _ _ _) = ''provision_failed''"
| "service_error_code SetupChanged = ''provision_failed''"
| "service_error_code (SetupCommandFailed _ _ _ _) = ''provision_failed''"
| "service_error_code SetupChangedStopUnconfirmed = ''provision_failed''"
| "service_error_code (SetupCommandFailedStopUnconfirmed _ _ _ _) = ''provision_failed''"
| "service_error_code (StoreFailure _) = ''store_error''"
| "service_error_code (SandboxFailure _) = ''sandbox_error''"
| "service_error_code (ManifestFailure _) = ''manifest_error''"
| "service_error_code ServiceLockPoisoned = ''lock_poisoned''"
| "service_error_code EventStreamUnavailable = ''event_stream_unavailable''"
| "service_error_code (DatabaseWorker _) = ''database_worker_failed''"
| "service_error_code (FingerprintFailed _) = ''fingerprint_failed''"
| "service_error_code (IncompleteDestroy _) = ''incomplete_destroy''"
| "service_error_code (SshPortUnavailable _) = ''ssh_port_unavailable''"
| "service_error_code (SshHostKeyMismatch _) = ''ssh_host_key_mismatch''"
| "service_error_code (SshNotReady _ _) = ''ssh_not_ready''"
| "service_error_code (SshConfigUnsafe _) = ''ssh_config_unsafe''"
| "service_error_code (SshConfigUpdateFailed _) = ''ssh_config_update_failed''"
| "service_error_code (SshConfigPublicationUncertain _) = ''ssh_config_publication_uncertain''"
| "service_error_code (SshPublicationUncertain _) = ''ssh_publication_uncertain''"
| "service_error_code (RollbackFailed original _) = service_error_code original"
| "service_error_code (ImageRollbackFailed original _) = service_error_code original"
| "service_error_code (FailureReporting original _) = service_error_code original"

definition is_setup_failure :: "service_error \<Rightarrow> bool" where
  "is_setup_failure e =
     (case e of
        SetupChanged \<Rightarrow> True
      | SetupCommandFailed _ _ _ _ \<Rightarrow> True
      | SetupChangedStopUnconfirmed \<Rightarrow> True
      | SetupCommandFailedStopUnconfirmed _ _ _ _ \<Rightarrow> True
      | _ \<Rightarrow> False)"

definition is_ssh_publication_uncertain :: "service_error \<Rightarrow> bool" where
  "is_ssh_publication_uncertain e =
     (case e of
        SshConfigPublicationUncertain _ \<Rightarrow> True
      | SshPublicationUncertain _ \<Rightarrow> True
      | _ \<Rightarrow> False)"

definition setup_stop_confirmed :: "service_error \<Rightarrow> bool" where
  "setup_stop_confirmed e =
     (case e of SetupChanged \<Rightarrow> True | SetupCommandFailed _ _ _ _ \<Rightarrow> True | _ \<Rightarrow> False)"

definition setup_exit_code :: "service_error \<Rightarrow> int option" where
  "setup_exit_code e =
     (case e of
        SetupCommandFailed _ exit_code _ _ \<Rightarrow> Some exit_code
      | SetupCommandFailedStopUnconfirmed _ exit_code _ _ \<Rightarrow> Some exit_code
      | _ \<Rightarrow> None)"

definition with_unconfirmed_setup_stop :: "service_error \<Rightarrow> service_error" where
  "with_unconfirmed_setup_stop e =
     (case e of
        SetupChanged \<Rightarrow> SetupChangedStopUnconfirmed
      | SetupCommandFailed a x s t \<Rightarrow> SetupCommandFailedStopUnconfirmed a x s t
      | other \<Rightarrow> other)"

type_synonym display = "service_error \<Rightarrow> string"

definition json_option :: "('a \<Rightarrow> json) \<Rightarrow> 'a option \<Rightarrow> json" where
  "json_option f x = (case x of None \<Rightarrow> JNull | Some y \<Rightarrow> f y)"

definition setup_output_details :: "service_error \<Rightarrow> (string \<times> json) list" where
  "setup_output_details e =
     (case e of
        SetupCommandFailed action _ signal stderr_tail \<Rightarrow>
          [(''action'', JString action), (''signal'', JNumber signal), (''stderr_tail'', JString stderr_tail)]
      | SetupCommandFailedStopUnconfirmed action _ signal stderr_tail \<Rightarrow>
          [(''action'', JString action), (''signal'', JNumber signal), (''stderr_tail'', JString stderr_tail)]
      | _ \<Rightarrow> [])"

definition failure_details :: "display \<Rightarrow> service_error \<Rightarrow> json" where
  "failure_details display e =
     (case e of
        StorageLayoutRequiresRecreate recorded \<Rightarrow>
          JObject [(''reason'', JString ''storage_layout_changed''),
            (''recorded_layout'', json_option (\<lambda>v. JNumber (uint v)) recorded),
            (''requested_layout'', JNumber (uint STORAGE_LAYOUT_VERSION)),
            (''recovery'', JString ''run `gascan destroy --yes` and then `gascan up`'')]
      | StorageChangeRequiresRecreate changes \<Rightarrow>
          JObject [(''message'', JString (display e)),
            (''changes'', JArray (map (\<lambda>c. JObject
               [(''volume'', JString (ch_volume c)),
                (''recorded_bytes'', json_option (\<lambda>v. JNumber (uint v)) (ch_recorded_bytes c)),
                (''requested_bytes'', JNumber (uint (ch_requested_bytes c)))]) changes))]
      | ImageUpgradeRequired current requested cause \<Rightarrow>
          JObject [(''message'', JString (display e)), (''reason'', JString ''image_changed''),
            (''current'', JString current), (''requested'', JString requested), (''cause'', JString cause),
            (''recovery'', JString ''run `gascan apply` again'')]
      | ProvisionCommandFailed step action exit_code signal stderr_tail \<Rightarrow>
          JObject [(''message'', JString (display e)), (''step'', JString (provision_step_as_str step)),
            (''action'', JString action), (''exit_code'', JNumber exit_code), (''signal'', JNumber signal),
            (''stderr_tail'', JString stderr_tail)]
      | _ \<Rightarrow>
          if is_setup_failure e then
            JObject ([(''message'', JString (display e)), (''phase'', JString ''setup''),
              (''retryable'', JBool True), (''stopped'', JBool (setup_stop_confirmed e))] @
              (case setup_exit_code e of None \<Rightarrow> [] | Some c \<Rightarrow> [(''exit_code'', JNumber c)]) @
              setup_output_details e)
          else JObject [(''message'', JString (display e))])"

definition image_replacement_failure_details :: "display \<Rightarrow> service_error \<Rightarrow> json" where
  "image_replacement_failure_details display e =
     (let (primary, rollback) = (case e of
            ImageRollbackFailed original rollback \<Rightarrow> (original, Some rollback)
          | other \<Rightarrow> (other, None))
      in JObject [(''message'', JString (display e)),
           (''primary'', JObject [(''code'', JString (service_error_code primary)), (''message'', JString (display primary))]),
           (''rollback'', json_option (\<lambda>r. JObject
              [(''code'', JString (service_error_code r)), (''message'', JString (display r))]) rollback)])"

section \<open>Storage capacities\<close>

type_synonym storage_capacities = "(string \<times> u64) list"

definition volume_bytes_key :: "string \<Rightarrow> string" where
  "volume_bytes_key volume = volume @ ''_bytes''"

text \<open>The array of three capacities: tools, cache and configuration.\<close>

definition storage_resolution :: "storage_capacities \<Rightarrow> resolution" where
  "storage_resolution requested =
     \<lparr> res_version = STORAGE_LAYOUT_VERSION,
       res_details = JObject
         [(''tools_bytes'', JNumber (uint (snd (requested ! 0)))),
          (''cache_bytes'', JNumber (uint (snd (requested ! 1)))),
          (''config_bytes'', JNumber (uint (snd (requested ! 2))))] \<rparr>"

definition validate_storage_layout :: "sandbox_record \<Rightarrow> (unit, service_error) result" where
  "validate_storage_layout r =
     (let recorded = map_option res_version (sd_storage r) in
      if recorded = Some STORAGE_LAYOUT_VERSION then Ok ()
      else Err (StorageLayoutRequiresRecreate recorded))"

definition recorded_bytes :: "resolution \<Rightarrow> string \<Rightarrow> u64 option" where
  "recorded_bytes recorded volume =
     Option.bind (json_get (volume_bytes_key volume) (res_details recorded)) json_u64"

definition storage_changes :: "resolution \<Rightarrow> storage_capacities \<Rightarrow> storage_capacity_change list" where
  "storage_changes recorded requested =
     List.map_filter (\<lambda>(volume, requested_bytes).
       if recorded_bytes recorded volume \<noteq> Some requested_bytes then
         Some \<lparr> ch_volume = volume, ch_recorded_bytes = recorded_bytes recorded volume,
                ch_requested_bytes = requested_bytes \<rparr>
       else None) requested"

definition validate_storage_capacities ::
  "sandbox_record \<Rightarrow> storage_capacities \<Rightarrow> (unit, service_error) result" where
  "validate_storage_capacities r requested =
     and_then (validate_storage_layout r) (\<lambda>_.
     case sd_storage r of
       None \<Rightarrow> Err (StorageLayoutRequiresRecreate None)
     | Some recorded \<Rightarrow>
         if storage_changes recorded requested = [] then Ok ()
         else Err (StorageChangeRequiresRecreate (storage_changes recorded requested)))"

definition requested_storage_from_manifest :: "storage \<Rightarrow> storage_capacities" where
  "requested_storage_from_manifest st =
     [(''tools'', size_bytes (st_tools st)), (''cache'', size_bytes (st_cache st)),
      (''config'', size_bytes (st_config st))]"

definition managed_volume_at ::
  "runtime_volume list \<Rightarrow> string \<times> string \<Rightarrow> (string \<times> u64, service_error) result" where
  "managed_volume_at volumes vt =
     (case filter (\<lambda>v. vol_target v = snd vt) volumes of
        [] \<Rightarrow> Err (StorageInvariant ''managed volume is missing from compiled create request'')
      | [v] \<Rightarrow> Ok (fst vt, vol_capacity_bytes v)
      | _ \<Rightarrow> Err (StorageInvariant ''managed volume is duplicated in compiled create request''))"

definition requested_storage_from_volumes ::
  "runtime_volume list \<Rightarrow> (storage_capacities, service_error) result" where
  "requested_storage_from_volumes volumes =
     collect_ok (managed_volume_at volumes)
       [(''tools'', TOOLS_ROOT), (''cache'', CACHE_ROOT), (''config'', CONFIG_ROOT)]"

definition requested_storage :: "create_request \<Rightarrow> (storage_capacities, service_error) result" where
  "requested_storage create = requested_storage_from_volumes (cr_volumes create)"

fun binary_size_with :: "u64 \<Rightarrow> (string \<times> u64) list \<Rightarrow> string" where
  "binary_size_with bytes [] = show_nat (unat bytes) @ '' bytes''"
| "binary_size_with bytes ((suffix', divisor) # units) =
     (if bytes mod divisor = 0 then show_nat (unat (bytes div divisor)) @ suffix'
      else binary_size_with bytes units)"

fun zip_sep :: "string list \<Rightarrow> string list" where
  "zip_sep [] = []"
| "zip_sep [x] = [x]"
| "zip_sep (x # xs) = x # '', '' # zip_sep xs"

definition format_binary_size :: "u64 \<Rightarrow> string" where
  "format_binary_size bytes =
     binary_size_with bytes
       [(''TiB'', 1024 ^ 4), (''GiB'', 1024 ^ 3), (''MiB'', 1024 ^ 2), (''KiB'', 1024)]"

text \<open>The arrow of the message is the UTF-8 encoding of U+2192.\<close>

definition format_storage_change_message :: "storage_capacity_change list \<Rightarrow> string" where
  "format_storage_change_message changes =
     ''storage settings changed for '' @
     concat (zip_sep (map (\<lambda>c. ch_volume c @ '' ('' @
        (case ch_recorded_bytes c of None \<Rightarrow> ''unknown'' | Some b \<Rightarrow> format_binary_size b) @
        [CHR 0x20, CHR 0xE2, CHR 0x86, CHR 0x92, CHR 0x20] @
        format_binary_size (ch_requested_bytes c) @ '')'') changes)) @
     ''; run `gascan destroy --yes` and `gascan up` to recreate the sandbox''"

text \<open>Printing and reading of a capacity.\<close>

lemma binary_size_parses:
  assumes "b \<noteq> 0" and "b mod d = 0" and "(u, d) \<in> set size_units"
  shows "parse_size (show_nat (unat (b div d)) @ u) = Ok (ResourceSize b)"
proof -
  have "unat d dvd unat b"
    using assms(2) by (metis mod_0_imp_dvd unat_mod_distrib unat_0)
  then have m: "unat (b div d) * unat d = unat b"
    by (simp add: unat_div_distrib)
  moreover have "0 < unat b" using assms(1) by (simp add: unat_gt_0)
  ultimately have "0 < unat (b div d)" by (metis gr0I mult_0)
  then show ?thesis
    unfolding parse_size_Ok using m assms(3) unsigned_less [of b]
    by (intro exI [of _ "show_nat (unat (b div d))"] exI [of _ u] exI [of _ d]) (simp add: show_nat_digits)
qed

text \<open>Printing a capacity and reading it back: the text that \<open>format_binary_size\<close> prints
  for a number of bytes is a size that the manifest accepts, with exactly that value, if and only
  if the number is a positive multiple of a kibibyte.\<close>

lemma size_round_trip:
  "parse_size (format_binary_size b) = Ok (ResourceSize b) \<longleftrightarrow> b \<noteq> 0 \<and> b mod 1024 = 0"
proof
  assume "parse_size (format_binary_size b) = Ok (ResourceSize b)"
  from parse_size_positive [OF this] have "0 < unat b" "1024 dvd unat b" by simp_all
  then have "unat (b mod 1024) = 0" by (simp add: unat_mod_distrib)
  then have "b mod 1024 = 0" by (rule iffD1 [OF unat_0_iff])
  with \<open>0 < unat b\<close> show "b \<noteq> 0 \<and> b mod 1024 = 0" by auto
next
  assume b: "b \<noteq> 0 \<and> b mod 1024 = 0"
  have "(''TiB'', 1024 ^ 4) \<in> set size_units" "(''GiB'', 1024 ^ 3) \<in> set size_units"
    "(''MiB'', 1024 ^ 2) \<in> set size_units" "(''KiB'', 1024) \<in> set size_units"
    by (simp_all add: size_units_def KIB_def MIB_def GIB_def TIB_def)
  with b show "parse_size (format_binary_size b) = Ok (ResourceSize b)"
    unfolding format_binary_size_def by (simp only: binary_size_with.simps) (simp add: binary_size_parses)
qed

lemma managed_volumes_requested:
  "requested_storage_from_volumes (managed_volumes i st om) = Ok (requested_storage_from_manifest st)"
  by (simp add: requested_storage_from_volumes_def managed_volume_at_def managed_volumes_def
      managed_volume_names_def requested_storage_from_manifest_def TOOLS_ROOT_def CACHE_ROOT_def
      CONFIG_ROOT_def result_simps loop_simps)

lemma recorded_bytes_storage:
  "recorded_bytes (storage_resolution (requested_storage_from_manifest st)) ''tools'' = Some (size_bytes (st_tools st))"
  "recorded_bytes (storage_resolution (requested_storage_from_manifest st)) ''cache'' = Some (size_bytes (st_cache st))"
  "recorded_bytes (storage_resolution (requested_storage_from_manifest st)) ''config'' = Some (size_bytes (st_config st))"
  by (simp_all add: recorded_bytes_def storage_resolution_def requested_storage_from_manifest_def
      volume_bytes_key_def)

text \<open>C37. Storage cannot change under a sandbox: when a sandbox was created with the request
  compiled from one manifest and its capacities recorded, the check that runs before the sandbox
  is used with a later request accepts it exactly when both manifests ask for the same
  capacities; otherwise the error names exactly the volumes whose capacity differs, with the
  recorded and the requested number of bytes.\<close>

theorem storage_gate_exact:
  assumes "compile_for_image_internal b64 spec caps img control = Ok created"
    and "compile_for_image_internal b64' spec' caps' img' control' = Ok create"
    and "requested_storage created = Ok recorded" and "sd_storage r = Some (storage_resolution recorded)"
  shows "\<exists>requested. requested_storage create = Ok requested \<and>
    (case validate_storage_capacities r requested of
       Ok _ \<Rightarrow> m_storage (spec_manifest spec) = m_storage (spec_manifest spec')
     | Err e \<Rightarrow> m_storage (spec_manifest spec) \<noteq> m_storage (spec_manifest spec') \<and>
         e = StorageChangeRequiresRecreate
           (map (\<lambda>(v, size). \<lparr> ch_volume = v,
                  ch_recorded_bytes = Some (size_bytes (size (m_storage (spec_manifest spec)))),
                  ch_requested_bytes = size_bytes (size (m_storage (spec_manifest spec'))) \<rparr>)
             (filter (\<lambda>(v, size). size (m_storage (spec_manifest spec)) \<noteq> size (m_storage (spec_manifest spec')))
               [(''tools'', st_tools), (''cache'', st_cache), (''config'', st_config)])))"
proof -
  let ?old = "m_storage (spec_manifest spec)" and ?new = "m_storage (spec_manifest spec')"
  have requested: "requested_storage create = Ok (requested_storage_from_manifest ?new)"
    using assms(2) by (auto simp: compile_Ok requested_storage_def managed_volumes_requested)
  have recorded: "recorded = requested_storage_from_manifest ?old"
    using assms(1,3) by (auto simp: compile_Ok requested_storage_def managed_volumes_requested)
  have size_eq: "size_bytes a = size_bytes b \<longleftrightarrow> a = b" for a b by (cases a; cases b) simp
  have layout: "validate_storage_layout r = Ok ()"
    using assms(4) by (simp add: validate_storage_layout_def storage_resolution_def)
  have storage_eq: "?old = ?new \<longleftrightarrow>
      st_tools ?old = st_tools ?new \<and> st_cache ?old = st_cache ?new \<and> st_config ?old = st_config ?new"
    by auto
  have changes: "storage_changes (storage_resolution recorded) (requested_storage_from_manifest ?new) =
      map (\<lambda>(v, size). \<lparr> ch_volume = v, ch_recorded_bytes = Some (size_bytes (size ?old)),
             ch_requested_bytes = size_bytes (size ?new) \<rparr>)
        (filter (\<lambda>(v, size). size ?old \<noteq> size ?new)
          [(''tools'', st_tools), (''cache'', st_cache), (''config'', st_config)])"
    unfolding recorded storage_changes_def
    by (subst requested_storage_from_manifest_def)
      (simp add: recorded_bytes_storage size_eq map_filter_simps)
  define diff where "diff = map (\<lambda>(v, size). \<lparr> ch_volume = v,
        ch_recorded_bytes = Some (size_bytes (size ?old)),
        ch_requested_bytes = size_bytes (size ?new) \<rparr>)
      (filter (\<lambda>(v, size). size ?old \<noteq> size ?new)
        [(''tools'', st_tools), (''cache'', st_cache), (''config'', st_config)])"
  have "diff = [] \<longleftrightarrow> ?old = ?new" by (simp add: diff_def storage_eq)
  moreover have "validate_storage_capacities r (requested_storage_from_manifest ?new) =
      (if diff = [] then Ok () else Err (StorageChangeRequiresRecreate diff))"
    by (simp only: validate_storage_capacities_def layout assms(4) changes diff_def and_then.simps option.case)
  ultimately show ?thesis
    unfolding requested diff_def [symmetric] by simp
qed

definition grown_spec :: sandbox_spec where
  "grown_spec = example_spec \<lparr> spec_manifest := example_manifest
     \<lparr> m_storage := storage_defaults \<lparr> st_cache := ResourceSize (64 * GIB) \<rparr> \<rparr> \<rparr>"

lemma grown_compiles:
  "compile_for_image_internal example_b64 grown_spec example_capabilities WORKSPACE_IMAGE None =
     Ok (compiled_request grown_spec WORKSPACE_IMAGE None None)"
proof -
  have "policy_accepts example_b64 grown_spec example_capabilities WORKSPACE_IMAGE None None"
    using workspace_image_immutable
    by (simp add: policy_accepts_def grown_spec_def example_spec_def example_capabilities_def
        example_manifest_def defaults_for_root_def resources_empty_def ssh_transport_ok_def
        ssh_requested_def path_eq_def bt_values_def DEFAULT_CPUS_def MAX_CPUS_def
        DEFAULT_MEMORY_BYTES_def MAX_MEMORY_BYTES_def)
  then show ?thesis by (auto simp: compile_Ok)
qed

definition recorded_sandbox :: sandbox_record where
  "recorded_sandbox =
     \<lparr> sd_id = example_id, sd_root = ''/w'', sd_desired = DesiredRunning, sd_actual = ActualRunning,
       sd_setup = None, sd_tool = None, sd_image = None,
       sd_storage = Some (storage_resolution (requested_storage_from_manifest (m_storage example_manifest))),
       sd_ssh = None, sd_last_operation = None, sd_updated_at = 0 \<rparr>"

theorem storage_gate_exact_witness:
  "\<exists>requested. requested_storage (compiled_request grown_spec WORKSPACE_IMAGE None None) = Ok requested \<and>
     validate_storage_capacities recorded_sandbox requested \<noteq> Ok ()"
proof -
  have compiled: "compile_for_image_internal example_b64 example_spec example_capabilities WORKSPACE_IMAGE
      (Some (example_control 2222)) =
    Ok (compiled_request example_spec WORKSPACE_IMAGE (Some (example_control 2222)) (Some 2222))"
    by (rule example_compiles) simp
  have requested: "requested_storage
      (compiled_request example_spec WORKSPACE_IMAGE (Some (example_control 2222)) (Some 2222)) =
    Ok (requested_storage_from_manifest (m_storage example_manifest))"
    by (simp add: requested_storage_def managed_volumes_requested) (simp add: example_spec_def)
  have recorded: "sd_storage recorded_sandbox =
      Some (storage_resolution (requested_storage_from_manifest (m_storage example_manifest)))"
    by (simp add: recorded_sandbox_def)
  have grown: "m_storage (spec_manifest example_spec) \<noteq> m_storage (spec_manifest grown_spec)"
    by (simp add: grown_spec_def example_spec_def example_manifest_def defaults_for_root_def
        storage_defaults_def DEFAULT_CACHE_STORAGE_BYTES_def GIB_def)
  from storage_gate_exact [OF compiled grown_compiles requested recorded] show ?thesis
    by (elim exE) (simp add: grown split: result.splits)
qed

section \<open>Stored resolutions\<close>

definition applied_state_of :: "sandbox_record option \<Rightarrow> applied_state" where
  "applied_state_of r =
     \<lparr> ap_tool_hash = Option.bind r (\<lambda>r. Option.bind (sd_tool r) (\<lambda>v. json_get_str ''tool_hash'' (res_details v))),
       ap_setup_sha256 = Option.bind r (\<lambda>r. Option.bind (sd_setup r) (\<lambda>v.
         Option.bind (json_get ''resolution'' (res_details v)) (json_get_str ''sha256''))),
       ap_shell_hash = Option.bind r (\<lambda>r. Option.bind (sd_tool r) (\<lambda>v. json_get_str ''shell_hash'' (res_details v))) \<rparr>"

definition replacement_applied_state :: "sandbox_record \<Rightarrow> applied_state" where
  "replacement_applied_state r =
     \<lparr> ap_tool_hash = Option.bind (sd_tool r) (\<lambda>v. json_get_str ''tool_hash'' (res_details v)),
       ap_setup_sha256 = None,
       ap_shell_hash = Option.bind (sd_tool r) (\<lambda>v. json_get_str ''shell_hash'' (res_details v)) \<rparr>"

definition stored_tool_resolution :: "sandbox_record \<Rightarrow> json option" where
  "stored_tool_resolution r = Option.bind (sd_tool r) (\<lambda>v. json_get ''resolution'' (res_details v))"

definition fingerprint_matches :: "string \<Rightarrow> resolution option \<Rightarrow> bool" where
  "fingerprint_matches fingerprint v =
     (case v of None \<Rightarrow> False
      | Some v \<Rightarrow> json_get_str ''desired_fingerprint'' (res_details v) = Some fingerprint)"

definition resolution_matches :: "sandbox_record \<Rightarrow> string \<Rightarrow> bool" where
  "resolution_matches r fingerprint \<longleftrightarrow>
     fingerprint_matches fingerprint (sd_setup r) \<and> fingerprint_matches fingerprint (sd_tool r)"

type_synonym planner = "string \<Rightarrow> manifest \<Rightarrow> applied_state \<Rightarrow> (provision_plan, provision_error) result"

definition tool_state_matches ::
  "planner \<Rightarrow> sandbox_record \<Rightarrow> string \<Rightarrow> manifest \<Rightarrow> (bool, service_error) result" where
  "tool_state_matches plan_for r root m =
     map_ok (\<lambda>p. \<not> pl_tools_changed p)
       (map_err (\<lambda>_. ProvisionFailed ''could not plan provisioning'')
         (plan_for root m (applied_state_of (Some r))))"

definition shell_state_matches ::
  "planner \<Rightarrow> sandbox_record \<Rightarrow> string \<Rightarrow> manifest \<Rightarrow> (bool, service_error) result" where
  "shell_state_matches plan_for r root m =
     map_ok (\<lambda>p. \<not> pl_shell_changed p)
       (map_err (\<lambda>_. ProvisionFailed ''could not plan provisioning'')
         (plan_for root m (applied_state_of (Some r))))"

text \<open>\<open>sha256\<close> is the digest, printed in lower-case hexadecimal.\<close>

definition desired_fingerprint ::
  "digest \<Rightarrow> planner \<Rightarrow> sandbox_spec \<Rightarrow> (string, service_error) result" where
  "desired_fingerprint sha256 plan_for spec =
     map_ok (\<lambda>p. ''sha256:'' @ lower (sha256
         (pl_desired_tool_hash p @ pl_desired_shell_hash p @
          (case pl_setup_script p of None \<Rightarrow> [] | Some su \<Rightarrow> su_path su @ su_sha256 su))))
       (map_err (\<lambda>_. FingerprintFailed ''workspace setup could not be read safely'')
         (plan_for (spec_root spec) (spec_manifest spec) applied_empty))"

section \<open>Evidence of an interrupted operation\<close>

type_synonym phase = "string \<times> string option \<times> u64 option"

definition phase_of :: "json \<Rightarrow> phase option" where
  "phase_of details =
     Option.bind (json_get ''phase'' details) (\<lambda>v. Option.bind (json_str v) (\<lambda>p.
     Some (p, json_get_str ''desired_fingerprint'' details,
           Option.bind (json_get ''resolution_version'' details) json_u64)))"

fun position :: "('a \<Rightarrow> bool) \<Rightarrow> 'a list \<Rightarrow> nat option" where
  "position P [] = None"
| "position P (x # xs) = (if P x then Some 0 else map_option Suc (position P xs))"

definition rposition :: "('a \<Rightarrow> bool) \<Rightarrow> 'a list \<Rightarrow> nat option" where
  "rposition P xs = map_option (\<lambda>k. length xs - 1 - k) (position P (rev xs))"

definition phases_of :: "operation_event list \<Rightarrow> phase list" where
  "phases_of events = List.map_filter (\<lambda>e. Option.bind (ev_details e) phase_of) events"

definition hook_evidence :: "phase list \<Rightarrow> (string \<Rightarrow> bool) \<Rightarrow> bool" where
  "hook_evidence phases recorded =
     (case (position (\<lambda>p. fst p = ''before_health'') phases, rposition (\<lambda>p. fst p = ''after_health'') phases) of
        (Some before_health, Some after_health) \<Rightarrow>
          if before_health \<ge> after_health then False
          else (case fst (snd (phases ! after_health)) of
                  None \<Rightarrow> False
                | Some fingerprint \<Rightarrow>
                    (case (position (\<lambda>p. fst p = ''before_provision'') phases,
                           position (\<lambda>p. fst p = ''after_provision'' \<and> snd (snd p) = Some 1) phases) of
                       (Some before, Some after) \<Rightarrow>
                         if before < after \<and> after < before_health
                         then fst (snd (phases ! after)) = Some fingerprint else False
                     | (None, None) \<Rightarrow> recorded fingerprint
                     | _ \<Rightarrow> False))
      | _ \<Rightarrow> False)"

definition ordered_hook_evidence :: "operation_event list \<Rightarrow> sandbox_record \<Rightarrow> bool" where
  "ordered_hook_evidence events r = hook_evidence (phases_of events) (resolution_matches r)"

section \<open>Owned containers and SSH\<close>

definition exact_owned_container ::
  "create_request \<Rightarrow> runtime_resource list \<Rightarrow> (runtime_resource option, service_error) result" where
  "exact_owned_container create resources =
     (case filter (\<lambda>r. rr_kind r = Container \<and> rr_ownership r = GasCanOwned \<and>
         rr_sandbox_id r = Some (cr_id create)) resources of
        [] \<Rightarrow> Ok None
      | [container] \<Rightarrow>
          and_then (map_err RuntimeFailure (new_identity Container (as_str (cr_id create)))) (\<lambda>expected.
          if rr_identity container \<noteq> expected then
            Err (RuntimeFailure (OwnershipMismatch (rr_name container)))
          else Ok (Some container))
      | _ \<Rightarrow> Err (RuntimeFailure (InvalidState (as_str (cr_id create))
               ''expected at most one owned container resource'')))"

definition ssh_resolution_enabled :: "resolution option \<Rightarrow> bool" where
  "ssh_resolution_enabled v =
     (case v of None \<Rightarrow> False
      | Some v \<Rightarrow> res_version v = 1 \<and>
          Option.bind (json_get ''enabled'' (res_details v)) json_bool = Some True)"

definition native_ssh_ports :: "runtime_sandbox \<Rightarrow> runtime_port list" where
  "native_ssh_ports sb = filter (\<lambda>m. rp_guest_port m = 22) (rs_ports sb)"

definition inspected_native_ssh_port :: "runtime_sandbox \<Rightarrow> (u16, service_error) result" where
  "inspected_native_ssh_port sb =
     (case native_ssh_ports sb of
        [] \<Rightarrow> Err (ssh_not_ready ''runtime inspection is missing the native SSH mapping'')
      | m # others \<Rightarrow>
          if others \<noteq> [] \<or> rp_host_address m \<noteq> LOCALHOST \<or> rp_host_port m < 1024 then
            Err (ssh_not_ready ''runtime inspection has an invalid native SSH mapping'')
          else Ok (rp_host_port m))"

definition validate_inspected_ssh_policy ::
  "ssh_transport_policy option \<Rightarrow> u16 \<Rightarrow> (unit, service_error) result" where
  "validate_inspected_ssh_policy policy inspected_port =
     (case policy of
        None \<Rightarrow> Ok ()
      | Some p \<Rightarrow>
          if \<not> tp_enabled p then Err (ssh_not_ready ''durable SSH transport policy is disabled'')
          else if tp_host_port p \<noteq> None \<and> tp_host_port p \<noteq> Some inspected_port then
            Err (ssh_not_ready ''runtime SSH mapping differs from durable explicit port'')
          else Ok ())"

definition create_request_ssh_enabled :: "create_request \<Rightarrow> bool" where
  "create_request_ssh_enabled req \<longleftrightarrow> bt_get (cr_environment req) ''GASCAN_SSH_ENABLED'' = Some ''1''"

definition runtime_ssh_transport_changed :: "runtime_sandbox \<Rightarrow> sandbox_spec \<Rightarrow> bool" where
  "runtime_ssh_transport_changed sb spec =
     (let desired_enabled = ssh_enabled (m_ssh (spec_manifest spec)) in
      case native_ssh_ports sb of
        [] \<Rightarrow> desired_enabled
      | m # others \<Rightarrow>
          if \<not> desired_enabled \<or> others \<noteq> [] then True
          else (case ssh_host_port (m_ssh (spec_manifest spec)) of
                  None \<Rightarrow> False | Some port \<Rightarrow> rp_host_port m \<noteq> port))"

definition requested_ssh_transport :: "sandbox_spec \<Rightarrow> ssh_transport_policy" where
  "requested_ssh_transport spec =
     (if ssh_enabled (m_ssh (spec_manifest spec))
      then transport_enabled (ssh_host_port (m_ssh (spec_manifest spec))) else transport_disabled)"

definition ssh_transport_policy_changed ::
  "sandbox_record \<Rightarrow> runtime_sandbox \<Rightarrow> sandbox_spec \<Rightarrow> ssh_transport_policy option \<Rightarrow> bool \<Rightarrow> bool \<Rightarrow> bool" where
  "ssh_transport_policy_changed r sb spec recorded_policy require_ssh_resolution require_recorded_policy =
     (if runtime_ssh_transport_changed sb spec then True
      else if (case recorded_policy of
                 None \<Rightarrow> require_recorded_policy | Some p \<Rightarrow> p \<noteq> requested_ssh_transport spec) then True
      else require_ssh_resolution \<and>
           ssh_enabled (m_ssh (spec_manifest spec)) \<noteq> ssh_resolution_enabled (sd_ssh r))"

section \<open>Tools\<close>

definition env_assignment :: "string \<times> string \<Rightarrow> string" where
  "env_assignment nv = fst nv @ ''='' @ snd nv"

definition mise_command :: "string list \<Rightarrow> string list" where
  "mise_command args =
     (let home = unwrap_or WORKSPACE_HOME (bt_get workspace_environment ''HOME'');
          environment = bt_insert ''MISE_CEILING_PATHS'' SAFE_MISE_WORKDIR (bt_remove ''HOME'' workspace_environment)
      in [''/usr/bin/env'', ''HOME='' @ home] @ map env_assignment environment @
         [''/usr/local/bin/mise'', ''--cd'', SAFE_MISE_WORKDIR, ''--no-env'', ''--no-hooks''] @ args)"

record mise_tool_record =
  mi_version :: string
  mi_installed :: bool
  mi_active :: bool
  mi_source_path :: string

type_synonym mise_inventory = "(string, mise_tool_record list) btree_map"

text \<open>The visitor of the inventory: the entries of the JSON object in document order, with a
  repeated key refused.\<close>

fun visit_inventory ::
  "(string \<times> mise_tool_record list) list \<Rightarrow> mise_inventory \<Rightarrow> mise_inventory option" where
  "visit_inventory [] m = Some m"
| "visit_inventory ((tool, versions) # entries) m =
     (if bt_contains tool m then None else visit_inventory entries (bt_insert tool versions m))"

definition valid_mise_record :: "mise_tool_record \<Rightarrow> bool" where
  "valid_mise_record r \<longleftrightarrow>
     mi_installed r \<and> mi_active r \<and> \<not> trim_is_empty (mi_version r) \<and>
     \<not> list_ex is_control (chars (mi_version r))"

definition resolve_tool ::
  "(string, string) btree_map \<Rightarrow> string \<times> mise_tool_record list \<Rightarrow> (string, string) btree_map \<Rightarrow>
     ((string, string) btree_map, service_error) result" where
  "resolve_tool desired entry resolved =
     (case snd entry of
        [r] \<Rightarrow>
          if \<not> valid_mise_record r then Err (ProvisionFailed ''mise returned an invalid tool record'')
          else if bt_contains (fst entry) desired then
            if mi_source_path r \<noteq> MISE_GLOBAL_CONFIG_FILE
            then Err (ProvisionFailed ''mise returned an unexpected tool set'')
            else Ok (bt_insert (fst entry) (mi_version r) resolved)
          else if mi_source_path r \<noteq> MISE_SYSTEM_CONFIG_FILE
            then Err (ProvisionFailed ''mise returned an unexpected tool set'')
            else Ok resolved
      | _ \<Rightarrow> Err (ProvisionFailed ''mise returned an invalid tool record''))"

text \<open>\<open>parsed\<close> is what the JSON parser returns for the output: its object entries, if it is one.\<close>

definition parse_mise_versions ::
  "(string \<times> mise_tool_record list) list option \<Rightarrow> (string, string) btree_map \<Rightarrow>
     ((string, string) btree_map, service_error) result" where
  "parse_mise_versions parsed desired =
     and_then (ok_or (ProvisionFailed ''invalid mise tool inventory'')
       (Option.bind parsed (\<lambda>entries. visit_inventory entries []))) (\<lambda>inventory.
     and_then (fold_ok (resolve_tool desired) inventory []) (\<lambda>resolved.
     if bt_keys resolved \<noteq> bt_keys desired
     then Err (ProvisionFailed ''mise returned an unexpected tool set'')
     else Ok resolved))"

end
