(* ===== verification/Backend.thy ===== *)
theory Backend
  imports Fake_Runtime_Correct
begin

text \<open>
  The trait \<open>RuntimeBackend\<close> of \<open>gascan-core/src/runtime.rs\<close> as a record of operations
  over the state of a backend, the in-memory backend as one instance of it, and the contract that
  the lifecycle service relies on, as a locale that this instance satisfies.
\<close>

section \<open>The trait\<close>

text \<open>What the reader of a session sees after it sent the close frame: whether the frame was
  accepted, and the results delivered until the channel closes.\<close>

record exec_stream =
  xs_close_accepted :: bool
  xs_outputs :: "(exec_output, runtime_error) result list"

record 'b backend =
  bk_capabilities :: "'b \<Rightarrow> (runtime_capabilities, runtime_error, 'b) stateful"
  bk_inspect :: "sandbox_id \<Rightarrow> 'b \<Rightarrow> (runtime_sandbox option, runtime_error, 'b) stateful"
  bk_create :: "create_request \<Rightarrow> 'b \<Rightarrow> (create_outcome, create_failure, 'b) stateful"
  bk_prepare_image :: "string \<Rightarrow> 'b \<Rightarrow> (unit, runtime_error, 'b) stateful"
  bk_create_container :: "recreate_request \<Rightarrow> 'b \<Rightarrow> (create_outcome, create_failure, 'b) stateful"
  bk_start :: "sandbox_id \<Rightarrow> 'b \<Rightarrow> (unit, runtime_error, 'b) stateful"
  bk_stop :: "sandbox_id \<Rightarrow> 'b \<Rightarrow> (unit, runtime_error, 'b) stateful"
  bk_remove :: "remove_request \<Rightarrow> 'b \<Rightarrow> (unit, runtime_error, 'b) stateful"
  bk_exec :: "exec_request \<Rightarrow> 'b \<Rightarrow> (exec_stream, runtime_error, 'b) stateful"
  bk_logs :: "sandbox_id \<Rightarrow> int option \<Rightarrow> 'b \<Rightarrow> (string, runtime_error, 'b) stateful"
  bk_list_resources :: "'b \<Rightarrow> (runtime_resource list, runtime_error, 'b) stateful"

section \<open>The in-memory backend\<close>

text \<open>A hanging session accepts or keeps the close frame and delivers nothing of its own accord.\<close>

definition fake_stream :: "int \<Rightarrow> fake_session \<Rightarrow> fake_state \<Rightarrow> exec_stream \<times> fake_state" where
  "fake_stream now session s =
     (case session of
        HangingSession phase \<Rightarrow> (\<lparr> xs_close_accepted = True, xs_outputs = [] \<rparr>, s)
      | InputClosedSession \<Rightarrow> (\<lparr> xs_close_accepted = False, xs_outputs = [] \<rparr>, s)
      | StreamErrorSession e \<Rightarrow> (\<lparr> xs_close_accepted = True, xs_outputs = [Err e] \<rparr>, s)
      | LiveSession request configured \<Rightarrow>
          (let (frames, s) = run_session now Uninterrupted request configured [CloseInput] s in
           (\<lparr> xs_close_accepted = True, xs_outputs = map Ok frames \<rparr>, s)))"

definition fake_exec_stream ::
  "int \<Rightarrow> exec_request \<Rightarrow> fake_state \<Rightarrow> (exec_stream, runtime_error, fake_state) stateful" where
  "fake_exec_stream now request s =
     st_then (fake_exec request s) (\<lambda>session s.
       let (stream, s) = fake_stream now session s in (Ok stream, s))"

definition fake_backend :: "int \<Rightarrow> fake_state backend" where
  "fake_backend now =
     \<lparr> bk_capabilities = fake_capabilities, bk_inspect = fake_inspect, bk_create = fake_create,
       bk_prepare_image = fake_prepare_image, bk_create_container = fake_create_container,
       bk_start = fake_start, bk_stop = fake_stop, bk_remove = fake_remove,
       bk_exec = fake_exec_stream now, bk_logs = fake_logs,
       bk_list_resources = fake_list_resources \<rparr>"

section \<open>The contract\<close>

text \<open>\<open>wf\<close> is the invariant of the backend and \<open>res\<close> the resources it holds.  Reading,
  starting, stopping and running commands leave the resources alone; the listing is exact; a
  removal that succeeds removes exactly the resources it names, all of which were present, and one
  that fails may have removed any of them and nothing else, so that a backend which deletes one
  resource at a time can stop half-way.\<close>

locale runtime_backend =
  fixes bk :: "'b backend" and wf :: "'b \<Rightarrow> bool" and res :: "'b \<Rightarrow> runtime_resource set"
  assumes keeps_capabilities: "wf b \<Longrightarrow> wf (snd (bk_capabilities bk b)) \<and> res (snd (bk_capabilities bk b)) = res b"
    and keeps_inspect: "wf b \<Longrightarrow> wf (snd (bk_inspect bk i b)) \<and> res (snd (bk_inspect bk i b)) = res b"
    and keeps_start: "wf b \<Longrightarrow> wf (snd (bk_start bk i b)) \<and> res (snd (bk_start bk i b)) = res b"
    and keeps_stop: "wf b \<Longrightarrow> wf (snd (bk_stop bk i b)) \<and> res (snd (bk_stop bk i b)) = res b"
    and keeps_exec: "wf b \<Longrightarrow> wf (snd (bk_exec bk x b)) \<and> res (snd (bk_exec bk x b)) = res b"
    and keeps_logs: "wf b \<Longrightarrow> wf (snd (bk_logs bk i since b)) \<and> res (snd (bk_logs bk i since b)) = res b"
    and keeps_prepare: "wf b \<Longrightarrow> wf (snd (bk_prepare_image bk img b)) \<and> res (snd (bk_prepare_image bk img b)) = res b"
    and keeps_list: "wf b \<Longrightarrow> wf (snd (bk_list_resources bk b)) \<and> res (snd (bk_list_resources bk b)) = res b"
    and list_exact: "wf b \<Longrightarrow> fst (bk_list_resources bk b) = Ok rs \<Longrightarrow> set rs = res b"
    and remove_wf: "wf b \<Longrightarrow> remove_from_resources rs = Ok request \<Longrightarrow> wf (snd (bk_remove bk request b))"
    and remove_ok: "wf b \<Longrightarrow> remove_from_resources rs = Ok request \<Longrightarrow>
        fst (bk_remove bk request b) = Ok () \<Longrightarrow>
        set rs \<subseteq> res b \<and> res (snd (bk_remove bk request b)) = res b - set rs"
    and remove_part: "wf b \<Longrightarrow> remove_from_resources rs = Ok request \<Longrightarrow>
        res b - set rs \<subseteq> res (snd (bk_remove bk request b)) \<and> res (snd (bk_remove bk request b)) \<subseteq> res b"
begin

text \<open>Listing, selecting and removing: what is left is what was not selected.\<close>

lemma remove_listed:
  assumes "wf b" "bk_list_resources bk b = (Ok rs, b1)" "remove_from_resources (filter P rs) = Ok request"
    "bk_remove bk request b1 = (Ok (), b2)"
  shows "wf b2 \<and> res b2 = {r \<in> res b. \<not> P r}"
proof -
  have rs: "set rs = res b" and b1: "wf b1" "res b1 = res b"
    using list_exact [OF assms(1)] keeps_list [OF assms(1)] assms(2) by simp_all
  then have "res b2 = res b - set (filter P rs)" "wf b2"
    using remove_ok [OF b1(1) assms(3)] remove_wf [OF b1(1) assms(3)] assms(4) by simp_all
  then show ?thesis using rs by auto
qed

end

lemma same_maps_resources: "same_maps s t \<Longrightarrow> fake_wf s \<Longrightarrow> fake_wf t \<and> resources_of t = resources_of s"
  by (simp add: same_maps_def fake_wf_def resources_of_def)

lemma sandbox_update_resources:
  "fk_resources t = fk_resources s \<Longrightarrow> resources_of t = resources_of s"
  by (simp add: resources_of_def)

lemma update_sandbox_resources: "fk_resources (snd (update_sandbox f i s)) = fk_resources s"
  by (simp add: update_sandbox_def split: option.split)

lemma fail_once_resources: "fk_resources (snd (fail_once b s)) = fk_resources s"
  by (simp add: fail_once_def record_outcome_def)

lemma st_then_resources:
  assumes "fk_resources (snd r) = fk_resources s" "\<And>x t. fk_resources (snd (f x t)) = fk_resources t"
  shows "fk_resources (snd (st_then r f)) = fk_resources s"
  using assms by (cases "(r, f)" rule: st_then.cases) auto

lemma start_stop_resources:
  "fk_resources (snd (fake_start i s)) = fk_resources s" "fk_resources (snd (fake_stop i s)) = fk_resources s"
  by (simp_all add: fake_start_def fake_stop_def st_then_resources update_sandbox_resources
      fail_once_resources)

lemma prepare_resources: "fk_resources (snd (fake_prepare_image img s)) = fk_resources s"
  unfolding fake_prepare_image_def
  by (rule st_then_resources) (auto simp: fail_once_resources Let_def split: option.split list.split)

lemma fake_stream_maps: "same_maps s (snd (fake_stream now session s))"
proof (cases session)
  case (LiveSession request configured)
  have "fake_stream now session s =
      (\<lparr> xs_close_accepted = True,
         xs_outputs = map Ok (fst (run_session now Uninterrupted request configured [CloseInput] s)) \<rparr>,
       snd (run_session now Uninterrupted request configured [CloseInput] s))"
    by (simp add: fake_stream_def LiveSession Let_def case_prod_beta)
  then show ?thesis by (simp add: run_session_maps)
qed (simp_all add: fake_stream_def)

lemma fake_exec_stream_maps: "same_maps s (snd (fake_exec_stream now request s))"
  unfolding fake_exec_stream_def Let_def
  by (rule sm.step_st_then, rule fake_exec_maps) (simp add: case_prod_beta fake_stream_maps)

lemma fake_reads_maps:
  "same_maps s (snd (fake_capabilities s))" "same_maps s (snd (fake_inspect i s))"
  "same_maps s (snd (fake_logs i since s))" "same_maps s (snd (fake_list_resources s))"
  by (auto simp: fake_capabilities_def fake_inspect_def fake_logs_def fake_list_resources_def
      intro!: sm.step_st_then)

lemma fake_list_exact: "fst (fake_list_resources s) = Ok rs \<Longrightarrow> set rs = resources_of s"
  by (auto simp: fake_list_resources_def fail_once_def record_call_def resources_of_def split: if_splits)

lemma fake_remove_wf: "fake_wf s \<Longrightarrow> fake_wf (snd (fake_remove request s))"
  using evolves_remove [of s request] by (simp add: evolves_def)

lemma fake_removal:
  assumes "fake_wf s" "remove_from_resources rs = Ok request"
  shows "fst (fake_remove request s) = Ok () \<Longrightarrow>
      set rs \<subseteq> resources_of s \<and> resources_of (snd (fake_remove request s)) = resources_of s - set rs"
    and "resources_of s - set rs \<subseteq> resources_of (snd (fake_remove request s)) \<and>
      resources_of (snd (fake_remove request s)) \<subseteq> resources_of s"
proof -
  let ?t = "snd (fake_remove request s)"
  have refused: "is_err (fst (fake_remove request s)) \<and> resources_of ?t = resources_of s"
    if "AtRemove \<in> fk_failures s \<or> \<not> set rs \<subseteq> resources_of s"
    using remove_refused [OF assms that] assms(1) same_maps_resources by blast
  have performed: "resources_of ?t = resources_of s - set rs"
    if acc: "AtRemove \<notin> fk_failures s" "set rs \<subseteq> resources_of s"
  proof -
    have get: "hm_get (fk_resources ?t) = hm_get (fk_resources s) |` (- rr_identity ` set rs)"
      by (rule remove_performed(1) [OF assms acc])
    have "r \<in> resources_of ?t \<longleftrightarrow> r \<in> resources_of s \<and> r \<notin> set rs" for r
    proof -
      have "rr_identity r \<in> rr_identity ` set rs \<longleftrightarrow> r \<in> set rs" if "r \<in> resources_of s"
      proof
        assume "rr_identity r \<in> rr_identity ` set rs"
        then obtain q where q: "q \<in> set rs" "rr_identity q = rr_identity r" by force
        then have "q \<in> resources_of s" using acc(2) by blast
        then have "q = r" using that q(2) fake_wf_get [OF assms(1), of q] fake_wf_get [OF assms(1), of r] by simp
        with q(1) show "r \<in> set rs" by simp
      qed simp
      then show ?thesis
        using fake_wf_get [OF fake_remove_wf [OF assms(1)], of request r] fake_wf_get [OF assms(1), of r] get
        by (auto simp: restrict_map_def split: if_splits)
    qed
    then show ?thesis by blast
  qed
  show "set rs \<subseteq> resources_of s \<and> resources_of ?t = resources_of s - set rs"
    if "fst (fake_remove request s) = Ok ()"
    using refused performed that by auto
  have "resources_of ?t = resources_of s \<or> resources_of ?t = resources_of s - set rs"
    using refused performed by blast
  then show "resources_of s - set rs \<subseteq> resources_of ?t \<and> resources_of ?t \<subseteq> resources_of s" by auto
qed

lemma fake_keeps:
  assumes "fake_wf s" "evolves s t" "fk_resources t = fk_resources s"
  shows "fake_wf t \<and> resources_of t = resources_of s"
  using assms(1,2) sandbox_update_resources [OF assms(3)] by (simp add: evolves_def)

lemmas fake_backend_keeps =
  same_maps_resources [OF fake_reads_maps(1)] same_maps_resources [OF fake_reads_maps(2)]
  fake_keeps [OF _ evolves_start start_stop_resources(1)]
  fake_keeps [OF _ evolves_stop start_stop_resources(2)]
  same_maps_resources [OF fake_exec_stream_maps] same_maps_resources [OF fake_reads_maps(3)]
  fake_keeps [OF _ evolves_prepare_image prepare_resources] same_maps_resources [OF fake_reads_maps(4)]

lemma fake_backend_fields [simp]:
  "bk_capabilities (fake_backend now) = fake_capabilities" "bk_inspect (fake_backend now) = fake_inspect"
  "bk_create (fake_backend now) = fake_create" "bk_prepare_image (fake_backend now) = fake_prepare_image"
  "bk_create_container (fake_backend now) = fake_create_container"
  "bk_start (fake_backend now) = fake_start" "bk_stop (fake_backend now) = fake_stop"
  "bk_remove (fake_backend now) = fake_remove" "bk_exec (fake_backend now) = fake_exec_stream now"
  "bk_logs (fake_backend now) = fake_logs" "bk_list_resources (fake_backend now) = fake_list_resources"
  by (simp_all add: fake_backend_def)

interpretation fake: runtime_backend "fake_backend now" fake_wf resources_of
  by unfold_locales
    (simp_all only: fake_backend_fields fake_backend_keeps fake_list_exact fake_remove_wf
      fake_removal(2), simp_all add: fake_removal(1))

end
