(* ===== verification/Ssh_Manager.thy ===== *)
theory Ssh_Manager
  imports Service_Values Backend
begin

text \<open>
  The SSH manager (\<open>gascand/src/ssh/manager.rs\<close>, \<open>ssh/port.rs\<close>): preparing the
  transport of a create, verifying and publishing the endpoint of a running sandbox, withdrawing
  it, and reading the published configuration back.  The state is the runtime backend together
  with the host; the operations of the host are the parameters of \<open>Ssh_Identity\<close> and those
  of \<open>ssh_env\<close>: binding a loopback port, the attempts of the strict \<open>ssh\<close> client until
  the deadline passes, and whether the guest answered in time.  Operations run one at a time here, so the lock of the publication is not
  modelled, nor is the error its registry reports once it is poisoned.
\<close>

definition SSH_CLIENT :: string where "SSH_CLIENT = ''/usr/bin/ssh''"
definition MAX_HOST_KEY_OUTPUT :: nat where "MAX_HOST_KEY_OUTPUT = 16 * 1024"
definition HOST_KEY_PATH :: string where
  "HOST_KEY_PATH = ''/home/workspace/.config/gascan/ssh/host/ssh_host_ed25519_key.pub''"
definition AUTOMATIC_PORT_ATTEMPTS :: nat where "AUTOMATIC_PORT_ATTEMPTS = 8"

datatype readiness_attempt =
    Succeeded
  | FailedAttempt string
  | StartFailed string
  | AttemptTimedOut

record 'd ssh_env = "'d ssh_host" +
  se_bind :: "'d \<Rightarrow> (string \<times> u16, string, 'd) stateful"
  se_release :: "u16 \<Rightarrow> 'd \<Rightarrow> 'd"
  se_readiness :: "string list \<Rightarrow> 'd \<Rightarrow> readiness_attempt list \<times> 'd"
  se_key_in_time :: "'d \<Rightarrow> bool"
  se_port_in_use :: "u16 \<Rightarrow> 'd \<Rightarrow> bool"

section \<open>Transport of a create\<close>

definition reserve :: "'d ssh_env \<Rightarrow> 'd \<Rightarrow> (u16, string, 'd) stateful" where
  "reserve E d =
     st_then (se_bind E d) (\<lambda>(address, port) d.
     if address = LOCAL_ADDRESS \<and> port \<ge> 1024 then (Ok port, d)
     else (Err ''automatic SSH reservation was not an unprivileged IPv4 loopback port'', d))"

record prepared_ssh_create =
  pc_identity :: host_identity
  pc_host_port :: u16
  pc_reserved :: bool

definition release_reservation ::
  "'d ssh_env \<Rightarrow> prepared_ssh_create \<Rightarrow> 'd \<Rightarrow> prepared_ssh_create \<times> 'd" where
  "release_reservation E p d =
     (if pc_reserved p then (p \<lparr> pc_reserved := False \<rparr>, se_release E (pc_host_port p) d) else (p, d))"

definition control_plane :: "prepared_ssh_create \<Rightarrow> control_plane_policy" where
  "control_plane p =
     \<lparr> cp_ssh_authorized_key = Some (hi_public_key (pc_identity p)), cp_ssh_host_port = Some (pc_host_port p) \<rparr>"

definition host_identity_of ::
  "'d ssh_env \<Rightarrow> ssh_paths \<Rightarrow> 'd \<Rightarrow> (host_identity, service_error, 'd) stateful" where
  "host_identity_of E paths d =
     st_map_err SshConfigUnsafe (ensure_host_identity (ssh_host.truncate E) paths d)"

definition futures_identity ::
  "'d ssh_env \<Rightarrow> ssh_paths \<Rightarrow> 'd \<Rightarrow> (host_identity, service_error, 'd) stateful" where
  "futures_identity E paths d =
     st_then (st_map_err SshConfigUnsafe (io ''start SSH identity worker'' (ho_worker E d))) (\<lambda>_ d. host_identity_of E paths d)"

definition prepare_create_for_paths ::
  "'d ssh_env \<Rightarrow> sandbox_spec \<Rightarrow> ssh_paths \<Rightarrow> 'd \<Rightarrow> (prepared_ssh_create option, service_error, 'd) stateful" where
  "prepare_create_for_paths E spec paths d =
     (if \<not> ssh_enabled (m_ssh (spec_manifest spec)) then (Ok None, d)
      else
        st_then (host_identity_of E paths d) (\<lambda>identity d.
        case ssh_host_port (m_ssh (spec_manifest spec)) of
          Some port \<Rightarrow> (Ok (Some \<lparr> pc_identity = identity, pc_host_port = port, pc_reserved = False \<rparr>), d)
        | None \<Rightarrow>
            st_then (st_map_err SshPortUnavailable (reserve E d)) (\<lambda>port d.
            (Ok (Some \<lparr> pc_identity = identity, pc_host_port = port, pc_reserved = True \<rparr>), d))))"

definition collision_line :: "u16 \<Rightarrow> string \<Rightarrow> bool" where
  "collision_line selected_port line \<longleftrightarrow>
     Option.bind (Option.bind (strip_prefix ''Error: listen tcp 127.0.0.1:'' line)
         (strip_suffix '': bind: address already in use''))
       (\<lambda>port. ok (parse_unsigned port)) = Some selected_port"

definition is_native_port_collision ::
  "'d ssh_env \<Rightarrow> create_failure \<Rightarrow> u16 \<Rightarrow> create_request \<Rightarrow> 'd \<Rightarrow> bool" where
  "is_native_port_collision E failure selected_port create d =
     (case failure_source failure of
        CommandFailed operation (Some _) stderr \<Rightarrow>
          operation = ''container'' \<and>
          (list_ex (collision_line selected_port) (lines stderr) \<or>
           list_ex (\<lambda>m. rp_host_address m = LOCALHOST \<and> rp_host_port m = selected_port \<and> rp_guest_port m = 22)
             (cr_ports create) \<and>
           str_contains ''Error: failed to bootstrap container'' stderr \<and>
           str_contains ''bind(descriptor:ptr:bytes:): Address already in use'' stderr \<and>
           str_contains ''(errno: 48)'' stderr \<and> se_port_in_use E selected_port d)
      | _ \<Rightarrow> False)"

section \<open>Resolutions\<close>

definition ssh_alias :: "sandbox_id \<Rightarrow> string" where
  "ssh_alias i = ''gascan-'' @ as_str i"

definition disabled_resolution :: resolution where
  "disabled_resolution = \<lparr> res_version = 1, res_details = JObject
     [(''enabled'', JBool False), (''host_key_fingerprint'', JString []),
      (''client_key_fingerprint'', JString [])] \<rparr>"

definition enabled_resolution :: "active_ssh \<Rightarrow> resolution" where
  "enabled_resolution active = \<lparr> res_version = 1, res_details = JObject
     [(''enabled'', JBool True), (''host_key_fingerprint'', JString (ac_host_key_fingerprint active)),
      (''client_key_fingerprint'', JString (ac_client_key_fingerprint active))] \<rparr>"

definition resolution_enabled :: "resolution \<Rightarrow> bool" where
  "resolution_enabled r \<longleftrightarrow>
     res_version r = 1 \<and> Option.bind (json_get ''enabled'' (res_details r)) json_bool = Some True"

definition fingerprint_field :: "string \<Rightarrow> resolution \<Rightarrow> string option" where
  "fingerprint_field k r =
     Option.bind (json_get_str k (res_details r)) (\<lambda>v. if v = [] then None else Some v)"

definition expected_fingerprints ::
  "resolution option \<Rightarrow> ((string \<times> string) option, service_error) result" where
  "expected_fingerprints expected =
     (case expected of
        None \<Rightarrow> Ok None
      | Some expected \<Rightarrow>
          if \<not> resolution_enabled expected then
            Err (SshHostKeyMismatch ''durable SSH identity is not enabled and verified'')
          else
            and_then (ok_or (SshHostKeyMismatch ''durable SSH host fingerprint is missing'')
              (fingerprint_field ''host_key_fingerprint'' expected)) (\<lambda>host.
            and_then (ok_or (SshHostKeyMismatch ''durable SSH client fingerprint is missing'')
              (fingerprint_field ''client_key_fingerprint'' expected)) (\<lambda>client.
            Ok (Some (host, client)))))"

section \<open>Verifying the guest\<close>

fun read_key_outputs ::
  "(exec_output, runtime_error) result list \<Rightarrow> string \<Rightarrow> (string, service_error) result" where
  "read_key_outputs [] out = Err (SshHostKeyMismatch ''guest SSH host key command ended without status'')"
| "read_key_outputs (Err _ # rest) out = Err (SshHostKeyMismatch ''guest SSH host key could not be read'')"
| "read_key_outputs (Ok (Stdout bytes) # rest) out =
     (if length out + length bytes > MAX_HOST_KEY_OUTPUT then
        Err (SshHostKeyMismatch ''guest SSH host key output is excessive'')
      else read_key_outputs rest (out @ bytes))"
| "read_key_outputs (Ok (Stderr _) # rest) out = read_key_outputs rest out"
| "read_key_outputs (Ok (Exit code signal) # rest) out =
     (if code = 0 \<and> signal = 0 then Ok out
      else Err (SshHostKeyMismatch ''guest SSH host key command failed''))"

definition host_key_request :: "sandbox_id \<Rightarrow> exec_request" where
  "host_key_request i =
     \<lparr> ex_id = i, ex_argv = [''/usr/bin/sudo'', ''-n'', ''/usr/bin/cat'', HOST_KEY_PATH],
       ex_stdin = [], ex_environment = [], ex_tty = False \<rparr>"

definition read_host_public_key ::
  "'b backend \<Rightarrow> 'd ssh_env \<Rightarrow> sandbox_id \<Rightarrow> 'b \<times> 'd \<Rightarrow> (string, service_error, 'b \<times> 'd) stateful" where
  "read_host_public_key bk E i w =
     (case bk_exec bk (host_key_request i) (fst w) of
        (r, b) \<Rightarrow>
          if \<not> se_key_in_time E (snd w) then
            (Err (SshHostKeyMismatch ''guest SSH host key read timed out''), (b, snd w))
          else
            (case r of
               Err _ \<Rightarrow> (Err (SshHostKeyMismatch ''guest SSH host key could not be read''), (b, snd w))
             | Ok stream \<Rightarrow>
                 if \<not> xs_close_accepted stream then
                   (Err (SshHostKeyMismatch ''guest SSH host key could not be read''), (b, snd w))
                 else (read_key_outputs (xs_outputs stream) [], (b, snd w))))"

definition verified_managed_host ::
  "'b backend \<Rightarrow> 'd ssh_env \<Rightarrow> sandbox_id \<Rightarrow> resolution option \<Rightarrow> host_identity \<Rightarrow> 'b \<times> 'd \<Rightarrow>
     (managed_ssh_host, service_error, 'b \<times> 'd) stateful" where
  "verified_managed_host bk E i expected identity w =
     (case bk_inspect bk i (fst w) of
        (Err e, b) \<Rightarrow> (Err (RuntimeFailure e), (b, snd w))
      | (Ok None, b) \<Rightarrow> (Err (Missing i), (b, snd w))
      | (Ok (Some inspected), b) \<Rightarrow>
          let w = (b, snd w) in
          if om_managed_by (rs_ownership inspected) \<noteq> ''gascan'' \<or> om_sandbox_id (rs_ownership inspected) \<noteq> i then
            (Err (Ownership i), w)
          else if rs_state inspected \<noteq> Running then
            (Err (ssh_not_ready ''SSH activation requires a running sandbox''), w)
          else
            (case inspected_native_ssh_port inspected of
               Err e \<Rightarrow> (Err e, w)
             | Ok port \<Rightarrow>
                 st_then (read_host_public_key bk E i w) (\<lambda>public_key w.
                 case and_then (map_err (\<lambda>_. SshHostKeyMismatch ''guest SSH host key is invalid'')
                        (parse_public_key (ho_codec E) public_key)) (\<lambda>parsed.
                      and_then (expected_fingerprints expected) (\<lambda>fingerprints.
                      if (case fingerprints of None \<Rightarrow> False
                          | Some (host, client) \<Rightarrow> pk_fingerprint parsed \<noteq> host \<or> hi_fingerprint identity \<noteq> client)
                      then Err (SshHostKeyMismatch ''guest or client SSH identity changed'') else Ok parsed)) of
                   Err e \<Rightarrow> (Err e, w)
                 | Ok parsed \<Rightarrow>
                     (Ok \<lparr> mh_active = \<lparr> ac_host = LOCAL_ADDRESS, ac_port = port, ac_alias = ssh_alias i,
                             ac_host_key_fingerprint = pk_fingerprint parsed,
                             ac_client_key_fingerprint = hi_fingerprint identity \<rparr>,
                           mh_host_public_key = pk_normalized parsed \<rparr>, w))))"

section \<open>Readiness\<close>

fun next_boundary :: "string \<Rightarrow> nat \<Rightarrow> nat \<Rightarrow> nat" where
  "next_boundary s start 0 = start"
| "next_boundary s start (Suc fuel) = (if is_char_boundary s start then start else next_boundary s (Suc start) fuel)"

definition bounded_stderr_tail :: "string \<Rightarrow> nat \<Rightarrow> string" where
  "bounded_stderr_tail stderr maximum =
     (if maximum = 0 then []
      else
        let decoded = from_utf8_lossy stderr in
        if length decoded \<le> maximum then decoded
        else drop (next_boundary decoded (length decoded - maximum) maximum) decoded)"

definition retain_useful_detail :: "string option \<Rightarrow> string \<Rightarrow> string option" where
  "retain_useful_detail last_detail detail = (if \<not> trim_is_empty detail then Some detail else last_detail)"

definition readiness_error :: "string \<Rightarrow> string option \<Rightarrow> string \<Rightarrow> service_error" where
  "readiness_error endpoint last_detail reason =
     SshNotReady (Some endpoint)
       (''strict SSH readiness for '' @ endpoint @ '' failed within 15s: '' @ reason @
        ''; last OpenSSH stderr tail: '' @ unwrap_or ''no OpenSSH stderr was captured'' last_detail @
        newline @ ''Run `gascan doctor` for managed SSH configuration details.'')"

fun run_readiness ::
  "string \<Rightarrow> readiness_attempt list \<Rightarrow> string option \<Rightarrow> (unit, service_error) result" where
  "run_readiness endpoint [] last_detail =
     Err (readiness_error endpoint last_detail ''strict SSH readiness did not succeed before its deadline'')"
| "run_readiness endpoint (Succeeded # rest) last_detail = Ok ()"
| "run_readiness endpoint (FailedAttempt stderr # rest) last_detail =
     run_readiness endpoint rest (retain_useful_detail last_detail (bounded_stderr_tail stderr 4096))"
| "run_readiness endpoint (StartFailed e # rest) last_detail =
     Err (readiness_error endpoint None (''could not start strict SSH readiness: '' @ e))"
| "run_readiness endpoint (AttemptTimedOut # rest) last_detail =
     Err (readiness_error endpoint last_detail ''strict SSH readiness timed out'')"

section \<open>Reading the publication\<close>

definition config_state :: "string \<Rightarrow> service_error" where
  "config_state reason = SshConfigUnsafe (SshInvalidState reason)"

definition inspected_config_state :: "diagnostic_kind \<Rightarrow> string \<Rightarrow> string \<Rightarrow> service_error ssh_diagnostic" where
  "inspected_config_state kind path reason = new_diagnostic kind path (config_state reason)"

fun unescape_path :: "string \<Rightarrow> string \<Rightarrow> (string, service_error) result" where
  "unescape_path [] parsed = Ok parsed"
| "unescape_path (c # cs) parsed =
     (if c = CHR 0x5C then
        (case cs of
           e # cs \<Rightarrow> if e = CHR 0x5C \<or> e = CHR 0x22 then unescape_path cs (parsed @ [e])
                     else Err (config_state ''managed SSH config path is malformed'')
         | [] \<Rightarrow> Err (config_state ''managed SSH config path is malformed''))
      else if c = CHR ''%'' then
        (case cs of
           e # cs \<Rightarrow> if e = CHR ''%'' then unescape_path cs (parsed @ ''%'')
                     else Err (config_state ''managed SSH config path is malformed'')
         | [] \<Rightarrow> Err (config_state ''managed SSH config path is malformed''))
      else unescape_path cs (parsed @ [c]))"

definition parse_rendered_path :: "string \<Rightarrow> (string, service_error) result" where
  "parse_rendered_path v =
     (case Option.bind (strip_prefix [CHR 0x22] v) (strip_suffix [CHR 0x22]) of
        Some quoted \<Rightarrow> unescape_path quoted []
      | None \<Rightarrow>
          if v = [] \<or> list_ex is_whitespace (chars v) then
            Err (config_state ''managed SSH config path is malformed'')
          else Ok v)"

text \<open>The conversion of an alias into an identity can panic (see \<open>Sandbox_Id\<close>), and nothing
  that precedes it rules the panic out: the text is known to be UTF-8, not to be ASCII.  A panic
  unwinds past every handler of errors, so from here on a failure is an error or a panic.\<close>

datatype 'e raised = Raised 'e | Panic

definition lift_raised :: "('a, 'e, 's) stateful \<Rightarrow> ('a, 'e raised, 's) stateful" where
  "lift_raised r = st_map_err Raised r"

definition known_host_alias :: "string \<Rightarrow> (sandbox_id, service_error raised) result" where
  "known_host_alias alias =
     (let malformed = Err (Raised (config_state ''managed known-hosts alias is malformed'')) in
      case strip_prefix ''gascan-'' alias of
        None \<Rightarrow> malformed
      | Some v \<Rightarrow>
          (case try_from v of
             Panicked \<Rightarrow> Err Panic
           | Returned r \<Rightarrow>
               (case r of
                  Err _ \<Rightarrow> malformed
                | Ok i \<Rightarrow> if alias = ssh_alias i then Ok i else malformed)))"

definition known_host_port :: "string \<Rightarrow> (u16, service_error raised) result" where
  "known_host_port endpoint =
     (case parse_unsigned endpoint of
        Ok port \<Rightarrow>
          if port \<ge> 1024 \<and> show_nat (unat port) = endpoint then Ok port
          else Err (Raised (config_state ''managed known-hosts port is malformed''))
      | Err _ \<Rightarrow> Err (Raised (config_state ''managed known-hosts port is malformed'')))"

definition parse_known_host_line ::
  "ssh_codec \<Rightarrow> host_identity \<Rightarrow> string \<Rightarrow> (managed_ssh_host, service_error raised) result" where
  "parse_known_host_line sc identity line =
     (if line = [] then Err (Raised (config_state ''managed known-hosts contains an empty record''))
      else
        (case split_ascii_whitespace line of
           [pattern, kind, encoded] \<Rightarrow>
             (case split_once '',[127.0.0.1]:'' pattern of
                None \<Rightarrow> Err (Raised (config_state ''managed known-hosts endpoint is malformed''))
              | Some (alias, endpoint) \<Rightarrow>
                  and_then (known_host_alias alias) (\<lambda>i.
                  and_then (known_host_port endpoint) (\<lambda>port.
                  and_then (map_err (\<lambda>e. Raised (SshConfigUnsafe e))
                    (parse_public_key sc (kind @ '' '' @ encoded))) (\<lambda>parsed.
                  if line \<noteq> render_record alias (unat port) (pk_normalized parsed) then
                    Err (Raised (config_state ''managed known-hosts record is inconsistent''))
                  else
                    Ok \<lparr> mh_active = \<lparr> ac_host = LOCAL_ADDRESS, ac_port = port, ac_alias = ssh_alias i,
                           ac_host_key_fingerprint = pk_fingerprint parsed,
                           ac_client_key_fingerprint = hi_fingerprint identity \<rparr>,
                         mh_host_public_key = pk_normalized parsed \<rparr>))))
         | _ \<Rightarrow> Err (Raised (config_state ''managed known-hosts record is malformed''))))"

fun parse_known_host_lines ::
  "ssh_codec \<Rightarrow> host_identity \<Rightarrow> string list \<Rightarrow> managed_ssh_host list \<Rightarrow>
     (managed_ssh_host list, service_error raised) result" where
  "parse_known_host_lines sc identity [] hosts = Ok hosts"
| "parse_known_host_lines sc identity (line # rest) hosts =
     and_then (parse_known_host_line sc identity line) (\<lambda>h.
     if list_ex (\<lambda>g. ac_alias (mh_active g) = ac_alias (mh_active h) \<or>
          ac_port (mh_active g) = ac_port (mh_active h)) hosts
     then Err (Raised (config_state ''managed known-hosts record is inconsistent''))
     else parse_known_host_lines sc identity rest (hosts @ [h]))"

definition parse_known_hosts ::
  "ssh_codec \<Rightarrow> string \<Rightarrow> host_identity \<Rightarrow> (managed_ssh_host list, service_error raised) result" where
  "parse_known_hosts sc contents identity =
     (if \<not> utf8_valid contents then Err (Raised (config_state ''managed known-hosts is not UTF-8''))
      else parse_known_host_lines sc identity (lines contents) [])"

section \<open>The published snapshot\<close>

record published_ssh_snapshot =
  ps_client_key_fingerprint :: string
  ps_hosts :: "(string \<times> active_ssh) list"

definition published_of :: "host_identity \<Rightarrow> managed_ssh_host list \<Rightarrow> published_ssh_snapshot" where
  "published_of identity hosts =
     \<lparr> ps_client_key_fingerprint = hi_fingerprint identity,
       ps_hosts = bt_collect (map (\<lambda>h. (ac_alias (mh_active h), mh_active h)) hosts) \<rparr>"

definition for_sandbox ::
  "published_ssh_snapshot \<Rightarrow> sandbox_id \<Rightarrow> resolution option \<Rightarrow> (active_ssh option, service_error) result" where
  "for_sandbox snap i expected =
     (case expected of
        None \<Rightarrow> Ok None
      | Some r \<Rightarrow>
          if \<not> resolution_enabled r then Ok None
          else
            and_then (expected_fingerprints (Some r)) (\<lambda>fingerprints.
            case fingerprints of
              None \<Rightarrow> Ok None
            | Some (host, client) \<Rightarrow>
                if ps_client_key_fingerprint snap \<noteq> client then
                  Err (SshHostKeyMismatch ''stored client identity fingerprint changed'')
                else
                  (case bt_get (ps_hosts snap) (ssh_alias i) of
                     None \<Rightarrow> Ok None
                   | Some active \<Rightarrow>
                       if ac_host_key_fingerprint active = host \<and> ac_client_key_fingerprint active = client
                       then Ok (Some active)
                       else Err (SshHostKeyMismatch ''published SSH fingerprints changed''))))"

definition publication_differs :: service_error where
  "publication_differs = config_state ''managed SSH publication differs from durable state''"

definition snapshot_validate_exact ::
  "published_ssh_snapshot \<Rightarrow> (sandbox_id \<times> resolution \<times> u16 option) list \<Rightarrow> (unit, service_error) result" where
  "snapshot_validate_exact snap expected =
     (if length (ps_hosts snap) \<noteq> length expected then Err publication_differs
      else
        for_each_ok (\<lambda>(i, r, explicit_port).
          and_then (for_sandbox snap i (Some r)) (\<lambda>found.
          and_then (ok_or publication_differs found) (\<lambda>active.
          if explicit_port \<noteq> None \<and> explicit_port \<noteq> Some (ac_port active) then Err publication_differs
          else Ok ()))) expected)"

section \<open>Inspecting the publication\<close>

record inspected_publication =
  ip_config :: "string option"
  ip_generation :: "(string \<times> string) option"
  ip_cleanup :: generation_cleanup
  ip_unsafe_generation :: "service_error ssh_diagnostic option"

definition unsafe_source ::
  "('a, ssh_error ssh_diagnostic, 'd) stateful \<Rightarrow> ('a, service_error ssh_diagnostic, 'd) stateful" where
  "unsafe_source r = st_map_err (map_source SshConfigUnsafe) r"

definition inspected_publication_with_generations ::
  "'d posix \<Rightarrow> state_directory \<Rightarrow> string list \<Rightarrow> string option \<Rightarrow> (string \<times> string) option \<Rightarrow> 'd \<Rightarrow>
     (inspected_publication, service_error ssh_diagnostic, 'd) stateful" where
  "inspected_publication_with_generations P dir retained config generation d =
     st_then (unsafe_source (inspect_known_hosts_generations_in P dir retained False d)) (\<lambda>inspection d.
     (Ok \<lparr> ip_config = config, ip_generation = generation, ip_cleanup = gi_cleanup inspection,
           ip_unsafe_generation = map_option (map_source SshConfigUnsafe) (gi_unsafe_entry inspection) \<rparr>, d))"

definition known_hosts_references :: "string \<Rightarrow> (string list, service_error) result" where
  "known_hosts_references config =
     map_ok remdups (collect_ok parse_rendered_path
       (List.map_filter (strip_prefix ''    UserKnownHostsFile '') (lines config)))"

definition inspect_generation ::
  "'d ssh_env \<Rightarrow> ssh_paths \<Rightarrow> state_directory \<Rightarrow> string \<Rightarrow> string \<Rightarrow> 'd \<Rightarrow>
     (inspected_publication, service_error ssh_diagnostic, 'd) stateful" where
  "inspect_generation E paths dir config known_hosts_path d =
     (let inconsistent = inspected_config_state DiagInconsistent (pa_config paths) in
      if \<not> (case Utf8_Path.parent known_hosts_path of None \<Rightarrow> False | Some p \<Rightarrow> path_eq p (pa_directory paths)) then
        (Err (inconsistent ''managed SSH config generation is outside state''), d)
      else
        (case file_name known_hosts_path of
           None \<Rightarrow> (Err (inconsistent ''managed SSH config generation is invalid''), d)
         | Some generation \<Rightarrow>
             st_then (unsafe_source (read_file_inspected (ho_posix E) dir generation PUBLIC_MODE
               maximum_managed_file_bytes d)) (\<lambda>(known_hosts, _) d.
             inspected_publication_with_generations (ho_posix E) dir [generation] (Some config)
               (Some (known_hosts_path, known_hosts)) d)))"

definition inspect_config ::
  "'d ssh_env \<Rightarrow> ssh_paths \<Rightarrow> state_directory \<Rightarrow> string \<Rightarrow> 'd \<Rightarrow>
     (inspected_publication, service_error ssh_diagnostic, 'd) stateful" where
  "inspect_config E paths dir config d =
     (let inconsistent = inspected_config_state DiagInconsistent (pa_config paths) in
      if \<not> utf8_valid config then (Err (inconsistent ''managed SSH config is not UTF-8''), d)
      else if CHR 0x00 \<in> set config then (Err (inconsistent ''managed SSH config contains a null byte''), d)
      else
        (case known_hosts_references config of
           Err e \<Rightarrow> (Err (new_diagnostic DiagInconsistent (pa_config paths) e), d)
         | Ok [] \<Rightarrow>
             inspected_publication_with_generations (ho_posix E) dir [generation_name (ho_codec E) []]
               (Some config) None d
         | Ok [known_hosts_path] \<Rightarrow> inspect_generation E paths dir config known_hosts_path d
         | Ok _ \<Rightarrow> (Err (inconsistent ''managed SSH config generations are inconsistent''), d)))"

definition inspect_publication_files ::
  "'d ssh_env \<Rightarrow> ssh_paths \<Rightarrow> 'd \<Rightarrow> (inspected_publication, service_error ssh_diagnostic, 'd) stateful" where
  "inspect_publication_files E paths d =
     st_then (unsafe_source (open_existing_inspected (ho_posix E) paths d)) (\<lambda>found d.
     case found of
       None \<Rightarrow> (Ok \<lparr> ip_config = None, ip_generation = None, ip_cleanup = no_cleanup,
                     ip_unsafe_generation = None \<rparr>, d)
     | Some dir \<Rightarrow>
         st_then (unsafe_source (metadata_inspected (ho_posix E) dir CONFIG_NAME PUBLIC_MODE d)) (\<lambda>present d.
         if present = None then inspected_publication_with_generations (ho_posix E) dir [] None None d
         else
           st_then (unsafe_source (read_file_inspected (ho_posix E) dir CONFIG_NAME PUBLIC_MODE
             maximum_managed_file_bytes d)) (\<lambda>(config, _) d.
           inspect_config E paths dir config d)))"

definition prepared_for_inspection ::
  "'d ssh_env \<Rightarrow> ssh_paths \<Rightarrow> host_identity \<Rightarrow> managed_ssh_host list \<Rightarrow> 'd \<Rightarrow>
     (prepared_ssh_files, service_error ssh_diagnostic raised, 'd) stateful" where
  "prepared_for_inspection E paths identity hosts d =
     st_map_err (\<lambda>e. Raised (new_diagnostic DiagInconsistent (pa_config paths) (SshConfigUnsafe e)))
       (prepare_openssh_files (ssh_host.truncate E) paths identity hosts d)"

fun map_raised :: "('e \<Rightarrow> 'f) \<Rightarrow> 'e raised \<Rightarrow> 'f raised" where
  "map_raised f (Raised e) = Raised (f e)"
| "map_raised f Panic = Panic"

definition load_active_hosts_from_inspection ::
  "'d ssh_env \<Rightarrow> ssh_paths \<Rightarrow> host_identity \<Rightarrow> inspected_publication \<Rightarrow> 'd \<Rightarrow>
     (managed_ssh_host list, service_error ssh_diagnostic raised, 'd) stateful" where
  "load_active_hosts_from_inspection E paths identity publication d =
     (let inconsistent = Err (Raised (inspected_config_state DiagInconsistent (pa_config paths)
        ''managed SSH config is inconsistent'')) in
      case ip_config publication of
        None \<Rightarrow> (Ok [], d)
      | Some config \<Rightarrow>
          (case ip_generation publication of
             None \<Rightarrow>
               st_then (prepared_for_inspection E paths identity [] d) (\<lambda>prepared d.
               if pf_config prepared \<noteq> config then (inconsistent, d) else (Ok [], d))
           | Some (known_hosts_path, known_hosts) \<Rightarrow>
               (case parse_known_hosts (ho_codec E) known_hosts identity of
                  Err e \<Rightarrow> (Err (map_raised (new_diagnostic DiagInconsistent known_hosts_path) e), d)
                | Ok hosts \<Rightarrow>
                    st_then (prepared_for_inspection E paths identity hosts d) (\<lambda>prepared d.
                    if \<not> path_eq (pf_known_hosts prepared) known_hosts_path \<or> pf_config prepared \<noteq> config
                    then (inconsistent, d) else (Ok hosts, d)))))"

definition load_active_hosts ::
  "'d ssh_env \<Rightarrow> ssh_paths \<Rightarrow> host_identity \<Rightarrow> 'd \<Rightarrow> (managed_ssh_host list, service_error raised, 'd) stateful" where
  "load_active_hosts E paths identity d =
     st_map_err (map_raised dg_source)
       (st_then (lift_raised (inspect_publication_files E paths d)) (\<lambda>publication d.
        load_active_hosts_from_inspection E paths identity publication d))"

section \<open>The operations of the manager\<close>

primrec config_commit_error :: "ssh_config_commit_error \<Rightarrow> service_error" where
  "config_commit_error (Unpublished e) = SshConfigUpdateFailed e"
| "config_commit_error (PublishedButUncertain publication restoration) =
     SshConfigPublicationUncertain (PublishedButUncertain publication restoration)"

definition published_snapshot_for_paths ::
  "'d ssh_env \<Rightarrow> ssh_paths \<Rightarrow> 'd \<Rightarrow> (published_ssh_snapshot, service_error raised, 'd) stateful" where
  "published_snapshot_for_paths E paths d =
     st_then (lift_raised (st_map_err SshConfigUnsafe
       (load_host_identity (ssh_host.truncate E) paths d))) (\<lambda>identity d.
     st_then (load_active_hosts E paths identity d) (\<lambda>hosts d.
     (Ok (published_of identity hosts), d)))"

definition commit_hosts ::
  "'d ssh_env \<Rightarrow> ssh_paths \<Rightarrow> host_identity \<Rightarrow> managed_ssh_host list \<Rightarrow> 'd \<Rightarrow> (unit, service_error, 'd) stateful" where
  "commit_hosts E paths identity hosts d =
     st_then (st_map_err SshConfigUnsafe (prepare_openssh_files (ssh_host.truncate E) paths identity hosts d))
       (\<lambda>prepared d.
     st_map_err config_commit_error (commit_openssh_files (ssh_host.truncate E) paths prepared d))"

definition publish_reconciled ::
  "'d ssh_env \<Rightarrow> ssh_paths \<Rightarrow> managed_ssh_host list \<Rightarrow> 'd \<Rightarrow> (unit, service_error, 'd) stateful" where
  "publish_reconciled E paths hosts d =
     st_then (futures_identity E paths d) (\<lambda>identity d. commit_hosts E paths identity hosts d)"

definition without_alias :: "string \<Rightarrow> managed_ssh_host list \<Rightarrow> managed_ssh_host list" where
  "without_alias alias hosts = filter (\<lambda>h. ac_alias (mh_active h) \<noteq> alias) hosts"

definition deactivate_for_paths ::
  "'d ssh_env \<Rightarrow> sandbox_id \<Rightarrow> ssh_paths \<Rightarrow> 'd \<Rightarrow> (unit, service_error raised, 'd) stateful" where
  "deactivate_for_paths E i paths d =
     st_then (lift_raised (futures_identity E paths d)) (\<lambda>identity d.
     st_then (load_active_hosts E paths identity d) (\<lambda>hosts d.
     let kept = without_alias (ssh_alias i) hosts in
     if length kept = length hosts then (Ok (), d)
     else lift_raised (commit_hosts E paths identity kept d)))"

definition lift_host :: "('a, 'e, 'd) stateful \<Rightarrow> 'b \<Rightarrow> ('a, 'e, 'b \<times> 'd) stateful" where
  "lift_host r b = (fst r, (b, snd r))"

definition strict_readiness ::
  "'d ssh_env \<Rightarrow> ssh_paths \<Rightarrow> host_identity \<Rightarrow> managed_ssh_host \<Rightarrow> prepared_ssh_files \<Rightarrow> 'd \<Rightarrow>
     (unit, service_error, 'd) stateful" where
  "strict_readiness E paths identity managed prepared d =
     st_then (st_map_err SshConfigUnsafe (readiness_ssh_args (ssh_host.truncate E) paths identity managed
       (pf_known_hosts prepared) d)) (\<lambda>args d.
     case se_readiness E args d of
       (attempts, d) \<Rightarrow>
         (run_readiness (ac_host (mh_active managed) @ '':'' @ show_nat (unat (ac_port (mh_active managed))))
            attempts None, d))"

record prepared_activation =
  pv_managed :: managed_ssh_host
  pv_prepared :: prepared_ssh_files

definition prepare_activation_for_paths ::
  "'b backend \<Rightarrow> 'd ssh_env \<Rightarrow> sandbox_id \<Rightarrow> resolution option \<Rightarrow> ssh_paths \<Rightarrow> 'b \<times> 'd \<Rightarrow>
     (prepared_activation option, service_error raised, 'b \<times> 'd) stateful" where
  "prepare_activation_for_paths bk E i expected paths w =
     (if (case expected of None \<Rightarrow> False | Some r \<Rightarrow> \<not> resolution_enabled r) then (Ok None, w)
      else
        st_then (lift_raised (lift_host (host_identity_of E paths (snd w)) (fst w))) (\<lambda>identity w.
        st_then (lift_raised (verified_managed_host bk E i expected identity w)) (\<lambda>managed w.
        st_then (lift_host (load_active_hosts E paths identity (snd w)) (fst w)) (\<lambda>hosts w.
        st_then (lift_raised (lift_host (st_map_err SshConfigUnsafe (prepare_openssh_files
            (ssh_host.truncate E) paths identity
            (without_alias (ac_alias (mh_active managed)) hosts @ [managed]) (snd w))) (fst w))) (\<lambda>prepared w.
        st_then (lift_raised (lift_host (strict_readiness E paths identity managed prepared (snd w)) (fst w)))
          (\<lambda>_ w.
        (Ok (Some \<lparr> pv_managed = managed, pv_prepared = prepared \<rparr>), w)))))))"

definition activation_resolution :: "prepared_activation \<Rightarrow> resolution" where
  "activation_resolution a = enabled_resolution (mh_active (pv_managed a))"

definition commit_with_fault ::
  "'d ssh_env \<Rightarrow> ssh_paths \<Rightarrow> prepared_activation \<Rightarrow> ssh_config_commit_fault option \<Rightarrow> 'd \<Rightarrow>
     (active_ssh, service_error, 'd) stateful" where
  "commit_with_fault E paths a fault d =
     st_then (st_map_err config_commit_error
       (commit_openssh_files_with_fault (ssh_host.truncate E) paths (pv_prepared a) fault d)) (\<lambda>_ d.
     (Ok (mh_active (pv_managed a)), d))"

definition activate ::
  "'b backend \<Rightarrow> 'd ssh_env \<Rightarrow> sandbox_id \<Rightarrow> resolution option \<Rightarrow> ssh_paths \<Rightarrow> 'b \<times> 'd \<Rightarrow>
     (active_ssh option, service_error raised, 'b \<times> 'd) stateful" where
  "activate bk E i expected paths w =
     st_then (prepare_activation_for_paths bk E i expected paths w) (\<lambda>prepared w.
     case prepared of
       None \<Rightarrow> (Ok None, w)
     | Some a \<Rightarrow>
         st_then (lift_raised (lift_host (commit_with_fault E paths a None (snd w)) (fst w))) (\<lambda>active w.
         (Ok (Some active), w)))"

definition verify_for_reconcile ::
  "'b backend \<Rightarrow> 'd ssh_env \<Rightarrow> sandbox_id \<Rightarrow> resolution \<Rightarrow> ssh_paths \<Rightarrow> 'b \<times> 'd \<Rightarrow>
     (managed_ssh_host option, service_error, 'b \<times> 'd) stateful" where
  "verify_for_reconcile bk E i expected paths w =
     (if \<not> resolution_enabled expected then (Ok None, w)
      else
        st_then (lift_host (host_identity_of E paths (snd w)) (fst w)) (\<lambda>identity w.
        st_then (verified_managed_host bk E i (Some expected) identity w) (\<lambda>managed w.
        st_then (lift_host (st_map_err SshConfigUnsafe (prepare_openssh_files (ssh_host.truncate E) paths
          identity [managed] (snd w))) (fst w)) (\<lambda>prepared w.
        st_then (lift_host (strict_readiness E paths identity managed prepared (snd w)) (fst w)) (\<lambda>_ w.
        (Ok (Some managed), w))))))"

section \<open>A published file can stop the daemon's task\<close>

lemma known_host_alias_panic:
  "known_host_alias name = Err Panic \<longleftrightarrow>
     (\<exists>v. name = ''gascan-'' @ v \<and> try_from v = Panicked)"
  by (auto simp: known_host_alias_def Let_def strip_prefix_def prefix_def
      split: option.splits outcome.splits result.splits if_splits)

lemma known_host_line_panic:
  "parse_known_host_line sc identity line = Err Panic \<longleftrightarrow>
     (\<exists>pattern kind encoded v endpoint. split_ascii_whitespace line = [pattern, kind, encoded] \<and>
        split_once '',[127.0.0.1]:'' pattern = Some (''gascan-'' @ v, endpoint) \<and> try_from v = Panicked)"
proof (cases "\<exists>pattern kind encoded name endpoint. split_ascii_whitespace line = [pattern, kind, encoded] \<and>
    split_once '',[127.0.0.1]:'' pattern = Some (name, endpoint)")
  case True
  then obtain pattern kind encoded name endpoint where
    fields: "split_ascii_whitespace line = [pattern, kind, encoded]"
      "split_once '',[127.0.0.1]:'' pattern = Some (name, endpoint)" by blast
  have "split_ascii_whitespace [] = []" by code_simp
  with fields have "line \<noteq> []" by auto
  have port: "known_host_port endpoint \<noteq> Err Panic"
    by (simp add: known_host_port_def split: result.split)
  show ?thesis
  proof (cases "known_host_alias name")
    case (Err e)
    with fields \<open>line \<noteq> []\<close> known_host_alias_panic [of name] show ?thesis
      by (auto simp: parse_known_host_line_def)
  next
    case (Ok i)
    with known_host_alias_panic [of name] have "\<nexists>v. name = ''gascan-'' @ v \<and> try_from v = Panicked" by simp
    with Ok fields \<open>line \<noteq> []\<close> port show ?thesis
      by (cases "known_host_port endpoint"; cases "parse_public_key sc (kind @ '' '' @ encoded)")
        (auto simp: parse_known_host_line_def)
  qed
next
  case False
  then show ?thesis
    by (auto simp: parse_known_host_line_def split: list.splits option.splits if_splits)
qed

lemma known_host_lines_panic:
  "parse_known_host_lines sc identity ls hosts = Err Panic \<longleftrightarrow>
     (\<exists>before line after known. ls = before @ line # after \<and>
        parse_known_host_lines sc identity before hosts = Ok known \<and>
        parse_known_host_line sc identity line = Err Panic)" (is "_ \<longleftrightarrow> ?stuck ls hosts")
proof (induction ls arbitrary: hosts)
  case (Cons l ls)
  let ?taken = "\<lambda>h. list_ex (\<lambda>g. ac_alias (mh_active g) = ac_alias (mh_active h) \<or>
    ac_port (mh_active g) = ac_port (mh_active h)) hosts"
  have step: "?stuck (l # ls) hosts \<longleftrightarrow> parse_known_host_line sc identity l = Err Panic \<or>
      (\<exists>h. parse_known_host_line sc identity l = Ok h \<and> \<not> ?taken h \<and> ?stuck ls (hosts @ [h]))"
    (is "?lhs \<longleftrightarrow> ?rhs")
  proof
    assume ?lhs
    then obtain before line after known where split: "l # ls = before @ line # after"
      "parse_known_host_lines sc identity before hosts = Ok known"
      "parse_known_host_line sc identity line = Err Panic" by blast
    show ?rhs
    proof (cases before)
      case (Cons b bs)
      with split(1,2) show ?rhs using split(3) by (auto simp: result_simps split: if_splits)
    qed (use split in simp)
  next
    assume ?rhs
    then show ?lhs
    proof
      assume "parse_known_host_line sc identity l = Err Panic"
      then show ?lhs by (intro exI [of _ "[]"] exI [of _ l] exI [of _ ls] exI [of _ hosts]) simp
    next
      assume "\<exists>h. parse_known_host_line sc identity l = Ok h \<and> \<not> ?taken h \<and> ?stuck ls (hosts @ [h])"
      then obtain h before line after known where h: "parse_known_host_line sc identity l = Ok h" "\<not> ?taken h"
        "ls = before @ line # after" "parse_known_host_lines sc identity before (hosts @ [h]) = Ok known"
        "parse_known_host_line sc identity line = Err Panic" by blast
      then show ?lhs by (intro exI [of _ "l # before"] exI [of _ line] exI [of _ after] exI [of _ known]) simp
    qed
  qed
  show ?case unfolding step by (cases "parse_known_host_line sc identity l") (simp_all add: Cons.IH)
qed simp

text \<open>C40. When reading a known-hosts generation panics: exactly when the file is UTF-8 and, after
  records that are read, it has a line of three fields, the first of them an alias and a local
  endpoint, whose alias is the prefix and at least 13 bytes of which the twelfth from the end
  continues a multi-byte character.  Every other malformed file is an error or is accepted; no
  other part of the parser panics.\<close>

theorem known_hosts_panic:
  "parse_known_hosts sc contents identity = Err Panic \<longleftrightarrow>
     utf8_valid contents \<and>
     (\<exists>before line after known pattern kind encoded v endpoint.
        lines contents = before @ line # after \<and>
        parse_known_host_lines sc identity before [] = Ok known \<and>
        split_ascii_whitespace line = [pattern, kind, encoded] \<and>
        split_once '',[127.0.0.1]:'' pattern = Some (''gascan-'' @ v, endpoint) \<and>
        13 \<le> length v \<and> is_continuation (v ! (length v - 12)))"
proof -
  have panics: "try_from v = Panicked \<longleftrightarrow> 13 \<le> length v \<and> is_continuation (v ! (length v - 12))" for v
    by (rule try_from_panic_iff)
  show ?thesis
    unfolding parse_known_hosts_def
    by (simp add: known_host_lines_panic known_host_line_panic panics)
qed

text \<open>Such a file exists: one record with an accented letter in its alias.\<close>

definition accented_record :: string where
  "accented_record =
     ''gascan-'' @ [CHR 0xC3, CHR 0xA9] @ ''aaaaaaaaaaa,[127.0.0.1]:2222 ssh-ed25519 AAAA'' @ newline"

lemma accented_fields:
  "utf8_valid accented_record" "lines accented_record = [butlast accented_record]"
  "split_ascii_whitespace (butlast accented_record) =
     [''gascan-'' @ [CHR 0xC3, CHR 0xA9] @ ''aaaaaaaaaaa,[127.0.0.1]:2222'', ''ssh-ed25519'', ''AAAA'']"
  "split_once '',[127.0.0.1]:'' (''gascan-'' @ [CHR 0xC3, CHR 0xA9] @ ''aaaaaaaaaaa,[127.0.0.1]:2222'') =
     Some (''gascan-'' @ [CHR 0xC3, CHR 0xA9] @ ''aaaaaaaaaaa'', ''2222'')"
  "try_from ([CHR 0xC3, CHR 0xA9] @ ''aaaaaaaaaaa'') = Panicked"
  by code_simp+

lemma accented_record_panics: "parse_known_hosts sc accented_record identity = Err Panic"
proof -
  have "parse_known_host_line sc identity (butlast accented_record) = Err Panic"
    unfolding known_host_line_panic using accented_fields(3-5) by blast
  then show ?thesis
    by (simp only: parse_known_hosts_def accented_fields(1,2) parse_known_host_lines.simps
        and_then.simps not_True_eq_False if_False)
qed

end
