(* ===== verification/Ssh_Correct.thy ===== *)
theory Ssh_Correct
  imports Ssh_Manager
begin

text \<open>
  Correctness of the managed SSH configuration: what is rendered is what is read back, for the
  paths of the client configuration and for the records of a known-hosts generation.
\<close>

section \<open>Paths\<close>

definition escape_byte :: "char \<Rightarrow> string" where
  "escape_byte c =
     (if c = CHR 0x5C then [CHR 0x5C, CHR 0x5C]
      else if c = CHR 0x22 then [CHR 0x5C, CHR 0x22]
      else if c = CHR ''%'' then ''%%'' else [c])"

lemma str_replace_char: "str_replace [c] new s = concat (map (\<lambda>x. if x = c then new else [x]) s)"
proof (induction s)
  case Nil
  show ?case by (subst str_replace.simps) simp
next
  case (Cons x s)
  then show ?case by (subst str_replace.simps) auto
qed

lemma escaped_bytes:
  "str_replace ''%'' ''%%'' (str_replace [CHR 0x22] [CHR 0x5C, CHR 0x22]
     (str_replace [CHR 0x5C] [CHR 0x5C, CHR 0x5C] p)) = concat (map escape_byte p)"
  by (induction p) (simp_all add: str_replace_char escape_byte_def)

lemma unescape_escaped: "unescape_path (concat (map escape_byte p)) acc = Ok (acc @ p)"
  by (induction p arbitrary: acc) (auto simp: escape_byte_def)

lemma safe_byte: "path_byte_safe c \<Longrightarrow> is_ascii_byte c \<and> \<not> is_whitespace (byte c) \<and> c \<noteq> CHR 0x22"
  by (auto simp: path_byte_safe_def is_whitespace_def ascii_simps)

lemma safe_not_quoted:
  assumes "list_all path_byte_safe p"
  shows "strip_prefix [CHR 0x22] p = None" "\<not> list_ex is_whitespace (chars p)"
proof -
  have "list_all is_ascii_byte p" using assms safe_byte by (auto simp: list_all_iff)
  then show "\<not> list_ex is_whitespace (chars p)"
    using assms safe_byte by (auto simp: chars_ascii list_all_iff list_ex_iff)
  show "strip_prefix [CHR 0x22] p = None"
    using assms safe_byte [of "CHR 0x22"] by (cases p) (auto simp: strip_prefix_def)
qed

text \<open>A path written into the client configuration is read back unchanged: whatever
  \<open>openssh_path\<close> renders for a non-empty path, quoted and escaped or plain,
  \<open>parse_rendered_path\<close> gives back that path.\<close>

lemma rendered_path_round_trip:
  assumes "openssh_path p = Ok rendered" "p \<noteq> []"
  shows "parse_rendered_path rendered = Ok p"
proof (cases "list_all path_byte_safe p")
  case True
  with assms have "rendered = p" by (auto simp: openssh_path_def split: if_splits)
  with True assms(2) show ?thesis by (simp add: parse_rendered_path_def safe_not_quoted)
next
  case False
  with assms have "rendered = CHR 0x22 # concat (map escape_byte p) @ [CHR 0x22]"
    by (auto simp: openssh_path_def escaped_bytes Let_def split: if_splits)
  then show ?thesis
    by (simp add: parse_rendered_path_def strip_prefix_def strip_suffix_def unescape_escaped)
qed

section \<open>Fields of a record\<close>

lemma split_fields:
  assumes "list_all (\<lambda>w. w \<noteq> [] \<and> list_all (\<lambda>c. \<not> is_ascii_whitespace c) w) [a, b, c]"
  shows "split_ascii_whitespace (a @ '' '' @ b @ '' '' @ c) = [a, b, c]"
proof -
  have keep: "map (\<lambda>c. if is_ascii_whitespace c then CHR '' '' else c) w = w" "CHR '' '' \<notin> set w"
    if "w \<in> {a, b, c}" for w
    using that assms by (auto simp: list_all_iff is_ascii_whitespace_def map_idI)
  show ?thesis
    using assms keep
    by (simp add: split_ascii_whitespace_def split_on_append split_on_no_sep is_ascii_whitespace_def)
qed

lemma split_once_at:
  "c \<notin> set a \<Longrightarrow> split_once (c # pat) (a @ (c # pat) @ b) = Some (a, b)"
  by (induction a) (auto simp: prefix_def)

lemma split_fields_nonempty: "w \<in> set (split_ascii_whitespace s) \<Longrightarrow> w \<noteq> []"
  by (simp add: split_ascii_whitespace_def)

lemma validate_alias_Ok:
  assumes "validate_alias alias = Ok u"
  shows "list_all (\<lambda>c. is_ascii_lowercase c \<or> is_ascii_digit c \<or> c = CHR ''-'') alias \<and> alias \<noteq> []"
  using assms
  by (auto simp: validate_alias_def ascii_simps strip_prefix_def prefix_def split: option.splits if_splits)

section \<open>Known-hosts generations\<close>

definition is_base64 :: "char \<Rightarrow> bool" where
  "is_base64 c \<longleftrightarrow> is_ascii_alphanumeric c \<or> c \<in> {CHR ''+'', CHR ''/'', CHR ''=''}"

text \<open>What is relied on of the Base64 engine: it decodes only text of its alphabet.\<close>

definition decodes_base64 :: "ssh_codec \<Rightarrow> bool" where
  "decodes_base64 sc \<longleftrightarrow> (\<forall>e b. sc_decode sc e = Some b \<longrightarrow> list_all is_base64 e)"

text \<open>The endpoints that the manager publishes: the alias is that of a valid identity, the port is
  not privileged, and the host key is in normal form.\<close>

definition publishable :: "ssh_codec \<Rightarrow> managed_ssh_host \<Rightarrow> bool" where
  "publishable sc h \<longleftrightarrow>
     (\<exists>i. ac_alias (mh_active h) = ssh_alias i \<and> try_from (as_str i) = Returned (Ok i)) \<and>
     ac_port (mh_active h) \<ge> 1024 \<and>
     (\<exists>k. parse_public_key sc (mh_host_public_key h) = Ok k \<and> pk_normalized k = mh_host_public_key h)"

lemma base64_byte: "is_base64 c \<Longrightarrow> is_ascii_byte c \<and> \<not> is_ascii_whitespace c"
  by (auto simp: is_base64_def ascii_simps is_ascii_whitespace_def)

lemma alias_byte:
  "is_ascii_lowercase c \<or> is_ascii_digit c \<or> c = CHR ''-'' \<Longrightarrow>
     is_ascii_byte c \<and> \<not> is_ascii_whitespace c \<and> c \<noteq> CHR '',''"
  by (auto simp: ascii_simps is_ascii_whitespace_def)

lemma normalized_key:
  assumes "parse_public_key sc bytes = Ok k" "decodes_base64 sc"
  obtains encoded where "pk_normalized k = ''ssh-ed25519 '' @ encoded" "encoded \<noteq> []"
    "list_all is_base64 encoded"
proof -
  from assms(1) obtain encoded blob kind rest where
    "pk_normalized k = ''ssh-ed25519 '' @ encoded" "sc_decode sc encoded = Some blob"
    "split_ascii_whitespace (trim_line_ends bytes) = kind # encoded # rest"
    by (elim parse_public_key_Ok) blast
  moreover from this(3) have "encoded \<noteq> []"
    using split_fields_nonempty [of encoded "trim_line_ends bytes"] by simp
  ultimately show ?thesis using that assms(2) by (auto simp: decodes_base64_def)
qed

text \<open>The record that is rendered for a validated host.\<close>

definition record_of :: "validated_host \<Rightarrow> string" where
  "record_of v = render_record (host_alias v) (unat (ac_port (mh_active (fst v)))) (snd v)"

definition record_ok :: "ssh_codec \<Rightarrow> host_identity \<Rightarrow> validated_host \<Rightarrow> bool" where
  "record_ok sc identity v \<longleftrightarrow> publishable sc (fst v) \<and> validate_host sc identity (fst v) = Ok (snd v)"

lemma validate_host_Ok:
  "validate_host sc identity h = Ok key \<longleftrightarrow>
     validate_alias (ac_alias (mh_active h)) = Ok () \<and> ac_host (mh_active h) = LOCAL_ADDRESS \<and>
     ac_port (mh_active h) \<noteq> 0 \<and> ac_client_key_fingerprint (mh_active h) = hi_fingerprint identity \<and>
     (\<exists>k. parse_public_key sc (mh_host_public_key h) = Ok k \<and>
        pk_fingerprint k = ac_host_key_fingerprint (mh_active h) \<and> pk_normalized k = key)"
  by (auto simp: validate_host_def result_simps)

lemma record_fields:
  assumes "record_ok sc identity v" "decodes_base64 sc"
  obtains encoded where "snd v = ''ssh-ed25519 '' @ encoded"
    "encoded \<noteq> []" "list_all is_base64 encoded"
    "list_all (\<lambda>c. is_ascii_lowercase c \<or> is_ascii_digit c \<or> c = CHR ''-'') (host_alias v)" "host_alias v \<noteq> []"
proof -
  from assms(1) obtain k where "parse_public_key sc (mh_host_public_key (fst v)) = Ok k" "pk_normalized k = snd v"
    and good: "validate_alias (host_alias v) = Ok ()"
    by (auto simp: record_ok_def validate_host_Ok host_alias_def)
  from normalized_key [OF this(1) assms(2)] this(2) obtain encoded where
    "snd v = ''ssh-ed25519 '' @ encoded" "encoded \<noteq> []" "list_all is_base64 encoded"
    by metis
  then show ?thesis using that validate_alias_Ok [OF good] by simp
qed

lemma show_nat_byte: "c \<in> set (show_nat n) \<Longrightarrow> is_ascii_byte c \<and> \<not> is_ascii_whitespace c"
  using show_nat_digits [of n] by (auto simp: list_all_iff ascii_simps is_ascii_whitespace_def)

definition record_byte :: "char \<Rightarrow> bool" where
  "record_byte c \<longleftrightarrow> is_ascii_byte c \<and> c \<noteq> CHR 0x0A \<and> c \<noteq> CHR 0x0D"

lemma record_byteI: "is_ascii_byte c \<and> \<not> is_ascii_whitespace c \<Longrightarrow> record_byte c"
  by (auto simp: record_byte_def is_ascii_whitespace_def)

lemma record_bytes:
  assumes "record_ok sc identity v" "decodes_base64 sc"
  shows "list_all is_ascii_byte (record_of v)" "CHR 0x0A \<notin> set (record_of v)"
    "record_of v \<noteq> []" "last (record_of v) \<noteq> CHR 0x0D"
proof -
  from record_fields [OF assms] obtain encoded where f: "snd v = ''ssh-ed25519 '' @ encoded"
    "encoded \<noteq> []" "list_all is_base64 encoded"
    "list_all (\<lambda>c. is_ascii_lowercase c \<or> is_ascii_digit c \<or> c = CHR ''-'') (host_alias v)" .
  let ?n = "show_nat (unat (ac_port (mh_active (fst v))))"
  have "list_all record_byte (host_alias v)" "list_all record_byte encoded" "list_all record_byte ?n"
    using list.pred_mono_strong [OF f(4), of record_byte] list.pred_mono_strong [OF f(3), of record_byte]
      alias_byte base64_byte show_nat_byte record_byteI
    by (simp_all add: list_all_iff)
  then have all: "list_all record_byte (record_of v)"
    by (simp add: record_of_def render_record_def f(1)) (simp add: record_byte_def is_ascii_byte_def)
  then have printed: "is_ascii_byte c \<and> c \<noteq> CHR 0x0A \<and> c \<noteq> CHR 0x0D" if "c \<in> set (record_of v)" for c
    using that unfolding list_all_iff record_byte_def by blast
  show "record_of v \<noteq> []" by (simp add: record_of_def render_record_def)
  then show "last (record_of v) \<noteq> CHR 0x0D" using printed last_in_set by blast
  show "list_all is_ascii_byte (record_of v)" "CHR 0x0A \<notin> set (record_of v)"
    using printed by (auto simp: list_all_iff)
qed

lemma lines_of_records:
  assumes "\<forall>v\<in>set vs. record_ok sc identity v" "decodes_base64 sc"
  shows "lines (render_known_hosts vs) = map record_of vs" "utf8_valid (render_known_hosts vs)"
proof -
  have ascii: "list_all is_ascii_byte (render_known_hosts vs)"
    using assms record_bytes(1) by (auto simp: render_known_hosts_def list_all_iff record_of_def [symmetric] ascii_simps)
  show "lines (render_known_hosts vs) = map record_of vs"
    using assms
  proof (induction vs)
    case (Cons v vs)
    have "render_known_hosts (v # vs) = record_of v @ CHR 0x0A # render_known_hosts vs"
      by (simp add: render_known_hosts_def record_of_def)
    moreover have "record_ok sc identity v" using Cons.prems by simp
    ultimately show ?case
      using Cons record_bytes [of sc identity v] by (simp add: lines_append)
  qed (simp add: render_known_hosts_def)
  show "utf8_valid (render_known_hosts vs)" by (rule utf8_valid_ascii [OF ascii])
qed

lemma known_host_port_show:
  assumes "(1024 :: u16) \<le> port"
  shows "known_host_port (show_nat (unat port)) = Ok port"
proof -
  have "parse_unsigned (show_nat (unat port)) = Ok port"
    using parse_unsigned_show_nat [of "unat port", where 'w = 16] unsigned_less [of port] by simp
  with assms show ?thesis by (simp add: known_host_port_def)
qed

lemma known_host_alias_canonical:
  "try_from (as_str i) = Returned (Ok i) \<Longrightarrow> known_host_alias (ssh_alias i) = Ok i"
  by (simp add: known_host_alias_def ssh_alias_def strip_prefix_def)

lemma parse_rendered_line:
  assumes "record_ok sc identity v" "decodes_base64 sc"
  shows "parse_known_host_line sc identity (record_of v) = Ok (fst v)"
proof -
  from record_fields [OF assms] obtain encoded where f: "snd v = ''ssh-ed25519 '' @ encoded"
    "encoded \<noteq> []" "list_all is_base64 encoded"
    "list_all (\<lambda>c. is_ascii_lowercase c \<or> is_ascii_digit c \<or> c = CHR ''-'') (host_alias v)"
    "host_alias v \<noteq> []" .
  let ?port = "ac_port (mh_active (fst v))"
  let ?pattern = "host_alias v @ '',[127.0.0.1]:'' @ show_nat (unat ?port)"
  from assms(1) obtain i k where i: "host_alias v = ssh_alias i" "try_from (as_str i) = Returned (Ok i)"
    and port: "1024 \<le> ?port"
    and k: "parse_public_key sc (mh_host_public_key (fst v)) = Ok k" "pk_normalized k = mh_host_public_key (fst v)"
    by (auto simp: record_ok_def publishable_def host_alias_def)
  with assms(1) have v: "snd v = mh_host_public_key (fst v)" "ac_host (mh_active (fst v)) = LOCAL_ADDRESS"
    "ac_client_key_fingerprint (mh_active (fst v)) = hi_fingerprint identity"
    "ac_host_key_fingerprint (mh_active (fst v)) = pk_fingerprint k"
    by (auto simp: record_ok_def validate_host_Ok)
  have "list_all (\<lambda>c. \<not> is_ascii_whitespace c) (host_alias v)"
    by (rule list.pred_mono_strong [OF f(4)]) (use alias_byte in blast)
  moreover have "list_all (\<lambda>c. \<not> is_ascii_whitespace c) (show_nat (unat ?port))"
    unfolding list_all_iff using show_nat_byte by blast
  ultimately have pattern: "list_all (\<lambda>c. \<not> is_ascii_whitespace c) ?pattern"
    by simp (simp add: is_ascii_whitespace_def)
  have key_text: "list_all (\<lambda>c. \<not> is_ascii_whitespace c) encoded"
    by (rule list.pred_mono_strong [OF f(3)]) (use base64_byte in blast)
  have comma: "CHR '','' \<notin> set (host_alias v)"
    using f(4) alias_byte [of "CHR '',''"] unfolding list_all_iff by blast
  have line: "record_of v = ?pattern @ '' '' @ ''ssh-ed25519'' @ '' '' @ encoded"
    by (simp add: record_of_def render_record_def f(1))
  have fields: "split_ascii_whitespace (record_of v) = [?pattern, ''ssh-ed25519'', encoded]"
    unfolding line by (rule split_fields) (use pattern key_text f(2) in \<open>simp add: is_ascii_whitespace_def\<close>)
  have endpoint: "split_once '',[127.0.0.1]:'' ?pattern = Some (host_alias v, show_nat (unat ?port))"
    using split_once_at [OF comma, of "''[127.0.0.1]:''" "show_nat (unat ?port)"] by simp
  have key: "parse_public_key sc (''ssh-ed25519'' @ '' '' @ encoded) = Ok k"
    using k(1) v(1) f(1) by simp
  have "parse_known_host_line sc identity (record_of v) =
    Ok \<lparr> mh_active = \<lparr> ac_host = LOCAL_ADDRESS, ac_port = ?port, ac_alias = ssh_alias i,
           ac_host_key_fingerprint = pk_fingerprint k, ac_client_key_fingerprint = hi_fingerprint identity \<rparr>,
         mh_host_public_key = pk_normalized k \<rparr>"
    unfolding parse_known_host_line_def fields list.case endpoint option.case prod.case
    by (simp only: record_bytes(3) [OF assms] if_False known_host_port_show [OF port] i(1)
        known_host_alias_canonical [OF i(2)] and_then.simps key map_err.simps)
      (simp add: record_of_def i(1) v(1) k(2))
  also have "\<dots> = Ok (fst v)"
    using v k(2) i(1) by (simp add: host_alias_def)
  finally show ?thesis .
qed

abbreviation ports_of :: "managed_ssh_host list \<Rightarrow> u16 list" where
  "ports_of hosts \<equiv> map (\<lambda>h. ac_port (mh_active h)) hosts"

abbreviation aliases_of :: "managed_ssh_host list \<Rightarrow> string list" where
  "aliases_of hosts \<equiv> map (\<lambda>h. ac_alias (mh_active h)) hosts"

lemma parse_rendered_lines:
  assumes "list_all2 (\<lambda>line h. parse_known_host_line sc identity line = Ok h) text_lines hosts"
    and "distinct (aliases_of (seen @ hosts))" "distinct (ports_of seen)"
  shows "parse_known_host_lines sc identity text_lines seen =
    (if distinct (ports_of (seen @ hosts)) then Ok (seen @ hosts)
     else Err (Raised (config_state ''managed known-hosts record is inconsistent'')))"
  using assms
proof (induction text_lines hosts arbitrary: seen rule: list_all2_induct)
  case (Cons line rest h hosts)
  have clash: "list_ex (\<lambda>g. ac_alias (mh_active g) = ac_alias (mh_active h) \<or>
      ac_port (mh_active g) = ac_port (mh_active h)) seen \<longleftrightarrow> ac_port (mh_active h) \<in> set (ports_of seen)"
    using Cons.prems(1) by (simp add: list_ex_iff image_iff) metis
  show ?case
  proof (cases "ac_port (mh_active h) \<in> set (ports_of seen)")
    case True
    then show ?thesis using Cons.hyps clash by auto
  next
    case False
    then show ?thesis
      using Cons.hyps(1) clash Cons.IH [of "seen @ [h]"] Cons.prems by simp
  qed
qed simp

lemma sorted_no_adjacent_distinct:
  fixes xs :: "'a::linorder list"
  assumes "sorted xs" "\<not> list_ex (\<lambda>(a, b). a = b) (zip xs (tl xs))"
  shows "distinct xs"
  using assms
proof (induction xs)
  case (Cons x xs)
  then show ?case
    by (cases xs) (auto simp: order.strict_iff_order dest: antisym)
qed simp

lemma adjacent_map:
  "list_ex (\<lambda>(a, b). a = b) (zip (map f xs) (tl (map f xs))) =
     list_ex (\<lambda>(a, b). f a = f b) (zip xs (tl xs))"
  by (simp add: map_tl [symmetric] zip_map_map list_ex_iff split_def)

lemma validate_hosts_Ok:
  assumes "validate_hosts sc identity hosts = Ok validated"
  shows "\<forall>v\<in>set validated. fst v \<in> set hosts \<and> validate_host sc identity (fst v) = Ok (snd v)"
    "distinct (map host_alias validated)"
proof -
  from assms obtain vs where vs: "collect_ok (\<lambda>host. map_ok (Pair host) (validate_host sc identity host)) hosts = Ok vs"
    and sorted: "validated = sort_key host_alias vs"
      "\<not> list_ex (\<lambda>(a, b). host_alias a = host_alias b) (zip validated (tl validated))"
    by (auto simp: validate_hosts_def Let_def result_simps split: if_splits)
  from vs have "list_all2 (\<lambda>h v. map_ok (Pair h) (validate_host sc identity h) = Ok v) hosts vs"
    by (simp add: collect_ok_eq_Ok)
  then have "\<forall>v\<in>set vs. fst v \<in> set hosts \<and> validate_host sc identity (fst v) = Ok (snd v)"
    by (auto simp: list_all2_conv_all_nth in_set_conv_nth result_simps) (metis fst_conv snd_conv nth_mem)+
  then show "\<forall>v\<in>set validated. fst v \<in> set hosts \<and> validate_host sc identity (fst v) = Ok (snd v)"
    by (simp add: sorted(1))
  show "distinct (map host_alias validated)"
    by (rule sorted_no_adjacent_distinct)
      (use sorted in \<open>simp_all add: adjacent_map\<close>)
qed

text \<open>C12. A known-hosts generation is read back as it was written: for hosts that the configuration
  accepts and that carry a canonical alias, an unprivileged port and a normalized key, parsing the
  rendered generation gives exactly the validated hosts, in the order of their aliases, if their
  ports are distinct; two hosts that share a port are accepted by the writer and refused by the
  reader.\<close>

theorem known_hosts_round_trip:
  assumes "validate_hosts sc identity hosts = Ok validated" "decodes_base64 sc"
    and "\<forall>h\<in>set hosts. publishable sc h"
  shows "parse_known_hosts sc (render_known_hosts validated) identity =
    (if distinct (ports_of (map fst validated)) then Ok (map fst validated)
     else Err (Raised (config_state ''managed known-hosts record is inconsistent'')))"
proof -
  have ok: "\<forall>v\<in>set validated. record_ok sc identity v"
    using validate_hosts_Ok(1) [OF assms(1)] assms(3) by (auto simp: record_ok_def)
  then have "list_all2 (\<lambda>line h. parse_known_host_line sc identity line = Ok h)
      (map record_of validated) (map fst validated)"
    using parse_rendered_line [OF _ assms(2)] by (auto simp: list_all2_conv_all_nth)
  moreover have "distinct (aliases_of (map fst validated))"
    using validate_hosts_Ok(2) [OF assms(1)] by (simp add: host_alias_def [abs_def] comp_def)
  ultimately show ?thesis
    using parse_rendered_lines [of sc identity "map record_of validated" "map fst validated" "[]"]
      lines_of_records [OF ok assms(2)]
    by (simp add: parse_known_hosts_def)
qed

definition example_codec :: ssh_codec where
  "example_codec =
     \<lparr> sc_decode = (\<lambda>e. if e = ''AAAA'' then Some (ED25519_BLOB_PREFIX @ replicate 32 CHR ''k'') else None),
       sc_encode_no_pad = (\<lambda>_. ''f''), sc_sha256 = (\<lambda>_. []) \<rparr>"

definition example_identity :: host_identity where
  "example_identity = \<lparr> hi_private_key = ''/k'', hi_public_key = ''ssh-ed25519 AAAA'', hi_fingerprint = ''SHA256:f'' \<rparr>"

definition example_host :: "string \<Rightarrow> u16 \<Rightarrow> managed_ssh_host" where
  "example_host name port =
     \<lparr> mh_active = \<lparr> ac_host = LOCAL_ADDRESS, ac_port = port, ac_alias = ssh_alias (SandboxId name),
         ac_host_key_fingerprint = ''SHA256:f'', ac_client_key_fingerprint = ''SHA256:f'' \<rparr>,
       mh_host_public_key = ''ssh-ed25519 AAAA'' \<rparr>"

lemma example_decodes: "decodes_base64 example_codec"
  by (simp add: decodes_base64_def example_codec_def is_base64_def) (simp add: ascii_simps)

lemma example_host_key:
  "parse_public_key example_codec ''ssh-ed25519 AAAA'' =
     Ok \<lparr> pk_normalized = ''ssh-ed25519 AAAA'', pk_fingerprint = ''SHA256:f'' \<rparr>"
  by code_simp

lemma example_publishable:
  assumes "try_from name = Returned (Ok (SandboxId name))" "1024 \<le> port"
  shows "publishable example_codec (example_host name port)"
  unfolding publishable_def using assms
  by (auto simp: example_host_def example_host_key intro!: exI [of _ "SandboxId name"])

lemma example_alias: "try_from ''app-abababababab'' = Returned (Ok (SandboxId ''app-abababababab''))"
  "try_from ''box-cdcdcdcdcdcd'' = Returned (Ok (SandboxId ''box-cdcdcdcdcdcd''))"
  by code_simp+

lemma example_valid:
  assumes "validate_alias (ssh_alias (SandboxId name)) = Ok ()" "port \<noteq> 0"
  shows "validate_host example_codec example_identity (example_host name port) = Ok ''ssh-ed25519 AAAA''"
  using assms by (simp add: validate_host_Ok example_host_def example_host_key example_identity_def)

text \<open>Two hosts, given out of order, and the same two hosts on one port.\<close>

theorem known_hosts_round_trip_witness:
  "let a = example_host ''app-abababababab''; b = example_host ''box-cdcdcdcdcdcd'';
       written = (\<lambda>p q. render_known_hosts [(a p, ''ssh-ed25519 AAAA''), (b q, ''ssh-ed25519 AAAA'')])
   in parse_known_hosts example_codec (written 2222 2223) example_identity = Ok [a 2222, b 2223] \<and>
      parse_known_hosts example_codec (written 2222 2222) example_identity =
        Err (Raised (config_state ''managed known-hosts record is inconsistent''))"
proof -
  let ?a = "example_host ''app-abababababab''" and ?b = "example_host ''box-cdcdcdcdcdcd''"
  have names: "validate_alias (ssh_alias (SandboxId ''app-abababababab'')) = Ok ()"
    "validate_alias (ssh_alias (SandboxId ''box-cdcdcdcdcdcd'')) = Ok ()" by code_simp+
  have less: "ssh_alias (SandboxId ''app-abababababab'') < ssh_alias (SandboxId ''box-cdcdcdcdcdcd'')"
    by code_simp
  have validated: "validate_hosts example_codec example_identity [?b q, ?a p] =
      Ok [(?a p, ''ssh-ed25519 AAAA''), (?b q, ''ssh-ed25519 AAAA'')]" if "p \<noteq> 0" "q \<noteq> 0" for p q
    using that less
    by (simp add: validate_hosts_def example_valid names host_alias_def)
      (auto simp: example_host_def)
  have ports: "ac_port (mh_active (example_host name p)) = p" for name p
    by (simp add: example_host_def)
  have hosts: "\<forall>h\<in>set [?b q, ?a p]. publishable example_codec h" if "1024 \<le> p" "1024 \<le> q" for p q
    using example_publishable [OF example_alias(1) that(1)] example_publishable [OF example_alias(2) that(2)] by simp
  show ?thesis
    using known_hosts_round_trip [OF validated example_decodes hosts, of 2222 2223]
      known_hosts_round_trip [OF validated example_decodes hosts, of 2222 2222]
    by (simp add: Let_def ports)
qed

end
