(* ===== verification/Ssh_Atomic.thy ===== *)
theory Ssh_Atomic
  imports Ssh_Config
begin

text \<open>
  Atomic publication of a managed file: what \<open>atomic_replace_with_faults\<close> leaves behind on
  every path, whichever system call fails.  The system calls are a parameter; \<open>posix_ok\<close> states
  what is relied on of them, seen through the files that a directory holds and the file that a
  descriptor refers to.
\<close>

section \<open>Outcomes of a sequence of calls\<close>

definition post :: "('a, 'e, 's) stateful \<Rightarrow> ('a \<Rightarrow> 's \<Rightarrow> bool) \<Rightarrow> ('s \<Rightarrow> bool) \<Rightarrow> bool" where
  "post r Q E \<longleftrightarrow> (case r of (Ok x, s) \<Rightarrow> Q x s | (Err e, s) \<Rightarrow> E s)"

lemma post_simps [simp]:
  "post (Ok x, s) Q E \<longleftrightarrow> Q x s" "post (Err e, s) Q E \<longleftrightarrow> E s"
  by (simp_all add: post_def)

lemma post_then: "post r (\<lambda>x s. post (f x s) Q E) E \<Longrightarrow> post (st_then r f) Q E"
  by (cases "(r, f)" rule: st_then.cases) simp_all

lemma post_map_err [simp]: "post (st_map_err f r) Q E = post r Q E"
  by (cases r; cases "fst r") (auto simp: post_def st_map_err_def)

lemma post_mono:
  assumes "post r Q E" "\<And>x s. Q x s \<Longrightarrow> Q' x s" "\<And>s. E s \<Longrightarrow> E' s"
  shows "post r Q' E'"
  using assms by (auto simp: post_def split: prod.splits result.splits)

lemma post_thenI:
  assumes "post r Q1 E1" "\<And>x s. Q1 x s \<Longrightarrow> post (f x s) Q E" "\<And>s. E1 s \<Longrightarrow> E s"
  shows "post (st_then r f) Q E"
  by (rule post_then) (rule post_mono [OF assms])

lemma post_pair: "(\<And>r s. p = (r, s) \<Longrightarrow> post (r, s) Q E) \<Longrightarrow> post p Q E"
  by (cases p) simp

section \<open>What is relied on of the system calls\<close>

text \<open>\<open>files d\<close> are the files of the directory with descriptor \<open>f\<close>, by name; \<open>refers d fd\<close> is the
  name of the file that was opened or created under \<open>fd\<close>.\<close>

type_synonym 'd files = "'d \<Rightarrow> string \<Rightarrow> string option"
type_synonym 'd refers = "'d \<Rightarrow> fd \<Rightarrow> string option"

definition quiet :: "'d files \<Rightarrow> 'd refers \<Rightarrow> ('d \<Rightarrow> ('a, errno, 'd) stateful) \<Rightarrow> bool" where
  "quiet files refers call \<longleftrightarrow>
     (\<forall>d. files (snd (call d)) = files d \<and> refers (snd (call d)) = refers d)"

definition posix_ok :: "'d posix \<Rightarrow> fd \<Rightarrow> 'd files \<Rightarrow> 'd refers \<Rightarrow> bool" where
  "posix_ok P f files refers \<longleftrightarrow>
     (\<forall>fd. quiet files refers (px_fstat P fd) \<and> quiet files refers (px_fsync P fd)) \<and>
     (\<forall>fd m. quiet files refers (px_fchmod P fd m)) \<and>
     quiet files refers (px_random_name P) \<and>
     (\<forall>n. quiet files refers (px_statat P f n)) \<and>
     (\<forall>n d. post (px_statat P f n d) (\<lambda>_ _. files d n \<noteq> None) (\<lambda>_. True)) \<and>
     (\<forall>n d d'. px_statat P f n d = (Err NOENT, d') \<longrightarrow> files d n = None) \<and>
     (\<forall>n d. post (px_openat P f n d)
        (\<lambda>fd d'. files d' = files d \<and> refers d' fd = Some n \<and> files d n \<noteq> None) (\<lambda>d'. files d' = files d)) \<and>
     (\<forall>fd k. quiet files refers (px_read P fd k)) \<and>
     (\<forall>fd k d n c. refers d fd = Some n \<longrightarrow> files d n = Some c \<longrightarrow>
        post (px_read P fd k d) (\<lambda>b _. b = take k c) (\<lambda>_. True)) \<and>
     (\<forall>n m d. post (px_create P f n m d)
        (\<lambda>fd d'. files d' = (files d)(n \<mapsto> []) \<and> refers d' fd = Some n) (\<lambda>d'. files d' = files d)) \<and>
     (\<forall>fd b d n c. refers d fd = Some n \<longrightarrow> files d n = Some c \<longrightarrow>
        post (px_write P fd b d) (\<lambda>_ d'. files d' = (files d)(n \<mapsto> c @ b))
          (\<lambda>d'. \<forall>m. m \<noteq> n \<longrightarrow> files d' m = files d m)) \<and>
     (\<forall>a b d. post (px_renameat_new P f a b d)
        (\<lambda>_ d'. files d' = (files d)(a := None, b := files d a)) (\<lambda>d'. files d' = files d)) \<and>
     (\<forall>a b d. post (px_renameat P f a b d)
        (\<lambda>_ d'. files d' = (files d)(a := None, b := files d a)) (\<lambda>d'. files d' = files d)) \<and>
     (\<forall>n d. post (px_unlinkat P f n d)
        (\<lambda>_ d'. files d' = (files d)(n := None)) (\<lambda>d'. files d' = files d))"

section \<open>The operations of the state directory\<close>

lemma quiet_post: "quiet files refers call \<Longrightarrow>
    post (call d) (\<lambda>_ d'. files d' = files d \<and> refers d' = refers d) (\<lambda>d'. files d' = files d \<and> refers d' = refers d)"
  by (cases "call d"; cases "fst (call d)") (force simp: quiet_def post_def dest: spec [of _ d])+

lemma posix_quiet:
  assumes "posix_ok P f files refers"
  shows "quiet files refers (px_fstat P fd)" "quiet files refers (px_fsync P fd)"
    "quiet files refers (px_fchmod P fd m)" "quiet files refers (px_random_name P)"
    "quiet files refers (px_statat P f n)" "quiet files refers (px_read P fd k)"
  using assms by (simp_all add: posix_ok_def)

lemma posix_calls:
  assumes "posix_ok P f files refers"
  shows "post (px_statat P f n d) (\<lambda>_ _. files d n \<noteq> None) (\<lambda>_. True)"
    "px_statat P f n d = (Err NOENT, d') \<Longrightarrow> files d n = None"
    "post (px_openat P f n d)
       (\<lambda>fd d'. files d' = files d \<and> refers d' fd = Some n \<and> files d n \<noteq> None) (\<lambda>d'. files d' = files d)"
    "refers d fd = Some n \<Longrightarrow> files d n = Some c \<Longrightarrow>
       post (px_read P fd k d) (\<lambda>b _. b = take k c) (\<lambda>_. True)"
    "post (px_create P f n m d)
       (\<lambda>fd d'. files d' = (files d)(n \<mapsto> []) \<and> refers d' fd = Some n) (\<lambda>d'. files d' = files d)"
    "refers d fd = Some n \<Longrightarrow> files d n = Some c \<Longrightarrow>
       post (px_write P fd b d) (\<lambda>_ d'. files d' = (files d)(n \<mapsto> c @ b))
         (\<lambda>d'. \<forall>m. m \<noteq> n \<longrightarrow> files d' m = files d m)"
    "post (px_renameat_new P f a b d)
       (\<lambda>_ d'. files d' = (files d)(a := None, b := files d a)) (\<lambda>d'. files d' = files d)"
    "post (px_renameat P f a b d)
       (\<lambda>_ d'. files d' = (files d)(a := None, b := files d a)) (\<lambda>d'. files d' = files d)"
    "post (px_unlinkat P f n d)
       (\<lambda>_ d'. files d' = (files d)(n := None)) (\<lambda>d'. files d' = files d)"
  using assms by (simp_all add: posix_ok_def)

lemma post_conj:
  "post r Q E \<Longrightarrow> post r Q' E' \<Longrightarrow> post r (\<lambda>x s. Q x s \<and> Q' x s) (\<lambda>s. E s \<and> E' s)"
  by (auto simp: post_def split: prod.splits result.splits)

lemma metadata_post:
  assumes "posix_ok P (dir_fd dir) files refers"
  shows "post (metadata P dir n mode d) (\<lambda>i d'. files d' = files d \<and> refers d' = refers d \<and> (i = None) = (files d n = None))
    (\<lambda>d'. files d' = files d \<and> refers d' = refers d)"
proof (cases "px_statat P (dir_fd dir) n d")
  case (Pair r d')
  have "files d' = files d \<and> refers d' = refers d"
    using posix_quiet(5) [OF assms, of n] Pair by (auto simp: quiet_def dest: spec [of _ d])
  moreover have "r = Ok st \<Longrightarrow> files d n \<noteq> None" "r = Err NOENT \<Longrightarrow> files d n = None" for st
    using posix_calls(1,2) [OF assms, of n d] Pair by auto
  ultimately show ?thesis
    by (cases r) (auto simp: metadata_def metadata_inspected_def Let_def Pair st_map_err_def split: result.splits)
qed

lemmas metadata_inspected_post = metadata_post [unfolded metadata_def post_map_err]

lemma open_file_inspected_post:
  assumes "posix_ok P (dir_fd dir) files refers"
  shows "post (open_file_inspected P dir n mode d)
    (\<lambda>(fd, i) d'. files d' = files d \<and> refers d' fd = Some n \<and> files d n \<noteq> None) (\<lambda>d'. files d' = files d)"
  unfolding open_file_inspected_def Let_def
proof (rule post_then, unfold post_map_err, rule post_mono [OF posix_calls(3) [OF assms]])
  fix fd d'
  assume opened: "files d' = files d \<and> refers d' fd = Some n \<and> files d n \<noteq> None"
  show "post (st_then (st_map_err (\<lambda>e. new_diagnostic DiagInternal (path_join (dir_path dir) n)
        (SshIo ''inspect open managed SSH file'' e)) (px_fstat P fd d'))
      (\<lambda>st d. case validate_regular_stat st (dir_expected_uid dir) mode of
        Ok x \<Rightarrow> (Ok (fd, identity_from_stat st), d)
      | Err e \<Rightarrow> (Err (new_diagnostic DiagUnsafe (path_join (dir_path dir) n) e), d)))
     (\<lambda>(fd, i) d'. files d' = files d \<and> refers d' fd = Some n \<and> files d n \<noteq> None) (\<lambda>d'. files d' = files d)"
    by (rule post_then, unfold post_map_err, rule post_mono [OF quiet_post [OF posix_quiet(1) [OF assms]]])
      (use opened in \<open>auto split: result.splits\<close>)
qed

text \<open>A file that is read completely is read as the directory has it.\<close>

lemma read_file_post:
  assumes "posix_ok P (dir_fd dir) files refers"
  shows "post (read_file P dir n mode maximum d) (\<lambda>(b, i) d'. files d' = files d \<and> files d n = Some b)
    (\<lambda>d'. files d' = files d)"
proof -
  let ?Q = "\<lambda>(b, i) d'. files d' = files d \<and> files d n = Some b" and ?E = "\<lambda>d'. files d' = files d"
  have bytes: "post (st_then (st_map_err g (px_read P fd (Suc maximum) d'))
      (\<lambda>bytes d. if maximum < length bytes then (Err (e bytes), d) else (Ok (bytes, i), d)))
      (\<lambda>(b, i) d'. files d' = files d \<and> c = b) ?E"
    if "files d' = files d" "refers d' fd = Some n" "files d n = Some c" for d' fd c g e i
  proof (rule post_then, unfold post_map_err)
    have "post (px_read P fd (Suc maximum) d')
        (\<lambda>b d''. (files d'' = files d' \<and> refers d'' = refers d') \<and> b = take (Suc maximum) c)
        (\<lambda>d''. (files d'' = files d' \<and> refers d'' = refers d') \<and> True)"
      by (rule post_conj [OF quiet_post [OF posix_quiet(6) [OF assms]] posix_calls(4) [OF assms that(2)]])
        (use that in simp)
    then show "post (px_read P fd (Suc maximum) d')
        (\<lambda>x s. post (if maximum < length x then (Err (e x), s) else (Ok (x, i), s))
          (\<lambda>(b, i) d'. files d' = files d \<and> c = b) ?E) ?E"
      by (rule post_mono) (use that in \<open>auto split: if_splits\<close>)
  qed
  have "post (read_file_inspected P dir n mode maximum d) ?Q ?E"
    unfolding read_file_inspected_def Let_def
    apply (rule post_then, rule post_mono [OF metadata_inspected_post [OF assms]])
     apply (simp split: option.split)
     apply (intro allI impI)
     apply (rule post_then, rule post_mono [OF open_file_inspected_post [OF assms]])
      apply (auto intro!: bytes)
    done
  then show ?thesis by (simp add: read_file_def)
qed

section \<open>Staging and renaming\<close>

definition elsewhere :: "string set \<Rightarrow> (string \<Rightarrow> string option) \<Rightarrow> (string \<Rightarrow> string option) \<Rightarrow> bool" where
  "elsewhere ns before after \<longleftrightarrow> (\<forall>m. m \<notin> ns \<longrightarrow> after m = before m)"

lemma elsewhere_refl [simp]: "elsewhere ns fs fs"
  by (simp add: elsewhere_def)

lemma post_io [simp]: "post (io action r) Q E = post r Q E"
  by (simp add: io_def)

lemma create_staging_post:
  assumes "posix_ok P (dir_fd dir) files refers"
  shows "post (create_staging P dir n mode d)
    (\<lambda>fd d'. files d' = (files d)(n \<mapsto> []) \<and> refers d' fd = Some n)
    (\<lambda>d'. elsewhere {n} (files d) (files d'))"
  unfolding create_staging_def
proof (rule post_thenI, unfold post_io, rule posix_calls(5) [OF assms])
  fix fd s
  assume made: "files s = (files d)(n \<mapsto> []) \<and> refers s fd = Some n"
  show "post (st_then (io ''set managed SSH staging mode'' (px_fchmod P fd mode s))
      (\<lambda>_ d. st_then (io ''inspect managed SSH staging file'' (px_fstat P fd d))
        (\<lambda>st d. case validate_regular_stat st (dir_expected_uid dir) mode of
           Ok x \<Rightarrow> (Ok fd, d) | Err e \<Rightarrow> (Err e, d))))
    (\<lambda>fd d'. files d' = (files d)(n \<mapsto> []) \<and> refers d' fd = Some n)
    (\<lambda>d'. elsewhere {n} (files d) (files d'))"
    by (rule post_thenI, unfold post_io, rule quiet_post [OF posix_quiet(3) [OF assms]],
        rule post_thenI, unfold post_io, rule quiet_post [OF posix_quiet(1) [OF assms]])
      (use made in \<open>auto simp: elsewhere_def split: result.splits\<close>)
qed (simp add: elsewhere_def)

lemma write_staged_post:
  assumes "posix_ok P (dir_fd dir) files refers" "refers d fd = Some n" "files d n = Some []"
  shows "post (write_staged P write_action sync_action fd contents d)
    (\<lambda>_ d'. files d' = (files d)(n \<mapsto> contents)) (\<lambda>d'. elsewhere {n} (files d) (files d'))"
  unfolding write_staged_def
  by (rule post_thenI, unfold post_io, rule posix_calls(6) [OF assms(1,2,3)],
      rule post_mono, rule quiet_post [OF posix_quiet(2) [OF assms(1)]])
    (auto simp: elsewhere_def)

lemma staged_post:
  assumes "posix_ok P (dir_fd dir) files refers"
    and "\<And>d'. files d' = (files d)(n \<mapsto> contents) \<Longrightarrow> post (f d') Q E"
    and "\<And>d'. elsewhere {n} (files d) (files d') \<Longrightarrow> E d'"
  shows "post (st_then (create_staging P dir n PUBLIC_MODE d) (\<lambda>fd d.
    st_then (write_staged P write_action sync_action fd contents d) (\<lambda>_ d. f d))) Q E"
proof (rule post_thenI [OF create_staging_post [OF assms(1)]])
  fix fd s
  assume made: "files s = (files d)(n \<mapsto> []) \<and> refers s fd = Some n"
  show "post (st_then (write_staged P write_action sync_action fd contents s) (\<lambda>_ d. f d)) Q E"
    by (rule post_thenI [OF write_staged_post [OF assms(1)]])
      (use made in \<open>auto simp: elsewhere_def intro!: assms(2,3)\<close>)
qed (rule assms(3))

lemma with_staging_post:
  assumes "posix_ok P (dir_fd dir) files refers"
    and "post (steps d) Q (\<lambda>d'. elsewhere {n} (files d) (files d'))"
  shows "post (with_staging P dir n steps d) Q (\<lambda>d'. elsewhere {n} (files d) (files d'))"
proof (cases "steps d")
  case (Pair r d')
  have "post (px_unlinkat P (dir_fd dir) n d')
      (\<lambda>_ d''. files d'' = (files d')(n := None)) (\<lambda>d''. files d'' = files d')"
    by (rule posix_calls(9) [OF assms(1)])
  then have "elsewhere {n} (files d') (files (remove_entry P dir n d'))"
    by (auto simp: post_def remove_entry_def elsewhere_def split: prod.splits result.splits)
  then show ?thesis
    using assms(2) Pair by (cases r) (auto simp: with_staging_def elsewhere_def)
qed

lemma random_name_post:
  assumes "posix_ok P (dir_fd dir) files refers"
  shows "post (random_staging_name P d) (\<lambda>n d'. files d' = files d \<and> hd n = CHR ''.'' \<and> n \<noteq> [])
    (\<lambda>d'. files d' = files d)"
  unfolding random_staging_name_def
  by (rule post_thenI, unfold post_io, rule quiet_post [OF posix_quiet(4) [OF assms]]) auto

lemma sync_directory_post:
  assumes "posix_ok P (dir_fd dir) files refers"
  shows "post (sync_directory P dir d) (\<lambda>_ d'. files d' = files d) (\<lambda>d'. files d' = files d)"
  unfolding sync_directory_def post_io
  by (rule post_mono [OF quiet_post [OF posix_quiet(2) [OF assms]]]) auto


section \<open>Replacement and restoration\<close>

lemma previous_contents_post:
  assumes "posix_ok P (dir_fd dir) files refers"
  shows "post (previous_contents P dir target d)
    (\<lambda>(i, previous) d'. files d' = files d \<and> previous = files d target) (\<lambda>d'. files d' = files d)"
  unfolding previous_contents_def
  by (rule post_thenI [OF metadata_post [OF assms]])
    (auto intro!: post_thenI [OF read_file_post [OF assms]])

lemma require_some_post:
  "post (require_some reason x d) (\<lambda>y d'. x = Some y \<and> d' = d) (\<lambda>d'. d' = d)"
  by (cases x) (simp_all add: require_some_def)

lemma check_point_post: "post (check_point r d) (\<lambda>_ d'. d' = d) (\<lambda>d'. d' = d)"
  by (cases r) (simp_all add: check_point_def)

lemma rename_post:
  assumes "posix_ok P (dir_fd dir) files refers"
  shows "post (rename_new P dir a b d) (\<lambda>_ d'. files d' = (files d)(a := None, b := files d a)) (\<lambda>d'. files d' = files d)"
    "post (rename_replace P dir a b d) (\<lambda>_ d'. files d' = (files d)(a := None, b := files d a)) (\<lambda>d'. files d' = files d)"
  unfolding rename_new_def rename_replace_def post_io by (rule posix_calls(7,8) [OF assms])+

lemma stage_and_rename_post:
  assumes "posix_ok P (dir_fd dir) files refers" "n \<noteq> target"
  shows "post (stage_and_rename P dir target contents before i n d)
    (\<lambda>_ d'. files d' target = Some contents \<and> elsewhere {n, target} (files d) (files d'))
    (\<lambda>d'. elsewhere {n} (files d) (files d'))"
  unfolding stage_and_rename_def
  apply (rule staged_post [OF assms(1)])
   apply (rule post_thenI [OF metadata_post [OF assms(1)]])
    apply (rule post_thenI [OF require_some_post])
     apply (rule post_thenI [OF check_point_post])
      apply (rule post_thenI [OF metadata_post [OF assms(1)]])
       apply (auto simp: elsewhere_def assms(2) split: option.split
         intro!: post_thenI [OF rename_post(1) [OF assms(1)]] post_thenI [OF rename_post(2) [OF assms(1)]])
  done

lemma confirm_published_post:
  assumes "posix_ok P (dir_fd dir) files refers"
  shows "post (confirm_published P dir target at d) (\<lambda>_ d'. files d' = files d) (\<lambda>d'. files d' = files d)"
  unfolding confirm_published_def
  apply (rule post_thenI [OF check_point_post])
   apply (rule post_thenI [OF sync_directory_post [OF assms]])
    apply (rule post_thenI [OF check_point_post])
     apply (rule post_thenI [OF metadata_post [OF assms]])
      apply (rule post_thenI [OF require_some_post])
       apply auto
  done

lemma restore_contents_post:
  assumes "posix_ok P (dir_fd dir) files refers" "n \<noteq> target"
  shows "post (restore_contents P dir target replacement previous n d)
    (\<lambda>_ d'. files d' target = Some previous \<and> elsewhere {n, target} (files d) (files d'))
    (\<lambda>d'. elsewhere {n} (files d) (files d'))"
  unfolding restore_contents_def
  apply (rule staged_post [OF assms(1)])
   apply (rule post_thenI [OF metadata_post [OF assms(1)]])
    apply (rule post_thenI [OF require_some_post])
     apply (rule post_thenI [OF metadata_post [OF assms(1)]])
      apply (auto simp: elsewhere_def assms(2) intro!: post_thenI [OF rename_post(2) [OF assms(1)]])
  done

text \<open>The names of staged files.\<close>

definition staging_names :: "string set" where
  "staging_names = {n. n \<noteq> [] \<and> hd n = CHR ''.''}"

lemma with_staging_elsewhere:
  assumes "posix_ok P (dir_fd dir) files refers" "n \<in> staging_names" "target \<notin> staging_names"
    and "post (steps d) (\<lambda>_ d'. files d' target = Some c \<and> elsewhere {n, target} (files d) (files d'))
      (\<lambda>d'. elsewhere {n} (files d) (files d'))"
  shows "post (with_staging P dir n steps d)
    (\<lambda>_ d'. files d' target = Some c \<and> elsewhere (insert target staging_names) (files d) (files d'))
    (\<lambda>d'. files d' target = files d target \<and> elsewhere (insert target staging_names) (files d) (files d'))"
  by (rule post_mono [OF with_staging_post [where files = files and steps = steps and d = d and n = n, OF assms(1,4)]])
    (use assms(2,3) in \<open>auto simp: elsewhere_def\<close>)

lemma restore_previous_post:
  assumes "posix_ok P (dir_fd dir) files refers" "target \<notin> staging_names"
  shows "post (restore_previous P dir target replacement previous at d)
    (\<lambda>_ d'. files d' target = previous \<and> elsewhere (insert target staging_names) (files d) (files d'))
    (\<lambda>d'. files d' target \<in> {files d target, previous} \<and>
       elsewhere (insert target staging_names) (files d) (files d'))"
proof (cases previous)
  case None
  then show ?thesis
    unfolding restore_previous_def remove_checked_def
    apply (simp only: option.case)
    apply (rule post_thenI [OF check_point_post])
     apply (rule post_thenI [OF metadata_post [OF assms(1)]])
      apply (auto simp: elsewhere_def
        intro!: post_thenI [where r = "io a b" for a b, unfolded post_io, OF posix_calls(9) [OF assms(1)]]
          post_thenI [OF sync_directory_post [OF assms(1)]] post_thenI [OF metadata_post [OF assms(1)]])
    done
next
  case (Some c)
  have name: "n \<in> staging_names \<and> n \<noteq> target" if "hd n = CHR ''.'' \<and> n \<noteq> []" for n
    using that assms(2) by (auto simp: staging_names_def)
  show ?thesis
    unfolding restore_previous_def Some option.case
    apply (rule post_thenI [OF check_point_post])
     apply (rule post_thenI [OF random_name_post [OF assms(1)]])
      apply (rule post_thenI)
        apply (rule with_staging_elsewhere [OF assms(1) _ assms(2)])
         apply (use name in blast)
        apply (rule restore_contents_post [OF assms(1)])
        apply (use name in blast)
       apply (rule post_thenI [OF sync_directory_post [OF assms(1)]])
        apply (rule post_thenI [OF read_file_post [OF assms(1)]])
         apply (auto simp: elsewhere_def split: if_splits)
    done
qed

section \<open>Publication is atomic\<close>

text \<open>What the caller may conclude from the result of a replacement.\<close>

definition published_as ::
  "(unit, ssh_config_commit_error) result \<Rightarrow> string option \<Rightarrow> string \<Rightarrow> string option \<Rightarrow> bool" where
  "published_as r old new now =
     (case r of
        Ok _ \<Rightarrow> now = Some new
      | Err e \<Rightarrow>
          (case e of
             Unpublished _ \<Rightarrow> now = old
           | PublishedButUncertain _ _ \<Rightarrow> now \<in> {old, Some new}))"

lemma replaced_outcome:
  assumes "posix_ok P (dir_fd dir) files refers" "target \<notin> staging_names"
    and "files d1 target = Some contents" "previous = files d target"
    and "elsewhere (insert target staging_names) (files d) (files d1)"
  shows "case (case confirm_published P dir target at d1 of
       (Ok _, d) \<Rightarrow> (Ok (), d)
     | (Err e, d) \<Rightarrow>
         (case restore_previous P dir target replacement previous at d of
            (Ok _, d) \<Rightarrow> (Err (Unpublished e), d)
          | (Err restoration, d) \<Rightarrow> (Err (PublishedButUncertain e restoration), d))) of
     (r, d') \<Rightarrow> published_as r (files d target) contents (files d' target) \<and>
       elsewhere (insert target staging_names) (files d) (files d')"
proof (cases "confirm_published P dir target at d1")
  case (Pair r d2)
  from confirm_published_post [OF assms(1), of target at d1] Pair
  have d2: "files d2 = files d1" by (cases r) simp_all
  from restore_previous_post [OF assms(1,2), of replacement previous at d2]
  show ?thesis
    using assms(3-5) Pair d2
    by (cases r; cases "restore_previous P dir target replacement previous at d2";
        cases "fst (restore_previous P dir target replacement previous at d2)")
      (auto simp: published_as_def elsewhere_def)
qed

lemma unpublished_then:
  assumes "post m Q (\<lambda>d'. now d' = old \<and> I d')"
    and "\<And>x s. Q x s \<Longrightarrow> case f x s of (r, d') \<Rightarrow> published_as r old new (now d') \<and> I d'"
  shows "case st_then (st_map_err Unpublished m) f of (r, d') \<Rightarrow> published_as r old new (now d') \<and> I d'"
  using assms by (cases m; cases "fst m") (auto simp: st_map_err_def published_as_def)

text \<open>C11. Publication of a managed file is atomic whatever call fails: when the replacement
  succeeds the target holds the new contents; when it reports that nothing was published the
  target is exactly as it was before, also if the failure came after the rename; only the explicit
  report of uncertainty leaves open which of the two contents it holds; and no other file of the
  directory except staged names has changed.\<close>

theorem atomic_publication:
  assumes "posix_ok P (dir_fd dir) files refers" "target \<notin> staging_names"
    and "atomic_replace_with_faults P dir target contents before at d = (r, d')"
  shows "published_as r (files d target) contents (files d' target) \<and>
    (\<forall>n. n \<noteq> target \<longrightarrow> n \<notin> staging_names \<longrightarrow> files d' n = files d n)"
proof -
  let ?post = "\<lambda>(r, d'). published_as r (files d target) contents (files d' target) \<and>
    elsewhere (insert target staging_names) (files d) (files d')"
  let ?kept = "\<lambda>d'. files d' target = files d target \<and> elsewhere (insert target staging_names) (files d) (files d')"
  have previous: "post (previous_contents P dir target d)
      (\<lambda>x s. files s = files d \<and> snd x = files d target) ?kept"
    by (rule post_mono [OF previous_contents_post [OF assms(1)]]) auto
  have name: "post (random_staging_name P s) (\<lambda>n s. files s = files d \<and> n \<in> staging_names \<and> n \<noteq> target) ?kept"
    if "files s = files d" for s
    by (rule post_mono [OF random_name_post [OF assms(1)]]) (use that assms(2) in \<open>auto simp: staging_names_def\<close>)
  have staged: "post (with_staging P dir n (stage_and_rename P dir target contents before i n) s)
      (\<lambda>_ s. files s target = Some contents \<and> elsewhere (insert target staging_names) (files d) (files s)) ?kept"
    if "files s = files d" "n \<in> staging_names" "n \<noteq> target" for n i s
    using with_staging_elsewhere [where steps = "stage_and_rename P dir target contents before i n" and d = s,
        OF assms(1) that(2) assms(2) stage_and_rename_post [OF assms(1) that(3)]]
    by (simp add: that(1))
  have "?post (atomic_replace_with_faults P dir target contents before at d)"
  proof (cases "maximum_managed_file_bytes < length contents")
    case True
    then show ?thesis by (simp add: atomic_replace_with_faults_def published_as_def)
  next
    case False
    then have small: "(maximum_managed_file_bytes < length contents) = False" by simp
    show ?thesis
      unfolding atomic_replace_with_faults_def small if_False
    proof (rule unpublished_then [OF previous])
      fix x :: "file_identity option \<times> string option" and s
      assume x: "files s = files d \<and> snd x = files d target"
      obtain i p where [simp]: "x = (i, p)" by (cases x)
      show "?post ((\<lambda>(previous_identity, previous) d.
          st_then (st_map_err Unpublished (random_staging_name P d)) (\<lambda>staging d.
          st_then (st_map_err Unpublished (with_staging P dir staging
             (stage_and_rename P dir target contents before previous_identity staging) d)) (\<lambda>replacement d.
          case confirm_published P dir target at d of
            (Ok _, d) \<Rightarrow> (Ok (), d)
          | (Err e, d) \<Rightarrow>
              (case restore_previous P dir target replacement previous at d of
                 (Ok _, d) \<Rightarrow> (Err (Unpublished e), d)
               | (Err restoration, d) \<Rightarrow> (Err (PublishedButUncertain e restoration), d))))) x s)"
        unfolding \<open>x = (i, p)\<close> prod.case
        by (rule unpublished_then [OF name], use x in blast, elim conjE,
            rule unpublished_then [OF staged], assumption+, elim conjE,
            rule replaced_outcome [OF assms(1,2)], assumption, use x in simp, assumption)
    qed
  qed
  with assms(3) show ?thesis by (auto simp: elsewhere_def)
qed

section \<open>A directory that satisfies what is relied on\<close>

record table =
  tb_files :: "string \<Rightarrow> string option"
  tb_opened :: "fd \<Rightarrow> string option"

definition table_stat :: file_stat where
  "table_stat = \<lparr> fs_type = RegularFile, fs_mode = PUBLIC_MODE, fs_uid = 501, fs_nlink = 1, fs_dev = 1, fs_ino = 7 \<rparr>"

definition refused :: "'s \<Rightarrow> ('a, errno, 's) stateful" where
  "refused d = (Err (OtherErrno ''not permitted''), d)"

definition table_rename :: "string \<Rightarrow> string \<Rightarrow> table \<Rightarrow> (unit, errno, table) stateful" where
  "table_rename a b d =
     (if tb_files d a = None then (Err NOENT, d)
      else (Ok (), d \<lparr> tb_files := (tb_files d)(a := None, b := tb_files d a) \<rparr>))"

definition table_opened_file :: "fd \<Rightarrow> table \<Rightarrow> (string \<times> string) option" where
  "table_opened_file fd d =
     Option.bind (tb_opened d fd) (\<lambda>n. map_option (Pair n) (tb_files d n))"

definition table_posix :: "table posix" where
  "table_posix = \<lparr>
     px_open_root = refused, px_openat_dir = (\<lambda>_ _. refused), px_mkdirat = (\<lambda>_ _ _. refused),
     px_fchmod = (\<lambda>_ _ d. (Ok (), d)), px_fstat = (\<lambda>_ d. (Ok table_stat, d)), px_flock = (\<lambda>_ d. (Ok (), d)),
     px_statat = (\<lambda>_ n d. (if tb_files d n = None then Err NOENT else Ok table_stat, d)),
     px_openat = (\<lambda>_ n d. if tb_files d n = None then (Err NOENT, d)
        else (Ok 3, d \<lparr> tb_opened := (tb_opened d)(3 \<mapsto> n) \<rparr>)),
     px_read = (\<lambda>fd k d. (case table_opened_file fd d of None \<Rightarrow> Err (OtherErrno ''bad descriptor'')
        | Some (_, c) \<Rightarrow> Ok (take k c), d)),
     px_read_dir = (\<lambda>_. refused),
     px_create = (\<lambda>_ n _ d. if tb_files d n \<noteq> None then (Err (OtherErrno ''exists''), d)
        else (Ok 4, d \<lparr> tb_files := (tb_files d)(n \<mapsto> []), tb_opened := (tb_opened d)(4 \<mapsto> n) \<rparr>)),
     px_write = (\<lambda>fd b d. case table_opened_file fd d of None \<Rightarrow> (Err (OtherErrno ''bad descriptor''), d)
        | Some (n, c) \<Rightarrow> (Ok (), d \<lparr> tb_files := (tb_files d)(n \<mapsto> c @ b) \<rparr>)),
     px_fsync = (\<lambda>_ d. (Ok (), d)),
     px_renameat_new = (\<lambda>_ a b d. if tb_files d b \<noteq> None then (Err (OtherErrno ''exists''), d) else table_rename a b d),
     px_renameat = (\<lambda>_. table_rename),
     px_unlinkat = (\<lambda>_ n d. if tb_files d n = None then (Err NOENT, d)
        else (Ok (), d \<lparr> tb_files := (tb_files d)(n := None) \<rparr>)),
     px_random_name = (\<lambda>d. (Ok ''s'', d)) \<rparr>"

lemma table_posix_ok: "posix_ok table_posix f tb_files tb_opened"
  unfolding posix_ok_def quiet_def
  by (intro conjI allI impI)
    (auto simp: table_posix_def table_rename_def table_opened_file_def split: option.splits if_splits)

definition table_dir :: state_directory where
  "table_dir = \<lparr> dir_fd = 5, dir_expected_uid = 501, dir_path = ''/ssh'' \<rparr>"

definition old_table :: table where
  "old_table = \<lparr> tb_files = [CONFIG_NAME \<mapsto> ''old'', ''identity_ed25519'' \<mapsto> ''key''], tb_opened = Map.empty \<rparr>"

definition table_replace :: "ssh_config_commit_fault option \<Rightarrow> (unit, ssh_config_commit_error, table) stateful" where
  "table_replace fault =
     atomic_replace_with_faults table_posix table_dir CONFIG_NAME ''new'' (Ok ()) (fault_points fault) old_table"

lemma table_replace_results:
  "fst (table_replace None) = Ok ()"
  "fst (table_replace (Some AfterRename)) =
     Err (Unpublished (SshInvalidState ''injected post-rename config publication failure''))"
  by code_simp+

theorem atomic_publication_witness:
  "tb_files (snd (table_replace None)) CONFIG_NAME = Some ''new'' \<and>
   tb_files (snd (table_replace (Some AfterRename))) CONFIG_NAME = Some ''old'' \<and>
   tb_files (snd (table_replace (Some AfterRename))) ''identity_ed25519'' = Some ''key''"
proof -
  have names: "CONFIG_NAME \<notin> staging_names" "''identity_ed25519'' \<notin> staging_names"
    "''identity_ed25519'' \<noteq> CONFIG_NAME"
    by (simp_all add: staging_names_def CONFIG_NAME_def)
  have outcome: "published_as (fst (table_replace fault)) (tb_files old_table CONFIG_NAME) ''new''
      (tb_files (snd (table_replace fault)) CONFIG_NAME) \<and>
    (\<forall>n. n \<noteq> CONFIG_NAME \<longrightarrow> n \<notin> staging_names \<longrightarrow>
       tb_files (snd (table_replace fault)) n = tb_files old_table n)" for fault
    by (rule atomic_publication [OF table_posix_ok names(1)]) (simp add: table_replace_def)
  from outcome [of None] outcome [of "Some AfterRename"] show ?thesis
    using names by (simp add: table_replace_results published_as_def old_table_def)
qed

end
