(* ===== verification/Service.thy ===== *)
theory Service
  imports Ssh_Manager
begin

text \<open>
  The lifecycle service (\<open>gascand/src/service.rs\<close>), first part: the service and the world it
  acts on, its calls to the store, the runtime and the SSH manager, the events of an operation,
  and the operations that start, stop and destroy a sandbox.

  A method of \<open>SandboxService\<close> is a function from the world to a result and the world it leaves.
  \<open>Panic\<close> is the outcome of a task that unwinds, which no handler of the service catches.  The
  world holds the database and whether its mutex is poisoned, the runtime backend, the host, the
  number of database calls so far (each reads the clock and may meet a failure of its commit),
  the events offered to the receiver of the operation and the operations announced to the caller.
  Operations on one sandbox are serialised by its keyed lock, so a method runs to its end.
\<close>

section \<open>The service and its world\<close>

record provision_resolution =
  pn_setup :: "json option"
  pn_tools :: "json option"

record ('b, 'd) service =
  sv_runtime :: "'b backend"
  sv_codec :: json_codec
  sv_clock :: "nat \<Rightarrow> clock"
  sv_fault :: "nat \<Rightarrow> string option"
  sv_worker :: string
  sv_display :: display
  sv_b64 :: "string \<Rightarrow> string option"
  sv_sha256 :: digest
  sv_planner :: "'b \<times> 'd \<Rightarrow> planner"
  sv_to_toml :: "tool_map \<Rightarrow> (string, string) result"
  sv_inventory :: "string \<Rightarrow> (string \<times> mise_tool_record list) list option"
  sv_provision :: "sandbox_spec \<Rightarrow> create_request \<Rightarrow> 'b \<times> 'd \<Rightarrow> (provision_resolution, service_error, 'b \<times> 'd) stateful"
  sv_health_check :: "sandbox_id \<Rightarrow> 'b \<times> 'd \<Rightarrow> (unit, service_error, 'b \<times> 'd) stateful"
  sv_workspace_image :: "string option"
  sv_ssh_paths :: "(ssh_paths, ssh_error) result"
  sv_ssh :: "'d ssh_env"
  sv_commit_fault :: "ssh_config_commit_fault option"

record ('b, 'd) world =
  w_db :: database
  w_poisoned :: bool
  w_calls :: nat
  w_runtime :: 'b
  w_host :: 'd
  w_sent :: "operation_event list"
  w_started :: "operation_id list"

type_synonym ('a, 'b, 'd) svc =
  "('b, 'd) world \<Rightarrow> ('a, service_error raised, ('b, 'd) world) stateful"

definition sv_return :: "'a \<Rightarrow> ('a, 'b, 'd) svc" where
  "sv_return x w = (Ok x, w)"

definition sv_throw :: "service_error \<Rightarrow> ('a, 'b, 'd) svc" where
  "sv_throw e w = (Err (Raised e), w)"

definition sv_then :: "('a, 'b, 'd) svc \<Rightarrow> ('a \<Rightarrow> ('c, 'b, 'd) svc) \<Rightarrow> ('c, 'b, 'd) svc" where
  "sv_then m f w = st_then (m w) f"

definition sv_result :: "('a, service_error) result \<Rightarrow> ('a, 'b, 'd) svc" where
  "sv_result r w = (map_err Raised r, w)"

definition sv_when :: "bool \<Rightarrow> (unit, 'b, 'd) svc \<Rightarrow> (unit, 'b, 'd) svc" where
  "sv_when b m = (if b then m else sv_return ())"

definition sv_map_err :: "(service_error \<Rightarrow> service_error) \<Rightarrow> ('a, 'b, 'd) svc \<Rightarrow> ('a, 'b, 'd) svc" where
  "sv_map_err f m w = st_map_err (map_raised f) (m w)"

text \<open>A \<open>match\<close> on the result of an awaited call: the error is a value, a panic is not.\<close>

definition sv_attempt ::
  "('a, 'b, 'd) svc \<Rightarrow> (('a, service_error) result \<Rightarrow> ('c, 'b, 'd) svc) \<Rightarrow> ('c, 'b, 'd) svc" where
  "sv_attempt m f w =
     (case m w of
        (Ok x, w) \<Rightarrow> f (Ok x) w
      | (Err (Raised e), w) \<Rightarrow> f (Err e) w
      | (Err Panic, w) \<Rightarrow> (Err Panic, w))"

section \<open>Calls\<close>

text \<open>\<open>checked\<close> is the validation a method of the store does before it takes the mutex.  A
  panic of the worker is reported as the error of its join handle and leaves the mutex poisoned.\<close>

definition database ::
  "('b, 'd) service \<Rightarrow> (unit, store_error) result \<Rightarrow>
     (clock \<Rightarrow> string option \<Rightarrow> database \<Rightarrow> ('a, store_error, database) stateful) \<Rightarrow> ('a, 'b, 'd) svc" where
  "database S checked action w =
     (let k = w_calls w; w = w \<lparr> w_calls := Suc k \<rparr> in
      case checked of
        Err e \<Rightarrow> (Err (Raised (StoreFailure e)), w)
      | Ok _ \<Rightarrow>
          if w_poisoned w then (Err (Raised (StoreFailure LockPoisoned)), w)
          else (case action (sv_clock S k) (sv_fault S k) (w_db w) of
                  (Ok x, db) \<Rightarrow> (Ok x, w \<lparr> w_db := db \<rparr>)
                | (Err e, db) \<Rightarrow>
                    if e = StorePanicked then
                      (Err (Raised (DatabaseWorker (sv_worker S))), w \<lparr> w_db := db, w_poisoned := True \<rparr>)
                    else (Err (Raised (StoreFailure e)), w \<lparr> w_db := db \<rparr>)))"

definition db_read ::
  "('b, 'd) service \<Rightarrow> (database \<Rightarrow> ('a, store_error) result) \<Rightarrow> ('a, 'b, 'd) svc" where
  "db_read S f = database S (Ok ()) (\<lambda>_ _ db. (f db, db))"

definition runtime_call ::
  "('e \<Rightarrow> service_error) \<Rightarrow> ('b \<Rightarrow> ('a, 'e, 'b) stateful) \<Rightarrow> ('a, 'b, 'd) svc" where
  "runtime_call wrap f w =
     (case f (w_runtime w) of (r, b) \<Rightarrow> (map_err (\<lambda>e. Raised (wrap e)) r, w \<lparr> w_runtime := b \<rparr>))"

definition host_call ::
  "('d \<Rightarrow> ('a, service_error raised, 'd) stateful) \<Rightarrow> ('a, 'b, 'd) svc" where
  "host_call f w = (case f (w_host w) of (r, d) \<Rightarrow> (r, w \<lparr> w_host := d \<rparr>))"

definition manager_call ::
  "('b \<times> 'd \<Rightarrow> ('a, service_error raised, 'b \<times> 'd) stateful) \<Rightarrow> ('a, 'b, 'd) svc" where
  "manager_call f w =
     (case f (w_runtime w, w_host w) of (r, b, d) \<Rightarrow> (r, w \<lparr> w_runtime := b, w_host := d \<rparr>))"

abbreviation inspect :: "('b, 'd) service \<Rightarrow> sandbox_id \<Rightarrow> (runtime_sandbox option, 'b, 'd) svc" where
  "inspect S i \<equiv> runtime_call RuntimeFailure (bk_inspect (sv_runtime S) i)"

abbreviation runtime_start :: "('b, 'd) service \<Rightarrow> sandbox_id \<Rightarrow> (unit, 'b, 'd) svc" where
  "runtime_start S i \<equiv> runtime_call RuntimeFailure (bk_start (sv_runtime S) i)"

abbreviation runtime_stop :: "('b, 'd) service \<Rightarrow> sandbox_id \<Rightarrow> (unit, 'b, 'd) svc" where
  "runtime_stop S i \<equiv> runtime_call RuntimeFailure (bk_stop (sv_runtime S) i)"

abbreviation list_resources :: "('b, 'd) service \<Rightarrow> (runtime_resource list, 'b, 'd) svc" where
  "list_resources S \<equiv> runtime_call RuntimeFailure (bk_list_resources (sv_runtime S))"

text \<open>\<open>runtime.remove(RemoveRequest::from_resources(resources)?)\<close>.\<close>

definition remove_resources :: "('b, 'd) service \<Rightarrow> runtime_resource list \<Rightarrow> (unit, 'b, 'd) svc" where
  "remove_resources S resources =
     sv_then (sv_result (map_err RuntimeFailure (remove_from_resources resources))) (\<lambda>request.
     runtime_call RuntimeFailure (bk_remove (sv_runtime S) request))"

definition runtime_capabilities :: "('b, 'd) service \<Rightarrow> (runtime_capabilities, 'b, 'd) svc" where
  "runtime_capabilities S = runtime_call RuntimeFailure (bk_capabilities (sv_runtime S))"

definition sandbox_of :: "('b, 'd) service \<Rightarrow> sandbox_id \<Rightarrow> (sandbox_record option, 'b, 'd) svc" where
  "sandbox_of S i = db_read S (get_sandbox (sv_codec S) i)"

definition existing_sandbox :: "('b, 'd) service \<Rightarrow> sandbox_id \<Rightarrow> (sandbox_record, 'b, 'd) svc" where
  "existing_sandbox S i = sv_then (sandbox_of S i) (\<lambda>record'. sv_result (ok_or (Missing i) record'))"

definition transport_of :: "('b, 'd) service \<Rightarrow> sandbox_id \<Rightarrow> (ssh_transport_policy option, 'b, 'd) svc" where
  "transport_of S i = db_read S (ssh_transport_policy_of i)"

definition db_begin ::
  "('b, 'd) service \<Rightarrow> sandbox_record \<Rightarrow> operation_kind \<Rightarrow> (operation_record, 'b, 'd) svc" where
  "db_begin S r kind =
     database S (validate_resolutions r) (\<lambda>clock fault. begin_operation (sv_codec S) clock fault r kind)"

definition db_put :: "('b, 'd) service \<Rightarrow> sandbox_record \<Rightarrow> (unit, 'b, 'd) svc" where
  "db_put S r = database S (validate_resolutions r) (\<lambda>clock fault. put_sandbox (sv_codec S) clock fault r)"

definition db_put_with_transport ::
  "('b, 'd) service \<Rightarrow> sandbox_record \<Rightarrow> ssh_transport_policy option \<Rightarrow> (unit, 'b, 'd) svc" where
  "db_put_with_transport S r policy =
     database S (validate_resolutions r)
       (\<lambda>clock fault. put_sandbox_with_ssh_transport (sv_codec S) clock fault r policy)"

definition db_complete ::
  "('b, 'd) service \<Rightarrow> operation_id \<Rightarrow> actual_state \<Rightarrow> (operation_record \<times> operation_event, 'b, 'd) svc" where
  "db_complete S i actual =
     database S (Ok ()) (\<lambda>clock fault. complete_operation (sv_codec S) clock fault i actual)"

definition db_fail ::
  "('b, 'd) service \<Rightarrow> operation_id \<Rightarrow> actual_state \<Rightarrow> string \<Rightarrow> json \<Rightarrow>
     (operation_record \<times> operation_event, 'b, 'd) svc" where
  "db_fail S i actual code details =
     database S (Ok ()) (\<lambda>clock fault. fail_operation (sv_codec S) clock fault i actual code details)"

definition db_complete_destroy ::
  "('b, 'd) service \<Rightarrow> operation_id \<Rightarrow> (operation_record \<times> operation_event, 'b, 'd) svc" where
  "db_complete_destroy S i =
     database S (Ok ()) (\<lambda>clock fault. complete_destroy_operation (sv_codec S) clock fault i)"

definition db_fail_create ::
  "('b, 'd) service \<Rightarrow> operation_id \<Rightarrow> string \<Rightarrow> json \<Rightarrow> (operation_record \<times> operation_event, 'b, 'd) svc" where
  "db_fail_create S i code details =
     database S (Ok ())
       (\<lambda>clock fault. fail_create_operation_clearing_ssh (sv_codec S) clock fault i code details)"

definition db_append :: "('b, 'd) service \<Rightarrow> operation_id \<Rightarrow> json \<Rightarrow> (operation_event, 'b, 'd) svc" where
  "db_append S i details =
     database S (Ok ()) (\<lambda>clock fault. append_operation_event (sv_codec S) clock fault i details)"

definition db_set_ssh_resolution ::
  "('b, 'd) service \<Rightarrow> sandbox_id \<Rightarrow> resolution option \<Rightarrow> (unit, 'b, 'd) svc" where
  "db_set_ssh_resolution S i v =
     database S (case v of None \<Rightarrow> Ok () | Some v \<Rightarrow> validate_ssh_resolution v)
       (\<lambda>clock fault. set_ssh_resolution (sv_codec S) clock fault i v)"

section \<open>Events of an operation\<close>

text \<open>\<open>try_send\<close>, whose result every caller drops.\<close>

definition send_event :: "operation_event \<Rightarrow> (unit, 'b, 'd) svc" where
  "send_event event w = (Ok (), w \<lparr> w_sent := w_sent w @ [event] \<rparr>)"

definition emit :: "('b, 'd) service \<Rightarrow> operation_id \<Rightarrow> json \<Rightarrow> (unit, 'b, 'd) svc" where
  "emit S i details =
     sv_then (db_append S i details) send_event"

definition events_of :: "('b, 'd) service \<Rightarrow> operation_id \<Rightarrow> (operation_event list, 'b, 'd) svc" where
  "events_of S i = db_read S (operation_events (sv_codec S) i)"

definition send_initial :: "('b, 'd) service \<Rightarrow> operation_id \<Rightarrow> (unit, 'b, 'd) svc" where
  "send_initial S i =
     sv_then (events_of S i) (\<lambda>events. if events = [] then sv_return () else send_event (hd events))"

definition send_terminal :: "('b, 'd) service \<Rightarrow> operation_id \<Rightarrow> (unit, 'b, 'd) svc" where
  "send_terminal S i =
     sv_then (events_of S i) (\<lambda>events. if events = [] then sv_return () else send_event (last events))"

primrec actual_of_container :: "container_state \<Rightarrow> actual_state" where
  "actual_of_container Creating = ActualCreating"
| "actual_of_container Running = ActualRunning"
| "actual_of_container Stopped = ActualStopped"

definition runtime_actual ::
  "('b, 'd) service \<Rightarrow> sandbox_id \<Rightarrow> actual_state \<Rightarrow> (actual_state, 'b, 'd) svc" where
  "runtime_actual S i fallback =
     sv_attempt (inspect S i) (\<lambda>r.
     sv_return (case r of Ok (Some sb) \<Rightarrow> actual_of_container (rs_state sb) | _ \<Rightarrow> fallback))"

definition initialize_operation ::
  "('b, 'd) service \<Rightarrow> operation_id \<Rightarrow> sandbox_id \<Rightarrow> actual_state \<Rightarrow> (unit, 'b, 'd) svc" where
  "initialize_operation S operation i fallback =
     sv_attempt (send_initial S operation) (\<lambda>r.
     case r of
       Ok _ \<Rightarrow> sv_return ()
     | Err error \<Rightarrow>
         sv_then (runtime_actual S i fallback) (\<lambda>actual.
         sv_attempt (db_fail S operation actual (service_error_code error)
           (JObject [(''message'', JString (sv_display S error)), (''phase'', JString ''initial_event'')]))
           (\<lambda>_. sv_throw error)))"

text \<open>The operation goes to the starter, if there is one, and otherwise to the caller.\<close>

definition publish_operation :: "bool \<Rightarrow> operation_id \<Rightarrow> (operation_id option, 'b, 'd) svc" where
  "publish_operation started i w =
     (if started then (Ok None, w \<lparr> w_started := w_started w @ [i] \<rparr>) else (Ok (Some i), w))"

text \<open>What a handler does with an error it has already met: record the failed operation and send
  its last event, and return the error; an error in between replaces it.\<close>

definition fail_with ::
  "('b, 'd) service \<Rightarrow> operation_id \<Rightarrow> actual_state \<Rightarrow> json \<Rightarrow> service_error \<Rightarrow> ('a, 'b, 'd) svc" where
  "fail_with S operation actual details error =
     sv_then (db_fail S operation actual (service_error_code error) details) (\<lambda>_.
     sv_then (send_terminal S operation) (\<lambda>_. sv_throw error))"

definition message_details :: "('b, 'd) service \<Rightarrow> service_error \<Rightarrow> json" where
  "message_details S error = JObject [(''message'', JString (sv_display S error))]"

section \<open>SSH\<close>

definition service_ssh_paths :: "('b, 'd) service \<Rightarrow> (ssh_paths, service_error) result" where
  "service_ssh_paths S = map_err SshConfigUnsafe (sv_ssh_paths S)"

definition service_workspace_image :: "('b, 'd) service \<Rightarrow> string" where
  "service_workspace_image S = (case sv_workspace_image S of Some img \<Rightarrow> img | None \<Rightarrow> WORKSPACE_IMAGE)"

definition service_compile_policy ::
  "('b, 'd) service \<Rightarrow> sandbox_spec \<Rightarrow> runtime_capabilities \<Rightarrow> prepared_ssh_create option \<Rightarrow>
     (create_request, policy_error) result" where
  "service_compile_policy S spec capabilities ssh =
     (case ssh of
        Some ssh \<Rightarrow>
          compile_for_image_with_control_plane (sv_b64 S) spec capabilities (service_workspace_image S)
            (control_plane ssh)
      | None \<Rightarrow> compile_for_image (sv_b64 S) spec capabilities (service_workspace_image S))"

definition prepare_ssh_create ::
  "('b, 'd) service \<Rightarrow> sandbox_spec \<Rightarrow> (prepared_ssh_create option, 'b, 'd) svc" where
  "prepare_ssh_create S spec =
     (if \<not> ssh_enabled (m_ssh (spec_manifest spec)) then sv_return None
      else
        sv_then (sv_result (service_ssh_paths S)) (\<lambda>paths.
        host_call (\<lambda>d. lift_raised (prepare_create_for_paths (sv_ssh S) spec paths d))))"

definition prepare_ssh_activation ::
  "('b, 'd) service \<Rightarrow> sandbox_id \<Rightarrow> resolution option \<Rightarrow> (prepared_activation option, 'b, 'd) svc" where
  "prepare_ssh_activation S i expected =
     sv_then (sv_result (service_ssh_paths S)) (\<lambda>paths.
     manager_call (prepare_activation_for_paths (sv_runtime S) (sv_ssh S) i expected paths))"

definition deactivate_ssh :: "('b, 'd) service \<Rightarrow> sandbox_id \<Rightarrow> (unit, 'b, 'd) svc" where
  "deactivate_ssh S i =
     sv_then (sv_result (service_ssh_paths S)) (\<lambda>paths.
     host_call (deactivate_for_paths (sv_ssh S) i paths))"

definition commit_activation ::
  "('b, 'd) service \<Rightarrow> prepared_activation \<Rightarrow> ssh_config_commit_fault option \<Rightarrow> (active_ssh, 'b, 'd) svc" where
  "commit_activation S a fault =
     sv_then (sv_result (service_ssh_paths S)) (\<lambda>paths.
     host_call (\<lambda>d. lift_raised (commit_with_fault (sv_ssh S) paths a fault d)))"

definition restore_prior_ssh_resolution ::
  "('b, 'd) service \<Rightarrow> sandbox_id \<Rightarrow> resolution option \<Rightarrow> service_error \<Rightarrow> ('a, 'b, 'd) svc" where
  "restore_prior_ssh_resolution S i prior original =
     sv_attempt (db_set_ssh_resolution S i prior) (\<lambda>r.
     case r of
       Ok _ \<Rightarrow> sv_throw original
     | Err reporting \<Rightarrow> sv_throw (FailureReporting original reporting))"

definition ssh_phase :: "string \<Rightarrow> resolution \<Rightarrow> json" where
  "ssh_phase name v =
     JObject [(''phase'', JString name), (''resolution_version'', JNumber (uint (res_version v)))]"

definition activate_and_persist_ssh ::
  "('b, 'd) service \<Rightarrow> sandbox_id \<Rightarrow> resolution option \<Rightarrow> operation_id option \<Rightarrow>
     (resolution, 'b, 'd) svc" where
  "activate_and_persist_ssh S i prior publication =
     (let expected = (if ssh_resolution_enabled prior then prior else None) in
      sv_then (prepare_ssh_activation S i expected) (\<lambda>prepared.
      sv_then (sv_result (ok_or (ssh_not_ready ''enabled SSH did not produce activation evidence'') prepared))
        (\<lambda>prepared.
      let resolution = activation_resolution prepared in
      sv_then (db_set_ssh_resolution S i (Some resolution)) (\<lambda>_.
      sv_attempt (case publication of
            None \<Rightarrow> sv_return ()
          | Some operation \<Rightarrow> emit S operation (ssh_phase ''before_ssh_publication'' resolution)) (\<lambda>r.
      case r of
        Err original \<Rightarrow> restore_prior_ssh_resolution S i prior original
      | Ok _ \<Rightarrow>
          sv_attempt (commit_activation S prepared (sv_commit_fault S)) (\<lambda>committed.
          case committed of
            Ok _ \<Rightarrow> sv_return resolution
          | Err original \<Rightarrow>
              if is_ssh_publication_uncertain original then sv_throw original
              else restore_prior_ssh_resolution S i prior original))))))"

definition owned_sandbox :: "sandbox_id \<Rightarrow> runtime_sandbox \<Rightarrow> bool" where
  "owned_sandbox i sb \<longleftrightarrow>
     om_managed_by (rs_ownership sb) = ''gascan'' \<and> om_sandbox_id (rs_ownership sb) = i"

definition existing_runtime :: "('b, 'd) service \<Rightarrow> sandbox_id \<Rightarrow> (runtime_sandbox, 'b, 'd) svc" where
  "existing_runtime S i = sv_then (inspect S i) (\<lambda>sb. sv_result (ok_or (Missing i) sb))"

definition preflight_recovered_ssh_mapping :: "('b, 'd) service \<Rightarrow> sandbox_id \<Rightarrow> (unit, 'b, 'd) svc" where
  "preflight_recovered_ssh_mapping S i =
     sv_then (existing_runtime S i) (\<lambda>sb.
     if \<not> owned_sandbox i sb then sv_throw (Ownership i)
     else if rs_state sb \<noteq> Running then
       sv_throw (ssh_not_ready ''SSH recovery requires a running sandbox'')
     else
       sv_then (sv_result (inspected_native_ssh_port sb)) (\<lambda>port.
       sv_then (transport_of S i) (\<lambda>policy.
       sv_result (validate_inspected_ssh_policy policy port))))"

text \<open>The publication every enabled and running sandbox must have, in the order of the records.\<close>

fun expected_publication ::
  "('b, 'd) service \<Rightarrow> sandbox_record list \<Rightarrow> (sandbox_id \<times> resolution \<times> u16 option) list \<Rightarrow>
     ((sandbox_id \<times> resolution \<times> u16 option) list, 'b, 'd) svc" where
  "expected_publication S [] expected = sv_return expected"
| "expected_publication S (r # records) expected =
     (if \<not> ssh_resolution_enabled (sd_ssh r) then expected_publication S records expected
      else
        sv_then (inspect S (sd_id r)) (\<lambda>sb.
        case sb of
          None \<Rightarrow> expected_publication S records expected
        | Some sb \<Rightarrow>
            if \<not> owned_sandbox (sd_id r) sb then sv_throw (Ownership (sd_id r))
            else if rs_state sb \<noteq> Running then expected_publication S records expected
            else
              sv_then (sv_result (inspected_native_ssh_port sb)) (\<lambda>port.
              sv_then (transport_of S (sd_id r)) (\<lambda>policy.
              sv_then (sv_result (validate_inspected_ssh_policy policy port)) (\<lambda>_.
              sv_then (sv_result (ok_or (ssh_not_ready ''durable SSH resolution is missing'') (sd_ssh r)))
                (\<lambda>resolution.
              expected_publication S records (expected @ [(sd_id r, resolution, Some port)])))))))"

definition verify_exact_ssh_publication :: "('b, 'd) service \<Rightarrow> (unit, 'b, 'd) svc" where
  "verify_exact_ssh_publication S =
     sv_then (sv_result (service_ssh_paths S)) (\<lambda>paths.
     sv_then (db_read S (list_sandboxes (sv_codec S))) (\<lambda>records.
     sv_then (expected_publication S records []) (\<lambda>expected.
     sv_then (host_call (published_snapshot_for_paths (sv_ssh S) paths)) (\<lambda>snapshot.
     sv_result (snapshot_validate_exact snapshot expected)))))"

definition mark_ssh_publication ::
  "('b, 'd) service \<Rightarrow> operation_id \<Rightarrow> resolution \<Rightarrow> (unit, 'b, 'd) svc" where
  "mark_ssh_publication S operation v =
     sv_map_err SshPublicationUncertain (emit S operation (ssh_phase ''after_ssh_publication'' v))"

definition disable_and_persist_ssh ::
  "('b, 'd) service \<Rightarrow> sandbox_id \<Rightarrow> resolution option \<Rightarrow> (resolution, 'b, 'd) svc" where
  "disable_and_persist_ssh S i prior =
     sv_then (sv_when (ssh_resolution_enabled prior) (deactivate_ssh S i)) (\<lambda>_.
     sv_then (db_set_ssh_resolution S i (Some disabled_resolution)) (\<lambda>_.
     sv_return disabled_resolution))"

definition rollback_create_for_inspected_transport ::
  "('b, 'd) service \<Rightarrow> create_request \<Rightarrow> runtime_sandbox \<Rightarrow> ssh_transport_policy option \<Rightarrow>
     (create_request, 'b, 'd) svc" where
  "rollback_create_for_inspected_transport S create sb prior_policy =
     (let mappings = filter (\<lambda>m. rp_guest_port m = 22) (rs_ports sb);
          not_observable = sv_throw (ssh_not_ready ''prior native SSH transport is not uniquely observable'');
          restore = (\<lambda>control. sv_result (map_err PolicyFailure (restore_ssh_transport (sv_b64 S) create control)))
      in
      if mappings = [] \<and> \<not> (case prior_policy of None \<Rightarrow> False | Some p \<Rightarrow> tp_enabled p) then restore None
      else
        case mappings of
          [m] \<Rightarrow>
            if \<not> is_loopback (rp_host_address m) \<or> rp_host_port m < 1024 then not_observable
            else
              sv_then (sv_result (service_ssh_paths S)) (\<lambda>paths.
              sv_then (host_call (\<lambda>d. lift_raised (host_identity_of (sv_ssh S) paths d))) (\<lambda>identity.
              restore (Some \<lparr> cp_ssh_authorized_key = Some (hi_public_key identity),
                cp_ssh_host_port = Some (rp_host_port m) \<rparr>)))
        | _ \<Rightarrow> not_observable)"

definition restore_prior_ssh ::
  "('b, 'd) service \<Rightarrow> sandbox_id \<Rightarrow> bool \<Rightarrow> resolution option \<Rightarrow> (resolution, 'b, 'd) svc" where
  "restore_prior_ssh S i enabled prior =
     (if enabled then activate_and_persist_ssh S i prior None
      else
        sv_then (deactivate_ssh S i) (\<lambda>_.
        let resolution = (case prior of
              Some v \<Rightarrow> if ssh_resolution_enabled (Some v) then disabled_resolution else v
            | None \<Rightarrow> disabled_resolution)
        in
        sv_then (db_set_ssh_resolution S i (Some resolution)) (\<lambda>_. sv_return resolution)))"

section \<open>Requests on a running sandbox\<close>

definition require_owned :: "('b, 'd) service \<Rightarrow> sandbox_id \<Rightarrow> (runtime_sandbox, 'b, 'd) svc" where
  "require_owned S i =
     sv_then (existing_runtime S i) (\<lambda>sb.
     if \<not> owned_sandbox i sb then sv_throw (RuntimeFailure (OwnershipMismatch (as_str i)))
     else sv_return sb)"

definition require_owned_running :: "('b, 'd) service \<Rightarrow> sandbox_id \<Rightarrow> (unit, 'b, 'd) svc" where
  "require_owned_running S i =
     sv_then (require_owned S i) (\<lambda>sb.
     if rs_state sb \<noteq> Running then
       sv_throw (RuntimeFailure (InvalidState (as_str i) ''exec requires a running sandbox''))
     else sv_return ())"

definition service_exec :: "('b, 'd) service \<Rightarrow> exec_request \<Rightarrow> (exec_stream, 'b, 'd) svc" where
  "service_exec S request =
     sv_then (require_owned_running S (ex_id request)) (\<lambda>_.
     runtime_call RuntimeFailure (bk_exec (sv_runtime S) request))"

definition service_logs :: "('b, 'd) service \<Rightarrow> sandbox_id \<Rightarrow> int option \<Rightarrow> (string, 'b, 'd) svc" where
  "service_logs S i since_millis =
     sv_then (require_owned S i) (\<lambda>_.
     runtime_call RuntimeFailure (bk_logs (sv_runtime S) i since_millis))"

section \<open>Starting and stopping\<close>

definition start_or_stop ::
  "('b, 'd) service \<Rightarrow> sandbox_id \<Rightarrow> sandbox_record \<Rightarrow> actual_state \<Rightarrow> (unit, 'b, 'd) svc" where
  "start_or_stop S i r target =
     sv_then (existing_runtime S i) (\<lambda>sb.
     if \<not> owned_sandbox i sb then sv_throw (Ownership i)
     else case target of
       ActualRunning \<Rightarrow>
         sv_then (sv_when (rs_state sb \<noteq> Running) (runtime_start S i)) (\<lambda>_.
         if ssh_resolution_enabled (sd_ssh r) then
           sv_then (prepare_ssh_activation S i (sd_ssh r)) (\<lambda>prepared.
           sv_then (sv_result (ok_or
             (ssh_not_ready ''verified SSH resolution did not produce activation evidence'') prepared)) (\<lambda>prepared.
           sv_then (commit_activation S prepared None) (\<lambda>_. sv_return ())))
         else sv_return ())
     | ActualStopped \<Rightarrow>
         sv_then (sv_when (ssh_resolution_enabled (sd_ssh r)) (deactivate_ssh S i)) (\<lambda>_.
         sv_when (rs_state sb \<noteq> Stopped) (runtime_stop S i))
     | _ \<Rightarrow> sv_throw (RuntimeFailure (InvalidState (as_str i)
              ''simple lifecycle target must be running or stopped'')))"

definition simple_state ::
  "('b, 'd) service \<Rightarrow> sandbox_id \<Rightarrow> operation_kind \<Rightarrow> desired_state \<Rightarrow> actual_state \<Rightarrow> bool \<Rightarrow>
     (operation_id option, 'b, 'd) svc" where
  "simple_state S i kind desired target started =
     sv_then (existing_sandbox S i) (\<lambda>record'.
     let record' = record' \<lparr> sd_desired := desired \<rparr> in
     sv_then (db_begin S record' kind) (\<lambda>operation.
     sv_then (initialize_operation S (op_id operation) i (sd_actual record')) (\<lambda>_.
     sv_then (publish_operation started (op_id operation)) (\<lambda>receiver.
     sv_attempt (start_or_stop S i record' target) (\<lambda>r.
     case r of
       Err error \<Rightarrow>
         sv_then (runtime_actual S i (sd_actual record')) (\<lambda>actual.
         fail_with S (op_id operation) actual (message_details S error) error)
     | Ok _ \<Rightarrow>
         sv_then (db_complete S (op_id operation) target) (\<lambda>_.
         sv_then (send_terminal S (op_id operation)) (\<lambda>_.
         sv_return receiver)))))))"

text \<open>A handler with no starter hands the events to its caller.\<close>

definition with_events :: "(operation_id option, 'b, 'd) svc \<Rightarrow> (operation_id, 'b, 'd) svc" where
  "with_events m = sv_then m (\<lambda>operation. sv_result (ok_or EventStreamUnavailable operation))"

definition service_start :: "('b, 'd) service \<Rightarrow> sandbox_id \<Rightarrow> (operation_id, 'b, 'd) svc" where
  "service_start S i = with_events (simple_state S i OpStart DesiredRunning ActualRunning False)"

definition service_stop :: "('b, 'd) service \<Rightarrow> sandbox_id \<Rightarrow> (operation_id, 'b, 'd) svc" where
  "service_stop S i = with_events (simple_state S i OpStop DesiredStopped ActualStopped False)"

text \<open>The caller with a starter has had the events announced and only learns of the end.\<close>

definition drop_operation :: "('a, 'b, 'd) svc \<Rightarrow> (unit, 'b, 'd) svc" where
  "drop_operation m = sv_then m (\<lambda>_. sv_return ())"

definition service_stop_started :: "('b, 'd) service \<Rightarrow> sandbox_id \<Rightarrow> (unit, 'b, 'd) svc" where
  "service_stop_started S i = drop_operation (simple_state S i OpStop DesiredStopped ActualStopped True)"

section \<open>Destroying\<close>

text \<open>The resources a destroy may touch: those with the names the policy derives from the
  identifier, discovered with the labels of this sandbox.\<close>

definition exact_resource :: "sandbox_id \<Rightarrow> resource_identity list \<Rightarrow> runtime_resource \<Rightarrow> bool" where
  "exact_resource i expected r \<longleftrightarrow>
     rr_identity r \<in> set expected \<and> rr_sandbox_id r = Some i \<and> rr_ownership r = GasCanOwned"

definition stop_if_running :: "('b, 'd) service \<Rightarrow> sandbox_id \<Rightarrow> (unit, 'b, 'd) svc" where
  "stop_if_running S i =
     sv_then (inspect S i) (\<lambda>sb.
     case sb of
       None \<Rightarrow> sv_return ()
     | Some sb \<Rightarrow>
         if \<not> owned_sandbox i sb then sv_throw (Ownership i)
         else sv_when (rs_state sb = Running) (runtime_stop S i))"

definition remove_exact_resources :: "('b, 'd) service \<Rightarrow> sandbox_id \<Rightarrow> (unit, 'b, 'd) svc" where
  "remove_exact_resources S i =
     sv_then (sv_result (map_err RuntimeFailure (expected_resource_identities i))) (\<lambda>expected.
     sv_then (list_resources S) (\<lambda>resources.
     let resources = filter (exact_resource i expected) resources in
     sv_then (sv_when (resources \<noteq> []) (remove_resources S resources)) (\<lambda>_.
     sv_then (list_resources S) (\<lambda>remaining.
     if list_ex (exact_resource i expected) remaining then sv_throw (IncompleteDestroy i)
     else sv_return ()))))"

definition destroy_inner ::
  "('b, 'd) service \<Rightarrow> sandbox_id \<Rightarrow> bool \<Rightarrow> (operation_id option, 'b, 'd) svc" where
  "destroy_inner S i started =
     sv_then (existing_sandbox S i) (\<lambda>record'.
     let prior_actual = sd_actual record';
         record' = record' \<lparr> sd_desired := DesiredAbsent \<rparr>;
         record' = (if sd_actual record' \<noteq> ActualAbsent then record' \<lparr> sd_actual := ActualDestroying \<rparr> else record')
     in
     sv_then (db_begin S record' OpDestroy) (\<lambda>operation.
     sv_then (initialize_operation S (op_id operation) i (sd_actual record')) (\<lambda>_.
     sv_then (publish_operation started (op_id operation)) (\<lambda>receiver.
     sv_attempt
       (sv_then (sv_when (ssh_resolution_enabled (sd_ssh record')) (deactivate_ssh S i)) (\<lambda>_.
        sv_then (stop_if_running S i) (\<lambda>_. remove_exact_resources S i))) (\<lambda>r.
     case r of
       Err error \<Rightarrow>
         sv_then (runtime_actual S i prior_actual) (\<lambda>actual.
         fail_with S (op_id operation) actual (message_details S error) error)
     | Ok _ \<Rightarrow>
         sv_then (db_complete_destroy S (op_id operation)) (\<lambda>_.
         sv_then (send_terminal S (op_id operation)) (\<lambda>_.
         sv_return receiver)))))))"

definition service_destroy :: "('b, 'd) service \<Rightarrow> sandbox_id \<Rightarrow> (operation_id, 'b, 'd) svc" where
  "service_destroy S i = with_events (destroy_inner S i False)"

definition service_destroy_started :: "('b, 'd) service \<Rightarrow> sandbox_id \<Rightarrow> (unit, 'b, 'd) svc" where
  "service_destroy_started S i = drop_operation (destroy_inner S i True)"

end
