(* ===== verification/Service_Up.thy ===== *)
theory Service_Up
  imports Service
begin

text \<open>
  The lifecycle service, second part: commands run in the guest, provisioning, the creation of the
  container with its bounded attempts and its rollback, and \<open>up\<close>.
\<close>

section \<open>Commands in the guest\<close>

definition MANAGED_CONFIG_ROOT :: string where
  "MANAGED_CONFIG_ROOT = ''/home/workspace/.config/gascan''"

definition MAX_PROVISION_STDOUT_BYTES :: nat where "MAX_PROVISION_STDOUT_BYTES = 1024 * 1024"
definition MAX_PROVISION_STDERR_TAIL_BYTES :: nat where "MAX_PROVISION_STDERR_TAIL_BYTES = 64 * 1024"

record guest_exec_outcome =
  go_stdout :: string
  go_stderr_tail :: string
  go_code :: int
  go_signal :: int

definition provisioning_transport_error :: service_error where
  "provisioning_transport_error = ProvisionFailed ''guest provisioning transport failed''"

definition sanitize_provision_stderr :: "string \<Rightarrow> string" where
  "sanitize_provision_stderr bytes =
     map (\<lambda>c. if is_ascii_control c then CHR '' '' else c) (from_utf8_lossy bytes)"

definition setup_command_failure :: "string \<Rightarrow> guest_exec_outcome \<Rightarrow> service_error" where
  "setup_command_failure action outcome =
     SetupCommandFailed action (go_code outcome) (go_signal outcome)
       (sanitize_provision_stderr (go_stderr_tail outcome))"

fun read_guest_outputs ::
  "(exec_output, runtime_error) result list \<Rightarrow> string \<Rightarrow> bounded_tail \<Rightarrow>
     (guest_exec_outcome, service_error) result" where
  "read_guest_outputs [] out tail' =
     Err (ProvisionFailed ''guest provisioning command ended without status'')"
| "read_guest_outputs (Err _ # outputs) out tail' = Err provisioning_transport_error"
| "read_guest_outputs (Ok (Stdout bytes) # outputs) out tail' =
     (if length out + length bytes > MAX_PROVISION_STDOUT_BYTES
      then Err (ProvisionFailed ''guest provisioning stdout exceeded its limit'')
      else read_guest_outputs outputs (out @ bytes) tail')"
| "read_guest_outputs (Ok (Stderr bytes) # outputs) out tail' =
     read_guest_outputs outputs out (tail_extend tail' bytes)"
| "read_guest_outputs (Ok (Exit code signal) # outputs) out tail' =
     Ok \<lparr> go_stdout = out, go_stderr_tail = into_bytes tail', go_code = code, go_signal = signal \<rparr>"

definition exec_guest_raw ::
  "('b, 'd) service \<Rightarrow> sandbox_id \<Rightarrow> string list \<Rightarrow> string \<Rightarrow> (guest_exec_outcome, 'b, 'd) svc" where
  "exec_guest_raw S i argv stdin =
     sv_then (runtime_call (\<lambda>_. provisioning_transport_error) (bk_exec (sv_runtime S)
       \<lparr> ex_id = i, ex_argv = argv, ex_stdin = stdin, ex_environment = [], ex_tty = False \<rparr>)) (\<lambda>session.
     if \<not> xs_close_accepted session then sv_throw provisioning_transport_error
     else sv_result (read_guest_outputs (xs_outputs session) [] (tail_new MAX_PROVISION_STDERR_TAIL_BYTES)))"

definition exec_guest ::
  "('b, 'd) service \<Rightarrow> sandbox_id \<Rightarrow> provision_step \<Rightarrow> string \<Rightarrow> string list \<Rightarrow> string \<Rightarrow> (string, 'b, 'd) svc" where
  "exec_guest S i step action argv stdin =
     sv_then (exec_guest_raw S i argv stdin) (\<lambda>outcome.
     if go_code outcome = 0 \<and> go_signal outcome = 0 then sv_return (go_stdout outcome)
     else sv_throw (ProvisionCommandFailed step action (go_code outcome) (go_signal outcome)
       (sanitize_provision_stderr (go_stderr_tail outcome))))"

definition phase_event :: "string \<Rightarrow> (string \<times> json) list \<Rightarrow> json" where
  "phase_event name members = JObject ((''phase'', JString name) # members)"

definition emit_provision_step ::
  "('b, 'd) service \<Rightarrow> operation_id \<Rightarrow> provision_step \<Rightarrow> (unit, 'b, 'd) svc" where
  "emit_provision_step S operation step =
     emit S operation (phase_event ''provision_step'' [(''step'', JString (provision_step_as_str step))])"

section \<open>Provisioning\<close>

definition is_ascii_hexdigit :: "char \<Rightarrow> bool" where
  "is_ascii_hexdigit c \<longleftrightarrow> is_lower_hex c \<or> byte c \<in> {65..70}"

definition reported_digest :: "string \<Rightarrow> (string, service_error) result" where
  "reported_digest output =
     (if \<not> utf8_valid output then Err SetupChanged
      else case split_ascii_whitespace output of
        [] \<Rightarrow> Err SetupChanged
      | digest # _ \<Rightarrow>
          if length digest = 64 \<and> list_all is_ascii_hexdigit digest then Ok digest else Err SetupChanged)"

definition run_setup :: "('b, 'd) service \<Rightarrow> sandbox_id \<Rightarrow> setup_script \<Rightarrow> (unit, 'b, 'd) svc" where
  "run_setup S i setup' =
     (let guest_path = ''/workspace/'' @ su_path setup' in
      sv_then (exec_guest_raw S i [''/usr/bin/sha256sum'', guest_path] []) (\<lambda>digest_outcome.
      if go_code digest_outcome \<noteq> 0 \<or> go_signal digest_outcome \<noteq> 0 then
        sv_throw (setup_command_failure ''verify_setup_digest'' digest_outcome)
      else
        sv_then (sv_result (reported_digest (go_stdout digest_outcome))) (\<lambda>digest.
        if strip_prefix ''sha256:'' (su_sha256 setup') \<noteq> Some digest then sv_throw SetupChanged
        else
          sv_then (exec_guest_raw S i [''/bin/bash'', guest_path] []) (\<lambda>outcome.
          if go_code outcome = 0 \<and> go_signal outcome = 0 then sv_return ()
          else sv_throw (setup_command_failure ''run_setup'' outcome)))))"

definition finalize_setup_failure ::
  "('b, 'd) service \<Rightarrow> sandbox_id \<Rightarrow> service_error \<Rightarrow> ('a, 'b, 'd) svc" where
  "finalize_setup_failure S i error =
     sv_attempt (runtime_stop S i) (\<lambda>stop.
     sv_attempt (inspect S i) (\<lambda>inspected.
     if is_ok stop \<and> (case inspected of Ok (Some sb) \<Rightarrow> rs_state sb = Stopped | _ \<Rightarrow> False)
     then sv_throw error else sv_throw (with_unconfirmed_setup_stop error)))"

definition install_tools ::
  "('b, 'd) service \<Rightarrow> sandbox_spec \<Rightarrow> provision_plan \<Rightarrow> operation_id \<Rightarrow> (json, 'b, 'd) svc" where
  "install_tools S spec p operation =
     sv_then (emit_provision_step S operation WriteSafeMiseConfig) (\<lambda>_.
     sv_then (exec_guest S (spec_id spec) WriteSafeMiseConfig ''reset_safe_mise_workdir''
       [''/usr/bin/rm'', ''--recursive'', ''--force'', ''--'', SAFE_MISE_WORKDIR] []) (\<lambda>_.
     sv_then (exec_guest S (spec_id spec) WriteSafeMiseConfig ''create_safe_mise_workdir''
       [''/usr/bin/install'', ''-d'', ''-m'', ''0700'', SAFE_MISE_WORKDIR] []) (\<lambda>_.
     sv_then (sv_result (map_err (\<lambda>_. ProvisionFailed ''could not serialize safe mise config'')
       (safe_mise_toml (sv_to_toml S) p))) (\<lambda>config.
     sv_then (sv_result (ok_or (ProvisionFailed ''safe mise config was not planned'') config)) (\<lambda>config.
     sv_then (exec_guest S (spec_id spec) WriteSafeMiseConfig ''write_safe_mise_config''
       [''/usr/bin/install'', ''-m'', ''0600'', ''/dev/stdin'', MISE_GLOBAL_CONFIG_FILE] config) (\<lambda>_.
     sv_then (emit_provision_step S operation InstallTools) (\<lambda>_.
     sv_then (exec_guest S (spec_id spec) InstallTools ''install_tools''
       (mise_command [''install'', ''--yes'']) []) (\<lambda>_.
     sv_then (exec_guest S (spec_id spec) InstallTools ''list_installed_tools''
       (mise_command [''ls'', ''--current'', ''--installed'', ''--json'']) []) (\<lambda>output.
     sv_then (sv_result (parse_mise_versions (sv_inventory S output) (m_tools (spec_manifest spec)))) (\<lambda>resolved.
     sv_return (JObject (map (\<lambda>(tool, version). (tool, JString version)) resolved))))))))))))"

definition initialize_managed_volume_roots ::
  "('b, 'd) service \<Rightarrow> sandbox_spec \<Rightarrow> operation_id \<Rightarrow> (unit, 'b, 'd) svc" where
  "initialize_managed_volume_roots S spec operation =
     sv_then (exec_guest S (spec_id spec) WriteSafeMiseConfig ''initialize_managed_volume_roots''
       [''/usr/bin/sudo'', ''-n'', ''/usr/bin/install'', ''-d'', ''-o'', ''workspace'', ''-g'', ''workspace'',
        ''-m'', ''0700'', TOOLS_ROOT, CACHE_ROOT] []) (\<lambda>_.
     sv_then (exec_guest S (spec_id spec) WriteSafeMiseConfig ''secure_managed_config_root''
       [''/usr/bin/sudo'', ''-n'', ''/usr/bin/install'', ''-d'', ''-o'', ''root'', ''-g'', ''workspace'',
        ''-m'', ''1770'', CONFIG_ROOT, MANAGED_CONFIG_ROOT] []) (\<lambda>_.
     sv_then (emit_provision_step S operation InitializeRuntimeHome) (\<lambda>_.
     sv_then (exec_guest S (spec_id spec) InitializeRuntimeHome ''initialize_rust_home''
       [''/usr/bin/env'', ''HOME='' @ WORKSPACE_HOME, ''CARGO_HOME='' @ CARGO_HOME,
        ''RUSTUP_HOME='' @ RUSTUP_HOME, ''/usr/local/bin/initialize-rust-home''] []) (\<lambda>_.
     sv_then (exec_guest S (spec_id spec) WriteSafeMiseConfig ''initialize_workstation_home''
       [''/usr/bin/env'', ''HOME=/home/workspace'', ''/usr/local/bin/configure-workstation-home''] []) (\<lambda>_.
     sv_return ())))))"

definition verify_gascamp :: "('b, 'd) service \<Rightarrow> sandbox_spec \<Rightarrow> (unit, 'b, 'd) svc" where
  "verify_gascamp S spec =
     (let requested = (case workspace_path (m_gascamp (spec_manifest spec)) of
            None \<Rightarrow> ''bundled'' | Some path \<Rightarrow> path);
          invalid = sv_throw (ProvisionFailed ''invalid Gascamp verification output'')
      in
      sv_then (exec_guest S (spec_id spec) VerifyGascamp ''verify_gascamp''
        [''/usr/local/bin/select-gascamp'', requested] []) (\<lambda>output.
      case js_parse (sv_codec S) output of
        Some (JObject _) \<Rightarrow> sv_return ()
      | _ \<Rightarrow> invalid))"

definition plan_now ::
  "('b, 'd) service \<Rightarrow> sandbox_spec \<Rightarrow> applied_state \<Rightarrow> (provision_plan, 'b, 'd) svc" where
  "plan_now S spec applied w =
     sv_result (map_err (\<lambda>_. ProvisionFailed ''could not plan provisioning'')
       (sv_planner S (w_runtime w, w_host w) (spec_root spec) (spec_manifest spec) applied)) w"

record provisioned_resolution =
  pr_resolution :: provision_resolution
  pr_tool_hash :: string
  pr_shell_hash :: string

definition setup_value :: "setup_script \<Rightarrow> json" where
  "setup_value su =
     JObject [(''canonical_relative_path'', JString (su_path su)), (''sha256'', JString (su_sha256 su))]"

text \<open>The three steps of the plan that run commands in the guest, each only when it is planned.\<close>

definition provision_tools ::
  "('b, 'd) service \<Rightarrow> sandbox_spec \<Rightarrow> provision_plan \<Rightarrow> sandbox_record option \<Rightarrow> operation_id \<Rightarrow>
     (json option, 'b, 'd) svc" where
  "provision_tools S spec p prior operation =
     (if pl_tools_changed p then
        sv_then (install_tools S spec p operation) (\<lambda>tools. sv_return (Some tools))
      else sv_return (Option.bind prior stored_tool_resolution))"

definition provision_shell ::
  "('b, 'd) service \<Rightarrow> sandbox_spec \<Rightarrow> provision_plan \<Rightarrow> operation_id \<Rightarrow> (unit, 'b, 'd) svc" where
  "provision_shell S spec p operation =
     sv_when (pl_shell_changed p)
       (sv_then (emit_provision_step S operation ConfigureShell) (\<lambda>_.
        sv_then (exec_guest S (spec_id spec) ConfigureShell ''configure_shell''
          [''/usr/bin/sudo'', ''-n'', ''/usr/local/bin/configure-shell-home'',
           shell_prompt_as_str (pl_shell_prompt p)] []) (\<lambda>_. sv_return ())))"

definition provision_setup ::
  "('b, 'd) service \<Rightarrow> sandbox_spec \<Rightarrow> provision_plan \<Rightarrow> operation_id \<Rightarrow> (unit, 'b, 'd) svc" where
  "provision_setup S spec p operation =
     sv_when (RunSetup \<in> set (pl_steps p))
       (sv_then (emit_provision_step S operation RunSetup) (\<lambda>_.
        sv_then (sv_result (ok_or (ProvisionFailed ''setup execution was not planned'') (pl_setup_script p)))
          (\<lambda>setup'.
        sv_attempt (run_setup S (spec_id spec) setup') (\<lambda>r.
        case r of
          Ok _ \<Rightarrow> sv_return ()
        | Err error \<Rightarrow> finalize_setup_failure S (spec_id spec) error))))"

definition provision_with_applied ::
  "('b, 'd) service \<Rightarrow> sandbox_spec \<Rightarrow> create_request \<Rightarrow> sandbox_record option \<Rightarrow> applied_state \<Rightarrow>
     operation_id \<Rightarrow> (provisioned_resolution, 'b, 'd) svc" where
  "provision_with_applied S spec create prior applied operation =
     sv_then (initialize_managed_volume_roots S spec operation) (\<lambda>_.
     sv_then (plan_now S spec applied) (\<lambda>p.
     sv_then (provision_tools S spec p prior operation) (\<lambda>resolved_tools.
     sv_then (provision_shell S spec p operation) (\<lambda>_.
     sv_then (provision_setup S spec p operation) (\<lambda>_.
     sv_then (manager_call (\<lambda>bd. lift_raised (sv_provision S spec create bd))) (\<lambda>resolution.
     let resolution = (case pl_setup_script p of
            None \<Rightarrow> resolution | Some su \<Rightarrow> resolution \<lparr> pn_setup := Some (setup_value su) \<rparr>);
         resolution = (case resolved_tools of
            None \<Rightarrow> resolution | Some tools \<Rightarrow> resolution \<lparr> pn_tools := Some tools \<rparr>)
     in
     sv_then (sv_when (VerifyGascamp \<in> set (pl_steps p))
       (sv_then (emit_provision_step S operation VerifyGascamp) (\<lambda>_. verify_gascamp S spec))) (\<lambda>_.
     sv_return \<lparr> pr_resolution = resolution, pr_tool_hash = pl_desired_tool_hash p,
       pr_shell_hash = pl_desired_shell_hash p \<rparr>)))))))"

definition provision_explicit ::
  "('b, 'd) service \<Rightarrow> sandbox_spec \<Rightarrow> create_request \<Rightarrow> sandbox_record option \<Rightarrow> operation_id \<Rightarrow>
     (provisioned_resolution, 'b, 'd) svc" where
  "provision_explicit S spec create prior operation =
     provision_with_applied S spec create prior (applied_state_of prior) operation"

definition health_check :: "('b, 'd) service \<Rightarrow> sandbox_id \<Rightarrow> (unit, 'b, 'd) svc" where
  "health_check S i = manager_call (\<lambda>bd. lift_raised (sv_health_check S i bd))"

section \<open>Creating the container\<close>

text \<open>A loop that counts its attempts: each turn ends the loop with a value, with an error, or
  asks for another turn.  \<open>None\<close> is a loop that never ends.\<close>

datatype ('a, 'p) turn = Break 'a | Continue 'p

partial_function (option) attempt_loop ::
  "(nat \<Rightarrow> 'p \<Rightarrow> 'w \<Rightarrow> (('a, 'p) turn, 'e, 'w) stateful) \<Rightarrow> nat \<Rightarrow> 'p \<Rightarrow> 'w \<Rightarrow>
     ('a, 'e, 'w) stateful option" where
  "attempt_loop body attempts p w =
     (case body (Suc attempts) p w of
        (Ok (Break x), w) \<Rightarrow> Some (Ok x, w)
      | (Ok (Continue p), w) \<Rightarrow> attempt_loop body (Suc attempts) p w
      | (Err e, w) \<Rightarrow> Some (Err e, w))"

definition run_attempts ::
  "(nat \<Rightarrow> 'p \<Rightarrow> 'w \<Rightarrow> (('a, 'p) turn, 'e, 'w) stateful) \<Rightarrow> 'p \<Rightarrow> 'w \<Rightarrow> ('a, 'e, 'w) stateful" where
  "run_attempts body p w = the (attempt_loop body 0 p w)"

definition attempt_runtime ::
  "('b \<Rightarrow> ('a, 'e, 'b) stateful) \<Rightarrow> (('a, 'e) result \<Rightarrow> ('c, 'b, 'd) svc) \<Rightarrow> ('c, 'b, 'd) svc" where
  "attempt_runtime f k w = (case f (w_runtime w) of (r, b) \<Rightarrow> k r (w \<lparr> w_runtime := b \<rparr>))"

definition persist_created_state ::
  "('b, 'd) service \<Rightarrow> sandbox_id \<Rightarrow> storage_capacities \<Rightarrow> ssh_transport_policy \<Rightarrow> (unit, 'b, 'd) svc" where
  "persist_created_state S i requested_storage' requested_transport =
     sv_then (existing_sandbox S i) (\<lambda>record'.
     db_put_with_transport S (record' \<lparr> sd_storage := Some (storage_resolution requested_storage') \<rparr>)
       (Some requested_transport))"

definition remove_created ::
  "'b backend \<Rightarrow> sandbox_id \<Rightarrow> create_outcome \<Rightarrow> 'b \<Rightarrow> (unit, runtime_error, 'b) stateful" where
  "remove_created bk i outcome b =
     st_then (bk_inspect bk i b) (\<lambda>current b.
     case current of
       None \<Rightarrow> (Err (ResourceNotFound (as_str i)), b)
     | Some sb \<Rightarrow>
         if \<not> owned_sandbox i sb then (Err (OwnershipMismatch (as_str i)), b)
         else
           st_then (if rs_state sb = Running then bk_stop bk i b else (Ok (), b)) (\<lambda>_ b.
           case remove_from_resources (outcome_created outcome) of
             Err e \<Rightarrow> (Err e, b)
           | Ok request \<Rightarrow> bk_remove bk request b))"

definition rollback_created ::
  "('b, 'd) service \<Rightarrow> sandbox_id \<Rightarrow> create_outcome \<Rightarrow> service_error \<Rightarrow> ('a, 'b, 'd) svc" where
  "rollback_created S i outcome original =
     attempt_runtime (remove_created (sv_runtime S) i outcome) (\<lambda>rollback.
     case rollback of
       Ok _ \<Rightarrow> sv_throw original
     | Err rollback \<Rightarrow> sv_throw (RollbackFailed original rollback))"

definition automatic_ssh :: "sandbox_spec \<Rightarrow> bool" where
  "automatic_ssh spec \<longleftrightarrow>
     ssh_enabled (m_ssh (spec_manifest spec)) \<and> ssh_host_port (m_ssh (spec_manifest spec)) = None"

definition release_prepared ::
  "('b, 'd) service \<Rightarrow> prepared_ssh_create option \<Rightarrow> (prepared_ssh_create option, 'b, 'd) svc" where
  "release_prepared S prepared w =
     (case prepared of
        None \<Rightarrow> (Ok None, w)
      | Some p \<Rightarrow>
          (case release_reservation (sv_ssh S) p (w_host w) of (p, d) \<Rightarrow> (Ok (Some p), w \<lparr> w_host := d \<rparr>)))"

definition collides ::
  "('b, 'd) service \<Rightarrow> create_failure \<Rightarrow> prepared_ssh_create option \<Rightarrow> create_request \<Rightarrow> (bool, 'b, 'd) svc" where
  "collides S failure prepared create w =
     (Ok (case prepared of
            None \<Rightarrow> False
          | Some p \<Rightarrow> is_native_port_collision (sv_ssh S) failure (pc_host_port p) create (w_host w)), w)"

text \<open>What both loops do after a create failed and its evidence is removed: another port, or the
  error.\<close>

definition next_port ::
  "('b, 'd) service \<Rightarrow> sandbox_spec \<Rightarrow> runtime_capabilities \<Rightarrow> string \<Rightarrow> nat \<Rightarrow> create_failure \<Rightarrow>
     prepared_ssh_create option \<Rightarrow> create_request \<Rightarrow>
     (('a, prepared_ssh_create option \<times> create_request) turn, 'b, 'd) svc" where
  "next_port S spec capabilities what attempts failure prepared create =
     sv_then (collides S failure prepared create) (\<lambda>collision.
     if collision then
       if \<not> automatic_ssh spec \<or> attempts = AUTOMATIC_PORT_ATTEMPTS then
         sv_throw (SshPortUnavailable
           (''native loopback port collision after '' @ show_nat attempts @ '' '' @ what @ ''create attempt(s)''))
       else
         sv_then (prepare_ssh_create S spec) (\<lambda>prepared.
         sv_then (sv_result (map_err PolicyFailure (service_compile_policy S spec capabilities prepared)))
           (\<lambda>create. sv_return (Continue (prepared, create))))
     else sv_throw (CreateFailed failure))"

definition create_turn ::
  "('b, 'd) service \<Rightarrow> sandbox_spec \<Rightarrow> runtime_capabilities \<Rightarrow> storage_capacities \<Rightarrow> nat \<Rightarrow>
     prepared_ssh_create option \<times> create_request \<Rightarrow>
     ((create_outcome \<times> create_request, prepared_ssh_create option \<times> create_request) turn, 'b, 'd) svc" where
  "create_turn S spec capabilities requested_storage' attempts pc =
     (let i = spec_id spec; create = snd pc in
      sv_then (release_prepared S (fst pc)) (\<lambda>prepared.
      attempt_runtime (bk_create (sv_runtime S) create) (\<lambda>r.
      case r of
        Ok outcome \<Rightarrow>
          sv_attempt (persist_created_state S i requested_storage' (requested_ssh_transport spec)) (\<lambda>r.
          case r of
            Ok _ \<Rightarrow> sv_return (Break (outcome, create))
          | Err error \<Rightarrow> rollback_created S i outcome error)
      | Err failure \<Rightarrow>
          let partial = failure_created failure;
              resume = next_port S spec capabilities [] attempts failure prepared create
          in
          if partial = [] then resume
          else
            sv_then (sv_result (map_err RuntimeFailure (remove_from_resources partial))) (\<lambda>request.
            attempt_runtime (bk_remove (sv_runtime S) request) (\<lambda>r.
            case r of
              Ok _ \<Rightarrow> resume
            | Err rollback \<Rightarrow> sv_throw (RollbackFailed (CreateFailed failure) rollback))))))"

definition create_loop ::
  "('b, 'd) service \<Rightarrow> sandbox_spec \<Rightarrow> runtime_capabilities \<Rightarrow> storage_capacities \<Rightarrow>
     prepared_ssh_create option \<Rightarrow> create_request \<Rightarrow> (create_outcome \<times> create_request, 'b, 'd) svc" where
  "create_loop S spec capabilities requested_storage' prepared create =
     run_attempts (create_turn S spec capabilities requested_storage') (prepared, create)"

section \<open>Up\<close>

definition sv_image_state ::
  "sandbox_record option \<Rightarrow> string \<Rightarrow> string \<Rightarrow> (image_state, 'b, 'd) svc" where
  "sv_image_state prior running approved =
     sv_result (map_err RuntimeFailure (image_state_of prior running approved))"

definition complete_resolution :: "sandbox_record option \<Rightarrow> bool" where
  "complete_resolution prior =
     (case prior of None \<Rightarrow> False | Some r \<Rightarrow> sd_setup r \<noteq> None \<and> sd_tool r \<noteq> None)"

text \<open>The answer of \<open>up\<close> for a container that only \<open>apply\<close> may change, if it is one.\<close>

definition up_apply_required ::
  "('b, 'd) service \<Rightarrow> sandbox_spec \<Rightarrow> create_request \<Rightarrow> sandbox_record option \<Rightarrow> ssh_transport_policy option \<Rightarrow>
     operation_id \<Rightarrow> runtime_sandbox \<Rightarrow> (bool, 'b, 'd) svc" where
  "up_apply_required S spec create prior prior_transport operation sb =
     (if \<not> owned_sandbox (spec_id spec) sb then sv_throw (Ownership (spec_id spec))
      else
        sv_then (sv_image_state prior (rs_image sb) (cr_image create)) (\<lambda>state.
        if change_required state then
          sv_then (emit S operation (phase_event ''apply_required''
            [(''reason'', JString ''image_changed''),
             (''recorded_image'', json_option JString (is_recorded state)),
             (''running_image'', JString (is_running state)),
             (''approved_image'', JString (is_approved state))])) (\<lambda>_. sv_return True)
        else if (case prior of
              Some r \<Rightarrow> ssh_transport_policy_changed r sb spec prior_transport (complete_resolution prior) False
            | None \<Rightarrow> runtime_ssh_transport_changed sb spec) then
          sv_then (emit S operation (phase_event ''apply_required''
            [(''reason'', JString ''ssh_transport_changed'')])) (\<lambda>_. sv_return True)
        else sv_return False))"

definition sv_matches ::
  "('b, 'd) service \<Rightarrow> sandbox_spec \<Rightarrow> string \<Rightarrow> sandbox_record \<Rightarrow> image_state \<Rightarrow> (bool, 'b, 'd) svc" where
  "sv_matches S spec fingerprint r state w =
     (let plan_for = sv_planner S (w_runtime w, w_host w) in
      if \<not> resolution_matches r fingerprint then (Ok False, w)
      else
        sv_result (and_then (tool_state_matches plan_for r (spec_root spec) (spec_manifest spec)) (\<lambda>tools.
          if \<not> tools then Ok False
          else map_ok (\<lambda>shell. shell \<and> \<not> change_required state)
            (shell_state_matches plan_for r (spec_root spec) (spec_manifest spec)))) w)"

definition change_reason :: "provision_plan \<Rightarrow> string" where
  "change_reason p =
     (if pl_setup_changed p then ''setup_changed''
      else if pl_tools_changed p then ''tools_changed''
      else if pl_shell_changed p then ''shell_changed''
      else ''desired_content_changed'')"

definition provisioned_members :: "provisioned_resolution \<Rightarrow> (string \<times> json) list" where
  "provisioned_members p =
     [(''setup'', json_option id (pn_setup (pr_resolution p))), (''tools'', json_option id (pn_tools (pr_resolution p))),
      (''tool_hash'', JString (pr_tool_hash p)), (''shell_hash'', JString (pr_shell_hash p))]"

definition up_provision ::
  "('b, 'd) service \<Rightarrow> sandbox_spec \<Rightarrow> create_request \<Rightarrow> sandbox_record option \<Rightarrow> bool \<Rightarrow> bool \<Rightarrow>
     operation_id \<Rightarrow> string \<Rightarrow> (provisioned_resolution option, 'b, 'd) svc" where
  "up_provision S spec create prior inspected durable_match operation fingerprint =
     (if inspected \<and> \<not> durable_match \<and> complete_resolution prior then
        sv_then (plan_now S spec (applied_state_of prior)) (\<lambda>p.
        sv_then (emit S operation (phase_event ''apply_required''
          [(''reason'', JString (change_reason p)), (''desired_fingerprint'', JString fingerprint)])) (\<lambda>_.
        sv_return None))
      else if \<not> durable_match then
        sv_then (emit S operation (phase_event ''before_provision''
          [(''desired_fingerprint'', JString fingerprint)])) (\<lambda>_.
        sv_then (provision_explicit S spec create (if inspected then prior else None) operation) (\<lambda>provisioned.
        sv_then (emit S operation (phase_event ''after_provision''
          ([(''resolution_version'', JNumber 1), (''desired_fingerprint'', JString fingerprint)] @
           provisioned_members provisioned))) (\<lambda>_.
        sv_return (Some provisioned))))
      else sv_return None)"

definition up_ssh ::
  "('b, 'd) service \<Rightarrow> sandbox_spec \<Rightarrow> resolution option \<Rightarrow> operation_id \<Rightarrow> (resolution, 'b, 'd) svc" where
  "up_ssh S spec prior_ssh operation =
     (if ssh_enabled (m_ssh (spec_manifest spec)) then
        sv_then (activate_and_persist_ssh S (spec_id spec) prior_ssh (Some operation)) (\<lambda>resolution.
        sv_then (sv_map_err SshPublicationUncertain (verify_exact_ssh_publication S)) (\<lambda>_.
        sv_then (sv_map_err SshPublicationUncertain
          (emit S operation (ssh_phase ''before_ssh_publication_marker'' resolution))) (\<lambda>_.
        sv_then (mark_ssh_publication S operation resolution) (\<lambda>_.
        sv_return resolution))))
      else disable_and_persist_ssh S (spec_id spec) prior_ssh)"

definition before_health :: json where
  "before_health = phase_event ''before_health'' [(''step'', JString (provision_step_as_str HealthCheck))]"

definition up_after_create ::
  "('b, 'd) service \<Rightarrow> sandbox_spec \<Rightarrow> create_request \<Rightarrow> sandbox_record option \<Rightarrow> bool \<Rightarrow>
     operation_id \<Rightarrow> string \<Rightarrow> (provisioned_resolution option \<times> resolution, 'b, 'd) svc" where
  "up_after_create S spec create prior inspected operation fingerprint =
     (let i = spec_id spec in
      sv_then (existing_runtime S i) (\<lambda>current.
      sv_then (sv_when (rs_state current \<noteq> Running) (runtime_start S i)) (\<lambda>_.
      sv_then (emit S operation (phase_event ''started'' [])) (\<lambda>_.
      sv_then (sv_image_state prior (rs_image current) (cr_image create)) (\<lambda>state.
      sv_then (case prior of
            Some r \<Rightarrow> if inspected then sv_matches S spec fingerprint r state else sv_return False
          | None \<Rightarrow> sv_return False) (\<lambda>durable_match.
      sv_then (up_provision S spec create prior inspected durable_match operation fingerprint) (\<lambda>provisioned.
      sv_then (emit S operation before_health) (\<lambda>_.
      sv_then (health_check S i) (\<lambda>_.
      sv_then (emit S operation (phase_event ''after_health'' [(''desired_fingerprint'', JString fingerprint)])) (\<lambda>_.
      sv_then (up_ssh S spec (if inspected then Option.bind prior sd_ssh else None) operation) (\<lambda>ssh_resolution.
      sv_return (provisioned, ssh_resolution))))))))))))"

definition up_failed ::
  "('b, 'd) service \<Rightarrow> sandbox_id \<Rightarrow> create_outcome option \<Rightarrow> service_error \<Rightarrow> ('a, 'b, 'd) svc" where
  "up_failed S i created error =
     (if is_setup_failure error \<or> is_ssh_publication_uncertain error then sv_throw error
      else case created of
        Some outcome \<Rightarrow> rollback_created S i outcome error
      | None \<Rightarrow>
          sv_attempt (deactivate_ssh S i) (\<lambda>r.
          if is_ok r then
            sv_attempt (inspect S i) (\<lambda>r.
            case r of
              Ok (Some _) \<Rightarrow> sv_attempt (runtime_stop S i) (\<lambda>_. sv_throw error)
            | _ \<Rightarrow> sv_throw error)
          else sv_throw error))"

type_synonym up_result =
  "actual_state \<times> provisioned_resolution option \<times> resolution option \<times> bool"

definition up_runtime ::
  "('b, 'd) service \<Rightarrow> sandbox_spec \<Rightarrow> create_request \<Rightarrow> runtime_capabilities \<Rightarrow> sandbox_record option \<Rightarrow>
     ssh_transport_policy option \<Rightarrow> operation_id \<Rightarrow> string \<Rightarrow> storage_capacities \<Rightarrow> (up_result, 'b, 'd) svc" where
  "up_runtime S spec create capabilities prior prior_transport operation fingerprint requested_storage' =
     (let i = spec_id spec in
      sv_then (inspect S i) (\<lambda>inspected.
      sv_then (case inspected of
            None \<Rightarrow> sv_return False
          | Some sb \<Rightarrow> up_apply_required S spec create prior prior_transport operation sb) (\<lambda>apply_required.
      if apply_required then
        sv_return (case inspected of None \<Rightarrow> ActualAbsent | Some sb \<Rightarrow> actual_of_container (rs_state sb),
          None, Option.bind prior sd_ssh, False)
      else
        sv_then (prepare_ssh_create S spec) (\<lambda>prepared.
        sv_then (sv_result (map_err PolicyFailure (service_compile_policy S spec capabilities prepared))) (\<lambda>create.
        sv_then (if inspected = None then
              sv_then (create_loop S spec capabilities requested_storage' prepared create) (\<lambda>(outcome, create).
              sv_then (emit S operation (phase_event ''created'' [])) (\<lambda>_.
              sv_return (Some outcome, create)))
            else sv_return (None, create)) (\<lambda>(created, create).
        sv_attempt (up_after_create S spec create prior (inspected \<noteq> None) operation fingerprint) (\<lambda>r.
        case r of
          Ok (provisioned, ssh_resolution) \<Rightarrow>
            sv_return (ActualRunning, provisioned, Some ssh_resolution, True)
        | Err error \<Rightarrow> up_failed S i created error)))))))"

text \<open>What \<open>up\<close> and the replacement of an image do with an error: a failure to record it is
  reported together with it.\<close>

definition report_failure ::
  "('b, 'd) service \<Rightarrow> operation_id \<Rightarrow> actual_state \<Rightarrow> string \<Rightarrow> json \<Rightarrow> service_error \<Rightarrow> ('a, 'b, 'd) svc" where
  "report_failure S operation actual code details error =
     sv_attempt (db_fail S operation actual code details) (\<lambda>r.
     case r of
       Err reporting \<Rightarrow> sv_throw (FailureReporting error reporting)
     | Ok _ \<Rightarrow>
         sv_attempt (send_terminal S operation) (\<lambda>r.
         case r of
           Err reporting \<Rightarrow> sv_throw (FailureReporting error reporting)
         | Ok _ \<Rightarrow> sv_throw error))"

definition image_resolution :: "create_request \<Rightarrow> resolution" where
  "image_resolution create = \<lparr> res_version = 1, res_details = JObject [(''digest'', JString (cr_image create))] \<rparr>"

definition new_record :: "sandbox_spec \<Rightarrow> create_request \<Rightarrow> sandbox_record" where
  "new_record spec create =
     \<lparr> sd_id = spec_id spec, sd_root = spec_root spec, sd_desired = DesiredRunning,
       sd_actual = ActualCreating, sd_setup = None, sd_tool = None,
       sd_image = Some (image_resolution create), sd_storage = None, sd_ssh = None,
       sd_last_operation = None, sd_updated_at = 0 \<rparr>"

definition with_provisioned :: "string \<Rightarrow> provisioned_resolution \<Rightarrow> sandbox_record \<Rightarrow> sandbox_record" where
  "with_provisioned fingerprint p r =
     r \<lparr> sd_setup := Some \<lparr> res_version = 1, res_details = JObject
           [(''desired_fingerprint'', JString fingerprint),
            (''resolution'', json_option id (pn_setup (pr_resolution p)))] \<rparr>,
         sd_tool := Some \<lparr> res_version = 1, res_details = JObject
           [(''desired_fingerprint'', JString fingerprint), (''tool_hash'', JString (pr_tool_hash p)),
            (''shell_hash'', JString (pr_shell_hash p)),
            (''resolution'', json_option id (pn_tools (pr_resolution p)))] \<rparr> \<rparr>"

text \<open>The checks of \<open>up\<close> before it begins an operation.\<close>

record up_request =
  ur_existing :: "sandbox_record option"
  ur_capabilities :: runtime_capabilities
  ur_create :: create_request
  ur_storage :: storage_capacities
  ur_prior_transport :: "ssh_transport_policy option"
  ur_fingerprint :: string

definition present_record :: "sandbox_record option \<Rightarrow> sandbox_record option" where
  "present_record existing =
     (case existing of
        None \<Rightarrow> None
      | Some r \<Rightarrow> if sd_actual r \<noteq> ActualAbsent then Some r else None)"

definition sv_fingerprint :: "('b, 'd) service \<Rightarrow> sandbox_spec \<Rightarrow> (string, 'b, 'd) svc" where
  "sv_fingerprint S spec w =
     sv_result (desired_fingerprint (sv_sha256 S) (sv_planner S (w_runtime w, w_host w)) spec) w"

definition up_validate :: "('b, 'd) service \<Rightarrow> sandbox_spec \<Rightarrow> (up_request, 'b, 'd) svc" where
  "up_validate S spec =
     sv_then (sandbox_of S (spec_id spec)) (\<lambda>existing.
     sv_then (sv_result (case present_record existing of
           None \<Rightarrow> Ok () | Some prior \<Rightarrow> validate_storage_layout prior)) (\<lambda>_.
     sv_then (runtime_capabilities S) (\<lambda>capabilities.
     sv_then (sv_result (map_err PolicyFailure (service_compile_policy S spec capabilities None))) (\<lambda>create.
     sv_then (sv_result (requested_storage create)) (\<lambda>storage'.
     sv_then (transport_of S (spec_id spec)) (\<lambda>prior_transport.
     sv_then (sv_result (case present_record existing of
           None \<Rightarrow> Ok () | Some prior \<Rightarrow> validate_storage_capacities prior storage')) (\<lambda>_.
     sv_then (sv_fingerprint S spec) (\<lambda>fingerprint.
     sv_return \<lparr> ur_existing = existing, ur_capabilities = capabilities, ur_create = create,
       ur_storage = storage', ur_prior_transport = prior_transport, ur_fingerprint = fingerprint \<rparr>))))))))"

definition up_record :: "sandbox_spec \<Rightarrow> up_request \<Rightarrow> sandbox_record" where
  "up_record spec q =
     (let r = (case ur_existing q of Some r \<Rightarrow> r | None \<Rightarrow> new_record spec (ur_create q));
          r = r \<lparr> sd_desired := DesiredRunning \<rparr>
      in if sd_actual r = ActualAbsent then r \<lparr> sd_actual := ActualCreating \<rparr> else r)"

definition up_commit ::
  "('b, 'd) service \<Rightarrow> sandbox_spec \<Rightarrow> up_request \<Rightarrow> sandbox_record \<Rightarrow> operation_id \<Rightarrow> up_result \<Rightarrow>
     (unit, 'b, 'd) svc" where
  "up_commit S spec q record' operation result =
     (let (actual, provisioned, ssh_resolution, transport_applied) = result;
          record' = (case provisioned of
            None \<Rightarrow> record' | Some p \<Rightarrow> with_provisioned (ur_fingerprint q) p record');
          record' = record' \<lparr> sd_storage := Some (storage_resolution (ur_storage q)) \<rparr>;
          record' = (case ssh_resolution of None \<Rightarrow> record' | Some v \<Rightarrow> record' \<lparr> sd_ssh := Some v \<rparr>);
          record' = record' \<lparr> sd_actual := actual \<rparr>
      in
      sv_then (db_put_with_transport S record'
        (if transport_applied then Some (requested_ssh_transport spec) else ur_prior_transport q)) (\<lambda>_.
      sv_then (db_complete S operation actual) (\<lambda>_.
      send_terminal S operation)))"

definition up_inner ::
  "('b, 'd) service \<Rightarrow> sandbox_spec \<Rightarrow> bool \<Rightarrow> (operation_id option, 'b, 'd) svc" where
  "up_inner S spec started =
     (let i = spec_id spec in
      sv_then (up_validate S spec) (\<lambda>q.
      let record' = up_record spec q in
      sv_then (db_begin S record' OpCreate) (\<lambda>operation.
      sv_then (initialize_operation S (op_id operation) i (sd_actual record')) (\<lambda>_.
      sv_then (publish_operation started (op_id operation)) (\<lambda>receiver.
      sv_attempt (emit S (op_id operation) (phase_event ''validated'' [])) (\<lambda>r.
      case r of
        Err error \<Rightarrow>
          sv_then (runtime_actual S i (sd_actual record')) (\<lambda>actual.
          sv_attempt (db_fail S (op_id operation) actual (service_error_code error)
            (JObject [(''message'', JString (sv_display S error)), (''phase'', JString ''validated'')]))
            (\<lambda>_. sv_throw error))
      | Ok _ \<Rightarrow>
          sv_attempt (up_runtime S spec (ur_create q) (ur_capabilities q) (ur_existing q)
            (ur_prior_transport q) (op_id operation) (ur_fingerprint q) (ur_storage q)) (\<lambda>r.
          case r of
            Ok result \<Rightarrow>
              sv_then (up_commit S spec q record' (op_id operation) result) (\<lambda>_. sv_return receiver)
          | Err error \<Rightarrow>
              sv_then (if setup_stop_confirmed error then sv_return ActualStopped
                  else runtime_actual S i ActualAbsent) (\<lambda>actual.
              report_failure S (op_id operation) actual (service_error_code error)
                (failure_details (sv_display S) error) error))))))))"

definition service_up :: "('b, 'd) service \<Rightarrow> sandbox_spec \<Rightarrow> (operation_id, 'b, 'd) svc" where
  "service_up S spec = with_events (up_inner S spec False)"

definition service_up_started :: "('b, 'd) service \<Rightarrow> sandbox_spec \<Rightarrow> (unit, 'b, 'd) svc" where
  "service_up_started S spec = drop_operation (up_inner S spec True)"

end
