(* ===== verification/Service_Apply.thy ===== *)
theory Service_Apply
  imports Service_Up
begin

text \<open>
  The lifecycle service, third part: the replacement of the image of a sandbox, with the rollback
  to the previous one, and \<open>apply\<close>.
\<close>

section \<open>Evidence for a replacement\<close>

definition retained_resources ::
  "('b, 'd) service \<Rightarrow> create_request \<Rightarrow> (runtime_resource \<times> retained_resources, 'b, 'd) svc" where
  "retained_resources S create =
     sv_then (list_resources S) (\<lambda>resources.
     sv_then (sv_result (exact_owned_container create resources)) (\<lambda>container.
     sv_then (sv_result (ok_or (RuntimeFailure (InvalidState (as_str (cr_id create))
       ''expected exactly one owned container resource'')) container)) (\<lambda>container.
     sv_then (sv_result (map_err RuntimeFailure (new_retained create
       (filter (\<lambda>r. rr_ownership r = GasCanOwned \<and> rr_sandbox_id r = Some (cr_id create) \<and> rr_kind r \<noteq> Container)
         resources)))) (\<lambda>retained.
     sv_return (container, retained)))))"

definition replacement_evidence ::
  "('b, 'd) service \<Rightarrow> create_request \<Rightarrow> runtime_sandbox \<Rightarrow> string \<Rightarrow>
     (runtime_resource \<times> retained_resources, 'b, 'd) svc" where
  "replacement_evidence S create sb expected_previous =
     (let precondition = ImageUpgradeRequired (rs_image sb) (cr_image create) in
      if rs_image sb \<noteq> expected_previous then
        sv_throw (precondition (''runtime image changed after preflight from '' @ expected_previous))
      else if \<not> owned_sandbox (cr_id create) sb then
        sv_throw (precondition ''sandbox ownership changed after preflight'')
      else sv_map_err (\<lambda>error. precondition (sv_display S error)) (retained_resources S create))"

section \<open>Removing and recreating the container\<close>

definition remove_exact_container ::
  "('b, 'd) service \<Rightarrow> create_request \<Rightarrow> runtime_resource \<Rightarrow> (unit, 'b, 'd) svc" where
  "remove_exact_container S create container =
     sv_then (stop_if_running S (cr_id create)) (\<lambda>_. remove_resources S [container])"

definition rollback_image ::
  "('b, 'd) service \<Rightarrow> create_request \<Rightarrow> string \<Rightarrow> retained_resources \<Rightarrow> operation_id \<Rightarrow> (unit, 'b, 'd) svc" where
  "rollback_image S create previous_image retained operation =
     sv_then (list_resources S) (\<lambda>resources.
     sv_then (sv_result (exact_owned_container create resources)) (\<lambda>container.
     sv_then (case container of None \<Rightarrow> sv_return () | Some c \<Rightarrow> remove_exact_container S create c) (\<lambda>_.
     sv_then (sv_result (map_err RuntimeFailure (recreate_for_image create previous_image retained))) (\<lambda>rollback.
     sv_then (runtime_call CreateFailed (bk_create_container (sv_runtime S) rollback)) (\<lambda>_.
     sv_then (runtime_start S (cr_id create)) (\<lambda>_.
     emit S operation (phase_event ''image_rollback'' [(''image'', JString previous_image)])))))))"

text \<open>The evidence of a failed recreation is at most the container itself.\<close>

definition remove_partial_container ::
  "('b, 'd) service \<Rightarrow> create_request \<Rightarrow> create_failure \<Rightarrow> (unit, 'b, 'd) svc" where
  "remove_partial_container S create failure =
     (case failure_created failure of
        [] \<Rightarrow> sv_return ()
      | [container] \<Rightarrow>
          sv_then (sv_result (map_err RuntimeFailure (new_identity Container (as_str (cr_id create))))) (\<lambda>expected.
          if rr_identity container \<noteq> expected then
            sv_throw (ImageRollbackFailed (CreateFailed failure)
              (RuntimeFailure (OwnershipMismatch (rr_name container))))
          else
            sv_map_err (ImageRollbackFailed (CreateFailed failure)) (remove_exact_container S create container))
      | _ \<Rightarrow>
          sv_throw (ImageRollbackFailed (CreateFailed failure)
            (RuntimeFailure (InvalidState (as_str (cr_id create))
               ''replacement failure returned non-container evidence''))))"

definition recreate_turn ::
  "('b, 'd) service \<Rightarrow> sandbox_spec \<Rightarrow> runtime_capabilities \<Rightarrow> retained_resources \<Rightarrow> nat \<Rightarrow>
     prepared_ssh_create option \<times> create_request \<Rightarrow>
     ((create_request, prepared_ssh_create option \<times> create_request) turn, 'b, 'd) svc" where
  "recreate_turn S spec capabilities retained attempts pc =
     (let create = snd pc in
      sv_then (release_prepared S (fst pc)) (\<lambda>prepared.
      sv_then (sv_result (map_err RuntimeFailure (new_recreate create retained))) (\<lambda>recreate.
      attempt_runtime (bk_create_container (sv_runtime S) recreate) (\<lambda>r.
      case r of
        Ok _ \<Rightarrow> sv_return (Break create)
      | Err failure \<Rightarrow>
          sv_then (remove_partial_container S create failure) (\<lambda>_.
          next_port S spec capabilities ''replacement '' attempts failure prepared create)))))"

definition recreate_loop ::
  "('b, 'd) service \<Rightarrow> sandbox_spec \<Rightarrow> runtime_capabilities \<Rightarrow> retained_resources \<Rightarrow>
     prepared_ssh_create option \<Rightarrow> create_request \<Rightarrow> (create_request, 'b, 'd) svc" where
  "recreate_loop S spec capabilities retained prepared create =
     run_attempts (recreate_turn S spec capabilities retained) (prepared, create)"

section \<open>Replacing the image\<close>

definition apply_ssh ::
  "('b, 'd) service \<Rightarrow> sandbox_spec \<Rightarrow> resolution option \<Rightarrow> (resolution, 'b, 'd) svc" where
  "apply_ssh S spec prior_ssh =
     (if ssh_enabled (m_ssh (spec_manifest spec))
      then activate_and_persist_ssh S (spec_id spec) prior_ssh None
      else disable_and_persist_ssh S (spec_id spec) prior_ssh)"

definition replace_container ::
  "('b, 'd) service \<Rightarrow> sandbox_spec \<Rightarrow> create_request \<Rightarrow> prepared_ssh_create option \<Rightarrow> runtime_capabilities \<Rightarrow>
     sandbox_record \<Rightarrow> runtime_sandbox \<Rightarrow> runtime_resource \<Rightarrow> retained_resources \<Rightarrow> operation_id \<Rightarrow>
     (provisioned_resolution \<times> resolution, 'b, 'd) svc" where
  "replace_container S spec create prepared capabilities prior sb container retained operation =
     (let i = cr_id create in
      sv_then (sv_when (ssh_resolution_enabled (sd_ssh prior)) (deactivate_ssh S i)) (\<lambda>_.
      sv_then (sv_when (rs_state sb = Running) (runtime_stop S i)) (\<lambda>_.
      sv_then (remove_resources S [container]) (\<lambda>_.
      sv_then (recreate_loop S spec capabilities retained prepared create) (\<lambda>create.
      sv_then (runtime_start S i) (\<lambda>_.
      sv_then (emit S operation (phase_event ''before_provision'' [])) (\<lambda>_.
      sv_then (provision_with_applied S spec create (Some prior) (replacement_applied_state prior) operation)
        (\<lambda>provisioned.
      sv_then (emit S operation (phase_event ''after_provision''
        ((''resolution_version'', JNumber 1) # provisioned_members provisioned))) (\<lambda>_.
      sv_then (emit S operation before_health) (\<lambda>_.
      sv_then (health_check S i) (\<lambda>_.
      sv_then (emit S operation (phase_event ''after_health'' [])) (\<lambda>_.
      sv_then (apply_ssh S spec (sd_ssh prior)) (\<lambda>ssh_resolution.
      sv_then (emit S operation (phase_event ''image_replaced'' [(''image'', JString (cr_image create))])) (\<lambda>_.
      sv_then (emit S operation (phase_event ''after_image_replace'' [(''image'', JString (cr_image create))])) (\<lambda>_.
      sv_return (provisioned, ssh_resolution))))))))))))))))"

definition replace_image ::
  "('b, 'd) service \<Rightarrow> sandbox_spec \<Rightarrow> create_request \<Rightarrow> prepared_ssh_create option \<Rightarrow> runtime_capabilities \<Rightarrow>
     ssh_transport_policy option \<Rightarrow> string \<Rightarrow> operation_id \<Rightarrow>
     (provisioned_resolution \<times> resolution \<times> create_request, 'b, 'd) svc" where
  "replace_image S spec create prepared capabilities prior_transport previous_image operation =
     (let i = cr_id create in
      sv_then (emit S operation (phase_event ''before_image_replace''
        [(''previous_image'', JString previous_image), (''approved_image'', JString (cr_image create))])) (\<lambda>_.
      sv_then (runtime_call RuntimeFailure (bk_prepare_image (sv_runtime S) (cr_image create))) (\<lambda>_.
      sv_then (existing_sandbox S i) (\<lambda>prior.
      sv_then (existing_runtime S i) (\<lambda>sb.
      sv_then (rollback_create_for_inspected_transport S create sb prior_transport) (\<lambda>rollback_create.
      sv_then (replacement_evidence S create sb previous_image) (\<lambda>(container, retained).
      sv_then (emit S operation (phase_event ''image_replacing'' [(''image'', JString (cr_image create))])) (\<lambda>_.
      sv_attempt (replace_container S spec create prepared capabilities prior sb container retained operation) (\<lambda>r.
      case r of
        Ok (provisioned, ssh_resolution) \<Rightarrow> sv_return (provisioned, ssh_resolution, rollback_create)
      | Err original \<Rightarrow>
          sv_attempt (rollback_image S rollback_create previous_image retained operation) (\<lambda>r.
          case r of
            Err rollback \<Rightarrow> sv_throw (ImageRollbackFailed original rollback)
          | Ok _ \<Rightarrow>
              sv_attempt (restore_prior_ssh S i (create_request_ssh_enabled rollback_create) (sd_ssh prior)) (\<lambda>r.
              case r of
                Err rollback \<Rightarrow> sv_throw (ImageRollbackFailed original rollback)
              | Ok _ \<Rightarrow> sv_throw original)))))))))))"

section \<open>Apply\<close>

text \<open>The checks of \<open>apply\<close> before it begins an operation.\<close>

record apply_request =
  aq_record :: sandbox_record
  aq_capabilities :: runtime_capabilities
  aq_prepared :: "prepared_ssh_create option"
  aq_create :: create_request
  aq_prior_transport :: "ssh_transport_policy option"
  aq_fingerprint :: string
  aq_setup_changed :: bool
  aq_unchanged :: bool

definition apply_validate :: "('b, 'd) service \<Rightarrow> sandbox_spec \<Rightarrow> (apply_request, 'b, 'd) svc" where
  "apply_validate S spec =
     sv_then (existing_sandbox S (spec_id spec)) (\<lambda>record'.
     sv_then (sv_result (if sd_actual record' \<noteq> ActualAbsent then
           and_then (validate_storage_layout record') (\<lambda>_.
             validate_storage_capacities record' (requested_storage_from_manifest (m_storage (spec_manifest spec))))
         else Ok ())) (\<lambda>_.
     sv_then (runtime_capabilities S) (\<lambda>capabilities.
     sv_then (prepare_ssh_create S spec) (\<lambda>prepared.
     sv_then (sv_result (map_err PolicyFailure (service_compile_policy S spec capabilities prepared))) (\<lambda>create.
     sv_then (transport_of S (spec_id spec)) (\<lambda>prior_transport.
     sv_then (sv_fingerprint S spec) (\<lambda>fingerprint.
     sv_then (plan_now S spec (applied_state_of (Some record'))) (\<lambda>p.
     sv_return \<lparr> aq_record = record', aq_capabilities = capabilities, aq_prepared = prepared,
       aq_create = create, aq_prior_transport = prior_transport, aq_fingerprint = fingerprint,
       aq_setup_changed = pl_setup_changed p,
       aq_unchanged = resolution_matches record' fingerprint \<and> \<not> pl_tools_changed p \<and> \<not> pl_setup_changed p \<rparr>))))))))"

definition apply_preflight ::
  "('b, 'd) service \<Rightarrow> sandbox_spec \<Rightarrow> apply_request \<Rightarrow> (runtime_sandbox \<times> image_state \<times> bool, 'b, 'd) svc" where
  "apply_preflight S spec q =
     (let i = spec_id spec in
      sv_then (existing_runtime S i) (\<lambda>sb.
      if \<not> owned_sandbox i sb then sv_throw (Ownership i)
      else
        sv_then (sv_image_state (Some (aq_record q)) (rs_image sb) (cr_image (aq_create q))) (\<lambda>img.
        let ssh_changed = ssh_transport_policy_changed (aq_record q) sb spec (aq_prior_transport q) True True in
        if change_required img then sv_return (sb, img, ssh_changed)
        else
          sv_then (if \<not> ssh_changed \<and> rs_state sb = Running \<and> aq_setup_changed q then
                sv_then (sv_when (ssh_resolution_enabled (sd_ssh (aq_record q))) (deactivate_ssh S i)) (\<lambda>_.
                sv_then (runtime_stop S i) (\<lambda>_. runtime_start S i))
              else sv_when (\<not> ssh_changed \<and> rs_state sb \<noteq> Running) (runtime_start S i)) (\<lambda>_.
          sv_return (sb, img, ssh_changed)))))"

definition combined_rollback ::
  "service_error \<Rightarrow> ('a, service_error) result \<Rightarrow> (unit, service_error) result \<Rightarrow> service_error" where
  "combined_rollback original runtime' store =
     (case (runtime', store) of
        (Ok _, Ok _) \<Rightarrow> original
      | (Err r, Ok _) \<Rightarrow> ImageRollbackFailed original r
      | (Ok _, Err s) \<Rightarrow> ImageRollbackFailed original s
      | (Err r, Err s) \<Rightarrow> ImageRollbackFailed original (ImageRollbackFailed r s))"

text \<open>After the replacement: the record and the end of the operation are committed, or the previous
  image, publication and record are put back.\<close>

definition apply_commit_failed ::
  "('b, 'd) service \<Rightarrow> sandbox_id \<Rightarrow> apply_request \<Rightarrow> operation_id \<Rightarrow> create_request \<Rightarrow> string \<Rightarrow>
     service_error \<Rightarrow> ('a, 'b, 'd) svc" where
  "apply_commit_failed S i q operation rollback_create previous_image original =
     sv_attempt
       (sv_then (retained_resources S rollback_create) (\<lambda>(_, retained).
        sv_then (rollback_image S rollback_create previous_image retained operation) (\<lambda>_.
        restore_prior_ssh S i (create_request_ssh_enabled rollback_create) (sd_ssh (aq_record q))))) (\<lambda>runtime_rollback.
     let previous = (case runtime_rollback of
           Ok resolution \<Rightarrow> (aq_record q) \<lparr> sd_ssh := Some resolution \<rparr> | Err _ \<Rightarrow> aq_record q)
     in
     sv_attempt (db_put_with_transport S previous (aq_prior_transport q)) (\<lambda>record_rollback.
     let failure = combined_rollback original runtime_rollback record_rollback in
     sv_then (runtime_actual S i (sd_actual (aq_record q))) (\<lambda>actual.
     sv_attempt (db_fail S operation actual ''image_replacement_failed''
       (image_replacement_failure_details (sv_display S) failure)) (\<lambda>terminal.
     case terminal of
       Ok (_, event) \<Rightarrow> sv_then (send_event event) (\<lambda>_. sv_throw failure)
     | Err reporting \<Rightarrow> sv_throw (FailureReporting failure reporting)))))"

definition apply_replacement ::
  "('b, 'd) service \<Rightarrow> sandbox_spec \<Rightarrow> apply_request \<Rightarrow> operation_id \<Rightarrow> runtime_sandbox \<Rightarrow> (unit, 'b, 'd) svc" where
  "apply_replacement S spec q operation sb =
     (let i = spec_id spec in
      sv_attempt (replace_image S spec (aq_create q) (aq_prepared q) (aq_capabilities q)
        (aq_prior_transport q) (rs_image sb) operation) (\<lambda>r.
      case r of
        Err error \<Rightarrow>
          sv_then (runtime_actual S i (sd_actual (aq_record q))) (\<lambda>actual.
          case error of
            ImageUpgradeRequired _ _ _ \<Rightarrow>
              report_failure S operation actual (service_error_code error) (failure_details (sv_display S) error) error
          | _ \<Rightarrow>
              report_failure S operation actual ''image_replacement_failed''
                (image_replacement_failure_details (sv_display S) error) error)
      | Ok (provisioned, ssh_resolution, rollback_create) \<Rightarrow>
          let record' = (with_provisioned (aq_fingerprint q) provisioned (aq_record q))
                \<lparr> sd_image := Some (image_resolution (aq_create q)), sd_ssh := Some ssh_resolution,
                  sd_actual := ActualRunning \<rparr>
          in
          sv_attempt
            (sv_then (db_put_with_transport S record' (Some (requested_ssh_transport spec))) (\<lambda>_.
             sv_then (events_of S operation) (\<lambda>_.
             sv_then (db_complete S operation ActualRunning) (\<lambda>(_, terminal). send_event terminal)))) (\<lambda>commit.
          case commit of
            Ok _ \<Rightarrow> sv_return ()
          | Err original \<Rightarrow> apply_commit_failed S i q operation rollback_create (rs_image sb) original)))"

definition apply_unchanged ::
  "('b, 'd) service \<Rightarrow> sandbox_spec \<Rightarrow> apply_request \<Rightarrow> operation_id \<Rightarrow> (unit, 'b, 'd) svc" where
  "apply_unchanged S spec q operation =
     (let i = spec_id spec in
      sv_attempt (apply_ssh S spec (sd_ssh (aq_record q))) (\<lambda>r.
      case r of
        Err error \<Rightarrow>
          sv_then (runtime_actual S i (sd_actual (aq_record q))) (\<lambda>actual.
          fail_with S operation actual (failure_details (sv_display S) error) error)
      | Ok _ \<Rightarrow>
          sv_then (db_complete S operation ActualRunning) (\<lambda>_. send_terminal S operation)))"

definition apply_provision ::
  "('b, 'd) service \<Rightarrow> sandbox_spec \<Rightarrow> apply_request \<Rightarrow> operation_id \<Rightarrow>
     (provisioned_resolution \<times> resolution, 'b, 'd) svc" where
  "apply_provision S spec q operation =
     (let fingerprint = (''desired_fingerprint'', JString (aq_fingerprint q)) in
      sv_then (emit S operation (phase_event ''before_provision'' [fingerprint])) (\<lambda>_.
      sv_then (provision_explicit S spec (aq_create q) (Some (aq_record q)) operation) (\<lambda>provisioned.
      sv_then (emit S operation (phase_event ''after_provision''
        ([(''resolution_version'', JNumber 1), fingerprint] @ provisioned_members provisioned))) (\<lambda>_.
      sv_then (emit S operation before_health) (\<lambda>_.
      sv_then (health_check S (spec_id spec)) (\<lambda>_.
      sv_then (emit S operation (phase_event ''after_health'' [fingerprint])) (\<lambda>_.
      sv_then (apply_ssh S spec (sd_ssh (aq_record q))) (\<lambda>ssh_resolution.
      sv_return (provisioned, ssh_resolution)))))))))"

definition apply_changed ::
  "('b, 'd) service \<Rightarrow> sandbox_spec \<Rightarrow> apply_request \<Rightarrow> operation_id \<Rightarrow> (unit, 'b, 'd) svc" where
  "apply_changed S spec q operation =
     (let i = spec_id spec in
      sv_attempt (apply_provision S spec q operation) (\<lambda>r.
      case r of
        Err error \<Rightarrow>
          sv_then (if setup_stop_confirmed error then sv_return ActualStopped
              else runtime_actual S i (sd_actual (aq_record q))) (\<lambda>actual.
          fail_with S operation actual (failure_details (sv_display S) error) error)
      | Ok (provisioned, ssh_resolution) \<Rightarrow>
          sv_then (db_put S ((with_provisioned (aq_fingerprint q) provisioned (aq_record q))
            \<lparr> sd_ssh := Some ssh_resolution, sd_actual := ActualRunning \<rparr>)) (\<lambda>_.
          sv_then (db_complete S operation ActualRunning) (\<lambda>_. send_terminal S operation))))"

definition apply_inner ::
  "('b, 'd) service \<Rightarrow> sandbox_spec \<Rightarrow> bool \<Rightarrow> (operation_id option, 'b, 'd) svc" where
  "apply_inner S spec started =
     (let i = spec_id spec in
      sv_then (apply_validate S spec) (\<lambda>q.
      sv_then (db_begin S (aq_record q) OpApply) (\<lambda>operation.
      let operation = op_id operation; prior_actual = sd_actual (aq_record q) in
      sv_then (initialize_operation S operation i prior_actual) (\<lambda>_.
      sv_attempt (apply_preflight S spec q) (\<lambda>preflight.
      case preflight of
        Err error \<Rightarrow>
          sv_then (runtime_actual S i prior_actual) (\<lambda>actual.
          fail_with S operation actual (message_details S error) error)
      | Ok (sb, img, ssh_changed) \<Rightarrow>
          sv_attempt (if change_required img \<or> ssh_changed then
                sv_then (replacement_evidence S (aq_create q) sb (rs_image sb)) (\<lambda>_. sv_return ())
              else sv_return ()) (\<lambda>evidence.
          case evidence of
            Err error \<Rightarrow>
              sv_then (runtime_actual S i prior_actual) (\<lambda>actual.
              fail_with S operation actual (failure_details (sv_display S) error) error)
          | Ok _ \<Rightarrow>
              sv_then (publish_operation started operation) (\<lambda>receiver.
              sv_then (if change_required img \<or> ssh_changed then apply_replacement S spec q operation sb
                  else if aq_unchanged q then apply_unchanged S spec q operation
                  else apply_changed S spec q operation) (\<lambda>_.
              sv_return receiver))))))))"

definition service_apply :: "('b, 'd) service \<Rightarrow> sandbox_spec \<Rightarrow> (operation_id, 'b, 'd) svc" where
  "service_apply S spec = with_events (apply_inner S spec False)"

definition service_apply_started :: "('b, 'd) service \<Rightarrow> sandbox_spec \<Rightarrow> (unit, 'b, 'd) svc" where
  "service_apply_started S spec = drop_operation (apply_inner S spec True)"

end
