(* ===== verification/Service_Recover.thy ===== *)
theory Service_Recover
  imports Service_Apply
begin

text \<open>
  The lifecycle service, fourth part (\<open>gascand/src/service.rs\<close>, \<open>reconcile.rs\<close>): what the
  daemon does with the operations it finds unfinished when it starts, and the comparison of the
  records with the resources of the runtime.
\<close>

section \<open>Findings\<close>

datatype reconcile_finding =
    UnknownOwned runtime_resource
  | UnknownUnowned runtime_resource
  | MissingOwned sandbox_id
  | FindingOwnershipMismatch runtime_resource
  | InspectionUnavailable sandbox_id string
  | SshUnavailable sandbox_id string
  | SshPublicationUnavailable string

section \<open>Interrupted operations\<close>

definition has_phase :: "string \<Rightarrow> operation_event \<Rightarrow> bool" where
  "has_phase name event \<longleftrightarrow>
     Option.bind (ev_details event) (\<lambda>details. json_get_str ''phase'' details) = Some name"

definition recover_pending_ssh_publication ::
  "('b, 'd) service \<Rightarrow> operation_id \<Rightarrow> sandbox_id \<Rightarrow> sandbox_record \<Rightarrow> operation_event list \<Rightarrow>
     (unit, 'b, 'd) svc" where
  "recover_pending_ssh_publication S operation i record' events =
     (let marked = list_ex (has_phase ''after_ssh_publication'') events;
          resolution = sd_ssh record'
      in
      sv_then (preflight_recovered_ssh_mapping S i) (\<lambda>_.
      sv_then (if resolution = None then sv_return False
          else sv_attempt (verify_exact_ssh_publication S) (\<lambda>r. sv_return (is_ok r))) (\<lambda>exact.
      sv_then (if exact then sv_return resolution
          else
            sv_then (activate_and_persist_ssh S i resolution None) (\<lambda>resolution.
            sv_then (sv_map_err SshPublicationUncertain (verify_exact_ssh_publication S)) (\<lambda>_.
            sv_return (Some resolution)))) (\<lambda>resolution.
      if marked then sv_return ()
      else
        sv_then (sv_result (ok_or (ssh_not_ready ''recovered SSH resolution is missing'') resolution))
          (\<lambda>resolution.
        sv_map_err SshPublicationUncertain
          (sv_then (db_append S operation (phase_event ''after_ssh_publication''
             [(''resolution_version'', JNumber (uint (res_version resolution))), (''recovered'', JBool True)]))
             (\<lambda>_. sv_return ())))))))"

definition rollback_interrupted_ssh_create :: "('b, 'd) service \<Rightarrow> sandbox_id \<Rightarrow> (unit, 'b, 'd) svc" where
  "rollback_interrupted_ssh_create S i =
     sv_then (deactivate_ssh S i) (\<lambda>_.
     sv_then (stop_if_running S i) (\<lambda>_. remove_exact_resources S i))"

primrec actual_debug :: "actual_state \<Rightarrow> string" where
  "actual_debug ActualAbsent = ''Absent''"
| "actual_debug ActualCreating = ''Creating''"
| "actual_debug ActualRunning = ''Running''"
| "actual_debug ActualStopped = ''Stopped''"
| "actual_debug ActualDestroying = ''Destroying''"

definition member_or_null :: "string \<Rightarrow> json \<Rightarrow> json" where
  "member_or_null k details = unwrap_or JNull (json_get k details)"

definition with_recovered :: "json \<Rightarrow> actual_state \<Rightarrow> sandbox_record \<Rightarrow> sandbox_record" where
  "with_recovered details actual r =
     (let fingerprint = (''desired_fingerprint'', member_or_null ''desired_fingerprint'' details) in
      r \<lparr> sd_setup := Some \<lparr> res_version = 1, res_details = JObject
            [fingerprint, (''resolution'', member_or_null ''setup'' details)] \<rparr>,
          sd_tool := Some \<lparr> res_version = 1, res_details = JObject
            [fingerprint, (''tool_hash'', member_or_null ''tool_hash'' details),
             (''shell_hash'', member_or_null ''shell_hash'' details),
             (''resolution'', member_or_null ''tools'' details)] \<rparr>,
          sd_actual := actual \<rparr>)"

definition provision_evidence :: "operation_event list \<Rightarrow> json option" where
  "provision_evidence events =
     find (\<lambda>details. json_get_str ''phase'' details = Some ''after_provision'') (List.map_filter ev_details events)"

definition converged :: "operation_kind \<Rightarrow> actual_state \<Rightarrow> bool \<Rightarrow> bool \<Rightarrow> bool \<Rightarrow> bool" where
  "converged kind actual hooks_ran create_ssh_ready expected_absent =
     (case kind of
        OpCreate \<Rightarrow> actual = ActualRunning \<and> hooks_ran \<and> create_ssh_ready
      | OpStart \<Rightarrow> actual = ActualRunning
      | OpStop \<Rightarrow> actual = ActualStopped
      | OpDestroy \<Rightarrow> actual = ActualAbsent \<and> expected_absent
      | OpApply \<Rightarrow> hooks_ran \<and> (actual = ActualRunning \<or> actual = ActualStopped)
      | OpReconcile \<Rightarrow> True)"

text \<open>The end of an interrupted operation: recorded as completed, with the resolutions its events
  carry, when the runtime shows that it was reached, and as failed otherwise.\<close>

definition settle ::
  "('b, 'd) service \<Rightarrow> operation_record \<Rightarrow> sandbox_record \<Rightarrow> operation_event list \<Rightarrow> actual_state \<Rightarrow> bool \<Rightarrow>
     (unit, 'b, 'd) svc" where
  "settle S operation record' events actual attained =
     (if attained then
        sv_then (case (if op_kind operation \<in> {OpCreate, OpApply} then provision_evidence events else None) of
              None \<Rightarrow> sv_return ()
            | Some details \<Rightarrow> db_put S (with_recovered details actual record')) (\<lambda>_.
        sv_then (db_complete S (op_id operation) actual) (\<lambda>_. sv_return ()))
      else
        sv_then (db_fail S (op_id operation) actual ''interrupted_operation''
          (phase_event ''reconcile'' [(''actual'', JString (actual_debug actual))])) (\<lambda>_. sv_return ()))"

definition expected_resources_absent :: "('b, 'd) service \<Rightarrow> sandbox_id \<Rightarrow> (bool, 'b, 'd) svc" where
  "expected_resources_absent S i =
     sv_then (sv_result (map_err RuntimeFailure (expected_resource_identities i))) (\<lambda>expected.
     sv_then (list_resources S) (\<lambda>resources.
     sv_return (\<not> list_ex (exact_resource i expected) resources)))"

text \<open>\<open>None\<close> is the SSH publication brought to its end; otherwise the operation is settled or
  left pending, with what is to be reported.\<close>

definition recover_create_ssh ::
  "('b, 'd) service \<Rightarrow> operation_record \<Rightarrow> sandbox_record \<Rightarrow> operation_event list \<Rightarrow>
     (reconcile_finding list option, 'b, 'd) svc" where
  "recover_create_ssh S operation record' events =
     (let i = op_sandbox operation in
      sv_attempt (recover_pending_ssh_publication S (op_id operation) i record' events) (\<lambda>r.
      case r of
        Ok _ \<Rightarrow> sv_return None
      | Err error \<Rightarrow>
          if is_ssh_publication_uncertain error then
            sv_return (Some [SshUnavailable i (service_error_code error)])
          else
            sv_attempt (rollback_interrupted_ssh_create S i) (\<lambda>r.
            case r of
              Err _ \<Rightarrow> sv_return (Some [SshUnavailable i (service_error_code error)])
            | Ok _ \<Rightarrow>
                sv_then (db_fail_create S (op_id operation) (service_error_code error)
                  (failure_details (sv_display S) error)) (\<lambda>_.
                sv_return (Some [])))))"

definition recover_inspected ::
  "('b, 'd) service \<Rightarrow> operation_record \<Rightarrow> sandbox_record \<Rightarrow> operation_event list \<Rightarrow> actual_state \<Rightarrow>
     (reconcile_finding list, 'b, 'd) svc" where
  "recover_inspected S operation record' events actual =
     (let i = op_sandbox operation; hooks_ran = ordered_hook_evidence events record' in
      sv_then (transport_of S i) (\<lambda>transport.
      let ssh_disabled = \<not> (case transport of None \<Rightarrow> False | Some p \<Rightarrow> tp_enabled p);
          conclude = (\<lambda>record' ready.
            sv_then (if op_kind operation = OpDestroy then expected_resources_absent S i else sv_return False)
              (\<lambda>absent.
            sv_then (settle S operation record' events actual
              (converged (op_kind operation) actual hooks_ran ready absent)) (\<lambda>_.
            sv_return [])))
      in
      if op_kind operation = OpCreate \<and> \<not> ssh_disabled \<and> actual = ActualRunning \<and> hooks_ran then
        sv_then (recover_create_ssh S operation record' events) (\<lambda>r.
        case r of
          Some findings \<Rightarrow> sv_return findings
        | None \<Rightarrow> sv_then (existing_sandbox S i) (\<lambda>record'. conclude record' True))
      else conclude record' ssh_disabled))"

definition recover_operation ::
  "('b, 'd) service \<Rightarrow> operation_record \<Rightarrow> (reconcile_finding list, 'b, 'd) svc" where
  "recover_operation S operation =
     (let i = op_sandbox operation in
      sv_then (db_read S (\<lambda>db. map_ok (list_ex (\<lambda>item. op_id item = op_id operation))
        (pending_operations (sv_codec S) db))) (\<lambda>still_pending.
      if \<not> still_pending then sv_return []
      else
        sv_then (events_of S (op_id operation)) (\<lambda>events.
        sv_then (existing_sandbox S i) (\<lambda>record'.
        attempt_runtime (bk_inspect (sv_runtime S) i) (\<lambda>r.
        case r of
          Err error \<Rightarrow> sv_return [InspectionUnavailable i (runtime_error_code error)]
        | Ok inspected \<Rightarrow>
            if (case inspected of None \<Rightarrow> False | Some sb \<Rightarrow> \<not> owned_sandbox i sb) then
              sv_then (db_fail S (op_id operation) (sd_actual record') ''ownership_mismatch''
                (phase_event ''reconcile'' [])) (\<lambda>_. sv_return [])
            else
              recover_inspected S operation record' events
                (case inspected of None \<Rightarrow> ActualAbsent | Some sb \<Rightarrow> actual_of_container (rs_state sb)))))))"

fun recover_operations ::
  "('b, 'd) service \<Rightarrow> operation_record list \<Rightarrow> reconcile_finding list \<Rightarrow> (reconcile_finding list, 'b, 'd) svc" where
  "recover_operations S [] findings = sv_return findings"
| "recover_operations S (operation # operations) findings =
     sv_then (recover_operation S operation) (\<lambda>found. recover_operations S operations (findings @ found))"

definition recover_pending :: "('b, 'd) service \<Rightarrow> (reconcile_finding list, 'b, 'd) svc" where
  "recover_pending S =
     sv_then (db_read S (pending_operations (sv_codec S))) (\<lambda>operations. recover_operations S operations [])"

section \<open>Comparing the records with the runtime\<close>

definition classify_finding ::
  "sandbox_id set \<Rightarrow> resource_identity set \<Rightarrow> runtime_resource \<Rightarrow> reconcile_finding option" where
  "classify_finding known expected r =
     (case rr_ownership r of
        GasCanOwned \<Rightarrow>
          if (case rr_sandbox_id r of None \<Rightarrow> True | Some i \<Rightarrow> i \<notin> known) \<or> rr_identity r \<notin> expected
          then Some (UnknownOwned r) else None
      | Foreign \<Rightarrow> Some (UnknownUnowned r)
      | Mismatched \<Rightarrow> Some (FindingOwnershipMismatch r))"

definition owned_containers :: "runtime_resource list \<Rightarrow> sandbox_id set" where
  "owned_containers inventory =
     set (List.map_filter (\<lambda>r. if rr_kind r = Container \<and> rr_ownership r = GasCanOwned then rr_sandbox_id r else None)
       inventory)"

text \<open>The findings of each record, and the sandboxes that could not be inspected.\<close>

definition inspect_record ::
  "('b, 'd) service \<Rightarrow> sandbox_id set \<Rightarrow> sandbox_record \<Rightarrow> (reconcile_finding list \<times> bool, 'b, 'd) svc" where
  "inspect_record S actual_owned r =
     attempt_runtime (bk_inspect (sv_runtime S) (sd_id r)) (\<lambda>inspected.
     case inspected of
       Err error \<Rightarrow> sv_return ([InspectionUnavailable (sd_id r) (runtime_error_code error)], True)
     | Ok inspected \<Rightarrow>
         if (case inspected of None \<Rightarrow> False | Some sb \<Rightarrow> \<not> owned_sandbox (sd_id r) sb) then
           sv_then (list_resources S) (\<lambda>resources.
           sv_return (case find (\<lambda>x. rr_kind x = Container \<and> rr_sandbox_id x = Some (sd_id r)) resources of
               None \<Rightarrow> [] | Some x \<Rightarrow> [FindingOwnershipMismatch x], False))
         else sv_return (if sd_id r \<notin> actual_owned then [MissingOwned (sd_id r)] else [], False))"

fun inspect_records ::
  "('b, 'd) service \<Rightarrow> sandbox_id set \<Rightarrow> sandbox_record list \<Rightarrow> reconcile_finding list \<Rightarrow> sandbox_id list \<Rightarrow>
     (reconcile_finding list \<times> sandbox_id list, 'b, 'd) svc" where
  "inspect_records S actual_owned [] findings failed = sv_return (findings, failed)"
| "inspect_records S actual_owned (r # records) findings failed =
     sv_then (inspect_record S actual_owned r) (\<lambda>(found, unavailable).
     inspect_records S actual_owned records (findings @ found)
       (if unavailable then sd_id r # failed else failed))"

definition verify_record_ssh ::
  "('b, 'd) service \<Rightarrow> ssh_paths \<Rightarrow> sandbox_id list \<Rightarrow> sandbox_record \<Rightarrow>
     (reconcile_finding list \<times> managed_ssh_host option, 'b, 'd) svc" where
  "verify_record_ssh S paths failed r =
     (case sd_ssh r of
        None \<Rightarrow> sv_return ([], None)
      | Some expected \<Rightarrow>
          if sd_id r \<in> set failed \<or> sd_actual r \<noteq> ActualRunning then sv_return ([], None)
          else
            attempt_runtime (bk_inspect (sv_runtime S) (sd_id r)) (\<lambda>inspected.
            case inspected of
              Err error \<Rightarrow> sv_return ([SshUnavailable (sd_id r) (runtime_error_code error)], None)
            | Ok None \<Rightarrow> sv_return ([], None)
            | Ok (Some sb) \<Rightarrow>
                if rs_state sb \<noteq> Running \<or> \<not> owned_sandbox (sd_id r) sb then sv_return ([], None)
                else
                  sv_attempt (manager_call (\<lambda>bd. lift_raised
                    (verify_for_reconcile (sv_runtime S) (sv_ssh S) (sd_id r) expected paths bd))) (\<lambda>verified.
                  sv_return (case verified of
                      Ok host \<Rightarrow> ([], host)
                    | Err error \<Rightarrow> ([SshUnavailable (sd_id r) (service_error_code error)], None)))))"

fun verify_records_ssh ::
  "('b, 'd) service \<Rightarrow> ssh_paths \<Rightarrow> sandbox_id list \<Rightarrow> sandbox_record list \<Rightarrow> reconcile_finding list \<Rightarrow>
     (managed_ssh_host \<times> sandbox_id) list \<Rightarrow>
     (reconcile_finding list \<times> (managed_ssh_host \<times> sandbox_id) list, 'b, 'd) svc" where
  "verify_records_ssh S paths failed [] findings hosts = sv_return (findings, hosts)"
| "verify_records_ssh S paths failed (r # records) findings hosts =
     sv_then (verify_record_ssh S paths failed r) (\<lambda>(found, host).
     verify_records_ssh S paths failed records (findings @ found)
       (case host of None \<Rightarrow> hosts | Some h \<Rightarrow> hosts @ [(h, sd_id r)]))"

definition publish_hosts ::
  "('b, 'd) service \<Rightarrow> ssh_paths \<Rightarrow> managed_ssh_host list \<Rightarrow> (string option, 'b, 'd) svc" where
  "publish_hosts S paths hosts =
     sv_attempt (host_call (\<lambda>d. lift_raised (publish_reconciled (sv_ssh S) paths hosts d))) (\<lambda>r.
     sv_return (case r of Ok _ \<Rightarrow> None | Err error \<Rightarrow> Some (service_error_code error)))"

definition reconcile_ssh ::
  "('b, 'd) service \<Rightarrow> sandbox_record list \<Rightarrow> sandbox_id list \<Rightarrow> (reconcile_finding list, 'b, 'd) svc" where
  "reconcile_ssh S enabled failed =
     (case service_ssh_paths S of
        Err error \<Rightarrow>
          sv_return (if enabled = [] then [SshPublicationUnavailable (service_error_code error)]
            else map (\<lambda>r. SshUnavailable (sd_id r) (service_error_code error)) enabled)
      | Ok paths \<Rightarrow>
          if enabled = [] then
            sv_then (publish_hosts S paths []) (\<lambda>failure.
            sv_return (case failure of None \<Rightarrow> [] | Some code \<Rightarrow> [SshPublicationUnavailable code]))
          else
            sv_then (verify_records_ssh S paths failed enabled [] []) (\<lambda>(findings, hosts).
            sv_then (publish_hosts S paths (map fst hosts)) (\<lambda>failure.
            sv_return (findings @ (case failure of
                None \<Rightarrow> [] | Some code \<Rightarrow> map (\<lambda>h. SshUnavailable (snd h) code) hosts)))))"

text \<open>\<open>debug\<close> prints a finding; the report is ordered by it and adjacent repetitions dropped.\<close>

definition reconcile ::
  "(reconcile_finding \<Rightarrow> string) \<Rightarrow> ('b, 'd) service \<Rightarrow> (reconcile_finding list, 'b, 'd) svc" where
  "reconcile debug S =
     sv_then (recover_pending S) (\<lambda>recovered.
     sv_then (db_read S (list_sandboxes (sv_codec S))) (\<lambda>records.
     sv_then (sv_result (map_err RuntimeFailure (collect_ok expected_resource_identities (map sd_id records))))
       (\<lambda>expected.
     sv_then (list_resources S) (\<lambda>inventory.
     let known = set (map sd_id records);
         findings = recovered @ List.map_filter (classify_finding known (set (concat expected))) inventory
     in
     sv_then (inspect_records S (owned_containers inventory) records findings []) (\<lambda>(findings, failed).
     sv_then (reconcile_ssh S (filter (\<lambda>r. ssh_resolution_enabled (sd_ssh r)) records) failed) (\<lambda>found.
     sv_return (remdups_adj (sort_key debug (findings @ found)))))))))"

end
