(* ===== verification/Service_Frame.thy ===== *)
theory Service_Frame
  imports Service_Recover Store_Correct
begin

text \<open>
  What every method of the lifecycle service does to its world, proved once for every relation
  that the single calls respect: a locale whose laws speak of one call to the store, the runtime,
  the host or the event stream, and whose lemmas lift them through the handlers.
\<close>

section \<open>Results and effects of a method\<close>

named_theorems frame_rules "introduction rules for the effect of a method on the world"
named_theorems yield_rules "introduction rules for the result of a method"

definition keeps ::
  "(('b, 'd) world \<Rightarrow> ('b, 'd) world \<Rightarrow> bool) \<Rightarrow> ('a, 'b, 'd) svc \<Rightarrow> bool" where
  "keeps R m \<longleftrightarrow> (\<forall>w. R w (snd (m w)))"

definition yields :: "('a \<Rightarrow> bool) \<Rightarrow> ('a, 'b, 'd) svc \<Rightarrow> bool" where
  "yields Q m \<longleftrightarrow> (\<forall>w x. fst (m w) = Ok x \<longrightarrow> Q x)"

lemma yields_return [yield_rules]: "Q x \<Longrightarrow> yields Q (sv_return x)"
  by (simp add: yields_def sv_return_def)

lemma yields_throw [yield_rules]: "yields Q (sv_throw e)"
  by (simp add: yields_def sv_throw_def)

lemma yields_result: "(\<And>x. r = Ok x \<Longrightarrow> Q x) \<Longrightarrow> yields Q (sv_result r)"
  by (simp add: yields_def sv_result_def result_simps)

lemma yields_then_post:
  assumes "yields P m" "\<And>x. P x \<Longrightarrow> yields Q (f x)"
  shows "yields Q (sv_then m f)"
  unfolding yields_def
proof (intro allI impI)
  fix w y
  assume "fst (sv_then m f w) = Ok y"
  then obtain x t where "m w = (Ok x, t)" "fst (f x t) = Ok y"
    by (cases "m w"; cases "fst (m w)") (auto simp: sv_then_def)
  with assms show "Q y" unfolding yields_def by (metis fst_conv)
qed

lemma yields_then: "(\<And>x. yields Q (f x)) \<Longrightarrow> yields Q (sv_then m f)"
  by (rule yields_then_post [where P = "\<lambda>_. True"]) (simp_all add: yields_def)

lemma yields_mono: "yields P m \<Longrightarrow> (\<And>x. P x \<Longrightarrow> Q x) \<Longrightarrow> yields Q m"
  by (auto simp: yields_def)

lemma yields_map_err [yield_rules]: "yields Q m \<Longrightarrow> yields Q (sv_map_err f m)"
  by (auto simp: yields_def sv_map_err_def st_map_err_def split: prod.splits)
    (metis fst_conv map_err_eq_Ok)

lemma yields_attempt: "(\<And>r. yields Q (f r)) \<Longrightarrow> yields Q (sv_attempt m f)"
  by (auto simp: yields_def sv_attempt_def split: prod.splits result.splits raised.splits)

lemma yields_attempt_runtime: "(\<And>b r. fst (f b) = r \<Longrightarrow> yields Q (k r)) \<Longrightarrow> yields Q (attempt_runtime f k)"
  by (auto simp: yields_def attempt_runtime_def split: prod.splits) (metis fst_conv)

lemma yields_if [yield_rules]:
  "(b \<Longrightarrow> yields Q m) \<Longrightarrow> (\<not> b \<Longrightarrow> yields Q n) \<Longrightarrow> yields Q (if b then m else n)"
  by simp

lemma yields_option [yield_rules]:
  "(x = None \<Longrightarrow> yields Q m) \<Longrightarrow> (\<And>y. x = Some y \<Longrightarrow> yields Q (f y)) \<Longrightarrow>
     yields Q (case x of None \<Rightarrow> m | Some y \<Rightarrow> f y)"
  by (cases x) auto

lemma yields_case_result [yield_rules]:
  "(\<And>y. x = Ok y \<Longrightarrow> yields Q (f y)) \<Longrightarrow> (\<And>e. x = Err e \<Longrightarrow> yields Q (g e)) \<Longrightarrow>
     yields Q (case x of Ok y \<Rightarrow> f y | Err e \<Rightarrow> g e)"
  by (cases x) auto

lemma yields_prod [yield_rules]:
  "(\<And>y z. x = (y, z) \<Longrightarrow> yields Q (f y z)) \<Longrightarrow> yields Q (case x of (y, z) \<Rightarrow> f y z)"
  by (cases x) auto

lemmas yield_chain = yield_rules yields_then yields_attempt yields_attempt_runtime

definition valid_id :: "sandbox_id \<Rightarrow> bool" where
  "valid_id i \<longleftrightarrow> stored_id (as_str i) = Ok i"

lemma stored_id_Ok: "stored_id s = Ok i \<Longrightarrow> i = SandboxId s"
  by (auto simp: stored_id_def try_from_def result_simps split: outcome.splits)

lemma get_sandbox_id:
  assumes "get_sandbox codec i db = Ok (Some r)"
  shows "sd_id r = i \<and> valid_id i"
proof -
  obtain row where "find (\<lambda>r. sr_id r = as_str i) (db_sandboxes db) = Some row" "decode_sandbox codec db row = Ok r"
    using assms by (auto simp: get_sandbox_def load_sandbox_def result_simps split: option.splits)
  then have "stored_id (as_str i) = Ok (sd_id r)" by (auto simp: decode_sandbox_Ok dest!: find_member)
  with stored_id_Ok [OF this] show ?thesis by (cases i) (simp add: valid_id_def)
qed

lemma transport_policy_ok:
  assumes "ssh_transport_policy_of i db = Ok policy"
  shows "policy_ok policy"
  using assms unfolding ssh_transport_policy_of_def decode_ssh_transport_policy_def policy_ok_def
  by (auto simp: transport_disabled_def transport_enabled_def split: option.splits if_splits)

lemma requested_policy_ok: "policy_ok (Some (requested_ssh_transport spec))"
  by (auto simp: policy_ok_def requested_ssh_transport_def)

lemma db_read_yields: "(\<And>db x. f db = Ok x \<Longrightarrow> Q x) \<Longrightarrow> yields Q (db_read S f)"
  by (auto simp: yields_def db_read_def database_def Let_def split: if_splits result.splits)

lemma sandbox_of_yields: "yields (\<lambda>r. \<forall>x. r = Some x \<longrightarrow> sd_id x = i \<and> valid_id i) (sandbox_of S i)"
  unfolding sandbox_of_def by (rule db_read_yields) (auto dest: get_sandbox_id)

lemma existing_sandbox_yields: "yields (\<lambda>r. sd_id r = i \<and> valid_id i) (existing_sandbox S i)"
  unfolding existing_sandbox_def
  by (rule yields_then_post [OF sandbox_of_yields], rule yields_result) (auto simp: result_simps)

lemma transport_of_yields: "yields policy_ok (transport_of S i)"
  unfolding transport_of_def by (rule db_read_yields) (rule transport_policy_ok)

lemma compiled_id:
  "service_compile_policy S spec capabilities prepared = Ok create \<Longrightarrow> cr_id create = spec_id spec"
  by (auto simp: service_compile_policy_def compile_for_image_def compile_for_image_with_control_plane_def
      compile_for_image_internal_def Let_def result_simps split: option.splits if_splits)

lemma compile_yields:
  "yields (\<lambda>create. cr_id create = spec_id spec)
     (sv_result (map_err PolicyFailure (service_compile_policy S spec capabilities prepared)))"
  by (rule yields_result) (auto simp: result_simps dest: compiled_id)

lemma restored_id: "restore_ssh_transport b64 req control = Ok req' \<Longrightarrow> cr_id req' = cr_id req"
  by (auto simp: restore_ssh_transport_def clear_ssh_transport_def Let_def result_simps
      split: option.splits if_splits)

section \<open>One call at a time\<close>

text \<open>\<open>R\<close> relates the world before and after.  Its laws: bookkeeping and events, any change
  of the host, each call to the runtime, in \<open>writing_frame\<close> each write to the
  store, and in \<open>service_frame\<close> the beginning of an operation.  A create is made only for a sandbox
  that is \<open>mine\<close>, a removal only of resources that are \<open>removable\<close>, among them those of a
  sandbox that is \<open>mine\<close> and the evidence that a create returned.\<close>

locale world_frame = stepwise R for R :: "('b, 'd) world \<Rightarrow> ('b, 'd) world \<Rightarrow> bool" +
  fixes S :: "('b, 'd) service" and mine :: "sandbox_id \<Rightarrow> bool" and removable :: "runtime_resource \<Rightarrow> bool"
  assumes counts: "R w (w \<lparr> w_calls := n \<rparr>)" and poisons: "R w (w \<lparr> w_poisoned := p \<rparr>)"
    and sends: "R w (w \<lparr> w_sent := events \<rparr>)" and starts: "R w (w \<lparr> w_started := operations \<rparr>)"
    and host: "R w (w \<lparr> w_host := d \<rparr>)"
    and capabilities: "R w (w \<lparr> w_runtime := snd (bk_capabilities (sv_runtime S) (w_runtime w)) \<rparr>)"
    and inspects: "R w (w \<lparr> w_runtime := snd (bk_inspect (sv_runtime S) i (w_runtime w)) \<rparr>)"
    and starts_runtime: "R w (w \<lparr> w_runtime := snd (bk_start (sv_runtime S) i (w_runtime w)) \<rparr>)"
    and stops: "R w (w \<lparr> w_runtime := snd (bk_stop (sv_runtime S) i (w_runtime w)) \<rparr>)"
    and execs: "R w (w \<lparr> w_runtime := snd (bk_exec (sv_runtime S) x (w_runtime w)) \<rparr>)"
    and logs: "R w (w \<lparr> w_runtime := snd (bk_logs (sv_runtime S) i since (w_runtime w)) \<rparr>)"
    and prepares: "R w (w \<lparr> w_runtime := snd (bk_prepare_image (sv_runtime S) img (w_runtime w)) \<rparr>)"
    and lists: "R w (w \<lparr> w_runtime := snd (bk_list_resources (sv_runtime S) (w_runtime w)) \<rparr>)"
    and creates: "mine (cr_id c) \<Longrightarrow> R w (w \<lparr> w_runtime := snd (bk_create (sv_runtime S) c (w_runtime w)) \<rparr>)"
    and recreates: "mine (cr_id (rc_create q)) \<Longrightarrow>
        R w (w \<lparr> w_runtime := snd (bk_create_container (sv_runtime S) q (w_runtime w)) \<rparr>)"
    and removes: "list_all removable rs \<Longrightarrow> remove_from_resources rs = Ok request \<Longrightarrow>
        R w (w \<lparr> w_runtime := snd (bk_remove (sv_runtime S) request (w_runtime w)) \<rparr>)"
    and own: "mine i \<Longrightarrow> owned_by i r \<Longrightarrow> removable r"
    and created: "mine (cr_id c) \<Longrightarrow> fst (bk_create (sv_runtime S) c b) = Ok outcome \<Longrightarrow>
        list_all removable (outcome_created outcome)"
    and partly_created: "mine (cr_id c) \<Longrightarrow> fst (bk_create (sv_runtime S) c b) = Err failure \<Longrightarrow>
        list_all removable (failure_created failure)"
    and partly_recreated: "mine (cr_id (rc_create q)) \<Longrightarrow>
        fst (bk_create_container (sv_runtime S) q b) = Err failure \<Longrightarrow>
        list_all removable (failure_created failure)"
    and provisions: "sv_provision S spec c (w_runtime w, w_host w) = (resolved, b, d) \<Longrightarrow>
        R w (w \<lparr> w_runtime := b, w_host := d \<rparr>)"
    and checks: "sv_health_check S i (w_runtime w, w_host w) = (u, b, d) \<Longrightarrow>
        R w (w \<lparr> w_runtime := b, w_host := d \<rparr>)"
begin

lemma keeps_return [frame_rules]: "keeps R (sv_return x)"
  by (simp add: keeps_def sv_return_def step_refl)

lemma keeps_throw [frame_rules]: "keeps R (sv_throw e)"
  by (simp add: keeps_def sv_throw_def step_refl)

lemma keeps_result [frame_rules]: "keeps R (sv_result r)"
  by (simp add: keeps_def sv_result_def step_refl)

lemma keeps_then_post:
  assumes "keeps R m" "yields Q m" "\<And>x. Q x \<Longrightarrow> keeps R (f x)"
  shows "keeps R (sv_then m f)"
  unfolding keeps_def sv_then_def
proof
  fix w
  show "R w (snd (st_then (m w) f))"
  proof (rule step_st_then)
    show "R w (snd (m w))" using assms(1) by (simp add: keeps_def)
    show "R t (snd (f x t))" if "m w = (Ok x, t)" for x t
      using assms(2,3) that unfolding keeps_def yields_def by (metis fst_conv)
  qed
qed

lemma keeps_then [frame_rules]:
  "keeps R m \<Longrightarrow> (\<And>x. keeps R (f x)) \<Longrightarrow> keeps R (sv_then m f)"
  by (rule keeps_then_post [where Q = "\<lambda>_. True"]) (simp_all add: yields_def)

lemma keeps_attempt_post:
  assumes "keeps R m" "yields Q m" "\<And>x. Q x \<Longrightarrow> keeps R (f (Ok x))" "\<And>e. keeps R (f (Err e))"
  shows "keeps R (sv_attempt m f)"
  unfolding keeps_def
proof
  fix w :: "('b, 'd) world"
  obtain r t where mw: "m w = (r, t)" by fastforce
  then have t: "R w t" using assms(1) unfolding keeps_def by (metis snd_conv)
  have f: "r = Ok x \<Longrightarrow> R t (snd (f (Ok x) t))" for x
    using assms(2,3) mw unfolding keeps_def yields_def by (metis fst_conv)
  have g: "R t (snd (f (Err e) t))" for e using assms(4) by (simp add: keeps_def)
  show "R w (snd (sv_attempt m f w))"
  proof (cases r)
    case (Ok x)
    with mw f show ?thesis by (simp add: sv_attempt_def step_trans [OF t])
  next
    case (Err e)
    with mw g t show ?thesis by (cases e) (simp_all add: sv_attempt_def step_trans [OF t])
  qed
qed

lemma keeps_attempt [frame_rules]:
  "keeps R m \<Longrightarrow> (\<And>r. keeps R (f r)) \<Longrightarrow> keeps R (sv_attempt m f)"
  by (rule keeps_attempt_post [where Q = "\<lambda>_. True"]) (simp_all add: yields_def)

lemma keeps_when [frame_rules]: "(b \<Longrightarrow> keeps R m) \<Longrightarrow> keeps R (sv_when b m)"
  by (simp add: sv_when_def keeps_return)

lemma keeps_map_err [frame_rules]: "keeps R m \<Longrightarrow> keeps R (sv_map_err f m)"
  by (simp add: keeps_def sv_map_err_def)

lemma keeps_if [frame_rules]:
  "(b \<Longrightarrow> keeps R m) \<Longrightarrow> (\<not> b \<Longrightarrow> keeps R n) \<Longrightarrow> keeps R (if b then m else n)"
  by simp

lemma keeps_option [frame_rules]:
  "(x = None \<Longrightarrow> keeps R m) \<Longrightarrow> (\<And>y. x = Some y \<Longrightarrow> keeps R (f y)) \<Longrightarrow>
     keeps R (case x of None \<Rightarrow> m | Some y \<Rightarrow> f y)"
  by (cases x) auto

lemma keeps_case_result [frame_rules]:
  "(\<And>y. x = Ok y \<Longrightarrow> keeps R (f y)) \<Longrightarrow> (\<And>e. x = Err e \<Longrightarrow> keeps R (g e)) \<Longrightarrow>
     keeps R (case x of Ok y \<Rightarrow> f y | Err e \<Rightarrow> g e)"
  by (cases x) auto

lemma keeps_prod [frame_rules]:
  "(\<And>y z. x = (y, z) \<Longrightarrow> keeps R (f y z)) \<Longrightarrow> keeps R (case x of (y, z) \<Rightarrow> f y z)"
  by (cases x) auto

section \<open>Calls\<close>

lemma keeps_database:
  assumes "\<And>clock fault w. R w (w \<lparr> w_db := snd (action clock fault (w_db w)) \<rparr>)"
  shows "keeps R (database S checked action)"
  unfolding keeps_def
proof
  fix w :: "('b, 'd) world"
  obtain r db where a: "action (sv_clock S (w_calls w)) (sv_fault S (w_calls w)) (w_db w) = (r, db)"
    by fastforce
  let ?v = "w \<lparr> w_calls := Suc (w_calls w) \<rparr>"
  have called: "R w ?v" by (rule counts)
  moreover have "R ?v (?v \<lparr> w_db := db \<rparr>)"
    using assms [of ?v "sv_clock S (w_calls w)" "sv_fault S (w_calls w)"] by (simp add: a)
  ultimately have stored: "R w (?v \<lparr> w_db := db \<rparr>)" by (rule step_trans)
  have poisoned: "R w (?v \<lparr> w_db := db, w_poisoned := True \<rparr>)"
    by (rule step_trans [OF stored poisons])
  show "R w (snd (database S checked action w))"
    using called stored poisoned by (simp add: database_def Let_def a split: result.split)
qed

lemma keeps_db_read [frame_rules]: "keeps R (db_read S f)"
  unfolding db_read_def by (rule keeps_database) (simp add: step_refl)

lemma keeps_send [frame_rules]: "keeps R (send_event event)"
  by (simp add: keeps_def send_event_def sends)

lemma keeps_publish [frame_rules]: "keeps R (publish_operation started i)"
  by (simp add: keeps_def publish_operation_def step_refl starts)

lemma keeps_host_call [frame_rules]: "keeps R (host_call f)"
  by (simp add: keeps_def host_call_def host split: prod.split)

lemma keeps_runtime_call:
  "(\<And>w. R w (w \<lparr> w_runtime := snd (f (w_runtime w)) \<rparr>)) \<Longrightarrow> keeps R (runtime_call wrap f)"
  by (auto simp: keeps_def runtime_call_def split: prod.split) (metis snd_conv)

lemma keeps_attempt_runtime:
  assumes "\<And>w. R w (w \<lparr> w_runtime := snd (f (w_runtime w)) \<rparr>)" "\<And>b r. fst (f b) = r \<Longrightarrow> keeps R (k r)"
  shows "keeps R (attempt_runtime f k)"
  unfolding keeps_def
proof
  fix w :: "('b, 'd) world"
  obtain r b where f: "f (w_runtime w) = (r, b)" by fastforce
  then have "R w (w \<lparr> w_runtime := b \<rparr>)" "keeps R (k r)"
    using assms(1) [of w] assms(2) [of "w_runtime w" r] by simp_all
  then show "R w (snd (attempt_runtime f k w))"
    by (simp add: attempt_runtime_def f keeps_def) (metis step_trans)
qed

lemmas keeps_runtime [frame_rules] =
  keeps_runtime_call [OF capabilities] keeps_runtime_call [OF inspects] keeps_runtime_call [OF starts_runtime]
  keeps_runtime_call [OF stops] keeps_runtime_call [OF execs] keeps_runtime_call [OF logs]
  keeps_runtime_call [OF prepares] keeps_runtime_call [OF lists]

lemma keeps_remove_resources:
  assumes "list_all removable rs"
  shows "keeps R (remove_resources S rs)"
  unfolding remove_resources_def
  by (rule keeps_then_post [where Q = "\<lambda>request. remove_from_resources rs = Ok request"])
    (auto simp: result_simps intro!: keeps_result yields_result keeps_runtime_call removes [OF assms])

end

text \<open>The writes to the store other than the beginning of an operation.\<close>

inductive store_write :: "json_codec \<Rightarrow> database \<Rightarrow> database \<Rightarrow> bool" for codec where
  write_put: "valid_id (sd_id sb) \<Longrightarrow> store_write codec db (snd (put_sandbox codec clock fault sb db))"
| write_put_ssh: "valid_id (sd_id sb) \<Longrightarrow> policy_ok policy \<Longrightarrow>
     store_write codec db (snd (put_sandbox_with_ssh_transport codec clock fault sb policy db))"
| write_ssh: "store_write codec db (snd (set_ssh_resolution codec clock fault i resolution db))"
| write_append: "store_write codec db (snd (append_operation_event codec clock fault i details db))"
| write_finish: "store_write codec db
     (snd (finish_operation codec clock fault i actual status error_code details clear db))"

lemma store_write_step: "store_write codec db db' \<Longrightarrow> store_step codec db db'"
  by (cases rule: store_write.cases, assumption) (auto simp: valid_id_def intro: store_step.intros)

locale writing_frame = world_frame R S mine removable
  for R :: "('b, 'd) world \<Rightarrow> ('b, 'd) world \<Rightarrow> bool" and S :: "('b, 'd) service"
    and mine :: "sandbox_id \<Rightarrow> bool" and removable :: "runtime_resource \<Rightarrow> bool" +
  assumes writes: "store_write (sv_codec S) (w_db w) db \<Longrightarrow> R w (w \<lparr> w_db := db \<rparr>)"
begin

lemma keeps_db_writes [frame_rules]:
  "keeps R (db_complete S operation actual)" "keeps R (db_fail S operation actual code details)"
  "keeps R (db_complete_destroy S operation)" "keeps R (db_fail_create S operation code details)"
  "keeps R (db_append S operation details)" "keeps R (db_set_ssh_resolution S i v)"
  unfolding db_complete_def db_fail_def db_complete_destroy_def db_fail_create_def db_append_def
    db_set_ssh_resolution_def complete_operation_def fail_operation_def complete_destroy_operation_def
    fail_create_operation_clearing_ssh_def
  by (rule keeps_database, blast intro: writes store_write.intros)+

lemma keeps_db_record:
  assumes "valid_id (sd_id r)"
  shows "keeps R (db_put S r)" and "policy_ok policy \<Longrightarrow> keeps R (db_put_with_transport S r policy)"
  using assms unfolding db_put_def db_put_with_transport_def
  by (rule_tac [!] keeps_database) (blast intro: writes store_write.intros)+

end

locale service_frame = writing_frame R S mine removable
  for R :: "('b, 'd) world \<Rightarrow> ('b, 'd) world \<Rightarrow> bool" and S :: "('b, 'd) service"
    and mine :: "sandbox_id \<Rightarrow> bool" and removable :: "runtime_resource \<Rightarrow> bool" +
  assumes begins: "valid_id (sd_id r) \<Longrightarrow>
    R w (w \<lparr> w_db := snd (begin_operation (sv_codec S) clock fault r kind (w_db w)) \<rparr>)"
begin

lemma keeps_db_begin: "valid_id (sd_id r) \<Longrightarrow> keeps R (db_begin S r kind)"
  unfolding db_begin_def by (rule keeps_database, rule begins)

end

section \<open>The SSH manager\<close>

definition on_pair ::
  "(('b, 'd) world \<Rightarrow> ('b, 'd) world \<Rightarrow> bool) \<Rightarrow> 'b \<times> 'd \<Rightarrow> 'b \<times> 'd \<Rightarrow> bool" where
  "on_pair R bd bd' \<longleftrightarrow>
     (\<forall>w. (w_runtime w, w_host w) = bd \<longrightarrow> R w (w \<lparr> w_runtime := fst bd', w_host := snd bd' \<rparr>))"

sublocale world_frame < pair: stepwise "on_pair R"
proof
  show "on_pair R bd bd" for bd by (auto simp: on_pair_def step_refl)
  show "on_pair R bd bd''" if "on_pair R bd bd'" "on_pair R bd' bd''" for bd bd' bd''
    unfolding on_pair_def
  proof (intro allI impI)
    fix w :: "('b, 'd) world"
    assume w: "(w_runtime w, w_host w) = bd"
    let ?v = "w \<lparr> w_runtime := fst bd', w_host := snd bd' \<rparr>"
    have "R w ?v" using that(1) w by (simp add: on_pair_def)
    moreover have "R ?v (?v \<lparr> w_runtime := fst bd'', w_host := snd bd'' \<rparr>)"
      using that(2) [unfolded on_pair_def, rule_format, of ?v] by simp
    ultimately show "R w (w \<lparr> w_runtime := fst bd'', w_host := snd bd'' \<rparr>)"
      by (simp add: step_trans)
  qed
qed

definition on_runtime :: "(('b, 'd) world \<Rightarrow> ('b, 'd) world \<Rightarrow> bool) \<Rightarrow> 'b \<Rightarrow> 'b \<Rightarrow> bool" where
  "on_runtime R b b' \<longleftrightarrow> (\<forall>w. w_runtime w = b \<longrightarrow> R w (w \<lparr> w_runtime := b' \<rparr>))"

sublocale world_frame < rt: stepwise "on_runtime R"
proof
  show "on_runtime R b b" for b by (auto simp: on_runtime_def step_refl)
  show "on_runtime R b b''" if "on_runtime R b b'" "on_runtime R b' b''" for b b' b''
    unfolding on_runtime_def
  proof (intro allI impI)
    fix w :: "('b, 'd) world"
    assume "w_runtime w = b"
    then have "R w (w \<lparr> w_runtime := b' \<rparr>)" using that(1) by (simp add: on_runtime_def)
    then show "R w (w \<lparr> w_runtime := b'' \<rparr>)"
      using that(2) [unfolded on_runtime_def, rule_format, of "w \<lparr> w_runtime := b' \<rparr>"] step_trans by fastforce
  qed
qed

context world_frame
begin

lemma pair_host: "on_pair R bd (fst bd, d)" "on_pair R (b, c) (b, d)"
  using host by (auto simp: on_pair_def)

lemma pair_runtime:
  assumes "\<And>w. R w (w \<lparr> w_runtime := snd (f (w_runtime w)) \<rparr>)"
  shows "on_pair R bd (snd (f (fst bd)), snd bd)"
  unfolding on_pair_def
proof (intro allI impI)
  fix w :: "('b, 'd) world"
  assume w: "(w_runtime w, w_host w) = bd"
  with assms [of w] show "R w (w \<lparr> w_runtime := fst (snd (f (fst bd)), snd bd), w_host := snd (snd (f (fst bd)), snd bd) \<rparr>)"
    by auto
qed

lemma runtime_on: "(\<And>w. R w (w \<lparr> w_runtime := snd (f (w_runtime w)) \<rparr>)) \<Longrightarrow> on_runtime R b (snd (f b))"
  by (auto simp: on_runtime_def)

lemma on_runtimeD: "(\<And>b. on_runtime R b (snd (f b))) \<Longrightarrow> R w (w \<lparr> w_runtime := snd (f (w_runtime w)) \<rparr>)"
  by (auto simp: on_runtime_def)

lemma runtime_removes_created:
  assumes "list_all removable (outcome_created outcome)"
  shows "on_runtime R b (snd (remove_created (sv_runtime S) i outcome b))"
  unfolding remove_created_def
  by (auto intro!: rt.step_st_then runtime_on [OF inspects] runtime_on [OF stops]
      runtime_on [OF removes [OF assms]] rt.step_refl split: option.split result.split)

lemma pair_read_key: "on_pair R bd (snd (read_host_public_key (sv_runtime S) E i bd))"
  using pair_runtime [where f = "bk_exec (sv_runtime S) (host_key_request i)", OF execs, of bd]
  by (auto simp: read_host_public_key_def split: prod.split result.split)

lemma pair_lift_host: "on_pair R bd (snd (lift_host r (fst bd)))"
  by (simp add: lift_host_def pair_host)

lemma pair_map_err: "on_pair R bd (snd r) \<Longrightarrow> on_pair R bd (snd (lift_raised r))"
  by (simp add: lift_raised_def)

lemma pair_verified: "on_pair R bd (snd (verified_managed_host (sv_runtime S) E i expected identity bd))"
proof -
  obtain r b where b: "bk_inspect (sv_runtime S) i (fst bd) = (r, b)" by fastforce
  have inspected: "on_pair R bd (b, snd bd)"
    using pair_runtime [where f = "bk_inspect (sv_runtime S) i", OF inspects, of bd] by (simp add: b)
  have "on_pair R (b, snd bd) (snd (st_then (read_host_public_key (sv_runtime S) E i (b, snd bd)) f))"
    if "\<And>x t. on_pair R t (snd (f x t))" for f :: "string \<Rightarrow> 'b \<times> 'd \<Rightarrow> (managed_ssh_host, service_error, 'b \<times> 'd) stateful"
    by (rule pair.step_st_then) (auto intro: pair_read_key that)
  then have "on_pair R bd (snd (st_then (read_host_public_key (sv_runtime S) E i (b, snd bd)) f))"
    if "\<And>x t. on_pair R t (snd (f x t))" for f :: "string \<Rightarrow> 'b \<times> 'd \<Rightarrow> (managed_ssh_host, service_error, 'b \<times> 'd) stateful"
    using inspected that by (blast intro: pair.step_trans)
  then show ?thesis
    by (auto simp: verified_managed_host_def b Let_def inspected pair.step_refl
        split: result.split option.split)
qed

lemmas pair_rules =
  pair.step_st_then pair_map_err pair_verified pair.step_refl pair_host

lemma pair_prepare_activation:
  "on_pair R bd (snd (prepare_activation_for_paths (sv_runtime S) E i expected paths bd))"
  by (auto simp: prepare_activation_for_paths_def lift_host_def intro!: pair_rules)

lemma pair_verify_for_reconcile:
  "on_pair R bd (snd (verify_for_reconcile (sv_runtime S) E i expected paths bd))"
  by (auto simp: verify_for_reconcile_def lift_host_def intro!: pair_rules)

lemma keeps_manager_call: "(\<And>bd. on_pair R bd (snd (f bd))) \<Longrightarrow> keeps R (manager_call f)"
  by (auto simp: keeps_def manager_call_def on_pair_def split: prod.split) (metis fst_conv snd_conv)

lemma keeps_provisioner [frame_rules]:
  "keeps R (manager_call (\<lambda>bd. lift_raised (sv_provision S spec c bd)))"
  "keeps R (manager_call (\<lambda>bd. lift_raised (sv_health_check S i bd)))"
  by (rule keeps_manager_call; auto simp: lift_raised_def on_pair_def; metis provisions checks prod.collapse)+

lemmas keeps_manager [frame_rules] =
  keeps_manager_call [OF pair_prepare_activation]
  keeps_manager_call [OF pair_map_err [OF pair_verify_for_reconcile]]

end

end
