(* ===== verification/Service_Handlers.thy ===== *)
theory Service_Handlers
  imports Service_Frame
begin

text \<open>
  The laws of \<open>service_frame\<close> lifted through every handler of the lifecycle service: up, apply,
  start, stop, destroy and the reconciliation at start-up.
\<close>

section \<open>Events and SSH\<close>

context world_frame
begin

lemma keeps_reads [frame_rules]:
  "keeps R (sandbox_of S i)" "keeps R (existing_sandbox S i)" "keeps R (transport_of S i)"
  "keeps R (events_of S operation)" "keeps R (existing_runtime S i)" "keeps R (runtime_capabilities S)"
  "keeps R (runtime_actual S i fallback)"
  unfolding sandbox_of_def existing_sandbox_def transport_of_def events_of_def existing_runtime_def
    runtime_capabilities_def runtime_actual_def
  by (intro frame_rules)+

lemma keeps_events [frame_rules]:
  "keeps R (send_initial S operation)" "keeps R (send_terminal S operation)"
  unfolding send_initial_def send_terminal_def by (intro frame_rules)+

lemma keeps_ssh_calls [frame_rules]:
  "keeps R (prepare_ssh_create S spec)" "keeps R (prepare_ssh_activation S i expected)"
  "keeps R (deactivate_ssh S i)" "keeps R (commit_activation S a fault)"
  unfolding prepare_ssh_create_def prepare_ssh_activation_def deactivate_ssh_def commit_activation_def
  by (intro frame_rules)+

lemma keeps_stop_if_running [frame_rules]: "keeps R (stop_if_running S i)"
  unfolding stop_if_running_def by (intro frame_rules)

lemma exact_removable: "mine i \<Longrightarrow> list_all removable (filter (exact_resource i expected) rs)"
  by (auto simp: list_all_iff exact_resource_def owned_by_def intro: own)

lemma keeps_remove_exact: "mine i \<Longrightarrow> keeps R (remove_exact_resources S i)"
  unfolding remove_exact_resources_def Let_def
  by (intro frame_rules keeps_remove_resources exact_removable)

end

context writing_frame
begin

lemma keeps_emit [frame_rules]: "keeps R (emit S operation details)"
  unfolding emit_def by (intro frame_rules)

lemma keeps_initialize [frame_rules]: "keeps R (initialize_operation S operation i fallback)"
  unfolding initialize_operation_def by (intro frame_rules)

lemma keeps_fail_with [frame_rules]: "keeps R (fail_with S operation actual details error)"
  unfolding fail_with_def by (intro frame_rules)

lemma keeps_restore_resolution [frame_rules]: "keeps R (restore_prior_ssh_resolution S i prior original)"
  unfolding restore_prior_ssh_resolution_def by (intro frame_rules)

lemma keeps_activate [frame_rules]: "keeps R (activate_and_persist_ssh S i prior publication)"
  unfolding activate_and_persist_ssh_def Let_def by (intro frame_rules)

lemma keeps_expected_publication [frame_rules]: "keeps R (expected_publication S records expected)"
  by (induction records arbitrary: expected) (auto intro!: frame_rules)

lemma keeps_ssh_publication [frame_rules]:
  "keeps R (preflight_recovered_ssh_mapping S i)" "keeps R (verify_exact_ssh_publication S)"
  "keeps R (mark_ssh_publication S operation v)" "keeps R (disable_and_persist_ssh S i prior)"
  "keeps R (restore_prior_ssh S i enabled prior)"
  unfolding preflight_recovered_ssh_mapping_def verify_exact_ssh_publication_def mark_ssh_publication_def
    disable_and_persist_ssh_def restore_prior_ssh_def Let_def
  by (intro frame_rules)+

lemma keeps_rollback_create [frame_rules]:
  "keeps R (rollback_create_for_inspected_transport S create sb prior_policy)"
  unfolding rollback_create_for_inspected_transport_def Let_def
  by (auto intro!: frame_rules split: list.split)

section \<open>Start, stop, destroy\<close>

lemma keeps_start_or_stop [frame_rules]: "keeps R (start_or_stop S i r target)"
  unfolding start_or_stop_def by (cases target) (auto intro!: frame_rules)

lemma keeps_with_events: "keeps R m \<Longrightarrow> keeps R (with_events m)"
  unfolding with_events_def by (intro frame_rules)

end

context service_frame
begin

lemma keeps_simple_state: "keeps R (simple_state S i kind desired target started)"
  unfolding simple_state_def Let_def
  by (rule keeps_then_post [OF _ existing_sandbox_yields])
    (intro frame_rules keeps_db_begin; simp)+

lemma keeps_destroy: "mine i \<Longrightarrow> keeps R (destroy_inner S i started)"
  unfolding destroy_inner_def Let_def
  by (rule keeps_then_post [OF _ existing_sandbox_yields])
    (intro frame_rules keeps_db_begin keeps_remove_exact; simp)+

end

section \<open>Attempts\<close>

text \<open>A loop whose \<open>n\<close>-th turn never asks for another one returns; what its turns respect it
  respects, and its value is the value of its last turn.\<close>

lemma attempt_loop_ends:
  assumes last_turn: "\<And>p w q t. I p \<Longrightarrow> body n p w \<noteq> (Ok (Continue q), t)"
    and inv: "\<And>k p w q t. I p \<Longrightarrow> body k p w = (Ok (Continue q), t) \<Longrightarrow> I q"
    and step: "\<And>k p w. I p \<Longrightarrow> R w (snd (body k p w))"
    and trans: "\<And>s t u. R s t \<Longrightarrow> R t u \<Longrightarrow> R s u"
    and val: "\<And>k p w x t. I p \<Longrightarrow> body k p w = (Ok (Break x), t) \<Longrightarrow> Q x"
    and "I p" "k < n"
  shows "\<exists>r t. attempt_loop body k p w = Some (r, t) \<and> R w t \<and> (\<forall>x. r = Ok x \<longrightarrow> Q x)"
  using assms(6,7)
proof (induction "n - k" arbitrary: k p w)
  case (Suc m)
  obtain r t where b: "body (Suc k) p w = (r, t)" by fastforce
  have t: "R w t" using step [OF Suc.prems(1), of w "Suc k"] by (simp add: b)
  show ?case
  proof (cases "\<exists>q. r = Ok (Continue q)")
    case True
    then obtain q where r: "r = Ok (Continue q)" by blast
    with last_turn Suc.prems(1) b have "Suc k \<noteq> n" by blast
    with Suc.prems(2) Suc.hyps(2) have "m = n - Suc k" "Suc k < n" by simp_all
    moreover have "I q" using inv [OF Suc.prems(1)] b r by blast
    ultimately obtain r' u where "attempt_loop body (Suc k) q t = Some (r', u)" "R t u" "\<forall>x. r' = Ok x \<longrightarrow> Q x"
      using Suc.hyps(1) [of "Suc k" q t] by auto
    then show ?thesis
      using trans [OF t] by (subst attempt_loop.simps) (simp add: b r)
  next
    case False
    then show ?thesis
      using t val [OF Suc.prems(1), of "Suc k" w] b
      by (subst attempt_loop.simps) (auto split: result.split turn.split)
  qed
qed simp

definition turn_ok :: "('a \<Rightarrow> bool) \<Rightarrow> ('p \<Rightarrow> bool) \<Rightarrow> nat \<Rightarrow> ('a, 'p) turn \<Rightarrow> bool" where
  "turn_ok Q I k t = (case t of Break x \<Rightarrow> Q x | Continue q \<Rightarrow> I q \<and> k \<noteq> AUTOMATIC_PORT_ATTEMPTS)"

lemma turn_ok_simps [simp]:
  "turn_ok Q I k (Break x) = Q x"
  "turn_ok Q I k (Continue q) \<longleftrightarrow> I q \<and> k \<noteq> AUTOMATIC_PORT_ATTEMPTS"
  by (simp_all add: turn_ok_def)

lemma run_attempts_post:
  assumes turns: "\<And>k p. I p \<Longrightarrow> yields (turn_ok Q I k) (body k p)"
    and steps: "\<And>k p. I p \<Longrightarrow> keeps R (body k p)" and trans: "\<And>s t u. R s t \<Longrightarrow> R t u \<Longrightarrow> R s u" and "I p"
  shows "\<exists>r t. attempt_loop body 0 p w = Some (r, t) \<and> R w t \<and> (\<forall>x. r = Ok x \<longrightarrow> Q x)"
proof (rule attempt_loop_ends [where n = AUTOMATIC_PORT_ATTEMPTS and I = I])
  fix k p w q t
  assume "I p"
  note turn = turns [OF this, unfolded yields_def, rule_format]
  show "body k p w = (Ok (Continue q), t) \<Longrightarrow> I q" using turn [of k w "Continue q"] by simp
  show "body AUTOMATIC_PORT_ATTEMPTS p w \<noteq> (Ok (Continue q), t)"
    using turn [of AUTOMATIC_PORT_ATTEMPTS w "Continue q"] by auto
  show "body k p w = (Ok (Break x), t) \<Longrightarrow> Q x" for x using turn [of k w "Break x"] by simp
  show "R w (snd (body k p w))" using steps [OF \<open>I p\<close>] by (simp add: keeps_def)
qed (use trans \<open>I p\<close> in \<open>auto simp: AUTOMATIC_PORT_ATTEMPTS_def\<close>)

text \<open>A turn of either loop asks for another one only before the last attempt, and then with a
  request for the same sandbox.\<close>

definition for_sandbox_of :: "sandbox_spec \<Rightarrow> prepared_ssh_create option \<times> create_request \<Rightarrow> bool" where
  "for_sandbox_of spec pc \<longleftrightarrow> cr_id (snd pc) = spec_id spec"

definition created_for ::
  "(runtime_resource \<Rightarrow> bool) \<Rightarrow> sandbox_spec \<Rightarrow> create_outcome \<times> create_request \<Rightarrow> bool" where
  "created_for removable spec oc \<longleftrightarrow>
     cr_id (snd oc) = spec_id spec \<and> list_all removable (outcome_created (fst oc))"

lemma next_port_yields:
  "yields (turn_ok Q (for_sandbox_of spec) attempts) (next_port S spec capabilities what attempts failure prepared create)"
  unfolding next_port_def
proof (rule yields_then, intro yields_if yields_throw, rule yields_then, rule yields_then_post [OF compile_yields])
  fix prepared' and create' :: create_request
  assume "\<not> (\<not> automatic_ssh spec \<or> attempts = AUTOMATIC_PORT_ATTEMPTS)" "cr_id create' = spec_id spec"
  then show "yields (turn_ok Q (for_sandbox_of spec) attempts) (sv_return (Continue (prepared', create')))"
    by (intro yields_return) (simp add: for_sandbox_of_def)
qed

context writing_frame
begin

lemma keeps_attempts:
  assumes "\<And>k p. I p \<Longrightarrow> keeps R (body k p)" "\<And>k p. I p \<Longrightarrow> yields (turn_ok Q I k) (body k p)" "I p"
  shows "keeps R (run_attempts body p)" "yields Q (run_attempts body p)"
proof -
  have "\<exists>r t. attempt_loop body 0 p w = Some (r, t) \<and> R w t \<and> (\<forall>x. r = Ok x \<longrightarrow> Q x)" for w
    by (rule run_attempts_post [where I = I]) (use assms step_trans in blast)+
  note ends = this
  show "keeps R (run_attempts body p)"
    unfolding keeps_def run_attempts_def using ends by (metis option.sel snd_conv)
  show "yields Q (run_attempts body p)"
    unfolding yields_def run_attempts_def using ends by (metis option.sel fst_conv)
qed

section \<open>Provisioning\<close>

lemma keeps_guest [frame_rules]:
  "keeps R (exec_guest_raw S i argv stdin)" "keeps R (exec_guest S i step action argv stdin)"
  "keeps R (emit_provision_step S operation step)"
  unfolding exec_guest_raw_def exec_guest_def emit_provision_step_def by (intro frame_rules)+

lemma keeps_plan [frame_rules]:
  "keeps R (plan_now S spec applied)" "keeps R (sv_fingerprint S spec)"
  "keeps R (sv_matches S spec fingerprint r state)" "keeps R (collides S failure prepared create)"
  "keeps R (release_prepared S prepared)" "keeps R (sv_image_state prior running approved)"
  by (auto simp: keeps_def plan_now_def sv_fingerprint_def sv_matches_def collides_def release_prepared_def
      sv_image_state_def sv_result_def Let_def step_refl host split: option.split prod.split)

lemma keeps_provision_steps [frame_rules]:
  "keeps R (run_setup S i su)" "keeps R (finalize_setup_failure S i error)"
  "keeps R (install_tools S spec p operation)" "keeps R (initialize_managed_volume_roots S spec operation)"
  unfolding run_setup_def finalize_setup_failure_def install_tools_def initialize_managed_volume_roots_def
    Let_def
  by (intro frame_rules)+

lemma keeps_verify_gascamp [frame_rules]: "keeps R (verify_gascamp S spec)"
  unfolding verify_gascamp_def Let_def
  by (rule keeps_then) (auto intro!: frame_rules split: json.split)

lemma keeps_provision [frame_rules]:
  "keeps R (provision_tools S spec p prior operation)" "keeps R (provision_shell S spec p operation)"
  "keeps R (provision_setup S spec p operation)"
  "keeps R (provision_with_applied S spec create prior applied operation)"
  "keeps R (provision_explicit S spec create prior operation)" "keeps R (health_check S i)"
  unfolding provision_explicit_def provision_with_applied_def provision_tools_def provision_shell_def
    provision_setup_def health_check_def Let_def
  by (intro frame_rules)+

section \<open>Creating\<close>

lemma keeps_persist_created [frame_rules]: "keeps R (persist_created_state S i capacities (requested_ssh_transport spec))"
  unfolding persist_created_state_def
  by (rule keeps_then_post [OF _ existing_sandbox_yields])
    (auto intro!: frame_rules keeps_db_record requested_policy_ok)

lemma keeps_rollback_created:
  assumes "list_all removable (outcome_created outcome)"
  shows "keeps R (rollback_created S i outcome original)"
  unfolding rollback_created_def
  by (rule keeps_attempt_runtime, rule on_runtimeD, rule runtime_removes_created [OF assms])
    (intro frame_rules)

lemma keeps_next_port [frame_rules]:
  "keeps R (next_port S spec capabilities what attempts failure prepared create)"
  unfolding next_port_def by (intro frame_rules)

lemma keeps_create_turn:
  assumes "mine (spec_id spec)" "for_sandbox_of spec pc"
  shows "keeps R (create_turn S spec capabilities capacities attempts pc)"
proof -
  have m: "mine (cr_id (snd pc))" using assms by (simp add: for_sandbox_of_def)
  have "keeps R (if partial = [] then resume else
      sv_then (sv_result (map_err RuntimeFailure (remove_from_resources partial))) (\<lambda>request.
        attempt_runtime (bk_remove (sv_runtime S) request) (\<lambda>r. case r of
            Ok _ \<Rightarrow> resume | Err rollback \<Rightarrow> sv_throw (RollbackFailed original rollback))))"
    if "list_all removable partial" "keeps R resume"
    for partial original and resume :: "('z, 'b, 'd) svc"
    by (rule keeps_if [OF that(2)], rule keeps_then_post [where Q = "\<lambda>request. remove_from_resources partial = Ok request"])
      (auto simp: result_simps intro!: frame_rules yields_result keeps_attempt_runtime removes [OF that(1)] that(2))
  note removal = this
  show ?thesis
    unfolding create_turn_def Let_def
    by (intro keeps_then keeps_plan keeps_attempt_runtime creates m keeps_case_result keeps_attempt frame_rules
        keeps_rollback_created removal keeps_next_port) (auto dest: created [OF m] partly_created [OF m])
qed

lemma create_turn_yields:
  assumes "mine (spec_id spec)" "for_sandbox_of spec pc"
  shows "yields (turn_ok (created_for removable spec) (for_sandbox_of spec) attempts)
    (create_turn S spec capabilities capacities attempts pc)"
proof -
  have m: "mine (cr_id (snd pc))" "cr_id (snd pc) = spec_id spec"
    using assms by (simp_all add: for_sandbox_of_def)
  show ?thesis
    unfolding create_turn_def Let_def rollback_created_def
    by (intro yield_chain next_port_yields) (auto simp: created_for_def m(2) dest: created [OF m(1)])
qed

lemma keeps_create_loop:
  assumes "mine (spec_id spec)" "cr_id create = spec_id spec"
  shows "keeps R (create_loop S spec capabilities capacities prepared create)"
    and "yields (created_for removable spec) (create_loop S spec capabilities capacities prepared create)"
  unfolding create_loop_def
  by (rule keeps_attempts [where I = "for_sandbox_of spec" and Q = "created_for removable spec"];
      use assms in \<open>auto simp: for_sandbox_of_def intro: keeps_create_turn create_turn_yields\<close>)+

section \<open>Up\<close>

lemma keeps_up_parts [frame_rules]:
  "keeps R (up_apply_required S spec create prior transport operation sb)"
  "keeps R (up_provision S spec create prior inspected matching operation fingerprint)"
  "keeps R (up_ssh S spec prior_ssh operation)"
  "keeps R (up_after_create S spec create prior inspected operation fingerprint)"
  "keeps R (report_failure S operation actual code details error)"
  unfolding up_apply_required_def up_after_create_def up_provision_def up_ssh_def report_failure_def Let_def
  by (intro frame_rules)+

lemma keeps_up_failed:
  assumes "\<And>outcome. created' = Some outcome \<Longrightarrow> list_all removable (outcome_created outcome)"
  shows "keeps R (up_failed S i created' error)"
  unfolding up_failed_def
  by (intro frame_rules keeps_rollback_created) (auto intro: assms)

lemma keeps_up_runtime:
  assumes "mine (spec_id spec)"
  shows "keeps R (up_runtime S spec create capabilities prior transport operation fingerprint capacities)"
proof -
  define ok where "ok cc \<longleftrightarrow> (\<forall>outcome. fst cc = Some outcome \<longrightarrow> list_all removable (outcome_created outcome))"
    for cc :: "create_outcome option \<times> create_request"
  have created: "keeps R m \<and> yields ok m"
    if "cr_id create = spec_id spec"
      "m = (if b then sv_then (create_loop S spec capabilities capacities prepared create) (\<lambda>(outcome, create).
              sv_then (emit S operation (phase_event ''created'' [])) (\<lambda>_. sv_return (Some outcome, create)))
            else sv_return (None, create))" for m b prepared create
  proof
    show "keeps R m" unfolding that(2) by (intro frame_rules keeps_create_loop assms that(1))
    show "yields ok m"
      unfolding that(2)
      by (rule yields_if, rule yields_then_post [OF keeps_create_loop(2) [OF assms that(1)]], rule yields_prod,
          rule yields_then, rule yields_return) (auto simp: ok_def created_for_def intro: yields_return)
  qed
  show ?thesis
    unfolding up_runtime_def Let_def
    by ((rule keeps_then, (intro frame_rules)[1])+, rule keeps_if, (intro frame_rules)[1],
        rule keeps_then, (intro frame_rules)[1], rule keeps_then_post [OF keeps_result compile_yields],
        rule keeps_then_post [where Q = ok])
      (use created in \<open>auto simp: ok_def intro!: keeps_attempt frame_rules keeps_up_failed\<close>)
qed

lemma keeps_up_validate [frame_rules]: "keeps R (up_validate S spec)"
  unfolding up_validate_def by (intro frame_rules)

lemma keeps_up_commit:
  assumes "valid_id (sd_id r)" "policy_ok (ur_prior_transport q)"
  shows "keeps R (up_commit S spec q r operation result)"
  unfolding up_commit_def Let_def using assms
  by (auto simp: with_provisioned_def requested_policy_ok
      intro!: frame_rules keeps_db_record split: prod.split option.split)

end

definition request_for :: "sandbox_id \<Rightarrow> up_request \<Rightarrow> bool" where
  "request_for i q \<longleftrightarrow> (\<forall>r. ur_existing q = Some r \<longrightarrow> sd_id r = i) \<and> policy_ok (ur_prior_transport q)"

lemma up_validate_yields: "yields (request_for (spec_id spec)) (up_validate S spec)"
  unfolding up_validate_def
  by (rule yields_then_post [OF sandbox_of_yields], rule yields_then, rule yields_then, rule yields_then,
      rule yields_then, rule yields_then_post [OF transport_of_yields], rule yields_then, rule yields_then,
      rule yields_return) (simp add: request_for_def)

lemma up_record_id: "request_for (spec_id spec) q \<Longrightarrow> sd_id (up_record spec q) = spec_id spec"
  by (auto simp: request_for_def up_record_def new_record_def Let_def split: option.split)

context service_frame
begin

lemma keeps_up:
  assumes "mine (spec_id spec)" "valid_id (spec_id spec)"
  shows "keeps R (up_inner S spec started)"
  unfolding up_inner_def Let_def
  by (rule keeps_then_post [OF keeps_up_validate up_validate_yields])
    (intro frame_rules keeps_db_begin keeps_up_commit keeps_up_runtime assms(1);
      use assms(2) in \<open>simp add: up_record_id request_for_def\<close>)

end

section \<open>Apply\<close>

definition removable_evidence ::
  "(runtime_resource \<Rightarrow> bool) \<Rightarrow> runtime_resource \<times> retained_resources \<Rightarrow> bool" where
  "removable_evidence removable cr \<longleftrightarrow> removable (fst cr)"

lemma exact_container_owned:
  "exact_owned_container create rs = Ok (Some c) \<Longrightarrow> owned_by (cr_id create) c"
  by (auto simp: exact_owned_container_def owned_by_def result_simps split: list.splits if_splits
      dest!: filter_eq_ConsD)

lemma rollback_create_yields:
  "yields (\<lambda>req. cr_id req = cr_id create) (rollback_create_for_inspected_transport S create sb prior_policy)"
proof -
  have restore: "yields (\<lambda>req. cr_id req = cr_id create)
      (sv_result (map_err PolicyFailure (restore_ssh_transport b64 create control)))" for b64 control
    by (rule yields_result) (auto simp: result_simps dest: restored_id)
  show ?thesis
    unfolding rollback_create_for_inspected_transport_def Let_def
    by (auto intro!: yields_then yields_throw restore split: list.split)
qed

context writing_frame
begin

lemma retained_yields:
  assumes "mine (cr_id create)"
  shows "yields (removable_evidence removable) (retained_resources S create)"
  unfolding retained_resources_def
  by (rule yields_then, rule yields_then_post [where P = "\<lambda>c. \<forall>x. c = Some x \<longrightarrow> removable x"],
      rule yields_result, use own [OF assms] exact_container_owned in blast,
      rule yields_then_post [where P = removable], rule yields_result, simp add: result_simps,
      rule yields_then, rule yields_return, simp add: removable_evidence_def)

lemma evidence_yields:
  "mine (cr_id create) \<Longrightarrow> yields (removable_evidence removable) (replacement_evidence S create sb previous)"
  unfolding replacement_evidence_def Let_def by (intro yield_rules retained_yields)

lemma keeps_evidence [frame_rules]:
  "keeps R (retained_resources S create)" "keeps R (replacement_evidence S create sb previous)"
  unfolding replacement_evidence_def retained_resources_def Let_def by (intro frame_rules)+

lemma keeps_remove_container: "removable c \<Longrightarrow> keeps R (remove_exact_container S create c)"
  unfolding remove_exact_container_def by (intro frame_rules keeps_remove_resources) simp_all

lemma keeps_rollback_image:
  assumes "mine (cr_id create)"
  shows "keeps R (rollback_image S create previous retained operation)"
  unfolding rollback_image_def
proof (rule keeps_then, (intro frame_rules)[1],
    rule keeps_then_post [where Q = "\<lambda>c. \<forall>x. c = Some x \<longrightarrow> removable x", OF keeps_result yields_result])
  show "\<forall>x. c = Some x \<longrightarrow> removable x" if "exact_owned_container create rs = Ok c" for c rs
    using own [OF assms] exact_container_owned that by blast
next
  fix c
  assume c: "\<forall>x. c = Some x \<longrightarrow> removable x"
  have q: "mine (cr_id (rc_create q))" if "map_err RuntimeFailure (recreate_for_image create previous retained) = Ok q" for q
    using assms that by (auto simp: recreate_for_image_def new_recreate_def result_simps split: if_splits)
  show "keeps R (sv_then (case c of None \<Rightarrow> sv_return () | Some c \<Rightarrow> remove_exact_container S create c) (\<lambda>_.
     sv_then (sv_result (map_err RuntimeFailure (recreate_for_image create previous retained))) (\<lambda>rollback.
     sv_then (runtime_call CreateFailed (bk_create_container (sv_runtime S) rollback)) (\<lambda>_.
     sv_then (runtime_start S (cr_id create)) (\<lambda>_.
     emit S operation (phase_event ''image_rollback'' [(''image'', JString previous)]))))))"
    by (rule keeps_then, (intro frame_rules keeps_remove_container; use c in simp)[1],
        rule keeps_then_post [where Q = "\<lambda>q. mine (cr_id (rc_create q))", OF keeps_result yields_result], erule q)
      (intro frame_rules keeps_runtime_call recreates)
qed

lemma keeps_remove_partial:
  assumes "list_all removable (failure_created failure)"
  shows "keeps R (remove_partial_container S create failure)"
  unfolding remove_partial_container_def using assms
  by (auto intro!: frame_rules keeps_remove_container split: list.split)

lemma keeps_recreate_turn:
  assumes "mine (spec_id spec)" "for_sandbox_of spec pc"
  shows "keeps R (recreate_turn S spec capabilities retained attempts pc)"
    and "yields (turn_ok (\<lambda>create. cr_id create = spec_id spec) (for_sandbox_of spec) attempts)
      (recreate_turn S spec capabilities retained attempts pc)"
proof -
  have q: "mine (cr_id (rc_create q))" if "map_err RuntimeFailure (new_recreate (snd pc) retained) = Ok q" for q
    using assms that by (auto simp: new_recreate_def result_simps for_sandbox_of_def)
  show "keeps R (recreate_turn S spec capabilities retained attempts pc)"
    unfolding recreate_turn_def Let_def
    by (rule keeps_then, (intro frame_rules)[1], 
        rule keeps_then_post [where Q = "\<lambda>q. mine (cr_id (rc_create q))", OF keeps_result yields_result], erule q)
      (auto intro!: keeps_attempt_runtime recreates frame_rules keeps_remove_partial dest: partly_recreated)
  show "yields (turn_ok (\<lambda>create. cr_id create = spec_id spec) (for_sandbox_of spec) attempts)
      (recreate_turn S spec capabilities retained attempts pc)"
    unfolding recreate_turn_def Let_def using assms(2)
    by (intro yield_chain next_port_yields) (simp add: for_sandbox_of_def)
qed

lemma keeps_recreate_loop:
  assumes "mine (spec_id spec)" "cr_id create = spec_id spec"
  shows "keeps R (recreate_loop S spec capabilities retained prepared create)"
  unfolding recreate_loop_def
  by (rule keeps_attempts [where I = "for_sandbox_of spec" and Q = "\<lambda>create. cr_id create = spec_id spec"];
      use assms in \<open>auto simp: for_sandbox_of_def intro: keeps_recreate_turn\<close>)

lemma keeps_replace_container:
  assumes "mine (spec_id spec)" "cr_id create = spec_id spec" "removable container"
  shows "keeps R (replace_container S spec create prepared capabilities prior sb container retained operation)"
  unfolding replace_container_def apply_ssh_def Let_def
  by (intro frame_rules keeps_remove_resources keeps_recreate_loop assms) (simp add: assms(3))

lemma keeps_replace_image:
  assumes "mine (spec_id spec)" "cr_id create = spec_id spec"
  shows "keeps R (replace_image S spec create prepared capabilities transport previous operation)"
    and "yields (\<lambda>r. cr_id (snd (snd r)) = spec_id spec)
      (replace_image S spec create prepared capabilities transport previous operation)"
proof -
  have m: "mine (cr_id create)" using assms by simp
  show "keeps R (replace_image S spec create prepared capabilities transport previous operation)"
    unfolding replace_image_def Let_def
    by (rule keeps_then, (intro frame_rules)[1], rule keeps_then, (intro frame_rules)[1],
        rule keeps_then, (intro frame_rules)[1], rule keeps_then, (intro frame_rules)[1],
        rule keeps_then_post [OF keeps_rollback_create rollback_create_yields],
        rule keeps_then_post [OF keeps_evidence(2) evidence_yields [OF m]])
      (auto simp: removable_evidence_def m intro!: frame_rules keeps_replace_container keeps_rollback_image assms)
  show "yields (\<lambda>r. cr_id (snd (snd r)) = spec_id spec)
      (replace_image S spec create prepared capabilities transport previous operation)"
    unfolding replace_image_def Let_def
    by (rule yields_then, rule yields_then, rule yields_then, rule yields_then,
        rule yields_then_post [OF rollback_create_yields])
      (auto simp: assms(2) intro!: yield_chain)
qed

end

definition apply_for :: "sandbox_id \<Rightarrow> apply_request \<Rightarrow> bool" where
  "apply_for i q \<longleftrightarrow>
     sd_id (aq_record q) = i \<and> valid_id i \<and> policy_ok (aq_prior_transport q) \<and> cr_id (aq_create q) = i"

lemma apply_validate_yields: "yields (apply_for (spec_id spec)) (apply_validate S spec)"
  unfolding apply_validate_def
  by (rule yields_then_post [OF existing_sandbox_yields], rule yields_then, rule yields_then, rule yields_then,
      rule yields_then_post [OF compile_yields], rule yields_then_post [OF transport_of_yields],
      rule yields_then, rule yields_then, rule yields_return) (simp add: apply_for_def)

context writing_frame
begin

lemma keeps_apply_parts [frame_rules]:
  "keeps R (apply_validate S spec)" "keeps R (apply_preflight S spec q)" "keeps R (apply_ssh S spec prior_ssh)"
  "keeps R (apply_unchanged S spec q operation)" "keeps R (apply_provision S spec q operation)"
  unfolding apply_validate_def apply_preflight_def apply_unchanged_def apply_provision_def apply_ssh_def Let_def
  by (intro frame_rules)+

lemma keeps_apply_changed:
  assumes "apply_for (spec_id spec) q"
  shows "keeps R (apply_changed S spec q operation)"
  unfolding apply_changed_def Let_def using assms
  by (auto simp: apply_for_def with_provisioned_def intro!: frame_rules keeps_db_record)

lemma keeps_commit_failed:
  assumes "mine (cr_id rollback_create)" "apply_for i q"
  shows "keeps R (apply_commit_failed S i q operation rollback_create previous original)"
  unfolding apply_commit_failed_def Let_def using assms
  by (auto simp: apply_for_def intro!: frame_rules keeps_rollback_image keeps_db_record split: result.split)

lemma keeps_apply_replacement:
  assumes "mine (spec_id spec)" "apply_for (spec_id spec) q"
  shows "keeps R (apply_replacement S spec q operation sb)"
proof -
  have c: "cr_id (aq_create q) = spec_id spec" using assms(2) by (simp add: apply_for_def)
  have put: "valid_id (sd_id (with_provisioned f p (aq_record q)))" for f p
    using assms(2) by (simp add: apply_for_def with_provisioned_def)
  show ?thesis
    unfolding apply_replacement_def Let_def
    by (rule keeps_attempt_post [OF keeps_replace_image [OF assms(1) c]])
      (auto simp: assms put requested_policy_ok
        intro!: frame_rules keeps_db_record keeps_commit_failed split: service_error.split)
qed

end

context service_frame
begin

lemma keeps_apply:
  assumes "mine (spec_id spec)"
  shows "keeps R (apply_inner S spec started)"
  unfolding apply_inner_def Let_def
  by (rule keeps_then_post [OF keeps_apply_parts(1) apply_validate_yields])
    (intro frame_rules keeps_db_begin keeps_apply_replacement keeps_apply_changed assms;
      simp add: apply_for_def)

end

context writing_frame
begin

section \<open>Recovery\<close>

lemma keeps_recover_parts [frame_rules]:
  "keeps R (recover_pending_ssh_publication S operation i record' events)"
  "keeps R (expected_resources_absent S i)"
  unfolding recover_pending_ssh_publication_def expected_resources_absent_def Let_def by (intro frame_rules)+

lemma keeps_settle: "valid_id (sd_id record') \<Longrightarrow> keeps R (settle S operation record' events actual attained)"
  unfolding settle_def
  by (intro frame_rules keeps_db_record) (simp add: with_recovered_def Let_def)

lemma keeps_recover_create_ssh:
  "mine (op_sandbox operation) \<Longrightarrow> keeps R (recover_create_ssh S operation record' events)"
  unfolding recover_create_ssh_def rollback_interrupted_ssh_create_def Let_def
  by (intro frame_rules keeps_remove_exact)

lemma keeps_recover_operation:
  assumes "mine (op_sandbox operation)"
  shows "keeps R (recover_operation S operation)"
proof -
  have "keeps R (recover_inspected S operation record' events actual)" if "valid_id (sd_id record')" for record' events actual
    unfolding recover_inspected_def Let_def using that
    by (auto intro!: frame_rules keeps_settle keeps_recover_create_ssh assms
        keeps_then_post [OF _ existing_sandbox_yields])
  note inspected = this
  show ?thesis
    unfolding recover_operation_def Let_def
    by (rule keeps_then, (intro frame_rules)[1], rule keeps_if, (intro frame_rules)[1],
        rule keeps_then, (intro frame_rules)[1], rule keeps_then_post [OF _ existing_sandbox_yields])
      (auto intro!: frame_rules keeps_attempt_runtime inspects inspected)
qed

lemma keeps_recover_operations:
  "list_all (\<lambda>operation. mine (op_sandbox operation)) operations \<Longrightarrow> keeps R (recover_operations S operations findings)"
  by (induction operations arbitrary: findings) (auto intro!: frame_rules keeps_recover_operation)

lemma keeps_recover_pending: "(\<And>i. mine i) \<Longrightarrow> keeps R (recover_pending S)"
  unfolding recover_pending_def by (intro frame_rules keeps_recover_operations) (simp add: list_all_iff)

lemma keeps_inspect_record [frame_rules]: "keeps R (inspect_record S owned r)"
  unfolding inspect_record_def by (auto intro!: frame_rules keeps_attempt_runtime inspects)

lemma keeps_inspect_records [frame_rules]: "keeps R (inspect_records S owned records findings failed)"
  by (induction records arbitrary: findings failed) (auto intro!: frame_rules)

lemma keeps_verify_record [frame_rules]: "keeps R (verify_record_ssh S paths failed r)"
  unfolding verify_record_ssh_def
  by (auto intro!: frame_rules keeps_attempt_runtime inspects split: option.split result.split)

lemma keeps_verify_records [frame_rules]: "keeps R (verify_records_ssh S paths failed records findings hosts)"
  by (induction records arbitrary: findings hosts) (auto intro!: frame_rules)

lemma keeps_reconcile_ssh [frame_rules]: "keeps R (reconcile_ssh S enabled failed)"
  unfolding reconcile_ssh_def publish_hosts_def by (intro frame_rules)

lemma keeps_reconcile:
  assumes "\<And>i. mine i"
  shows "keeps R (reconcile debug S)"
  unfolding reconcile_def Let_def by (intro frame_rules keeps_recover_pending assms)

section \<open>Requests\<close>

lemma keeps_requests:
  "keeps R (service_exec S request)" "keeps R (service_logs S i since)"
  unfolding service_exec_def service_logs_def require_owned_running_def require_owned_def
  by (intro frame_rules)+

end

end
