(* ===== verification/Backend_Create.thy ===== *)
theory Backend_Create
  imports Backend
begin

text \<open>
  The contract of \<open>RuntimeBackend::create\<close> and \<open>create_container\<close>: what they may touch and
  what their evidence names, and that the in-memory backend satisfies it.
\<close>

text \<open>What a create for sandbox \<open>i\<close> may add or replace: resources labelled with it, and the
  container of its name.\<close>

definition touchable :: "sandbox_id \<Rightarrow> runtime_resource \<Rightarrow> bool" where
  "touchable i r \<longleftrightarrow> owned_by i r \<or> rr_identity r = ResourceIdentity Container (as_str i)"

definition others_kept :: "sandbox_id \<Rightarrow> runtime_resource set \<Rightarrow> runtime_resource set \<Rightarrow> bool" where
  "others_kept i A B \<longleftrightarrow> (\<forall>r. \<not> touchable i r \<longrightarrow> (r \<in> B \<longleftrightarrow> r \<in> A))"

lemma others_kept_refl [simp]: "others_kept i A A"
  by (simp add: others_kept_def)

lemma others_kept_trans: "others_kept i A B \<Longrightarrow> others_kept i B C \<Longrightarrow> others_kept i A C"
  by (simp add: others_kept_def)

locale runtime_creator = runtime_backend +
  assumes create_wf: "wf b \<Longrightarrow> wf (snd (bk_create bk c b))"
    and create_kept: "wf b \<Longrightarrow> others_kept (cr_id c) (res b) (res (snd (bk_create bk c b)))"
    and recreate_wf: "wf b \<Longrightarrow> wf (snd (bk_create_container bk q b))"
    and recreate_kept: "wf b \<Longrightarrow>
        others_kept (cr_id (rc_create q)) (res b) (res (snd (bk_create_container bk q b)))"
    and create_ok: "fst (bk_create bk c b) = Ok outcome \<Longrightarrow> list_all (owned_by (cr_id c)) (outcome_created outcome)"
    and create_err: "fst (bk_create bk c b) = Err failure \<Longrightarrow> list_all (owned_by (cr_id c)) (failure_created failure)"
    and recreate_err: "fst (bk_create_container bk q b) = Err failure \<Longrightarrow>
        list_all (owned_by (cr_id (rc_create q))) (failure_created failure)"

section \<open>The in-memory backend\<close>

definition create_frame :: "sandbox_id \<Rightarrow> fake_state \<Rightarrow> fake_state \<Rightarrow> bool" where
  "create_frame i s t \<longleftrightarrow> evolves s t \<and> (fake_wf s \<longrightarrow> others_kept i (resources_of s) (resources_of t))"

interpretation cf: stepwise "create_frame i" for i
proof
  show "create_frame i s s" for s by (simp add: create_frame_def ev.step_refl)
  show "create_frame i s u" if "create_frame i s t" "create_frame i t u" for s t u
  proof -
    have "fake_wf s \<longrightarrow> fake_wf t" using that(1) by (simp add: create_frame_def evolves_def)
    with that show ?thesis
      unfolding create_frame_def by (blast intro: ev.step_trans others_kept_trans)
  qed
qed

lemma frame_same_maps: "same_maps s t \<Longrightarrow> create_frame i s t"
  by (simp add: create_frame_def same_maps_evolves same_maps_def resources_of_def)

lemma resources_of_iff: "x \<in> resources_of s \<longleftrightarrow> (\<exists>k. (k, x) \<in> set (fk_resources s))"
  by (force simp: resources_of_def hm_values_def)

lemma frame_insert:
  assumes "insert_resource k (Some i) GasCanOwned s = (r, t)" "valid_resource_name (ri_name k)"
    "hm_get (fk_resources s) k = None \<or> k = ResourceIdentity Container (as_str i)"
  shows "create_frame i s t"
proof -
  have t: "fk_resources t = hm_insert k r (fk_resources s)" and r: "touchable i r"
    using assms(1) by (auto simp: insert_resource_def Let_def discovered_def touchable_def owned_by_def)
  have "x \<in> resources_of t \<longleftrightarrow> x \<in> resources_of s" if "fake_wf s" "\<not> touchable i x" for x
  proof -
    have "x \<noteq> r" using r that(2) by blast
    moreover have "k' \<noteq> k" if "(k', x) \<in> set (fk_resources s)" for k'
    proof
      assume k: "k' = k"
      then have "rr_identity x = k" using \<open>fake_wf s\<close> that by (auto simp: fake_wf_def)
      moreover have "hm_get (fk_resources s) k \<noteq> None"
        using \<open>fake_wf s\<close> that k by (auto simp: fake_wf_def hm_get_Some_iff)
      ultimately show False using assms(3) \<open>\<not> touchable i x\<close> by (auto simp: touchable_def)
    qed
    ultimately show ?thesis unfolding resources_of_iff t set_hm_insert by auto
  qed
  then show ?thesis
    using insert_resource_evolves [OF assms(1,2)] by (simp add: create_frame_def others_kept_def)
qed

lemma frame_network: "create_frame (cr_id req) s (snd (create_network req s))"
proof -
  have "create_frame (cr_id req) s (snd (st_then (fail_after_create_mutation req c t) (\<lambda>_ s. (Ok c, s))))"
    if "insert_resource k (Some (cr_id req)) GasCanOwned s = (r, t)" "valid_resource_name (ri_name k)"
      "hm_get (fk_resources s) k = None" for k r t c
    by (rule cf.step_trans [OF frame_insert [OF that(1,2)]], simp add: that(3),
        rule cf.step_st_then, rule frame_same_maps, simp, simp add: cf.step_refl)
  then show ?thesis
    by (auto simp: create_network_def cf.step_refl split: option.split result.split prod.split)
qed

lemma frame_volumes: "create_frame (cr_id req) s (snd (create_volumes req vs created s))"
proof (induction vs arbitrary: created s)
  case (Cons v vs)
  have "create_frame (cr_id req) s (snd (st_then (fail_after_create_mutation req c t) (\<lambda>_. create_volumes req vs c)))"
    if "insert_resource k (Some (cr_id req)) GasCanOwned s = (r, t)" "valid_resource_name (ri_name k)"
      "hm_get (fk_resources s) k = None" for k r t c
    by (rule cf.step_trans [OF frame_insert [OF that(1,2)]], simp add: that(3),
        rule cf.step_st_then, rule frame_same_maps, simp, rule Cons.IH)
  with Cons.IH show ?case
    by (auto simp: cf.step_refl split: result.split option.split prod.split)
qed (simp add: cf.step_refl)

lemma frame_container: "create_frame (cr_id req) s (snd (insert_container req s))"
proof -
  obtain ports t where t: "observed_created_ports req s = (ports, t)" by fastforce
  define u where "u = t \<lparr> fk_sandboxes := hm_insert (cr_id req)
    \<lparr> rs_id = cr_id req, rs_image = cr_image req, rs_state = Stopped,
      rs_ownership = cr_ownership req, rs_ports = ports \<rparr> (fk_sandboxes t) \<rparr>"
  have "same_maps s t" using observed_ports_maps [of s req s] t by simp
  then have "create_frame (cr_id req) s t" by (rule frame_same_maps)
  moreover have "create_frame (cr_id req) t u"
    unfolding create_frame_def u_def by (simp add: evolves_insert_sandbox) (simp add: resources_of_def)
  ultimately have su: "create_frame (cr_id req) s u" by (rule cf.step_trans)
  show ?thesis
  proof (cases "valid_resource_name (as_str (cr_id req))")
    case True
    obtain r v where v: "insert_resource (ResourceIdentity Container (as_str (cr_id req))) (Some (cr_id req)) GasCanOwned u = (r, v)"
      by fastforce
    have "create_frame (cr_id req) u v" by (rule frame_insert [OF v]) (simp_all add: True)
    then have sv: "create_frame (cr_id req) s v" by (rule cf.step_trans [OF su])
    have n: "new_identity Container (as_str (cr_id req)) = Ok (ResourceIdentity Container (as_str (cr_id req)))"
      using True by simp
    show ?thesis by (simp add: insert_container_def t Let_def n v u_def [symmetric] sv)
  next
    case False
    then obtain e where e: "new_identity Container (as_str (cr_id req)) = Err e"
      by (auto simp: new_identity_def valid_resource_name_def)
    show ?thesis by (simp add: insert_container_def t Let_def e u_def [symmetric] su)
  qed
qed

lemma frame_if: "create_frame i s (snd a) \<Longrightarrow> create_frame i s (snd b) \<Longrightarrow> create_frame i s (snd (if c then a else b))"
  by simp

lemma frame_persisted:
  "create_frame i s (snd (st_then (st_map_err f (persist_state (record_outcome c s))) (\<lambda>_ t. (Ok x, t))))"
  by (rule cf.step_st_then, rule frame_same_maps, simp) (simp add: cf.step_refl)

lemma frame_finish: "create_frame (cr_id req) s (snd (finish_create req created s))"
  unfolding finish_create_def Let_def
  by (rule cf.step_st_then [OF frame_container], rule cf.step_st_then, rule frame_same_maps, simp)
    (auto intro: frame_persisted cf.step_refl split: result.split)

lemma frame_create: "create_frame (cr_id req) s (snd (fake_create req s))"
  unfolding fake_create_def
  by (rule cf.step_st_then, rule frame_same_maps, simp, intro frame_if)
    (simp_all add: cf.step_refl cf.step_st_then frame_network frame_volumes frame_finish)

lemma frame_mutated:
  "create_frame i s (snd (case fail_once boundary s of
     (Err source, s) \<Rightarrow> (Err (f source), s)
   | (Ok _, s) \<Rightarrow> (case r of
         Err e \<Rightarrow> (Err (failure_from_source e), s)
       | Ok outcome \<Rightarrow>
           st_then (st_map_err failure_from_source (persist_state (record_outcome (OutcomeCreated outcome) s)))
             (\<lambda>_ s. (Ok outcome, s)))))"
proof -
  obtain x t where t: "fail_once boundary s = (x, t)" by fastforce
  then have "create_frame i s t" using fail_once_maps [of s boundary s] by (simp add: frame_same_maps)
  then show ?thesis
    using cf.step_trans [OF _ frame_persisted] by (auto simp: t split: result.split)
qed

lemma frame_create_container: "create_frame (cr_id (rc_create q)) s (snd (fake_create_container q s))"
proof -
  have "create_frame (cr_id (rc_create q)) s (snd (st_then (insert_container (rc_create q) s) f))"
    if "\<And>x t. create_frame (cr_id (rc_create q)) t (snd (f x t))" for s and f :: "runtime_resource \<Rightarrow> fake_state \<Rightarrow> (create_outcome, create_failure, fake_state) stateful"
    by (rule cf.step_st_then [OF frame_container]) (rule that)
  then show ?thesis
    unfolding fake_create_container_def Let_def
    by (intro cf.step_st_then frame_if, intro frame_same_maps, simp)
      (auto simp: cf.step_refl frame_mutated split: result.split)
qed

section \<open>Evidence\<close>

definition owned_failure :: "create_request \<Rightarrow> ('a, create_failure, 's) stateful \<Rightarrow> bool" where
  "owned_failure req r \<longleftrightarrow> (\<forall>f. fst r = Err f \<longrightarrow> list_all (owned_by (cr_id req)) (failure_created f))"

lemma owned_failure_then:
  "owned_failure req r \<Longrightarrow> (\<And>x s. owned_failure req (f x s)) \<Longrightarrow> owned_failure req (st_then r f)"
  by (cases "(r, f)" rule: st_then.cases) (auto simp: owned_failure_def)

lemma owned_failure_simps [simp]:
  "owned_failure req (Ok x, s)" "owned_failure req (Err (failure_from_source e), s)"
  "owned_failure req (st_map_err failure_from_source r)"
  "owned_failure req (Err (fake_create_failure req created e), s)"
  "owned_failure req (Err (from_created_evidence req created e), s)"
  using keep_evidence_subset [of "owned_evidence req" "[]" created]
  by (auto simp: owned_failure_def failure_from_source_def st_map_err_def result_simps fake_create_failure_def
      new_failure_def validate_created_eq_Ok list_all_iff from_created_evidence_def owned_evidence_def owned_by_def
      split: prod.splits result.splits)

lemma owned_failure_parts [simp]:
  "owned_failure req (create_preamble boundary req' s)" "owned_failure req (fail_after_create_mutation req created s)"
  by (auto simp: create_preamble_def fail_after_create_mutation_def Let_def split: list.split)

lemma owned_failure_network: "owned_failure req (create_network req s)"
  by (auto simp: create_network_def intro!: owned_failure_then split: option.split result.split prod.split)

lemma owned_failure_volumes: "owned_failure req (create_volumes req vs created s)"
  by (induction vs arbitrary: created s)
    (auto intro!: owned_failure_then split: option.split result.split prod.split)

lemma owned_failure_nil: "failure_created f = [] \<Longrightarrow> owned_failure req (Err f, s)"
  by (simp add: owned_failure_def)

lemma owned_failure_container: "owned_failure req (insert_container req s)"
  by (auto simp: insert_container_def Let_def split: result.split prod.split)

lemma owned_failure_finish: "owned_failure req (finish_create req created s)"
  unfolding finish_create_def Let_def
  by (auto intro!: owned_failure_then owned_failure_container split: result.split)

lemma owned_failure_create: "owned_failure req (fake_create req s)"
  unfolding fake_create_def
  by (auto intro!: owned_failure_then owned_failure_network owned_failure_volumes owned_failure_finish)

lemma check_retained_failure:
  "for_each_ok (check_retained s) rs = Err failure \<Longrightarrow> failure_created failure = []"
  by (induction rs) (auto simp: result_simps check_retained_def failure_from_source_def split: if_splits)

lemma owned_failure_recreate: "owned_failure (rc_create q) (fake_create_container q s)"
  unfolding fake_create_container_def Let_def
  by (intro owned_failure_then)
    (auto intro!: owned_failure_then owned_failure_container owned_failure_nil dest!: check_retained_failure
      split: result.split prod.split)

lemma fake_create_outcome:
  assumes "fst (fake_create req s) = Ok outcome"
  shows "list_all (owned_by (cr_id req)) (outcome_created outcome)"
proof -
  obtain t where "fake_create req s = (Ok outcome, t)" using assms by (cases "fake_create req s") auto
  then obtain created where "new_outcome req created = Ok outcome"
    by (auto simp: fake_create_def finish_create_def Let_def result_simps split: if_splits result.splits)
      (metis result.exhaust)
  then show ?thesis
    by (auto simp: new_outcome_def result_simps validate_created_eq_Ok list_all_iff)
qed

lemma fake_create_failures:
  "fst (fake_create req s) = Err failure \<Longrightarrow> list_all (owned_by (cr_id req)) (failure_created failure)"
  "fst (fake_create_container q s) = Err failure \<Longrightarrow> list_all (owned_by (cr_id (rc_create q))) (failure_created failure)"
  using owned_failure_create owned_failure_recreate by (auto simp: owned_failure_def)

lemma fake_create_frames:
  assumes "fake_wf s"
  shows "fake_wf (snd (fake_create req s)) \<and> others_kept (cr_id req) (resources_of s) (resources_of (snd (fake_create req s)))"
    and "fake_wf (snd (fake_create_container q s)) \<and>
      others_kept (cr_id (rc_create q)) (resources_of s) (resources_of (snd (fake_create_container q s)))"
  using frame_create [of req s] frame_create_container [of q s] assms
  by (simp_all add: create_frame_def evolves_def)

interpretation fakec: runtime_creator "fake_backend now" fake_wf resources_of for now
  by unfold_locales (simp_all add: fake_create_frames fake_create_outcome fake_create_failures)

end
