(* ===== verification/Service_Correct.thy ===== *)
theory Service_Correct
  imports Service_Handlers Backend_Create
begin

text \<open>
  What the lifecycle service guarantees: whatever the runtime, the host and the clock do, the
  database stays well formed and changes only along the abstract store; no handler touches the
  resources of another sandbox; a destroy removes exactly what the policy names; and the attempts of
  a create are bounded.
\<close>

section \<open>The database\<close>

interpretation durable: service_frame
  "\<lambda>w w'. (store_step (sv_codec S))\<^sup>*\<^sup>* (w_db w) (w_db w')" S "\<lambda>_. True" "\<lambda>_. True" for S
  by unfold_locales (auto simp: list_all_iff valid_id_def intro: store_write_step step_begin)

text \<open>The requests the daemon serves, the recovery and reconciliation at its start, its restart,
  and whatever happens to the runtime and to the host in between.\<close>

inductive service_step :: "('b, 'd) service \<Rightarrow> ('b, 'd) world \<Rightarrow> ('b, 'd) world \<Rightarrow> bool" for S where
  step_up: "valid_id (spec_id spec) \<Longrightarrow> service_step S w (snd (up_inner S spec started w))"
| step_apply: "service_step S w (snd (apply_inner S spec started w))"
| step_start_stop: "service_step S w (snd (simple_state S i kind desired target started w))"
| step_destroy: "service_step S w (snd (destroy_inner S i started w))"
| step_exec: "service_step S w (snd (service_exec S request w))"
| step_logs: "service_step S w (snd (service_logs S i since w))"
| step_reconcile: "service_step S w (snd (reconcile debug S w))"
| step_outside: "service_step S w (w \<lparr> w_runtime := b, w_host := d \<rparr>)"
| step_restart: "service_step S w (w \<lparr> w_poisoned := False, w_sent := [], w_started := [] \<rparr>)"

lemma keepsD: "keeps R m \<Longrightarrow> R w (snd (m w))"
  by (simp add: keeps_def)

lemmas durable_handlers =
  keepsD [OF durable.keeps_up [OF TrueI]] keepsD [OF durable.keeps_apply [OF TrueI]]
  keepsD [OF durable.keeps_simple_state] keepsD [OF durable.keeps_destroy [OF TrueI]]
  keepsD [OF durable.keeps_requests(1)] keepsD [OF durable.keeps_requests(2)]
  keepsD [OF durable.keeps_reconcile [OF TrueI]]

lemma service_step_durable:
  assumes "service_step S w w'"
  shows "(store_step (sv_codec S))\<^sup>*\<^sup>* (w_db w) (w_db w')"
  using assms by cases (simp_all add: durable_handlers)

lemma service_steps_durable:
  assumes "(service_step S)\<^sup>*\<^sup>* w w'"
  shows "(store_step (sv_codec S))\<^sup>*\<^sup>* (w_db w) (w_db w')"
  using assms by induction (auto intro: rtranclp_trans service_step_durable)

lemma store_steps_wf:
  assumes "(store_step codec)\<^sup>*\<^sup>* db db'" "codec_ok codec" "db_wf codec db"
  shows "db_wf codec db' \<and> abs_step\<^sup>*\<^sup>* (abstraction db) (abstraction db')"
  using assms(1)
proof induction
  case (step db' db'')
  then have "db_wf codec db'" by simp
  with step.hyps(2) have "abs_step (abstraction db') (abstraction db'')"
    using assms(2)
    by (cases rule: store_step.cases)
      (simp_all add: put_refines put_ssh_refines set_ssh_refines begin_refines append_refines finish_refines)
  with step store_step_wf [OF step.hyps(2) assms(2)] show ?case by auto
qed (simp add: assms(3))

text \<open>In a well-formed database every row decodes, so no read of the service fails on a value.\<close>

lemma collect_ok_is_ok: "(\<And>x. x \<in> set xs \<Longrightarrow> is_ok (f x)) \<Longrightarrow> is_ok (collect_ok f xs)"
  by (induction xs) (auto simp: is_ok_iff result_simps)

lemma decode_sandbox_is_ok:
  assumes "db_wf codec db" "r \<in> set (db_sandboxes db)"
  shows "is_ok (decode_sandbox codec db r)"
proof -
  have "sandbox_row_ok codec r" using assms by (simp add: db_wf_def)
  moreover have "last_operation db (sr_id r) = Some n \<Longrightarrow> 0 < n" for n
    using last_operation_positive [OF assms(1)] by simp
  ultimately have "decode_sandbox codec db r = Ok
      \<lparr> sd_id = ok_value (stored_id (sr_id r)), sd_root = sr_root r, sd_desired = ok_value (desired_from_db (sr_desired r)),
        sd_actual = ok_value (actual_from_db (sr_actual r)), sd_setup = ok_value (read_resolution codec (sr_setup r)),
        sd_tool = ok_value (read_resolution codec (sr_tools r)), sd_image = ok_value (read_resolution codec (sr_image r)),
        sd_storage = ok_value (read_resolution codec (sr_storage r)), sd_ssh = ok_value (read_resolution codec (sr_ssh r)),
        sd_last_operation = last_operation db (sr_id r), sd_updated_at = sr_updated_at r \<rparr>"
    by (simp add: decode_sandbox_Ok sandbox_row_ok_def)
  then show ?thesis by simp
qed

lemma reads_typed:
  assumes "db_wf codec db"
  shows "is_ok (list_sandboxes codec db)" "is_ok (pending_operations codec db)" "is_ok (operation_events codec n db)"
    "is_ok (get_sandbox codec i db)"
proof -
  have err: "is_ok (map_err f r) = is_ok r" for f :: "store_error \<Rightarrow> store_error" and r :: "('a, store_error) result"
    by (cases r) simp_all
  show "is_ok (list_sandboxes codec db)"
    unfolding list_sandboxes_def by (rule collect_ok_is_ok) (simp add: err decode_sandbox_is_ok [OF assms])
  have rows: "\<And>r. r \<in> set (db_operations db) \<Longrightarrow> is_ok (decode_operation codec r)"
    "\<And>e. e \<in> set (db_events db) \<Longrightarrow> is_ok (event_from_row codec e)"
    using assms by (auto simp: db_wf_def operation_row_ok_def event_row_ok_def)
  show "is_ok (pending_operations codec db)"
    unfolding pending_operations_def by (rule collect_ok_is_ok) (simp add: err rows)
  show "is_ok (operation_events codec n db)"
    unfolding operation_events_def by (rule collect_ok_is_ok) (simp add: rows)
  show "is_ok (get_sandbox codec i db)"
    using decode_sandbox_is_ok [OF assms] find_member
    by (fastforce simp: get_sandbox_def load_sandbox_def is_ok_iff result_simps split: option.split)
qed

section \<open>Isolation\<close>

text \<open>\<open>NoopProvisioner\<close>, the provisioner of a service that is given no other.\<close>

definition noop_provision ::
  "sandbox_spec \<Rightarrow> create_request \<Rightarrow> 'b \<times> 'd \<Rightarrow> (provision_resolution, service_error, 'b \<times> 'd) stateful" where
  "noop_provision spec create bd = (Ok \<lparr> pn_setup = None, pn_tools = None \<rparr>, bd)"

definition noop_health_check :: "sandbox_id \<Rightarrow> 'b \<times> 'd \<Rightarrow> (unit, service_error, 'b \<times> 'd) stateful" where
  "noop_health_check i bd = (Ok (), bd)"

definition isolates ::
  "('b \<Rightarrow> bool) \<Rightarrow> ('b \<Rightarrow> runtime_resource set) \<Rightarrow> sandbox_id \<Rightarrow> ('b, 'd) world \<Rightarrow> ('b, 'd) world \<Rightarrow> bool" where
  "isolates good res i w w' \<longleftrightarrow>
     (good (w_runtime w) \<longrightarrow>
        good (w_runtime w') \<and> others_kept i (res (w_runtime w)) (res (w_runtime w')))"

lemma removal_keeps_others:
  "list_all (touchable i) rs \<Longrightarrow> A - set rs \<subseteq> B \<Longrightarrow> B \<subseteq> A \<Longrightarrow> others_kept i A B"
  by (auto simp: others_kept_def list_all_iff)

locale isolated_service = runtime_creator bk wf res
  for bk :: "'b backend" and wf :: "'b \<Rightarrow> bool" and res :: "'b \<Rightarrow> runtime_resource set" +
  fixes S :: "('b, 'd) service" and i :: sandbox_id
  assumes backend_of: "sv_runtime S = bk"
    and provision_keeps: "wf b \<Longrightarrow> sv_provision S spec c (b, d) = (r, b', d') \<Longrightarrow> wf b' \<and> res b' = res b"
    and health_keeps: "wf b \<Longrightarrow> sv_health_check S j (b, d) = (u, b', d') \<Longrightarrow> wf b' \<and> res b' = res b"

context isolated_service
begin

lemma iso_other: "w_runtime w' = w_runtime w \<Longrightarrow> isolates wf res i w w'"
  by (simp add: isolates_def)

lemma iso_quiet: "(wf (w_runtime w) \<Longrightarrow> wf (w_runtime w') \<and> res (w_runtime w') = res (w_runtime w)) \<Longrightarrow> isolates wf res i w w'"
  by (simp add: isolates_def)

lemma iso_trans: "isolates wf res i w t \<Longrightarrow> isolates wf res i t u \<Longrightarrow> isolates wf res i w u"
  unfolding isolates_def by (blast intro: others_kept_trans)

lemma iso_calls:
  "isolates wf res i w (w \<lparr> w_runtime := snd (bk_capabilities bk (w_runtime w)) \<rparr>)"
  "isolates wf res i w (w \<lparr> w_runtime := snd (bk_inspect bk j (w_runtime w)) \<rparr>)"
  "isolates wf res i w (w \<lparr> w_runtime := snd (bk_start bk j (w_runtime w)) \<rparr>)"
  "isolates wf res i w (w \<lparr> w_runtime := snd (bk_stop bk j (w_runtime w)) \<rparr>)"
  "isolates wf res i w (w \<lparr> w_runtime := snd (bk_exec bk x (w_runtime w)) \<rparr>)"
  "isolates wf res i w (w \<lparr> w_runtime := snd (bk_logs bk j since (w_runtime w)) \<rparr>)"
  "isolates wf res i w (w \<lparr> w_runtime := snd (bk_prepare_image bk img (w_runtime w)) \<rparr>)"
  "isolates wf res i w (w \<lparr> w_runtime := snd (bk_list_resources bk (w_runtime w)) \<rparr>)"
  by (rule iso_quiet; simp add: keeps_capabilities keeps_inspect keeps_start keeps_stop keeps_exec
      keeps_logs keeps_prepare keeps_list)+

lemma iso_remove:
  assumes "list_all (touchable i) rs" "remove_from_resources rs = Ok request"
  shows "isolates wf res i w (w \<lparr> w_runtime := snd (bk_remove bk request (w_runtime w)) \<rparr>)"
  using remove_wf [OF _ assms(2), of "w_runtime w"] remove_part [OF _ assms(2), of "w_runtime w"]
    removal_keeps_others [OF assms(1), of "res (w_runtime w)"]
  by (auto simp: isolates_def)

lemma iso_creates:
  "cr_id c = i \<Longrightarrow> isolates wf res i w (w \<lparr> w_runtime := snd (bk_create bk c (w_runtime w)) \<rparr>)"
  "cr_id (rc_create q) = i \<Longrightarrow> isolates wf res i w (w \<lparr> w_runtime := snd (bk_create_container bk q (w_runtime w)) \<rparr>)"
  using create_wf create_kept recreate_wf recreate_kept by (auto simp: isolates_def)

lemma own_touchable: "owned_by i r \<Longrightarrow> touchable i r"
  by (simp add: touchable_def)

lemma evidence_touchable:
  "cr_id c = i \<Longrightarrow> fst (bk_create bk c b) = Ok outcome \<Longrightarrow> list_all (touchable i) (outcome_created outcome)"
  "cr_id c = i \<Longrightarrow> fst (bk_create bk c b) = Err failure \<Longrightarrow> list_all (touchable i) (failure_created failure)"
  "cr_id (rc_create q) = i \<Longrightarrow> fst (bk_create_container bk q b) = Err failure \<Longrightarrow>
     list_all (touchable i) (failure_created failure)"
  using create_ok create_err recreate_err by (auto simp: list_all_iff touchable_def)

end

sublocale isolated_service < iso: service_frame "isolates wf res i" S "\<lambda>j. j = i" "touchable i"
  by (unfold_locales;
      ((rule iso_other, simp; fail) | (rule iso_trans; assumption) |
       (unfold backend_of, (rule iso_calls iso_creates iso_remove evidence_touchable; assumption?); fail) |
       (rule own_touchable, simp) | (rule iso_quiet, simp, rule provision_keeps health_keeps; assumption)))

text \<open>The requests about one sandbox.\<close>

inductive sandbox_step ::
  "('b, 'd) service \<Rightarrow> sandbox_id \<Rightarrow> ('b, 'd) world \<Rightarrow> ('b, 'd) world \<Rightarrow> bool" for S i where
  sandbox_up: "valid_id (spec_id spec) \<Longrightarrow> spec_id spec = i \<Longrightarrow> sandbox_step S i w (snd (up_inner S spec started w))"
| sandbox_apply: "spec_id spec = i \<Longrightarrow> sandbox_step S i w (snd (apply_inner S spec started w))"
| sandbox_start_stop: "sandbox_step S i w (snd (simple_state S i kind desired target started w))"
| sandbox_destroy: "sandbox_step S i w (snd (destroy_inner S i started w))"
| sandbox_exec: "ex_id request = i \<Longrightarrow> sandbox_step S i w (snd (service_exec S request w))"
| sandbox_logs: "sandbox_step S i w (snd (service_logs S i since w))"

context isolated_service
begin

lemma sandbox_step_isolates: "sandbox_step S i w w' \<Longrightarrow> isolates wf res i w w'"
  by (cases rule: sandbox_step.cases, assumption)
    (simp_all add: keepsD [OF iso.keeps_up] keepsD [OF iso.keeps_apply] keepsD [OF iso.keeps_simple_state]
      keepsD [OF iso.keeps_destroy] keepsD [OF iso.keeps_requests(1)] keepsD [OF iso.keeps_requests(2)])

lemma sandbox_steps_isolate: "(sandbox_step S i)\<^sup>*\<^sup>* w w' \<Longrightarrow> isolates wf res i w w'"
  by (induction rule: rtranclp_induct) (auto intro: iso_trans iso_other sandbox_step_isolates)

end

definition fake_service :: "int \<Rightarrow> (fake_state, 'd) service \<Rightarrow> (fake_state, 'd) service" where
  "fake_service now S =
     S \<lparr> sv_runtime := fake_backend now, sv_provision := noop_provision, sv_health_check := noop_health_check \<rparr>"

interpretation fakes: isolated_service "fake_backend now" fake_wf resources_of "fake_service now S" i for now S i
  by unfold_locales (simp_all add: fake_service_def noop_provision_def noop_health_check_def)

section \<open>A service\<close>

text \<open>A service over the fake runtime, with the store of \<open>Store_Correct\<close>, no provisioner, and a
  host whose SSH state cannot be opened.\<close>

definition closed_posix :: "unit posix" where
  "closed_posix =
     \<lparr> px_open_root = (\<lambda>d. (Err NOENT, d)), px_openat_dir = (\<lambda>_ _ d. (Err NOENT, d)),
       px_mkdirat = (\<lambda>_ _ _ d. (Err NOENT, d)), px_fchmod = (\<lambda>_ _ d. (Err NOENT, d)),
       px_fstat = (\<lambda>_ d. (Err NOENT, d)), px_flock = (\<lambda>_ d. (Err NOENT, d)),
       px_statat = (\<lambda>_ _ d. (Err NOENT, d)), px_openat = (\<lambda>_ _ d. (Err NOENT, d)),
       px_read = (\<lambda>_ _ d. (Err NOENT, d)), px_read_dir = (\<lambda>_ d. (Err NOENT, d)),
       px_create = (\<lambda>_ _ _ d. (Err NOENT, d)), px_write = (\<lambda>_ _ d. (Err NOENT, d)),
       px_fsync = (\<lambda>_ d. (Err NOENT, d)), px_renameat_new = (\<lambda>_ _ _ d. (Err NOENT, d)),
       px_renameat = (\<lambda>_ _ _ d. (Err NOENT, d)), px_unlinkat = (\<lambda>_ _ d. (Err NOENT, d)),
       px_random_name = (\<lambda>d. (Err NOENT, d)) \<rparr>"

definition closed_ssh :: "unit ssh_env" where
  "closed_ssh =
     \<lparr> ho_posix = closed_posix,
       ho_descriptors = \<lparr> ds_dup = (\<lambda>_ d. (Err NOENT, d)), ds_map = (\<lambda>_ d. (Err NOENT, d)) \<rparr>,
       ho_keygen = \<lparr> kg_run = (\<lambda>_ d. (SpawnFailed NOENT, d)), kg_observe = (\<lambda>_. NoDescriptor) \<rparr>,
       ho_codec = \<lparr> sc_decode = (\<lambda>_. None), sc_encode_no_pad = id, sc_sha256 = id \<rparr>,
       ho_resolve = Ok, ho_worker = (\<lambda>d. (Ok (), d)),
       se_bind = (\<lambda>d. (Err ''no port'', d)), se_release = (\<lambda>_ d. d), se_readiness = (\<lambda>_ d. ([], d)),
       se_key_in_time = (\<lambda>_. False), se_port_in_use = (\<lambda>_ _. False) \<rparr>"

definition example_service :: "(fake_state, unit) service" where
  "example_service =
     fake_service 0
       \<lparr> sv_runtime = fake_backend 0, sv_codec = example_codec, sv_clock = (\<lambda>_. example_clock),
         sv_fault = (\<lambda>_. None), sv_worker = ''worker'', sv_display = service_error_code,
         sv_b64 = (\<lambda>_. None), sv_sha256 = (\<lambda>_. []), sv_planner = (\<lambda>_ _ _ _. Err SetupUnreadable),
         sv_to_toml = (\<lambda>_. Err ''no tools''), sv_inventory = (\<lambda>_. None), sv_provision = noop_provision,
         sv_health_check = noop_health_check, sv_workspace_image = None,
         sv_ssh_paths = Err (SshInvalidState ''no home''), sv_ssh = closed_ssh, sv_commit_fault = None \<rparr>"

definition example_world :: "database \<Rightarrow> (fake_state, unit) world" where
  "example_world db =
     \<lparr> w_db = db, w_poisoned = False, w_calls = 0, w_runtime = fake_new example_capabilities, w_host = (),
       w_sent = [], w_started = [] \<rparr>"

lemma example_isolated: "isolated_service (fake_backend 0) fake_wf resources_of example_service"
  unfolding example_service_def by (rule fakes.isolated_service_axioms)

lemma example_service_codec [simp]: "sv_codec example_service = example_codec"
  by (simp add: example_service_def fake_service_def)

lemma example_world_simps [simp]: "w_db (example_world db) = db" "w_runtime (example_world db) = fake_new example_capabilities"
  by (simp_all add: example_world_def)

lemma example_new_wf: "fake_wf (fake_new example_capabilities)"
  by (simp add: fake_wf_new)

section \<open>What holds of the requests\<close>

text \<open>C5. Types of the database.  Whatever sequence of requests, reconciliations and restarts the
  daemon goes through, whatever the runtime and the host do in between and wherever a request
  fails, the database stays well formed: every sandbox, every pending operation and the events of
  every operation decode, so no later read fails on a stored value, and the changes it went through
  are those of the abstract store.\<close>

theorem service_typed:
  assumes "codec_ok (sv_codec S)" and "db_wf (sv_codec S) (w_db w)" and "(service_step S)\<^sup>*\<^sup>* w w'"
  shows "db_wf (sv_codec S) (w_db w') \<and> abs_step\<^sup>*\<^sup>* (abstraction (w_db w)) (abstraction (w_db w')) \<and>
    is_ok (list_sandboxes (sv_codec S) (w_db w')) \<and> is_ok (pending_operations (sv_codec S) (w_db w')) \<and>
    is_ok (operation_events (sv_codec S) n (w_db w'))"
  using store_steps_wf [OF service_steps_durable [OF assms(3)] assms(1,2)] reads_typed by blast

theorem service_typed_witness:
  "is_ok (list_sandboxes example_codec
     (w_db (snd (destroy_inner example_service (sd_id example_record) False (example_world example_db)))))"
proof -
  let ?w = "example_world example_db"
  have "(service_step example_service)\<^sup>*\<^sup>* ?w (snd (destroy_inner example_service (sd_id example_record) False ?w))"
    by (rule r_into_rtranclp, rule step_destroy)
  from service_typed [OF _ _ this] example_codec_ok example_db_wf show ?thesis by simp
qed

text \<open>C2. Isolation of sandboxes.  Over any backend that satisfies the runtime contract, no
  sequence of requests about one sandbox - bringing it up, with the retries, rollbacks and
  provisioning that takes, applying a change, replacing its image, starting, stopping, destroying,
  running commands, reading logs - adds, removes or replaces a resource that is neither labelled
  with that sandbox nor the container of its name, whether the requests succeed or fail and at
  whichever call they fail.\<close>

theorem requests_isolate:
  assumes "isolated_service bk good res S" and "good (w_runtime w)" and "(sandbox_step S i)\<^sup>*\<^sup>* w w'"
  shows "good (w_runtime w') \<and> others_kept i (res (w_runtime w)) (res (w_runtime w'))"
  using isolated_service.sandbox_steps_isolate [OF assms(1,3)] assms(2) by (simp add: isolates_def)

theorem requests_isolate_witness:
  "let i = SandboxId ''other-0123456789ab''; w = example_world example_db \<lparr> w_runtime := example_fake \<rparr>;
       w1 = snd (destroy_inner example_service i False w); w2 = snd (service_logs example_service i None w1)
   in example_resource \<in> resources_of (w_runtime w) \<and> example_resource \<in> resources_of (w_runtime w2)"
proof -
  let ?i = "SandboxId ''other-0123456789ab''"
  let ?w = "example_world example_db \<lparr> w_runtime := example_fake \<rparr>"
  let ?w1 = "snd (destroy_inner example_service ?i False ?w)"
  let ?w2 = "snd (service_logs example_service ?i None ?w1)"
  have "sandbox_step example_service ?i ?w ?w1" "sandbox_step example_service ?i ?w1 ?w2"
    by (rule sandbox_destroy) (rule sandbox_logs)
  then have "(sandbox_step example_service ?i)\<^sup>*\<^sup>* ?w ?w2"
    by (rule rtranclp.rtrancl_into_rtrancl [OF r_into_rtranclp])
  from requests_isolate [OF example_isolated _ this]
  have "others_kept ?i (resources_of example_fake) (resources_of (w_runtime ?w2))"
    by (simp add: example_fake_wf)
  moreover have "\<not> touchable ?i example_resource"
    by (simp add: touchable_def owned_by_def example_resource_def discovered_def example_volume_def example_id_def)
  ultimately have "example_resource \<in> resources_of (w_runtime ?w2)"
    using example_present by (simp add: others_kept_def)
  with example_present show ?thesis unfolding Let_def by simp
qed

section \<open>The attempts of a create\<close>

lemma turn_ok_any: "turn_ok Q I k t \<Longrightarrow> turn_ok (\<lambda>_. True) (\<lambda>_. True) k t"
  by (cases t) simp_all

lemma next_port_bounded:
  "yields (turn_ok (\<lambda>_. True) (\<lambda>_. True) k) (next_port S spec capabilities what k failure prepared create)"
  by (rule yields_mono [OF next_port_yields turn_ok_any])

lemma turns_bounded:
  "yields (turn_ok (\<lambda>_. True) (\<lambda>_. True) k) (create_turn S spec capabilities capacities k pc)"
  "yields (turn_ok (\<lambda>_. True) (\<lambda>_. True) k) (recreate_turn S spec capabilities retained k pc)"
  unfolding create_turn_def recreate_turn_def Let_def rollback_created_def
  by (intro yield_chain next_port_bounded; simp)+

lemma turns_end:
  assumes "\<And>k p. yields (turn_ok (\<lambda>_. True) (\<lambda>_. True) k) (body k p)"
  shows "(\<exists>r. attempt_loop body 0 p w = Some r) \<and> (\<forall>p w q t. body AUTOMATIC_PORT_ATTEMPTS p w \<noteq> (Ok (Continue q), t))"
proof
  show "\<exists>r. attempt_loop body 0 p w = Some r"
    using run_attempts_post [where I = "\<lambda>_. True" and Q = "\<lambda>_. True" and R = "\<lambda>_ _. True" and body = body] assms
    by (fastforce simp: keeps_def)
  show "\<forall>p w q t. body AUTOMATIC_PORT_ATTEMPTS p w \<noteq> (Ok (Continue q), t)"
    using assms [of AUTOMATIC_PORT_ATTEMPTS] unfolding yields_def by (metis fst_conv turn_ok_simps(2))
qed

text \<open>C9. The attempts end.  The loop of \<open>up\<close> that creates a sandbox and the loop of an image
  replacement that recreates its container return for every runtime, host, clock and failure:
  whatever port is found taken, no turn asks for another one after the eighth.\<close>

theorem attempts_end:
  "(\<exists>r. attempt_loop (create_turn S spec capabilities capacities) 0 pc w = Some r) \<and>
   (\<exists>r. attempt_loop (recreate_turn S spec capabilities retained) 0 pc w = Some r) \<and>
   (\<forall>pc w q t. create_turn S spec capabilities capacities AUTOMATIC_PORT_ATTEMPTS pc w \<noteq> (Ok (Continue q), t)) \<and>
   (\<forall>pc w q t. recreate_turn S spec capabilities retained AUTOMATIC_PORT_ATTEMPTS pc w \<noteq> (Ok (Continue q), t))"
  using turns_end [where body = "create_turn S spec capabilities capacities" and p = pc and w = w, OF turns_bounded(1)]
    turns_end [where body = "recreate_turn S spec capabilities retained" and p = pc and w = w, OF turns_bounded(2)]
  by blast

section \<open>Destroying\<close>

lemma sv_then_Ok: "sv_then m f w = (Ok y, w') \<longleftrightarrow> (\<exists>x t. m w = (Ok x, t) \<and> f x t = (Ok y, w'))"
  by (auto simp: sv_then_def result_simps)

lemma sv_attempt_Ok:
  "sv_attempt m f w = (Ok y, w') \<longleftrightarrow>
     (\<exists>x t. m w = (Ok x, t) \<and> f (Ok x) t = (Ok y, w')) \<or>
     (\<exists>e t. m w = (Err (Raised e), t) \<and> f (Err e) t = (Ok y, w'))"
  by (auto simp: sv_attempt_def split: prod.splits result.splits raised.splits)

lemma fail_with_Ok [simp]: "fail_with S operation actual details error w \<noteq> (Ok y, w')"
  by (auto simp: fail_with_def sv_then_Ok sv_throw_def)

lemma sv_result_Ok: "sv_result r w = (Ok y, w') \<longleftrightarrow> r = Ok y \<and> w' = w"
  by (auto simp: sv_result_def result_simps)

lemma sv_return_Ok: "sv_return x w = (Ok y, w') \<longleftrightarrow> y = x \<and> w' = w"
  by (auto simp: sv_return_def)

lemma runtime_call_Ok:
  "runtime_call wrap f w = (Ok y, w') \<longleftrightarrow> (\<exists>b. f (w_runtime w) = (Ok y, b) \<and> w' = w \<lparr> w_runtime := b \<rparr>)"
  by (auto simp: runtime_call_def result_simps split: prod.splits)

lemmas sv_simps = sv_then_Ok sv_attempt_Ok sv_result_Ok sv_return_Ok runtime_call_Ok

definition quiet :: "('b \<Rightarrow> bool) \<Rightarrow> ('b \<Rightarrow> runtime_resource set) \<Rightarrow> ('b, 'd) world \<Rightarrow> ('b, 'd) world \<Rightarrow> bool" where
  "quiet good res w w' \<longleftrightarrow>
     (good (w_runtime w) \<longrightarrow> good (w_runtime w') \<and> res (w_runtime w') = res (w_runtime w))"

lemma remove_nothing [simp]: "list_all (\<lambda>_. False) rs \<Longrightarrow> remove_from_resources rs \<noteq> Ok request"
  by (cases rs) (simp_all add: remove_from_resources_def)

sublocale isolated_service < quiet: service_frame "quiet wf res" S "\<lambda>_. False" "\<lambda>_. False"
  by (unfold_locales;
      ((simp add: quiet_def backend_of keeps_capabilities keeps_inspect keeps_start keeps_stop keeps_exec
         keeps_logs keeps_prepare keeps_list; fail) |
       (unfold quiet_def, rule impI, simp, rule provision_keeps health_keeps; assumption)))

lemma database_Ok:
  "database S checked action w = (Ok y, w') \<longleftrightarrow>
     checked = Ok () \<and> \<not> w_poisoned w \<and>
     (\<exists>db. action (sv_clock S (w_calls w)) (sv_fault S (w_calls w)) (w_db w) = (Ok y, db) \<and>
        w' = w \<lparr> w_calls := Suc (w_calls w), w_db := db \<rparr>)"
  by (auto simp: database_def Let_def split: result.splits prod.splits if_splits)

lemma db_read_Ok:
  "db_read S f w = (Ok y, w') \<longleftrightarrow>
     \<not> w_poisoned w \<and> f (w_db w) = Ok y \<and> w' = w \<lparr> w_calls := Suc (w_calls w) \<rparr>"
  by (auto simp: db_read_def database_Ok)

lemma host_call_Ok:
  "host_call f w = (Ok y, w') \<longleftrightarrow> (\<exists>d. f (w_host w) = (Ok y, d) \<and> w' = w \<lparr> w_host := d \<rparr>)"
  by (auto simp: host_call_def split: prod.splits)

lemmas db_simps = db_read_Ok database_Ok host_call_Ok

interpretation reading: world_frame "\<lambda>w w'. w_db w' = w_db w" S "\<lambda>_. True" "\<lambda>_. True" for S
  by unfold_locales (simp_all add: list_all_iff)


lemma keeps_Ok: "keeps R m \<Longrightarrow> m w = (r, w') \<Longrightarrow> R w w'"
  unfolding keeps_def by (metis snd_conv)

lemma attempt_throw_Ok [simp]: "sv_attempt m (\<lambda>_. sv_throw e) w \<noteq> (Ok y, w')"
  by (simp add: sv_attempt_Ok sv_throw_def)

lemma initialize_Ok:
  "initialize_operation S operation i fallback w = (Ok u, w') \<Longrightarrow> send_initial S operation w = (Ok (), w')"
  unfolding initialize_operation_def sv_attempt_Ok [of "send_initial S operation"]
  by (simp add: sv_then_Ok sv_return_Ok)

lemma begun_operation:
  assumes "begin_operation codec clock fault sb kind db = (Ok p, db')" "db_wf codec db" "codec_ok codec"
    and "valid_id (sd_id sb)"
  shows "load_operation codec db' (op_id p) = Ok (Some p) \<and> op_sandbox p = sd_id sb \<and> op_kind p = kind"
  using assms(1)
proof (rule begin_operation_Ok)
  fix now now'
  let ?n = "db_operation_sequence db + 1"
  let ?row = "\<lparr> or_id = ?n, or_sandbox = as_str (sd_id sb), or_kind = kind_as_db kind,
    or_status = status_as_db Pending, or_error_code = None, or_error_details = None \<rparr>"
  assume db': "db' = add_event ?n Pending None None now'
      (add_operation (as_str (sd_id sb)) kind (put_row codec sb now db))"
    and p: "load_operation codec db' ?n = Ok (Some p)"
  have "db_wf codec db'"
    using db_wf_begin_operation [OF assms(2,3), of sb clock fault kind] assms(1,4) by (simp add: valid_id_def)
  moreover obtain r where r: "r \<in> set (db_operations db')" "or_id r = ?n" "decode_operation codec r = Ok p"
    using p by (rule find_operation_row)
  moreover have "?row \<in> set (db_operations db')" by (simp add: db' add_operation_def)
  ultimately have "r = ?row" by (auto simp: db_wf_def distinct_map inj_on_def)
  with r assms(4) p show ?thesis by (auto simp: decode_operation_Ok valid_id_def)
qed

text \<open>A destroy that returns has begun an operation, taken down the container, removed what the
  policy names, and completed the operation.\<close>

lemma destroy_Ok:
  fixes S :: "('b, 'd) service"
  assumes "destroy_inner S i started w = (Ok receiver, w')"
  obtains sb r p t0 t1 t2 t3 x t4 where "existing_sandbox S i w = (Ok sb, t0)"
    "sd_id r = sd_id sb" "db_begin S r OpDestroy t0 = (Ok p, t1)"
    "\<And>R. world_frame R S (\<lambda>_. False) (\<lambda>_. False) \<Longrightarrow> R t1 t2"
    "remove_exact_resources S i t2 = (Ok (), t3)"
    "db_complete_destroy S (op_id p) t3 = (Ok x, t4)" "send_terminal S (op_id p) t4 = (Ok (), w')"
proof -
  obtain sb r p t0 t1 f a b c g d e t3 x t4 where d: "existing_sandbox S i w = (Ok sb, t0)"
    "sd_id r = sd_id sb" "db_begin S r OpDestroy t0 = (Ok p, t1)"
    "initialize_operation S (op_id p) i f t1 = (Ok (), a)"
    "publish_operation started (op_id p) a = (Ok b, c)"
    "sv_when g (deactivate_ssh S i) c = (Ok (), d)"
    "stop_if_running S i d = (Ok (), e)"
    and tail: "remove_exact_resources S i e = (Ok (), t3)"
    "db_complete_destroy S (op_id p) t3 = (Ok x, t4)" "send_terminal S (op_id p) t4 = (Ok (), w')"
    using assms unfolding destroy_inner_def Let_def sv_then_Ok sv_attempt_Ok
    apply (auto simp: sv_return_Ok sv_then_Ok)
    subgoal premises prems by (rule prems(1) [OF refl _ prems(3-6,8,9,7,10)]) simp
    done
  have "R t1 e" if "world_frame R S (\<lambda>_. False) (\<lambda>_. False)" for R
  proof -
    note keeps = world_frame.keeps_events(1) [OF that] world_frame.keeps_publish [OF that]
      world_frame.keeps_when [OF that world_frame.keeps_ssh_calls(3) [OF that]] world_frame.keeps_stop_if_running [OF that]
    note step = stepwise.step_trans [OF world_frame.axioms(1) [OF that]]
    show ?thesis
      by (rule step [OF keeps_Ok [OF keeps(1) initialize_Ok [OF d(4)]] step [OF keeps_Ok [OF keeps(2) d(5)]
        step [OF keeps_Ok [OF keeps(3) d(6)] keeps_Ok [OF keeps(4) d(7)]]]])
  qed
  then show thesis using that [OF d(1-3) _ tail] by blast
qed

text \<open>A completed destroy leaves the sandbox absent, with no operation pending.\<close>

lemma destroyed_record:
  assumes "db_complete_destroy S n w = (Ok x, w')" "db_wf (sv_codec S) (w_db w)" "codec_ok (sv_codec S)"
    and "load_operation (sv_codec S) (w_db w) n = Ok (Some p)"
  shows "actual_of (w_db w') (as_str (op_sandbox p)) = Some ActualAbsent \<and>
    pending_of (w_db w') (as_str (op_sandbox p)) = None"
proof -
  obtain clock where "finish_operation_in (sv_codec S) clock n ActualAbsent Completed None None True (w_db w) = Ok (x, w_db w')"
    using assms(1)
    by (auto simp: db_complete_destroy_def database_Ok complete_destroy_operation_def finish_operation_def)
  then show ?thesis
    by (rule finish_abstraction [OF assms(2,3)]) (use assms(4) in \<open>simp add: abstraction_def\<close>)
qed

context isolated_service
begin

lemma remove_exact:
  assumes "wf (w_runtime w)" "remove_exact_resources S i w = (Ok u, w')" "valid_id i"
  shows "wf (w_runtime w') \<and>
    res (w_runtime w') = {r \<in> res (w_runtime w). \<not> exact_resource i (managed_identities i) r}"
proof -
  have "validate_sandbox_id (as_str i) = Returned (Ok ())"
    using assms(3) by (auto simp: valid_id_def stored_id_def try_from_def result_simps split: outcome.splits)
  note ids = expected_identities_Ok [OF this]
  let ?P = "exact_resource i (managed_identities i)"
  obtain rs b1 t rest where l: "bk_list_resources bk (w_runtime w) = (Ok rs, b1)"
    "sv_when (filter ?P rs \<noteq> []) (remove_resources S (filter ?P rs)) (w \<lparr> w_runtime := b1 \<rparr>) = (Ok (), t)"
    "list_resources S t = (Ok rest, w')"
    using assms(2) unfolding remove_exact_resources_def Let_def sv_then_Ok
    by (auto simp: sv_result_Ok ids result_simps runtime_call_Ok backend_of sv_return_Ok sv_throw_def split: if_splits)
  have b1: "wf b1" "res b1 = res (w_runtime w)" "set rs = res (w_runtime w)"
    using keeps_list [OF assms(1)] list_exact [OF assms(1)] l(1) by simp_all
  have "wf (w_runtime t) \<and> res (w_runtime t) = {r \<in> res (w_runtime w). \<not> ?P r}"
  proof (cases "filter ?P rs = []")
    case True
    then show ?thesis using l(2) b1 by (auto simp: sv_when_def sv_return_def filter_empty_conv)
  next
    case False
    then obtain request b2 where "remove_from_resources (filter ?P rs) = Ok request"
      "bk_remove bk request b1 = (Ok (), b2)" "t = w \<lparr> w_runtime := b2 \<rparr>"
      using l(2) by (auto simp: sv_when_def remove_resources_def sv_simps backend_of result_simps)
    then show ?thesis using remove_listed [OF assms(1) l(1), of ?P request b2] by simp
  qed
  moreover have "quiet wf res t w'" using quiet.keeps_runtime(8) l(3) by (rule keeps_Ok)
  ultimately show ?thesis by (simp add: quiet_def)
qed

end

lemma durable_wf:
  assumes "keeps (\<lambda>w w'. (store_step (sv_codec S))\<^sup>*\<^sup>* (w_db w) (w_db w')) m"
    and "codec_ok (sv_codec S)" "db_wf (sv_codec S) (w_db w)"
  shows "db_wf (sv_codec S) (w_db (snd (m w)))"
  using store_steps_wf [OF keepsD [OF assms(1)] assms(2,3)] by simp

context isolated_service
begin

lemma destroyed:
  assumes "destroy_inner S i started w = (Ok receiver, w')" "wf (w_runtime w)"
    and db: "codec_ok (sv_codec S)" "db_wf (sv_codec S) (w_db w)"
  shows "res (w_runtime w') = {r \<in> res (w_runtime w). \<not> exact_resource i (managed_identities i) r} \<and>
    actual_of (w_db w') (as_str i) = Some ActualAbsent \<and> pending_of (w_db w') (as_str i) = None"
  using assms(1)
proof (rule destroy_Ok)
  fix sb r p t0 t1 t2 t3 x t4
  assume d: "existing_sandbox S i w = (Ok sb, t0)" "sd_id r = sd_id sb" "db_begin S r OpDestroy t0 = (Ok p, t1)"
    and frame: "\<And>R. world_frame R S (\<lambda>_. False) (\<lambda>_. False) \<Longrightarrow> R t1 t2"
    and tail: "remove_exact_resources S i t2 = (Ok (), t3)"
    "db_complete_destroy S (op_id p) t3 = (Ok x, t4)" "send_terminal S (op_id p) t4 = (Ok (), w')"
  have i: "sd_id r = i" "valid_id i"
    using existing_sandbox_yields [unfolded yields_def, rule_format, of S i w sb] d(1,2) by simp_all
  have "w_db t0 = w_db w" by (rule keeps_Ok [OF reading.keeps_reads(2) d(1)])
  then obtain clock fault where begun:
    "begin_operation (sv_codec S) clock fault r OpDestroy (w_db w) = (Ok p, w_db t1)"
    using d(3) by (auto simp: db_begin_def database_Ok)
  have "w_db t2 = w_db t1" by (rule frame) (unfold_locales; simp)
  moreover have "w_db t3 = w_db t2" by (rule keeps_Ok [OF reading.keeps_remove_exact [OF TrueI] tail(1)])
  ultimately have t3: "w_db t3 = w_db t1" by simp
  have "db_wf (sv_codec S) (w_db t1)"
    using db_wf_begin_operation [OF db(2,1), of r clock fault OpDestroy] begun i by (simp add: valid_id_def)
  with destroyed_record [OF tail(2)] begun_operation [OF begun db(2,1)] i db(1) t3
  have "actual_of (w_db t4) (as_str i) = Some ActualAbsent \<and> pending_of (w_db t4) (as_str i) = None" by simp
  moreover have "w_db w' = w_db t4" by (rule keeps_Ok [OF reading.keeps_events(2) tail(3)])
  moreover have "quiet wf res w t0" "quiet wf res t0 t1" "quiet wf res t1 t2"
    by (rule keeps_Ok [OF quiet.keeps_reads(2) d(1)], rule keeps_Ok [OF quiet.keeps_db_begin d(3)])
      (simp add: i, rule frame, rule quiet.world_frame_axioms)
  moreover have "quiet wf res t3 t4" "quiet wf res t4 w'"
    by (rule keeps_Ok [OF quiet.keeps_db_writes(3) tail(2)], rule keeps_Ok [OF quiet.keeps_events(2) tail(3)])
  ultimately show ?thesis using assms(2) remove_exact [OF _ tail(1) i(2)] by (simp add: quiet_def)
qed

end

text \<open>C4. Destroying.  Over any backend that satisfies the runtime contract, a destroy that returns
  has removed exactly the resources with the names the policy derives from the identifier and the
  labels of this sandbox, and nothing else; the sandbox is recorded as absent and has no pending
  operation.  A destroy that fails has touched only resources of this sandbox and leaves a
  well-formed database.\<close>

theorem destroy_exact:
  assumes "isolated_service bk good res S" and "good (w_runtime w)"
    and "codec_ok (sv_codec S)" and "db_wf (sv_codec S) (w_db w)"
  shows "case destroy_inner S i started w of
      (Ok _, w') \<Rightarrow>
        res (w_runtime w') = {r \<in> res (w_runtime w). \<not> exact_resource i (managed_identities i) r} \<and>
        actual_of (w_db w') (as_str i) = Some ActualAbsent \<and> pending_of (w_db w') (as_str i) = None
    | (Err _, w') \<Rightarrow>
        others_kept i (res (w_runtime w)) (res (w_runtime w')) \<and> db_wf (sv_codec S) (w_db w')"
proof -
  obtain r w' where d: "destroy_inner S i started w = (r, w')" by fastforce
  have "isolates good res i w w'"
    using isolated_service.sandbox_step_isolates [OF assms(1) sandbox_destroy, of i w started] d by simp
  moreover have "db_wf (sv_codec S) (w_db w')"
    using durable_wf [OF durable.keeps_destroy [OF TrueI] assms(3,4), of i started] d by simp
  ultimately show ?thesis
    using d isolated_service.destroyed [OF assms(1) _ assms(2-4)] assms(2)
    by (cases r) (simp_all add: isolates_def)
qed

theorem destroy_exact_witness:
  "let w = example_world example_db; i = sd_id example_record in
   case destroy_inner example_service i False w of
      (Ok _, w') \<Rightarrow>
        resources_of (w_runtime w') = {r \<in> resources_of (w_runtime w). \<not> exact_resource i (managed_identities i) r} \<and>
        actual_of (w_db w') (as_str i) = Some ActualAbsent \<and> pending_of (w_db w') (as_str i) = None
    | (Err _, w') \<Rightarrow>
        others_kept i (resources_of (w_runtime w)) (resources_of (w_runtime w')) \<and>
        db_wf (sv_codec example_service) (w_db w')"
  unfolding Let_def
  by (rule destroy_exact [OF example_isolated]) (simp_all add: example_new_wf example_codec_ok example_db_wf)

end
