(* ===== verification/Recovery_Correct.thy ===== *)
theory Recovery_Correct
  imports Service_Correct
begin

text \<open>
  What the recovery at start-up (\<open>recover_pending\<close> in \<open>gascand/src/service.rs\<close>) leaves behind:
  every operation a stopped daemon left pending is settled or reported, except where the store
  refuses the state that the runtime shows.
\<close>

section \<open>Unsettled operations\<close>

definition unsettled :: "database \<Rightarrow> (operation_id \<times> string) set" where
  "unsettled db = (\<lambda>r. (or_id r, or_sandbox r)) ` set (filter pending_row (db_operations db))"

lemma list_all2_member: "list_all2 P xs ys \<Longrightarrow> x \<in> set xs \<Longrightarrow> \<exists>y\<in>set ys. P x y"
  by (induction rule: list_all2_induct) auto

lemma unsettled_cong: "db_operations db' = db_operations db \<Longrightarrow> unsettled db' = unsettled db"
  by (simp add: unsettled_def)

lemma pairs_filter:
  "(\<lambda>r. (f r, g r)) ` set (filter (\<lambda>r. P r \<and> f r \<noteq> n) rs) = {u \<in> (\<lambda>r. (f r, g r)) ` set (filter P rs). fst u \<noteq> n}"
  by fastforce

lemma finish_settles:
  assumes "finish_operation codec clock fault n actual status code details clear db = (Ok x, db')"
  shows "unsettled db' = {u \<in> unsettled db. fst u \<noteq> n}"
proof -
  from assms have "finish_operation_in codec clock n actual status code details clear db = Ok (x, db')"
    by (simp add: finish_operation_def)
  then show ?thesis
  proof (rule finish_operation_in_Ok)
    fix p row current now now'
    let ?d = "map_option (js_print codec) details"
    let ?db = "update_sandboxes (as_str (op_sandbox p)) (set_actual actual clear now) db"
    assume st: "status = Completed \<or> status = Failed"
      and db': "db' = add_event n status ?d code now' (finish_row n status code ?d ?db)"
    have "filter pending_row (db_operations db') = filter (\<lambda>r. pending_row r \<and> or_id r \<noteq> n) (db_operations db)"
      using st by (auto simp: db' finish_row_operations filter_finished_pending)
    then have "unsettled db' = (\<lambda>r. (or_id r, or_sandbox r)) ` set (filter (\<lambda>r. pending_row r \<and> or_id r \<noteq> n) (db_operations db))"
      by (simp only: unsettled_def)
    then show ?thesis by (simp only: unsettled_def pairs_filter)
  qed
qed

lemma finish_unsettled:
  "unsettled (snd (finish_operation codec clock fault n actual status code details clear db)) \<subseteq> unsettled db"
  unfolding finish_operation_def
  by (rule transaction_step [where R = "\<lambda>db db'. unsettled db' \<subseteq> unsettled db"])
    (auto dest!: finish_settles [of codec clock None n actual status code details clear db, unfolded finish_operation_def, simplified])

lemma put_in_operations: "put_sandbox_in codec clock k sb db = Ok db' \<Longrightarrow> db_operations db' = db_operations db"
  by (erule put_sandbox_in_Ok) simp

lemma set_transport_operations:
  "set_ssh_transport_policy_in i policy db = Ok db' \<Longrightarrow> db_operations db' = db_operations db"
  by (auto simp: set_ssh_transport_policy_in_def split: if_splits prod.splits)

lemma put_operations: "db_operations (snd (put_sandbox codec clock fault sb db)) = db_operations db"
proof (cases "validate_resolutions sb")
  case (Ok u)
  show ?thesis
    unfolding put_sandbox_def Ok result.case
    by (intro transaction_step [where R = "\<lambda>db db'. db_operations db' = db_operations db"])
      (auto simp: result_simps put_in_operations)
qed (simp add: put_sandbox_def)

lemma put_ssh_operations:
  "db_operations (snd (put_sandbox_with_ssh_transport codec clock fault sb policy db)) = db_operations db"
proof (cases "validate_resolutions sb")
  case (Ok u)
  show ?thesis
    unfolding put_sandbox_with_ssh_transport_def Ok result.case
    by (intro transaction_step [where R = "\<lambda>db db'. db_operations db' = db_operations db"])
      (auto simp: result_simps put_in_operations set_transport_operations)
qed (simp add: put_sandbox_with_ssh_transport_def)

lemma set_ssh_operations: "db_operations (snd (set_ssh_resolution codec clock fault i resolution db)) = db_operations db"
proof (cases "case resolution of None \<Rightarrow> Ok () | Some r \<Rightarrow> validate_ssh_resolution r")
  case (Ok u)
  show ?thesis
    unfolding set_ssh_resolution_def Ok result.case
    by (rule transaction_step [where R = "\<lambda>db db'. db_operations db' = db_operations db"])
      (auto simp: result_simps split: if_splits)
qed (simp add: set_ssh_resolution_def)

lemma append_operations: "db_operations (snd (append_operation_event codec clock fault i details db)) = db_operations db"
  unfolding append_operation_event_def
  by (intro transaction_step [where R = "\<lambda>db db'. db_operations db' = db_operations db"])
    (auto simp: result_simps split: if_splits)

lemma store_write_unsettled: "store_write codec db db' \<Longrightarrow> unsettled db' \<subseteq> unsettled db"
  by (cases rule: store_write.cases, assumption)
    (simp_all add: finish_unsettled unsettled_cong [OF put_operations] unsettled_cong [OF put_ssh_operations]
      unsettled_cong [OF set_ssh_operations] unsettled_cong [OF append_operations])

interpretation settling: writing_frame "\<lambda>w w'. unsettled (w_db w') \<subseteq> unsettled (w_db w)" S "\<lambda>_. True" "\<lambda>_. True" for S
  by unfold_locales (auto simp: list_all_iff dest: store_write_unsettled)

section \<open>What holds where a method returns\<close>

definition ends :: "('a \<Rightarrow> ('b, 'd) world \<Rightarrow> bool) \<Rightarrow> ('a, 'b, 'd) svc \<Rightarrow> bool" where
  "ends Q m \<longleftrightarrow> (\<forall>w x w'. m w = (Ok x, w') \<longrightarrow> Q x w')"

lemma ends_then: "(\<And>x. ends Q (f x)) \<Longrightarrow> ends Q (sv_then m f)"
  by (auto simp: ends_def sv_then_Ok)

lemma ends_then_return: "ends (\<lambda>_. Q y) m \<Longrightarrow> ends Q (sv_then m (\<lambda>_. sv_return y))"
  by (auto simp: ends_def sv_then_Ok sv_return_Ok)

lemma ends_return: "(\<And>w. Q y w) \<Longrightarrow> ends Q (sv_return y)"
  by (simp add: ends_def sv_return_Ok)

lemma ends_attempt: "(\<And>r. ends Q (f r)) \<Longrightarrow> ends Q (sv_attempt m f)"
  by (auto simp: ends_def sv_attempt_Ok)

lemma ends_attempt_runtime: "(\<And>r. ends Q (k r)) \<Longrightarrow> ends Q (attempt_runtime f k)"
  by (auto simp: ends_def attempt_runtime_def split: prod.splits)

lemma ends_database:
  "(\<And>clock fault db x db'. action clock fault db = (Ok x, db') \<Longrightarrow> Q db') \<Longrightarrow> ends (\<lambda>_ w. Q (w_db w)) (database S checked action)"
  by (auto simp: ends_def database_Ok)

lemma ends_mono: "ends P m \<Longrightarrow> (\<And>x w. P x w \<Longrightarrow> Q x w) \<Longrightarrow> ends Q m"
  by (auto simp: ends_def)

lemma ends_if: "(b \<Longrightarrow> ends Q m) \<Longrightarrow> (\<not> b \<Longrightarrow> ends Q n) \<Longrightarrow> ends Q (if b then m else n)"
  by simp

lemma ends_result:
  "(\<And>x. r = Ok x \<Longrightarrow> ends Q (f x)) \<Longrightarrow> (\<And>e. r = Err e \<Longrightarrow> ends Q (g e)) \<Longrightarrow>
     ends Q (case r of Ok x \<Rightarrow> f x | Err e \<Rightarrow> g e)"
  by (cases r) simp_all

lemma ends_then_post:
  "ends P m \<Longrightarrow> (\<And>x w y w'. P x w \<Longrightarrow> f x w = (Ok y, w') \<Longrightarrow> Q y w') \<Longrightarrow> ends Q (sv_then m f)"
  unfolding ends_def sv_then_Ok by blast

lemma ends_then_if:
  assumes "ends P m" "\<And>w. P False w \<Longrightarrow> Q y w" "ends Q n"
  shows "ends Q (sv_then m (\<lambda>x. if \<not> x then sv_return y else n))"
  using assms(1)
proof (rule ends_then_post)
  fix x w z w'
  assume "P x w" "(if \<not> x then sv_return y else n) w = (Ok z, w')"
  with assms(2,3) show "Q z w'" by (cases x) (auto simp: sv_return_Ok ends_def)
qed

lemma ends_then_option:
  "ends (\<lambda>r w. case r of None \<Rightarrow> True | Some x \<Rightarrow> Q x w) m \<Longrightarrow> ends Q n \<Longrightarrow>
     ends Q (sv_then m (\<lambda>r. case r of None \<Rightarrow> n | Some x \<Rightarrow> sv_return x))"
  by (erule ends_then_post) (auto simp: sv_return_Ok ends_def split: option.splits)

lemmas ends_rules = ends_then_return ends_then ends_return ends_attempt ends_attempt_runtime

section \<open>Recovery\<close>

definition settled :: "operation_id \<Rightarrow> database \<Rightarrow> bool" where
  "settled n db \<longleftrightarrow> n \<notin> fst ` unsettled db"

lemma finish_settled:
  "finish_operation codec clock fault n actual status code details clear db = (Ok x, db') \<Longrightarrow> settled n db'"
  by (auto simp: settled_def finish_settles)

lemma finished_settled:
  "ends (\<lambda>_ w. settled n (w_db w)) (db_complete S n actual)"
  "ends (\<lambda>_ w. settled n (w_db w)) (db_fail S n actual code details)"
  "ends (\<lambda>_ w. settled n (w_db w)) (db_fail_create S n code details)"
  "ends (\<lambda>_ w. settled n (w_db w)) (db_complete_destroy S n)"
  unfolding db_complete_def db_fail_def db_fail_create_def db_complete_destroy_def complete_operation_def
    fail_operation_def fail_create_operation_clearing_ssh_def complete_destroy_operation_def
  by (rule ends_database, erule finish_settled)+

lemma settle_settled: "ends (\<lambda>_ w. settled (op_id p) (w_db w)) (settle S p record' events actual attained)"
  unfolding settle_def by (simp add: ends_rules finished_settled)

text \<open>The sandboxes whose operations the recovery reports as left.\<close>

definition reported :: "reconcile_finding list \<Rightarrow> string set" where
  "reported findings =
     {as_str i | i. \<exists>reason. InspectionUnavailable i reason \<in> set findings \<or> SshUnavailable i reason \<in> set findings}"

definition left_or_settled :: "operation_record \<Rightarrow> reconcile_finding list \<Rightarrow> ('b, 'd) world \<Rightarrow> bool" where
  "left_or_settled p findings w \<longleftrightarrow> as_str (op_sandbox p) \<in> reported findings \<or> settled (op_id p) (w_db w)"

lemma left_or_settled_mono:
  assumes "left_or_settled p findings w" "set findings \<subseteq> set found" "unsettled (w_db w') \<subseteq> unsettled (w_db w)"
  shows "left_or_settled p found w'"
proof -
  have "reported findings \<subseteq> reported found" using assms(2) unfolding reported_def by blast
  moreover have "settled n (w_db w) \<Longrightarrow> settled n (w_db w')" for n
    using image_mono [OF assms(3), of fst] unfolding settled_def by blast
  ultimately show ?thesis using assms(1) unfolding left_or_settled_def by blast
qed

lemma recover_create_ssh_ends:
  "ends (\<lambda>r w. case r of None \<Rightarrow> True | Some findings \<Rightarrow> left_or_settled p findings w)
     (recover_create_ssh S p record' events)"
  unfolding recover_create_ssh_def Let_def
  by (rule ends_attempt, rule ends_result, rule ends_return, simp, rule ends_if, rule ends_return,
      simp add: left_or_settled_def reported_def, rule ends_attempt, rule ends_result,
      rule ends_then_return, rule ends_mono [OF finished_settled(3)], simp add: left_or_settled_def,
      rule ends_return, simp add: left_or_settled_def reported_def)

lemma recover_inspected_ends: "ends (left_or_settled p) (recover_inspected S p record' events actual)"
proof -
  have conclude: "ends (left_or_settled p)
      (sv_then m (\<lambda>absent. sv_then (settle S p r events actual (f absent)) (\<lambda>_. sv_return [])))" for m f r
    by (rule ends_then, rule ends_then_return, rule ends_mono [OF settle_settled]) (simp add: left_or_settled_def)
  show ?thesis
    unfolding recover_inspected_def Let_def
    by (rule ends_then, rule ends_if, rule ends_then_option [OF recover_create_ssh_ends], rule ends_then)
      (rule conclude)+
qed

lemma pending_operations_all:
  assumes "pending_operations codec db = Ok ps" "(n, s) \<in> unsettled db"
  shows "\<exists>p\<in>set ps. op_id p = n \<and> as_str (op_sandbox p) = s"
proof -
  let ?rows = "sort_key or_id (filter (\<lambda>r. or_status r = status_as_db Pending) (db_operations db))"
  from assms(2) obtain r where r: "r \<in> set ?rows" "n = or_id r" "s = or_sandbox r"
    by (auto simp: unsettled_def pending_row_def)
  moreover have "list_all2 (\<lambda>r p. decode_operation codec r = Ok p) ?rows ps"
    using assms(1) by (simp add: pending_operations_def loop_simps result_simps)
  ultimately obtain p where p: "p \<in> set ps" "decode_operation codec r = Ok p"
    using list_all2_member [of _ ?rows ps r] by blast
  then have "op_id p = or_id r" "as_str (op_sandbox p) = or_sandbox r"
    by (simp_all add: decode_operation_Ok stored_id_as_str)
  with p r show ?thesis by blast
qed

lemma not_pending_settled:
  assumes "map_ok (list_ex (\<lambda>item. op_id item = n)) (pending_operations codec db) = Ok False"
  shows "settled n db"
proof -
  obtain ps where "pending_operations codec db = Ok ps" "\<forall>item\<in>set ps. op_id item \<noteq> n"
    using assms by (auto simp: result_simps list_ex_iff)
  then show ?thesis using pending_operations_all by (fastforce simp: settled_def)
qed

lemma recover_operation_ends: "ends (left_or_settled p) (recover_operation S p)"
  unfolding recover_operation_def Let_def
  by (rule ends_then_if [where P = "\<lambda>x w. map_ok (list_ex (\<lambda>item. op_id item = op_id p))
        (pending_operations (sv_codec S) (w_db w)) = Ok x"],
      simp add: ends_def db_read_Ok, simp add: left_or_settled_def not_pending_settled,
      rule ends_then, rule ends_then, rule ends_attempt_runtime, rule ends_result, rule ends_if,
      rule ends_then_return, rule ends_mono [OF finished_settled(2)], simp add: left_or_settled_def,
      rule recover_inspected_ends, rule ends_return) (simp add: left_or_settled_def reported_def)

lemma recover_operations_ends:
  "recover_operations S ps findings w = (Ok found, w') \<Longrightarrow>
     set findings \<subseteq> set found \<and> (\<forall>p\<in>set ps. left_or_settled p found w')"
proof (induction ps arbitrary: findings w)
  case (Cons p ps)
  then obtain new t where t: "recover_operation S p w = (Ok new, t)"
    "recover_operations S ps (findings @ new) t = (Ok found, w')"
    by (auto simp: sv_then_Ok)
  have "left_or_settled p new t" using recover_operation_ends t(1) unfolding ends_def by blast
  moreover have "unsettled (w_db w') \<subseteq> unsettled (w_db t)"
    by (rule keeps_Ok [OF settling.keeps_recover_operations t(2)]) (simp add: list_all_iff)
  moreover note Cons.IH [OF t(2)]
  ultimately show ?case using left_or_settled_mono [of p new t found w'] by simp
qed (simp add: sv_return_Ok)

text \<open>C6. Recovery accounts for every interrupted operation.  When the recovery at start-up returns,
  an operation is pending afterwards only if it was pending before and a finding of the recovery
  names its sandbox; every other one has been completed or failed.  When it fails it has begun
  nothing.\<close>

theorem recovery_settles_or_reports:
  "case recover_pending S w of
     (Ok findings, w') \<Rightarrow> unsettled (w_db w') \<subseteq> {u \<in> unsettled (w_db w). snd u \<in> reported findings}
   | (Err _, w') \<Rightarrow> unsettled (w_db w') \<subseteq> unsettled (w_db w)"
proof -
  obtain r w' where p: "recover_pending S w = (r, w')" by fastforce
  have mono: "unsettled (w_db w') \<subseteq> unsettled (w_db w)"
    by (rule keeps_Ok [OF settling.keeps_recover_pending [OF TrueI] p])
  show ?thesis
  proof (cases r)
    case (Ok findings)
    then obtain ps t where ps: "pending_operations (sv_codec S) (w_db w) = Ok ps"
      "recover_operations S ps [] t = (Ok findings, w')"
      using p by (auto simp: recover_pending_def sv_then_Ok db_read_Ok)
    have "snd u \<in> reported findings" if u: "u \<in> unsettled (w_db w')" for u
    proof -
      obtain q where q: "q \<in> set ps" "op_id q = fst u" "as_str (op_sandbox q) = snd u"
        using pending_operations_all [OF ps(1), of "fst u" "snd u"] u mono by auto
      moreover have "op_id q \<in> fst ` unsettled (w_db w')" using u q(2) by simp
      ultimately show ?thesis
        using recover_operations_ends [OF ps(2)] unfolding left_or_settled_def settled_def by metis
    qed
    with mono Ok p show ?thesis by auto
  qed (use p mono in simp)
qed

section \<open>Where the store refuses what the runtime shows\<close>

definition stuck :: "(('b, 'd) world \<Rightarrow> bool) \<Rightarrow> ('a, 'b, 'd) svc \<Rightarrow> bool" where
  "stuck P m \<longleftrightarrow> (\<forall>w. P w \<longrightarrow> (\<exists>e w'. m w = (Err e, w') \<and> w_db w' = w_db w))"

lemma stuck_then:
  assumes "keeps (\<lambda>w w'. w_db w' = w_db w) m" "\<And>w x t. P w \<Longrightarrow> m w = (Ok x, t) \<Longrightarrow> Q x t" "\<And>x. stuck (Q x) (f x)"
  shows "stuck P (sv_then m f)"
  unfolding stuck_def
proof (intro allI impI)
  fix w
  assume "P w"
  obtain r t where m: "m w = (r, t)" by fastforce
  then have "w_db t = w_db w" by (rule keeps_Ok [OF assms(1)])
  moreover have "\<exists>e w'. f x t = (Err e, w') \<and> w_db w' = w_db t" if "r = Ok x" for x
    using assms(2) [OF \<open>P w\<close>, of x t] assms(3) m that by (auto simp: stuck_def)
  ultimately show "\<exists>e w'. sv_then m f w = (Err e, w') \<and> w_db w' = w_db w"
    using m by (cases r) (auto simp: sv_then_def)
qed

lemma stuck_if: "stuck P n \<Longrightarrow> stuck (\<lambda>w. x \<and> P w) (if \<not> x then m else n)"
  by (cases x) (simp_all add: stuck_def)

lemma stuck_first: "stuck P m \<Longrightarrow> stuck P (sv_then m f)"
  by (fastforce simp: stuck_def sv_then_def)

lemma finish_refused:
  assumes "load_operation codec db n = Ok (Some q)" "actual_of db (as_str (op_sandbox q)) = Some current"
    and "\<not> actual_transition current actual" "\<not> rollback_transition (op_kind q) current actual"
  obtains e where "finish_operation codec clock fault n actual Failed code details clear db = (Err e, db)"
proof (cases "finish_operation codec clock fault n actual Failed code details clear db")
  case (Pair r db')
  show thesis
  proof (cases r)
    case (Ok x)
    with Pair have "finish_operation_in codec clock n actual Failed code details clear db = Ok (x, db')"
      by (simp add: finish_operation_def)
    then show thesis
      by (rule finish_operation_in_Ok) (use assms in \<open>auto simp: actual_of_def\<close>)
  next
    case (Err e)
    then show thesis using that Pair transaction_Err unfolding finish_operation_def by fastforce
  qed
qed

lemma fail_stuck:
  fixes S :: "('b, 'd) service"
  assumes "load_operation (sv_codec S) db n = Ok (Some q)" "actual_of db (as_str (op_sandbox q)) = Some current"
    and "\<not> actual_transition current actual" "\<not> rollback_transition (op_kind q) current actual"
  shows "stuck (\<lambda>w. w_db w = db) (db_fail S n actual code details)"
  unfolding stuck_def
proof (intro allI impI)
  fix w :: "('b, 'd) world"
  assume "w_db w = db"
  moreover obtain e where "finish_operation (sv_codec S) (sv_clock S (w_calls w)) (sv_fault S (w_calls w)) n actual
      Failed (Some code) (Some details) False db = (Err e, db)"
    using assms by (rule finish_refused)
  ultimately show "\<exists>e w'. db_fail S n actual code details w = (Err e, w') \<and> w_db w' = w_db w"
    by (auto simp: db_fail_def database_def fail_operation_def Let_def)
qed

lemma stuck_attempt_runtime:
  "(\<And>w. P w \<Longrightarrow> fst (f (w_runtime w)) = r) \<Longrightarrow> (\<And>w b. P w \<Longrightarrow> Q (w \<lparr> w_runtime := b \<rparr>)) \<Longrightarrow> stuck Q (k r) \<Longrightarrow>
     stuck P (attempt_runtime f k)"
  by (fastforce simp: stuck_def attempt_runtime_def split: prod.splits)

text \<open>The recovery meets the sandbox gone from the runtime while its record has it running or
  stopped; the store has no transition for that.\<close>

definition lost :: "('b, 'd) service \<Rightarrow> database \<Rightarrow> operation_record \<Rightarrow> bool" where
  "lost S db p \<longleftrightarrow>
     load_operation (sv_codec S) db (op_id p) = Ok (Some p) \<and> op_status p = Pending \<and>
     op_kind p \<in> {OpCreate, OpStart, OpStop, OpApply} \<and>
     actual_of db (as_str (op_sandbox p)) \<in> {Some ActualRunning, Some ActualStopped}"

lemma recover_inspected_stuck:
  assumes "lost S db p"
  shows "stuck (\<lambda>w. w_db w = db) (recover_inspected S p record' events ActualAbsent)"
proof -
  have "stuck (\<lambda>w. w_db w = db) (db_fail S (op_id p) ActualAbsent code details)" for code details
    using assms by (auto simp: lost_def actual_transition_def rollback_transition_def intro: fail_stuck)
  then have "stuck (\<lambda>w. w_db w = db) (settle S p record' events ActualAbsent False)"
    by (simp add: settle_def stuck_first)
  moreover have "\<not> converged (op_kind p) ActualAbsent hooks ready absent" for hooks ready absent
    using assms by (auto simp: lost_def converged_def)
  moreover have "op_kind p \<noteq> OpDestroy" using assms by (auto simp: lost_def)
  ultimately show ?thesis
    unfolding recover_inspected_def Let_def transport_of_def
    by (intro stuck_then [OF reading.keeps_db_read, where Q = "\<lambda>_ w. w_db w = db"])
      (auto simp: db_read_Ok sv_then_def sv_return_def stuck_def)
qed

lemma recover_operation_stuck:
  assumes "lost S db p" "pending_operations (sv_codec S) db = Ok ps" "p \<in> set ps"
  shows "stuck (\<lambda>w. w_db w = db \<and> fst (bk_inspect (sv_runtime S) (op_sandbox p) (w_runtime w)) = Ok None)
    (recover_operation S p)"
    (is "stuck ?P _")
proof -
  let ?rest = "sv_then (events_of S (op_id p)) (\<lambda>events.
      sv_then (existing_sandbox S (op_sandbox p)) (\<lambda>record'.
      attempt_runtime (bk_inspect (sv_runtime S) (op_sandbox p)) (\<lambda>r.
      case r of
        Err error \<Rightarrow> sv_return [InspectionUnavailable (op_sandbox p) (runtime_error_code error)]
      | Ok inspected \<Rightarrow>
          if (case inspected of None \<Rightarrow> False | Some sb \<Rightarrow> \<not> owned_sandbox (op_sandbox p) sb) then
            sv_then (db_fail S (op_id p) (sd_actual record') ''ownership_mismatch''
              (phase_event ''reconcile'' [])) (\<lambda>_. sv_return [])
          else
            recover_inspected S p record' events
              (case inspected of None \<Rightarrow> ActualAbsent | Some sb \<Rightarrow> actual_of_container (rs_state sb)))))"
  have rest: "stuck ?P ?rest"
    by (rule stuck_then [OF reading.keeps_reads(4), where Q = "\<lambda>_. ?P"], simp add: events_of_def db_read_Ok,
        rule stuck_then [OF reading.keeps_reads(2), where Q = "\<lambda>_. ?P"],
        clarsimp simp: existing_sandbox_def sandbox_of_def sv_simps db_read_Ok,
        rule stuck_attempt_runtime [where r = "Ok None" and Q = "\<lambda>w. w_db w = db"])
      (use recover_inspected_stuck [OF assms(1)] in simp_all)
  have pending: "map_ok (list_ex (\<lambda>item. op_id item = op_id p)) (pending_operations (sv_codec S) db) = Ok True"
    using assms(2,3) by (auto simp: list_ex_iff)
  show ?thesis
    unfolding recover_operation_def Let_def
    by (rule stuck_then [OF reading.keeps_db_read, where Q = "\<lambda>x w. x \<and> ?P w"],
        simp add: db_read_Ok pending, rule stuck_if, rule rest)
qed

text \<open>C8. A lost container blocks the start of the daemon.  If the first pending operation creates,
  starts, stops or applies to a sandbox that is recorded as running or stopped and whose container
  the runtime no longer has, the reconciliation at start-up fails, the database is as it was and
  the operation is still pending, so that every later start meets the same failure.\<close>

theorem lost_sandbox_blocks_start:
  assumes "pending_operations (sv_codec S) (w_db w) = Ok (p # ps)" and "lost S (w_db w) p"
    and "fst (bk_inspect (sv_runtime S) (op_sandbox p) (w_runtime w)) = Ok None"
  shows "\<exists>e w'. reconcile debug S w = (Err e, w') \<and> w_db w' = w_db w \<and>
    (op_id p, as_str (op_sandbox p)) \<in> unsettled (w_db w')"
proof -
  let ?P = "\<lambda>v. w_db v = w_db w \<and> fst (bk_inspect (sv_runtime S) (op_sandbox p) (w_runtime v)) = Ok None"
  have "stuck ?P (recover_pending S)"
    unfolding recover_pending_def
    by (rule stuck_then [OF reading.keeps_db_read, where Q = "\<lambda>x v. x = p # ps \<and> ?P v"])
      (use assms(1) recover_operation_stuck [OF assms(2,1)] in \<open>auto simp: db_read_Ok stuck_def sv_then_def\<close>)
  then have "stuck ?P (reconcile debug S)" unfolding reconcile_def by (rule stuck_first)
  moreover have "(op_id p, as_str (op_sandbox p)) \<in> unsettled (w_db w)"
  proof -
    obtain r where "r \<in> set (db_operations (w_db w))" "or_id r = op_id p" "decode_operation (sv_codec S) r = Ok p"
      using assms(2) unfolding lost_def by (blast elim: find_operation_row)
    moreover from this have "pending_row r" "or_sandbox r = as_str (op_sandbox p)"
      using assms(2) pending_decoded [of "sv_codec S" r p] stored_id_as_str [of "or_sandbox r" "op_sandbox p"]
      by (simp_all add: lost_def decode_operation_Ok)
    ultimately show ?thesis unfolding unsettled_def by (intro image_eqI [of _ _ r]) simp_all
  qed
  ultimately show ?thesis using assms(3) by (auto simp: stuck_def)
qed

definition running_record :: sandbox_record where
  "running_record = example_record \<lparr> sd_actual := ActualRunning \<rparr>"

definition lost_db :: database where
  "lost_db = snd (begin_operation example_codec example_clock None running_record OpStart empty_database)"

lemma running_storable: "storable running_record"
  using example_storable by (simp add: storable_def running_record_def validate_resolutions_def)

lemma lost_db_begun:
  "begin_operation example_codec example_clock None running_record OpStart empty_database =
     (Ok (begun running_record OpStart empty_database), lost_db)"
  "lost_db = add_event 1 Pending None None 7 (add_operation ''demo-0123456789ab'' OpStart
     (put_row example_codec running_record 7 empty_database))"
proof -
  have "put_sandbox_in example_codec example_clock 0 running_record empty_database =
      Ok (put_row example_codec running_record 7 empty_database)"
    by (simp add: put_sandbox_in_def load_sandbox_def check_root_owner_def upsert_sandbox_def Let_def
        put_row_def has_sandbox_def current_time_millis_def empty_database_def)
  then have "begin_operation example_codec example_clock None running_record OpStart empty_database =
      (Ok (begun running_record OpStart empty_database), add_event 1 Pending None None 7
        (add_operation ''demo-0123456789ab'' OpStart (put_row example_codec running_record 7 empty_database)))"
    using begin_operation_eq [OF db_wf_empty example_codec_ok running_storable, of example_clock 7 7 OpStart]
    by (simp add: running_record_def example_record_def has_pending_def empty_database_def)
  then show "begin_operation example_codec example_clock None running_record OpStart empty_database =
     (Ok (begun running_record OpStart empty_database), lost_db)"
    "lost_db = add_event 1 Pending None None 7 (add_operation ''demo-0123456789ab'' OpStart
       (put_row example_codec running_record 7 empty_database))"
    by (simp_all add: lost_db_def)
qed

lemma lost_example:
  "load_operation example_codec lost_db 1 = Ok (Some (begun running_record OpStart empty_database))"
  "pending_operations example_codec lost_db = Ok [begun running_record OpStart empty_database]"
  "actual_of lost_db ''demo-0123456789ab'' = Some ActualRunning"
proof -
  show l: "load_operation example_codec lost_db 1 = Ok (Some (begun running_record OpStart empty_database))"
    using lost_db_begun(1) by (rule begin_operation_Ok) (simp add: empty_database_def)
  have "map_ok Some (decode_operation example_codec (hd (db_operations lost_db))) =
      Ok (Some (begun running_record OpStart empty_database))"
    using l by (simp add: load_operation_def lost_db_begun(2) add_operation_def empty_database_def)
  then show "pending_operations example_codec lost_db = Ok [begun running_record OpStart empty_database]"
    by (simp add: pending_operations_def lost_db_begun(2) add_operation_def empty_database_def result_simps)
  have "actual_of lost_db = actual_of (put_row example_codec running_record 7 empty_database)"
    unfolding lost_db_begun(2) by (rule actual_of_cong) simp
  then show "actual_of lost_db ''demo-0123456789ab'' = Some ActualRunning"
    by (simp add: actual_of_put_row running_record_def example_record_def)
qed

theorem lost_sandbox_blocks_start_witness:
  "\<exists>e w'. reconcile (\<lambda>_. []) example_service (example_world lost_db) = (Err e, w') \<and> w_db w' = lost_db \<and>
     (1, ''demo-0123456789ab'') \<in> unsettled (w_db w')"
proof -
  let ?p = "begun running_record OpStart empty_database"
  have p: "op_id ?p = 1" "op_sandbox ?p = SandboxId ''demo-0123456789ab''"
    by (simp_all add: begun_def empty_database_def running_record_def example_record_def)
  have "lost example_service lost_db ?p"
    by (simp add: lost_def p lost_example) (simp add: begun_def)
  moreover have "fst (bk_inspect (sv_runtime example_service) (op_sandbox ?p) (fake_new example_capabilities)) = Ok None"
    by (simp add: example_service_def fake_service_def fake_backend_def fake_inspect_def fail_once_def
        record_call_def fake_new_def)
  ultimately show ?thesis
    using lost_sandbox_blocks_start [of example_service "example_world lost_db" ?p "[]" "\<lambda>_. []"]
    by (simp add: lost_example p)
qed

section \<open>Requests that succeed\<close>

definition settles :: "sandbox_id \<Rightarrow> ('a, 'b, 'd) svc \<Rightarrow> bool" where
  "settles i m \<longleftrightarrow>
     (\<forall>w x w'. m w = (Ok x, w') \<longrightarrow> unsettled (w_db w') \<subseteq> {u \<in> unsettled (w_db w). snd u \<noteq> as_str i})"

abbreviation settling_step :: "('b, 'd) world \<Rightarrow> ('b, 'd) world \<Rightarrow> bool" where
  "settling_step \<equiv> \<lambda>w w'. unsettled (w_db w') \<subseteq> unsettled (w_db w)"

lemma begin_unsettled:
  assumes "begin_operation codec clock fault sb kind db = (Ok p, db')"
  shows "{u \<in> unsettled db'. fst u \<noteq> op_id p} \<subseteq> {u \<in> unsettled db. snd u \<noteq> as_str (sd_id sb)}"
  using assms
proof (rule begin_operation_Ok)
  fix now now'
  let ?n = "db_operation_sequence db + 1"
  assume db': "db' = add_event ?n Pending None None now'
      (add_operation (as_str (sd_id sb)) kind (put_row codec sb now db))"
    and p: "load_operation codec db' ?n = Ok (Some p)" and free: "\<not> has_pending db (as_str (sd_id sb))"
  have "op_id p = ?n" using p by (auto simp: decode_operation_Ok elim!: find_operation_row)
  then show ?thesis unfolding db' using free by (auto simp: unsettled_def add_operation_def has_pending_iff)
qed

lemma settles_begin:
  assumes "sd_id r = i" "\<And>p. keeps settling_step (rest p)" "\<And>p. ends (\<lambda>_ w. settled (op_id p) (w_db w)) (rest p)"
  shows "settles i (sv_then (db_begin S r kind) rest)"
  unfolding settles_def
proof (intro allI impI)
  fix w x w'
  assume "sv_then (db_begin S r kind) rest w = (Ok x, w')"
  then obtain p t where p: "db_begin S r kind w = (Ok p, t)" "rest p t = (Ok x, w')"
    by (auto simp: sv_then_Ok)
  have "{u \<in> unsettled (w_db t). fst u \<noteq> op_id p} \<subseteq> {u \<in> unsettled (w_db w). snd u \<noteq> as_str i}"
    using p(1) begin_unsettled assms(1) by (fastforce simp: db_begin_def database_Ok)
  moreover have "unsettled (w_db w') \<subseteq> unsettled (w_db t)" by (rule keeps_Ok [OF assms(2) p(2)])
  moreover have "fst u \<noteq> op_id p" if "u \<in> unsettled (w_db w')" for u
    using assms(3) p(2) imageI [OF that, of fst] unfolding ends_def settled_def by metis
  ultimately show "unsettled (w_db w') \<subseteq> {u \<in> unsettled (w_db w). snd u \<noteq> as_str i}" by blast
qed

lemma settles_then_post:
  assumes "keeps settling_step m" "yields P m" "\<And>x. P x \<Longrightarrow> settles i (f x)"
  shows "settles i (sv_then m f)"
  unfolding settles_def
proof (intro allI impI)
  fix w x w'
  assume "sv_then m f w = (Ok x, w')"
  then obtain y t where y: "m w = (Ok y, t)" "f y t = (Ok x, w')" by (auto simp: sv_then_Ok)
  then have "P y" using assms(2) unfolding yields_def by (metis fst_conv)
  with assms(3) y keeps_Ok [OF assms(1)]
  show "unsettled (w_db w') \<subseteq> {u \<in> unsettled (w_db w). snd u \<noteq> as_str i}" unfolding settles_def by blast
qed

lemma ends_settled_then:
  assumes "ends (\<lambda>_ w. settled n (w_db w)) m" "\<And>x. keeps settling_step (f x)"
  shows "ends (\<lambda>_ w. settled n (w_db w)) (sv_then m f)"
  using assms(1)
proof (rule ends_then_post)
  fix x w y w'
  assume "settled n (w_db w)" "f x w = (Ok y, w')"
  then show "settled n (w_db w')"
    using image_mono [OF keeps_Ok [OF assms(2)], of x w _ w' fst] unfolding settled_def by blast
qed

lemma ends_throw: "ends Q (sv_throw e)" "ends Q (fail_with S operation actual details e)"
  by (simp_all add: ends_def sv_throw_def)

lemma settles_simple_state: "settles i (simple_state S i kind desired target started)"
  unfolding simple_state_def Let_def
  by (rule settles_then_post [OF settling.keeps_reads(2) existing_sandbox_yields], rule settles_begin, simp, (intro frame_rules)[1],
      rule ends_then, rule ends_then, rule ends_attempt, rule ends_result, rule ends_settled_then,
      rule finished_settled, (intro frame_rules)[1], rule ends_then, rule ends_throw)

lemma settles_destroy: "settles i (destroy_inner S i started)"
  unfolding destroy_inner_def Let_def
  by (rule settles_then_post [OF settling.keeps_reads(2) existing_sandbox_yields], rule settles_begin, simp,
      (intro frame_rules settling.keeps_remove_exact TrueI)[1],
      rule ends_then, rule ends_then, rule ends_attempt, rule ends_result, rule ends_settled_then,
      rule finished_settled, (intro frame_rules)[1], rule ends_then, rule ends_throw)

lemma ends_report: "ends Q (report_failure S operation actual code details e)"
  unfolding report_failure_def by (rule ends_attempt, rule ends_result, rule ends_attempt, rule ends_result; rule ends_throw)

lemmas ends_complete = ends_settled_then [OF finished_settled(1)]

lemma ends_prod: "(\<And>y z. ends Q (f y z)) \<Longrightarrow> ends Q (case x of (y, z) \<Rightarrow> f y z)"
  by (cases x) simp

lemma ends_up_commit: "ends (\<lambda>_ w. settled n (w_db w)) (up_commit S spec q r n result)"
  unfolding up_commit_def Let_def
  by ((rule ends_prod)+, rule ends_then, rule ends_complete) (intro frame_rules)

lemma settles_up:
  assumes "valid_id (spec_id spec)"
  shows "settles (spec_id spec) (up_inner S spec started)"
  unfolding up_inner_def Let_def
  by (rule settles_then_post [OF settling.keeps_up_validate up_validate_yields], rule settles_begin,
      simp add: up_record_id,
      (intro frame_rules settling.keeps_up_commit settling.keeps_up_runtime TrueI;
        use assms in \<open>simp add: up_record_id request_for_def\<close>)[1],
      rule ends_then, rule ends_then, rule ends_attempt, rule ends_result, rule ends_attempt, rule ends_result,
      rule ends_settled_then, rule ends_up_commit, (intro frame_rules)[1], rule ends_then, rule ends_report,
      rule ends_then, rule ends_attempt, rule ends_throw)

lemma ends_apply_unchanged: "ends (\<lambda>_ w. settled n (w_db w)) (apply_unchanged S spec q n)"
  unfolding apply_unchanged_def Let_def
  by (rule ends_attempt, rule ends_result, rule ends_complete, (intro frame_rules)[1], rule ends_then, rule ends_throw)

lemma ends_apply_changed: "ends (\<lambda>_ w. settled n (w_db w)) (apply_changed S spec q n)"
  unfolding apply_changed_def Let_def
  by (rule ends_attempt, rule ends_result, rule ends_prod, rule ends_then, rule ends_complete,
      (intro frame_rules)[1], rule ends_then, rule ends_throw)

lemma ends_commit_failed: "ends Q (apply_commit_failed S i q n rollback_create previous original)"
  unfolding apply_commit_failed_def Let_def
  by (rule ends_attempt, rule ends_attempt, rule ends_then, rule ends_attempt, rule ends_result, rule ends_prod,
      rule ends_then; rule ends_throw)

lemma ends_attempt_cases:
  "ends P m \<Longrightarrow> (\<And>x w y w'. P x w \<Longrightarrow> f (Ok x) w = (Ok y, w') \<Longrightarrow> Q y w') \<Longrightarrow> (\<And>e. ends Q (f (Err e))) \<Longrightarrow>
     ends Q (sv_attempt m f)"
  unfolding ends_def sv_attempt_Ok by blast

lemma ends_apply_replacement: "ends (\<lambda>_ w. settled n (w_db w)) (apply_replacement S spec q n sb)"
  unfolding apply_replacement_def Let_def
  by (rule ends_attempt, rule ends_result, rule ends_prod, rule ends_prod,
      rule ends_attempt_cases [where P = "\<lambda>_ w. settled n (w_db w)"], rule ends_then, rule ends_then,
      rule ends_complete, (intro frame_rules)[1], simp add: sv_return_Ok, simp add: ends_commit_failed,
      rule ends_then) (simp add: ends_report split: service_error.split)

lemma settles_apply: "settles (spec_id spec) (apply_inner S spec started)"
  unfolding apply_inner_def Let_def
  by (rule settles_then_post [OF settling.keeps_apply_parts(1) apply_validate_yields], rule settles_begin,
      simp add: apply_for_def,
      (intro frame_rules settling.keeps_apply_replacement settling.keeps_apply_changed TrueI; simp)[1],
      rule ends_then, rule ends_attempt, rule ends_result, rule ends_prod, rule ends_prod, rule ends_attempt,
      rule ends_result, rule ends_then, rule ends_settled_then,
      simp add: ends_apply_replacement ends_apply_unchanged ends_apply_changed, (intro frame_rules)[1],
      (rule ends_then, rule ends_throw)+)

text \<open>C7. Requests that succeed are settled.  An up, apply, destroy, start or stop that returns leaves
  no operation of its sandbox pending and makes none of another sandbox pending, whichever way it
  took; one that fails has changed the database only by calls of the store.\<close>

theorem success_settles:
  assumes "valid_id (spec_id spec)"
    and "handler \<in> {up_inner S spec started, apply_inner S spec started, destroy_inner S (spec_id spec) started,
      simple_state S (spec_id spec) OpStart DesiredRunning ActualRunning started,
      simple_state S (spec_id spec) OpStop DesiredStopped ActualStopped started}"
  shows "case handler w of
      (Ok _, w') \<Rightarrow> unsettled (w_db w') \<subseteq> {u \<in> unsettled (w_db w). snd u \<noteq> as_str (spec_id spec)}
    | (Err _, w') \<Rightarrow> (store_step (sv_codec S))\<^sup>*\<^sup>* (w_db w) (w_db w')"
proof -
  have "settles (spec_id spec) handler"
    using assms settles_up settles_apply settles_destroy settles_simple_state by auto
  moreover have "service_step S w (snd (handler w))"
    using assms by (auto intro: service_step.intros)
  ultimately show ?thesis
    unfolding settles_def by (auto dest: service_step_durable split: prod.split result.split)
qed

theorem success_settles_witness:
  "let w = example_world example_db in
   case destroy_inner example_service (spec_id example_spec) False w of
     (Ok _, w') \<Rightarrow> unsettled (w_db w') \<subseteq> {u \<in> unsettled (w_db w). snd u \<noteq> as_str (spec_id example_spec)}
   | (Err _, w') \<Rightarrow> (store_step (sv_codec example_service))\<^sup>*\<^sup>* (w_db w) (w_db w')"
proof -
  have "valid_id (spec_id example_spec)" by code_simp
  then show ?thesis unfolding Let_def by (rule success_settles [where started = False]) simp
qed

end
