(* ===== verification/Spec2Isabelle.thy ===== *)
theory Spec2Isabelle
  imports Sandbox_Id Manifest Policy Provision Fake_Runtime_Correct Store_Correct Schema_Correct
    Ssh_Correct Ssh_Atomic Service_Correct Recovery_Correct
begin

text \<open>
  \<^bold>\<open>Verification of gascan.\<close>  gascan runs projects in isolated Linux sandboxes.  A client asks a
  daemon to bring a sandbox up, to apply a changed manifest, to start, stop or destroy it and to run
  commands in it.  The daemon compiles the manifest into a create request, drives a container
  runtime with it, keeps what it knows in a SQLite database, and publishes an SSH endpoint of the
  sandbox in files of the user.  This development models the part of the program that decides all
  of this, from the manifest to the handlers of the daemon, as executable functions, and proves what
  makes each part correct.  File names below are relative to \<open>src/crates\<close>.

  \<^bold>\<open>Conventions.\<close>  A Rust \<open>Result\<close> is \<open>result\<close> with \<open>Ok\<close> and \<open>Err\<close>, a call that may panic
  returns an \<open>outcome\<close>, and a function that changes state returns its result together with the
  state it leaves (\<open>stateful\<close>), also when it fails.  The question mark of Rust is \<open>and_then\<close> and
  \<open>st_then\<close>.  Fixed-width integers are words where they can overflow or are bounded by a
  check and \<open>int\<close> or \<open>nat\<close> elsewhere.  Strings are lists of bytes, so a multi-byte character is
  several elements.  Names are those of the source, with a prefix for the fields of a record and a
  suffix or prefix where HOL already has the name.

  \<^bold>\<open>Library.\<close>  \<open>Prelude\<close> has the result types, their combinators, the loops that stop at the first
  error, and the locale \<open>stepwise\<close> of the reflexive and transitive relations that a computation
  respects, from which every frame and invariant argument is built.  \<open>Rust_Str\<close>, \<open>Rust_Text\<close>,
  \<open>Btree_Map\<close> and \<open>Utf8_Path\<close> model what the program uses of the standard library and of camino:
  character tests, UTF-8 and its lossy decoding, splitting, trimming and replacing, ordered and
  unordered maps (the locales \<open>lookup_map\<close> and \<open>ordered_map\<close>), and the components of a path.

  \<^bold>\<open>What a sandbox is\<close> (\<open>gascan-core/src\<close>).

  \<^item> \<open>Sandbox_Id\<close>, \<open>Sandbox_Spec\<close> (\<open>sandbox.rs\<close>, \<open>hex.rs\<close>): the identity derived from the
    root, its validation, which strings convert to an identity and which make the conversion panic.

  \<^item> \<open>Manifest\<close> (\<open>manifest.rs\<close>): sizes, validation, loading, and the containment of the setup
    script.  Validation is exact, sizes do not wrap, and the containment loop returns and accepts
    exactly the scripts whose nearest existing ancestor resolves beneath the root.

  \<^item> \<open>Runtime\<close>, \<open>Backend\<close>, \<open>Backend_Create\<close> (\<open>runtime.rs\<close>): the values exchanged with a runtime,
    the validation of the evidence it returns, and the trait \<open>RuntimeBackend\<close> as a record of
    operations with its contract: the locale \<open>runtime_backend\<close> for reading, starting, stopping,
    listing and removing, extended by \<open>runtime_creator\<close> for the two creates.

  \<^item> \<open>Policy\<close> (\<open>policy.rs\<close>): the compiler from a specification to a create request.  Its
    result is isolated, it succeeds exactly on the inputs its checks describe, the resources it asks
    for are those a destroy looks for (but for the network of an offline manifest), and restoring an
    SSH transport is compiling again when SSH is enabled with an automatic port and the manifest does
    not itself declare port 22.

  \<^item> \<open>Provision\<close> (\<open>provision.rs\<close>): the planner.  Its steps are exactly those whose inputs changed,
    and planning again after they were applied yields only the verification and the health check.

  \<^item> \<open>Fake_Runtime\<close>, \<open>Fake_Runtime_Correct\<close> (\<open>fake_runtime.rs\<close>): the in-memory backend with its
    injected failures.  It satisfies the contract of the runtime (interpretations \<open>fake\<close> and
    \<open>fakec\<close>), a removal removes exactly what it was asked to, a stale proof removes nothing, a
    failed create reports exactly what it added unless only saving the snapshot failed, and removing
    what it reports restores the state before it.  The snapshot of a persistent backend is bytes in a
    file: what was saved is read back, and a failed save leaves the last snapshot in place.

  \<^bold>\<open>What is durable\<close> (\<open>gascand/src\<close>).

  \<^item> \<open>Store\<close>, \<open>Store_Correct\<close> (\<open>store.rs\<close>): the tables and every call on them as a transaction.
    \<open>db_wf\<close> is the invariant, \<open>abs_step\<close> an abstract store with the state of each sandbox and its
    pending operation; every call keeps the one and is a step of the other, events are never changed
    or dropped, what is written is read back, and beginning and finishing an operation are exact.

  \<^item> \<open>Schema\<close>, \<open>Schema_Correct\<close> (\<open>store.rs\<close>, \<open>migrations\<close>): opening, validating and migrating.

  \<^item> \<open>Ssh_State\<close>, \<open>Ssh_Identity\<close>, \<open>Ssh_Config\<close>, \<open>Ssh_Manager\<close> with \<open>Ssh_Correct\<close> and \<open>Ssh_Atomic\<close>
    (\<open>ssh.rs\<close>, \<open>ssh\<close>): the managed directory over a record of system calls, the key pair, the
    OpenSSH files, and the manager.  Replacing a managed file is atomic whichever call fails, and
    what is rendered is parsed back exactly when the ports of the hosts differ.

  \<^bold>\<open>The lifecycle service\<close> (\<open>gascand/src/service.rs\<close>, \<open>reconcile.rs\<close>).  \<open>Service_Values\<close> has its
  pure functions.  The methods of \<open>SandboxService\<close> are functions on a \<open>world\<close>: the database and
  whether its mutex is poisoned, the runtime, the host, the number of database calls, the events
  sent and the operations announced.  A \<open>service\<close> holds everything else: the backend, the clock and
  the commit failure of each database call, the provisioner, the SSH environment.

  \<^item> \<open>Service\<close>: the calls to the store, the runtime and the SSH manager, the events of an operation,
    exec and logs, start and stop (\<open>simple_state\<close>), destroy (\<open>destroy_inner\<close>).

  \<^item> \<open>Service_Up\<close>: commands in the guest, provisioning, the loop that creates a sandbox and retries
    on a taken port, its rollback, and \<open>up_inner\<close>.

  \<^item> \<open>Service_Apply\<close>: \<open>apply_inner\<close> and the replacement of an image, with its rollback.

  \<^item> \<open>Service_Recover\<close>: \<open>recover_pending\<close> and \<open>reconcile\<close>.

  \<^item> \<open>Service_Frame\<close>, \<open>Service_Handlers\<close>: the locales \<open>world_frame\<close>, \<open>writing_frame\<close> and
    \<open>service_frame\<close>.  Their laws speak of one call, to the runtime, of one write to the store, of
    the beginning of an operation; their lemmas lift any relation with these laws through every
    handler, loop and rollback.

  \<^item> \<open>Service_Correct\<close>: the frames at work.  The database stays well formed and typed over every
    sequence of requests, restarts and outside changes (interpretation \<open>durable\<close>); over any runtime
    with the contract no request touches a resource of another sandbox (locale \<open>isolated_service\<close>,
    sublocale \<open>iso\<close>, interpreted on the in-memory backend as \<open>fakes\<close>); a destroy that returns has
    removed exactly the resources of its sandbox; the two loops return.

  \<^item> \<open>Recovery_Correct\<close>: after the recovery an operation is pending only if a finding names its
    sandbox (interpretation \<open>settling\<close>); a request that succeeds leaves nothing pending; and a lost
    container makes the daemon fail at every start.

  \<^bold>\<open>Loops.\<close>  Loops over data are structural recursion or functions with a termination proof.  The
  loops that create a container retry while the runtime reports the port taken and are bounded only
  by a counter in their body, so \<open>attempt_loop\<close> is a partial function into \<open>option\<close>; that it
  returns, within eight turns (\<open>AUTOMATIC_PORT_ATTEMPTS\<close>), is proved and not assumed.  The counter
  of \<open>next_boundary\<close> in \<open>Ssh_Manager\<close> is the number of bytes left to the end of the string, which
  is a boundary.

  \<^bold>\<open>Relied on.\<close>  Code outside the repository is a parameter: JSON printing and parsing (printing
  then parsing gives the value back, \<open>codec_ok\<close> for the store and \<open>reads_back\<close> for the snapshot of
  the in-memory backend), TOML, SHA-256, base64, the clock, the system
  calls, \<open>ssh-keygen\<close>, the probes of an SSH endpoint, SQLite (a transaction commits entirely or
  not at all), and the runtime (the contract).  The contract is discharged for the
  in-memory backend only; it allows a removal that fails half-way, as it can in a backend that deletes
  one resource at a time, but that the Apple and Arca backends meet it is not shown here.

  \<^bold>\<open>Not modelled.\<close>  Locks: the keyed lock of a sandbox and the lock of the SSH publication only
  serialise, so a method runs from its start to its end; their poisoning, and the cancellation of a
  blocking task, are left out, as are interleavings of requests on different sandboxes within one
  another.  The order in which a \<open>HashSet\<close> is walked is fixed.  Hooks that only tests set, and the
  abort that \<open>GASCAN_SSH_CRASH_PHASE\<close> triggers.  The doctor of the service, which collects
  reports.  The gRPC layer (\<open>gascand/src/api.rs\<close>), the socket, the engine supervision, the entry
  points and the controller state: asynchronous transport, processes and operating-system effects
  around the service.  The client (\<open>gascan\<close>), which parses arguments, draws on the terminal and
  edits files of the user.  The Apple and Arca backends, which drive external programs.  Generated
  protocol code, tests, fixtures and scripts.
\<close>

end
